(* ===== verification/Prelude.thy ===== *)
theory Prelude
  imports Main "HOL-Library.Word" "HOL-Library.List_Lexorder"
begin

text \<open>
  Shared ground of the development: Go's machine integers and byte slices, error values
  (an \<open>error\<close> return, or a run-time panic), the sequencing of fallible calls, the
  big-endian integer codec of \<open>encoding/binary\<close>, readers that consume a prefix of a byte
  slice and panic where the Go slice expression would, and the collections of simplification
  rules the component theories extend.
\<close>

section \<open>Types\<close>

type_synonym byte = "8 word"
type_synonym u8 = "8 word"
type_synonym u16 = "16 word"
type_synonym u32 = "32 word"
type_synonym i32 = "32 word"
type_synonym u64 = "64 word"
type_synonym bytes = "8 word list"

text \<open>
  \<open>chainhash.Hash\<close> is the array \<open>[32]byte\<close>; it is carried as the 256-bit word whose
  big-endian bytes are the array, so that a hash always has its 32 bytes.
\<close>

type_synonym hash = "256 word"

unbundle bit_operations_syntax

named_theorems codec_simps \<open>round trips of readers and writers, as rewrite rules\<close>
named_theorems frame_simps \<open>what an operation leaves unchanged, as rewrite rules\<close>

section \<open>Results\<close>

datatype error_code = ErrDatabase | ErrData | ErrInput | ErrAlreadyExists | ErrNoExists
  | ErrNeedsUpgrade | ErrUnknownVersion

text \<open>The codes of \<open>waddrmgr\<close>, the ones the modelled functions return.\<close>

datatype manager_code = MgrDatabase | ErrUpgrade | ErrCrypto | ErrInvalidKeyType | ErrNoExist
  | MgrAlreadyExists | ErrLocked | ErrWatchingOnly | ErrWrongPassphrase | ErrEmptyPassphrase
  | ErrBirthdayBlockNotSet | ErrBlockNotFound

datatype go_error =
    StoreError error_code string
  | ManagerError manager_code string
  | GoError string
  | GoPanic string

type_synonym 'a result = "go_error + 'a"

definition rbind :: "'e + 'a \<Rightarrow> ('a \<Rightarrow> 'e + 'b) \<Rightarrow> 'e + 'b" where
  "rbind m f = (case m of Inl e \<Rightarrow> Inl e | Inr x \<Rightarrow> f x)"

lemma rbind_simps [simp]:
  "rbind (Inl e) f = Inl e"
  "rbind (Inr x) f = f x"
  by (simp_all add: rbind_def)

lemma rbind_Inr_iff: "rbind m f = Inr y \<longleftrightarrow> (\<exists>x. m = Inr x \<and> f x = Inr y)"
  by (cases m) auto

lemma rbind_Inl_iff: "rbind m f = Inl e \<longleftrightarrow> m = Inl e \<or> (\<exists>x. m = Inr x \<and> f x = Inl e)"
  by (cases m) auto

lemma rbind_InrE:
  assumes "rbind m f = Inr y"
  obtains x where "m = Inr x" "f x = Inr y"
  using assms by (auto simp: rbind_Inr_iff)

lemma rbind_assoc: "rbind (rbind m f) g = rbind m (\<lambda>x. rbind (f x) g)"
  by (cases m) auto

text \<open>Unpacking the success of a branching operation.\<close>

lemma case_option_Inr_iff:
  "(case x of None \<Rightarrow> g | Some y \<Rightarrow> f y) = Inr r \<longleftrightarrow>
     (x = None \<and> g = Inr r) \<or> (\<exists>y. x = Some y \<and> f y = Inr r)"
  by (cases x) auto

lemma if_Inr_iff: "(if b then x else y) = Inr r \<longleftrightarrow> (b \<and> x = Inr r) \<or> (\<not> b \<and> y = Inr r)"
  by auto

lemma case_sum_Inr_iff:
  "(case x of Inl e \<Rightarrow> g e | Inr y \<Rightarrow> f y) = Inr r \<longleftrightarrow>
     (\<exists>e. x = Inl e \<and> g e = Inr r) \<or> (\<exists>y. x = Inr y \<and> f y = Inr r)"
  by (cases x) auto

lemma case_go_error_Inr_iff:
  "(case e of StoreError c s \<Rightarrow> f c s | ManagerError d s \<Rightarrow> k d s | GoError s \<Rightarrow> g s | GoPanic s \<Rightarrow> h s) = Inr r \<longleftrightarrow>
     (\<exists>c s. e = StoreError c s \<and> f c s = Inr r) \<or> (\<exists>d s. e = ManagerError d s \<and> k d s = Inr r)
     \<or> (\<exists>s. e = GoError s \<and> g s = Inr r)
     \<or> (\<exists>s. e = GoPanic s \<and> h s = Inr r)"
  by (cases e) auto

lemmas Inr_iffs = rbind_Inr_iff case_option_Inr_iff if_Inr_iff case_sum_Inr_iff
  case_go_error_Inr_iff

definition rguard :: "bool \<Rightarrow> 'e \<Rightarrow> 'e + unit" where
  "rguard b e = (if b then Inr () else Inl e)"

lemma rguard_Inr_iff [simp]: "rguard b e = Inr u \<longleftrightarrow> b"
  by (simp add: rguard_def)

lemma rguard_simps [simp]:
  "rguard True e = Inr ()"
  "rguard False e = Inl e"
  by (simp_all add: rguard_def)

text \<open>A loop over a slice whose body may return early with an error.\<close>

fun rfold :: "('x \<Rightarrow> 's \<Rightarrow> 'e + 's) \<Rightarrow> 'x list \<Rightarrow> 's \<Rightarrow> 'e + 's" where
  "rfold f [] s = Inr s"
| "rfold f (x # xs) s = rbind (f x s) (rfold f xs)"

lemma rfold_invariant:
  assumes "rfold f xs s = Inr s'" and "P s"
    and "\<And>x s s'. x \<in> set xs \<Longrightarrow> P s \<Longrightarrow> f x s = Inr s' \<Longrightarrow> P s'"
  shows "P s'"
  using assms
proof (induction xs arbitrary: s)
  case (Cons x xs)
  from Cons.prems(1) obtain t where "f x s = Inr t" "rfold f xs t = Inr s'"
    by (auto elim: rbind_InrE)
  with Cons show ?case by (metis list.set_intros)
qed simp

lemma rfold_frame:
  assumes "rfold f xs s = Inr s'"
    and "\<And>x s s'. x \<in> set xs \<Longrightarrow> f x s = Inr s' \<Longrightarrow> g s' = g s"
  shows "g s' = g s"
  by (rule rfold_invariant [OF assms(1), where P = "\<lambda>t. g t = g s"]) (auto simp: assms(2))

lemma rfold_append: "rfold f (xs @ ys) s = rbind (rfold f xs s) (rfold f ys)"
  by (induction xs arbitrary: s) (auto simp: rbind_def split: sum.splits)

lemma rfold_total:
  assumes "P s" and "\<And>x s. x \<in> set xs \<Longrightarrow> P s \<Longrightarrow> \<exists>s'. f x s = Inr s' \<and> P s'"
  shows "\<exists>s'. rfold f xs s = Inr s' \<and> P s'"
  using assms
proof (induction xs arbitrary: s)
  case (Cons x xs)
  then obtain t where "f x s = Inr t" "P t" by (metis list.set_intros(1))
  with Cons show ?case by simp
qed simp

section \<open>Big-endian integers\<close>

text \<open>
  \<open>binary.BigEndian.PutUint16/32/64\<close> and \<open>Uint16/32/64\<close> for \<open>n = 2, 4, 8\<close>; the 32
  bytes of a hash for \<open>n = 32\<close>.
\<close>

primrec be_bytes :: "nat \<Rightarrow> 'a::len word \<Rightarrow> bytes" where
  "be_bytes 0 w = []"
| "be_bytes (Suc n) w = be_bytes n (drop_bit 8 w) @ [ucast w]"

fun be_acc :: "'a::len word \<Rightarrow> bytes \<Rightarrow> 'a word" where
  "be_acc a [] = a"
| "be_acc a (b # bs) = be_acc (push_bit 8 a OR ucast b) bs"

definition be_word :: "bytes \<Rightarrow> 'a::len word" where
  "be_word bs = be_acc 0 bs"

lemma be_acc_snoc: "be_acc a (bs @ [b]) = push_bit 8 (be_acc a bs) OR ucast b"
  by (induction bs arbitrary: a) auto

lemma be_word_snoc: "be_word (bs @ [b]) = push_bit 8 (be_word bs) OR ucast b"
  by (simp add: be_word_def be_acc_snoc)

lemma be_word_Nil [simp]: "be_word [] = 0"
  by (simp add: be_word_def)

lemma length_be_bytes [simp]: "length (be_bytes n w) = n"
  by (induction n arbitrary: w) auto

lemma be_word_bytes_take: "be_word (be_bytes n w) = take_bit (8 * n) w"
proof (induction n arbitrary: w)
  case (Suc n)
  have "push_bit 8 (take_bit (8 * n) (drop_bit 8 w)) OR ucast (ucast w :: 8 word)
      = take_bit (8 * Suc n) w"
    by (rule bit_word_eqI) (auto simp: bit_simps)
  then show ?case by (simp add: be_word_snoc Suc)
qed simp

lemma be_word_bytes: "8 * n = LENGTH('a) \<Longrightarrow> be_word (be_bytes n w) = (w :: 'a::len word)"
  by (simp add: be_word_bytes_take take_bit_word_eq_self)

lemma be_word_bit_bound: "bit (be_word bs :: 'a::len word) n \<Longrightarrow> n < 8 * length bs"
proof (induction bs arbitrary: n rule: rev_induct)
  case (snoc b bs)
  then consider "8 \<le> n" "bit (be_word bs :: 'a word) (n - 8)" | "bit b n"
    by (auto simp: be_word_snoc bit_simps)
  then show ?case
  proof cases
    case 1
    then have "n - 8 < 8 * length bs" by (intro snoc.IH)
    then show ?thesis by simp
  next
    case 2
    then show ?thesis by (auto dest: bit_imp_le_length)
  qed
qed simp

lemma be_bytes_word:
  "8 * length bs \<le> LENGTH('a) \<Longrightarrow> be_bytes (length bs) (be_word bs :: 'a::len word) = bs"
proof (induction bs rule: rev_induct)
  case (snoc b bs)
  let ?w = "be_word bs :: 'a word"
  have bnd: "n + 8 < LENGTH('a)" if "bit ?w n" for n
    using be_word_bit_bound [OF that] snoc.prems by simp
  have d: "drop_bit 8 (push_bit 8 ?w OR ucast b) = ?w"
    by (rule bit_word_eqI) (use bnd in \<open>auto simp: bit_simps add.commute dest: bit_imp_le_length\<close>)
  have u: "ucast (push_bit 8 ?w OR ucast b) = b"
    using snoc.prems by (intro bit_word_eqI) (auto simp: bit_simps)
  have "be_bytes (length bs) ?w = bs"
    using snoc by simp
  then show ?case
    by (simp only: be_word_snoc length_append_singleton be_bytes.simps d u)
qed simp

lemma be_word_hash [simp]: "be_word (be_bytes 32 h) = (h :: hash)"
  and be_word_u64 [simp]: "be_word (be_bytes 8 x) = (x :: u64)"
  and be_word_u32 [simp]: "be_word (be_bytes 4 y) = (y :: u32)"
  and be_word_u16 [simp]: "be_word (be_bytes 2 z) = (z :: u16)"
  by (simp_all add: be_word_bytes)

lemma be_bytes_hash: "length bs = 32 \<Longrightarrow> be_bytes 32 (be_word bs :: hash) = bs"
  and be_bytes_u64: "length bs = 8 \<Longrightarrow> be_bytes 8 (be_word bs :: u64) = bs"
  and be_bytes_u32: "length bs = 4 \<Longrightarrow> be_bytes 4 (be_word bs :: u32) = bs"
  using be_bytes_word [of bs, where 'a = 256] be_bytes_word [of bs, where 'a = 64]
    be_bytes_word [of bs, where 'a = 32] by simp_all

lemma be_bytes_hash_inj [simp]: "be_bytes 32 (a :: hash) = be_bytes 32 b \<longleftrightarrow> a = b"
  by (metis be_word_hash)

lemma be_bytes_u64_inj [simp]: "be_bytes 8 (a :: u64) = be_bytes 8 b \<longleftrightarrow> a = b"
  by (metis be_word_u64)

lemma be_bytes_u32_inj [simp]: "be_bytes 4 (a :: u32) = be_bytes 4 b \<longleftrightarrow> a = b"
  by (metis be_word_u32)

lemma be_bytes_eq_Nil [simp]: "be_bytes n w = [] \<longleftrightarrow> n = 0"
  by (metis length_0_conv length_be_bytes)

text \<open>
  \<open>copy(v[offset:offset+n], src)\<close> into a freshly made (zeroed) buffer: a longer source is
  cut, a shorter one leaves zero bytes behind it.
\<close>

definition copy_fixed :: "nat \<Rightarrow> bytes \<Rightarrow> bytes" where
  "copy_fixed n src = take n src @ replicate (n - length src) 0"

lemma length_copy_fixed [simp]: "length (copy_fixed n src) = n"
  by (simp add: copy_fixed_def)

lemma copy_fixed_same [simp]: "length src = n \<Longrightarrow> copy_fixed n src = src"
  by (simp add: copy_fixed_def)

lemma copy_fixed_eq_iff: "copy_fixed n src = src \<longleftrightarrow> length src = n"
  by (metis copy_fixed_same length_copy_fixed)

section \<open>Readers\<close>

text \<open>
  A decoder of the source walks an offset over a byte slice \<open>v\<close>. A reader here takes the
  bytes that remain (\<open>v[offset:]\<close>) and returns the value read and the bytes behind it; a
  slice or index expression beyond the end is the run-time panic of Go.
\<close>

abbreviation out_of_range :: go_error where
  "out_of_range \<equiv> GoPanic ''slice bounds out of range''"

definition get_bytes :: "nat \<Rightarrow> bytes \<Rightarrow> (bytes \<times> bytes) result" where
  "get_bytes n v = (if n \<le> length v then Inr (take n v, drop n v) else Inl out_of_range)"

definition get_be :: "nat \<Rightarrow> bytes \<Rightarrow> ('a::len word \<times> bytes) result" where
  "get_be n v = rbind (get_bytes n v) (\<lambda>(b, r). Inr (be_word b, r))"

definition get_u8 :: "bytes \<Rightarrow> (u8 \<times> bytes) result" where
  "get_u8 v = (case v of [] \<Rightarrow> Inl out_of_range | b # r \<Rightarrow> Inr (b, r))"

definition get_u16 :: "bytes \<Rightarrow> (u16 \<times> bytes) result" where
  "get_u16 = get_be 2"

definition get_u32 :: "bytes \<Rightarrow> (u32 \<times> bytes) result" where
  "get_u32 = get_be 4"

definition get_u64 :: "bytes \<Rightarrow> (u64 \<times> bytes) result" where
  "get_u64 = get_be 8"

definition get_hash :: "bytes \<Rightarrow> (hash \<times> bytes) result" where
  "get_hash = get_be 32"

fun read_n :: "nat \<Rightarrow> (bytes \<Rightarrow> ('a \<times> bytes) result) \<Rightarrow> bytes \<Rightarrow> ('a list \<times> bytes) result" where
  "read_n 0 rd v = Inr ([], v)"
| "read_n (Suc n) rd v =
     rbind (rd v) (\<lambda>(x, r). rbind (read_n n rd r) (\<lambda>(xs, r'). Inr (x # xs, r')))"

lemma get_bytes_append [codec_simps]: "length b = n \<Longrightarrow> get_bytes n (b @ r) = Inr (b, r)"
  by (simp add: get_bytes_def)

lemma get_bytes_all [codec_simps]: "length b = n \<Longrightarrow> get_bytes n b = Inr (b, [])"
  by (simp add: get_bytes_def)

lemma get_bytes_short: "length v < n \<Longrightarrow> get_bytes n v = Inl out_of_range"
  by (simp add: get_bytes_def)

lemma get_u8_Cons [codec_simps]: "get_u8 (b # r) = Inr (b, r)"
  by (simp add: get_u8_def)

lemma get_u16_be [codec_simps]:
  "get_u16 (be_bytes 2 x @ r) = Inr (x, r)" "get_u16 (be_bytes 2 x) = Inr (x, [])"
  by (simp_all add: get_u16_def get_be_def codec_simps)

lemma get_u32_be [codec_simps]:
  "get_u32 (be_bytes 4 x @ r) = Inr (x, r)" "get_u32 (be_bytes 4 x) = Inr (x, [])"
  by (simp_all add: get_u32_def get_be_def codec_simps)

lemma get_u64_be [codec_simps]:
  "get_u64 (be_bytes 8 x @ r) = Inr (x, r)" "get_u64 (be_bytes 8 x) = Inr (x, [])"
  by (simp_all add: get_u64_def get_be_def codec_simps)

lemma get_hash_be [codec_simps]:
  "get_hash (be_bytes 32 x @ r) = Inr (x, r)" "get_hash (be_bytes 32 x) = Inr (x, [])"
  by (simp_all add: get_hash_def get_be_def codec_simps)

text \<open>An index expression \<open>xs[i]\<close>.\<close>

definition go_nth :: "'a list \<Rightarrow> nat \<Rightarrow> 'a result" where
  "go_nth xs i = (if i < length xs then Inr (xs ! i)
     else Inl (GoPanic ''index out of range''))"

lemma go_nth_Inr_iff [simp]: "go_nth xs i = Inr x \<longleftrightarrow> i < length xs \<and> x = xs ! i"
  by (auto simp: go_nth_def)

lemma go_nth_ok: "i < length xs \<Longrightarrow> go_nth xs i = Inr (xs ! i)"
  by simp

text \<open>
  The interface between a container codec and its element codec: the client decodes a run of
  elements, the provider promises that its reader undoes its writer and returns what follows.
\<close>

locale byte_codec =
  fixes enc :: "'a \<Rightarrow> bytes"
    and dec :: "bytes \<Rightarrow> ('a \<times> bytes) result"
    and ok :: "'a \<Rightarrow> bool"
  assumes dec_enc: "ok x \<Longrightarrow> dec (enc x @ r) = Inr (x, r)"
begin

lemma read_n_concat:
  "list_all ok xs \<Longrightarrow> n = length xs \<Longrightarrow>
   read_n n dec (concat (map enc xs) @ r) = Inr (xs, r)"
  by (induction xs arbitrary: n) (auto simp: dec_enc)

lemma enc_inject: "ok x \<Longrightarrow> ok y \<Longrightarrow> enc x = enc y \<Longrightarrow> x = y"
  by (metis dec_enc fst_conv sum.inject(2))

lemma enc_prefix_free: "ok x \<Longrightarrow> ok y \<Longrightarrow> enc x @ r = enc y @ s \<Longrightarrow> x = y \<and> r = s"
  by (metis dec_enc prod.inject sum.inject(2))

end

interpretation hash_codec: byte_codec "be_bytes 32 :: hash \<Rightarrow> bytes" get_hash "\<lambda>_. True"
  by unfold_locales (simp add: codec_simps)

section \<open>Time\<close>

text \<open>
  \<open>time.Time\<close> as far as the wallet uses it: the Unix seconds, the nanoseconds within the
  second, and the order of instants. The store writes \<open>uint64(t.Unix())\<close> and reads
  \<open>time.Unix(int64(x), 0)\<close>.
\<close>

datatype gotime = GoTime (unix: u64) (nsec: u32)

definition time_Unix :: "u64 \<Rightarrow> gotime" where
  "time_Unix s = GoTime s 0"

definition time_Before :: "gotime \<Rightarrow> gotime \<Rightarrow> bool" where
  "time_Before a b \<longleftrightarrow>
     sint (unix a) < sint (unix b) \<or> (unix a = unix b \<and> nsec a < nsec b)"

definition whole_second :: "gotime \<Rightarrow> bool" where
  "whole_second t \<longleftrightarrow> nsec t = 0"

lemma time_Unix_sel [simp]: "unix (time_Unix s) = s" "nsec (time_Unix s) = 0"
  by (simp_all add: time_Unix_def)

lemma time_Unix_eq_iff: "time_Unix (unix t) = t \<longleftrightarrow> whole_second t"
  by (cases t) (simp add: time_Unix_def whole_second_def)

lemma time_Unix_unix [simp]: "whole_second t \<Longrightarrow> time_Unix (unix t) = t"
  by (simp add: time_Unix_eq_iff)

lemma whole_second_time_Unix [simp]: "whole_second (time_Unix s)"
  by (simp add: whole_second_def)

lemma time_Before_irrefl [simp]: "\<not> time_Before t t"
  by (simp add: time_Before_def)

end
