(* ===== verification/Walletdb.thy ===== *)
theory Walletdb
  imports Prelude
begin

text \<open>
  The bucket interface of \<open>walletdb/interface.go\<close> (\<open>Get\<close>, \<open>Put\<close>, \<open>Delete\<close>,
  \<open>ForEach\<close>) as the store uses it. A bucket is the list of its key/value pairs in strictly
  increasing byte order of the keys, the order in which cursors and \<open>ForEach\<close> visit it. The
  locale \<open>bucket_store\<close> states what a client relies on, and proves once how a sum over the
  entries of a bucket moves when an entry is written or deleted; the interpretation discharges
  the laws for the ordered list.
\<close>

section \<open>The contract\<close>

locale bucket_store =
  fixes empty :: "'m"
    and get :: "'m \<Rightarrow> 'k \<Rightarrow> 'v option"
    and put :: "'k \<Rightarrow> 'v \<Rightarrow> 'm \<Rightarrow> 'm"
    and del :: "'k \<Rightarrow> 'm \<Rightarrow> 'm"
    and entries :: "'m \<Rightarrow> ('k \<times> 'v) list"
    and ok :: "'m \<Rightarrow> bool"
  assumes get_empty: "get empty k = None"
    and get_put: "get (put k v m) k' = (if k' = k then Some v else get m k')"
    and get_del: "get (del k m) k' = (if k' = k then None else get m k')"
    and ok_empty: "ok empty"
    and ok_put: "ok m \<Longrightarrow> ok (put k v m)"
    and ok_del: "ok m \<Longrightarrow> ok (del k m)"
    and entries_get: "ok m \<Longrightarrow> (k, v) \<in> set (entries m) \<longleftrightarrow> get m k = Some v"
    and entries_distinct: "ok m \<Longrightarrow> distinct (map fst (entries m))"
begin

lemma keys_entries: "ok m \<Longrightarrow> fst ` set (entries m) = {k. get m k \<noteq> None}"
proof -
  assume "ok m"
  then have "set (entries m) = {(k, v). get m k = Some v}" by (auto simp: entries_get)
  then show ?thesis by force
qed

lemma finite_keys: "ok m \<Longrightarrow> finite {k. get m k \<noteq> None}"
  by (metis finite_set finite_imageI keys_entries)

lemma sum_entries:
  fixes f :: "'k \<Rightarrow> 'v \<Rightarrow> 'c::comm_monoid_add"
  assumes "ok m"
  shows "(\<Sum>(k, v)\<leftarrow>entries m. f k v) = (\<Sum>k\<in>{k. get m k \<noteq> None}. f k (the (get m k)))"
proof -
  have d: "distinct (entries m)" and i: "inj_on fst (set (entries m))"
    using entries_distinct [OF assms] by (auto simp: distinct_map)
  have "(\<Sum>(k, v)\<leftarrow>entries m. f k v) = (\<Sum>p\<in>set (entries m). f (fst p) (snd p))"
    by (simp add: sum_list_distinct_conv_sum_set [OF d] split_def)
  also have "\<dots> = (\<Sum>k\<in>fst ` set (entries m). f k (the (get m k)))"
    by (subst sum.reindex [OF i]) (auto intro!: sum.cong simp: entries_get [OF assms])
  finally show ?thesis by (simp only: keys_entries [OF assms])
qed

lemma sum_put_fresh:
  fixes f :: "'k \<Rightarrow> 'v \<Rightarrow> 'c::comm_monoid_add"
  assumes "ok m" and "get m k = None"
  shows "(\<Sum>(k, v)\<leftarrow>entries (put k v m). f k v) = f k v + (\<Sum>(k, v)\<leftarrow>entries m. f k v)"
proof -
  have "{k'. get (put k v m) k' \<noteq> None} = insert k {k'. get m k' \<noteq> None}"
    by (auto simp: get_put)
  then show ?thesis
    using assms finite_keys [OF assms(1)]
    by (auto simp: sum_entries ok_put get_put intro!: arg_cong2 [where f = "(+)"] sum.cong)
qed

lemma sum_del_present:
  fixes f :: "'k \<Rightarrow> 'v \<Rightarrow> 'c::comm_monoid_add"
  assumes "ok m" and "get m k = Some v"
  shows "(\<Sum>(k, v)\<leftarrow>entries m. f k v) = f k v + (\<Sum>(k, v)\<leftarrow>entries (del k m). f k v)"
proof -
  have e: "{k'. get (del k m) k' \<noteq> None} = {k'. get m k' \<noteq> None} - {k}"
    by (auto simp: get_del)
  have "(\<Sum>(k, v)\<leftarrow>entries m. f k v) =
      f k v + (\<Sum>j\<in>{k'. get m k' \<noteq> None} - {k}. f j (the (get m j)))"
    using assms finite_keys [OF assms(1)]
    by (simp add: sum_entries sum.remove [where x = k])
  also have "(\<Sum>j\<in>{k'. get m k' \<noteq> None} - {k}. f j (the (get m j))) =
      (\<Sum>j\<in>{k'. get (del k m) k' \<noteq> None}. f j (the (get (del k m) j)))"
    by (rule sum.cong) (auto simp: get_del split: if_splits)
  finally show ?thesis using assms by (simp add: sum_entries ok_del)
qed

lemma sum_del_absent:
  fixes f :: "'k \<Rightarrow> 'v \<Rightarrow> 'c::comm_monoid_add"
  assumes "ok m" and "get m k = None"
  shows "(\<Sum>(k, v)\<leftarrow>entries (del k m). f k v) = (\<Sum>(k, v)\<leftarrow>entries m. f k v)"
proof -
  have "get (del k m) = get m" by (rule ext) (simp add: get_del assms)
  then show ?thesis using assms by (simp add: sum_entries ok_del)
qed

end

section \<open>The ordered bucket\<close>

type_synonym kv = "(bytes \<times> bytes) list"

definition kv_get :: "kv \<Rightarrow> bytes \<Rightarrow> bytes option" where
  "kv_get m k = map_of m k"

fun kv_put :: "bytes \<Rightarrow> bytes \<Rightarrow> kv \<Rightarrow> kv" where
  "kv_put k v [] = [(k, v)]"
| "kv_put k v ((k', v') # m) =
     (if k < k' then (k, v) # (k', v') # m
      else if k = k' then (k, v) # m
      else (k', v') # kv_put k v m)"

definition kv_delete :: "bytes \<Rightarrow> kv \<Rightarrow> kv" where
  "kv_delete k m = filter (\<lambda>(k', v). k' \<noteq> k) m"

definition kv_ok :: "kv \<Rightarrow> bool" where
  "kv_ok m \<longleftrightarrow> sorted_wrt (<) (map fst m)"

lemma kv_get_put: "kv_get (kv_put k v m) k' = (if k' = k then Some v else kv_get m k')"
  by (induction k v m rule: kv_put.induct) (auto simp: kv_get_def)

lemma kv_get_delete: "kv_get (kv_delete k m) k' = (if k' = k then None else kv_get m k')"
  by (induction m) (auto simp: kv_get_def kv_delete_def)

lemma set_kv_put: "set (kv_put k v m) \<subseteq> insert (k, v) (set m)"
  by (induction k v m rule: kv_put.induct) auto

lemma kv_ok_put: "kv_ok m \<Longrightarrow> kv_ok (kv_put k v m)"
proof (induction k v m rule: kv_put.induct)
  case (2 k v k' v' m)
  have "k' < x" if "x \<in> fst ` set (kv_put k v m)" "k' < k" for x
    using that "2.prems" set_kv_put [of k v m] by (fastforce simp: kv_ok_def)
  with 2 show ?case by (force simp: kv_ok_def not_less)
qed (simp add: kv_ok_def)

lemma kv_ok_delete: "kv_ok m \<Longrightarrow> kv_ok (kv_delete k m)"
  by (auto simp: kv_ok_def kv_delete_def sorted_wrt_map intro: sorted_wrt_filter)

lemma kv_ok_distinct: "kv_ok m \<Longrightarrow> distinct (map fst m)"
  by (simp add: kv_ok_def strict_sorted_iff)

interpretation kv: bucket_store "[] :: kv" kv_get kv_put kv_delete "\<lambda>m. m" kv_ok
proof
  fix m :: kv and k v
  assume "kv_ok m"
  then show "(k, v) \<in> set m \<longleftrightarrow> kv_get m k = Some v"
    by (metis kv_get_def kv_ok_distinct map_of_eq_Some_iff)
qed (auto simp: kv_get_put kv_get_delete kv_ok_put kv_ok_delete kv_ok_distinct,
     simp_all add: kv_get_def kv_ok_def)

text \<open>A bucket is determined by what it returns for each key.\<close>

lemma kv_ext: "kv_ok m \<Longrightarrow> kv_ok m' \<Longrightarrow> (\<And>k. kv_get m k = kv_get m' k) \<Longrightarrow> m = m'"
proof (rule map_sorted_distinct_set_unique [where f = fst])
  assume ok: "kv_ok m" "kv_ok m'" and eq: "\<And>k. kv_get m k = kv_get m' k"
  show "set m = set m'"
    using kv.entries_get [OF ok(1)] kv.entries_get [OF ok(2)] by (auto simp: eq)
  show "inj_on fst (set m \<union> set m')"
    using kv.entries_get [OF ok(1)] kv.entries_get [OF ok(2)] by (auto simp: inj_on_def eq)
  show "sorted (map fst m)" "distinct (map fst m)" "sorted (map fst m')" "distinct (map fst m')"
    using ok by (simp_all add: kv_ok_def strict_sorted_iff)
qed

end
