(* ===== verification/Wire.thy ===== *)
theory Wire
  imports Walletdb
begin

text \<open>
  The block-chain values the store keeps: outpoints, ring references, transactions and their
  outputs (types of the \<open>abec\<close> packages, carried with the fields the wallet reads), the keys
  under which the store files them (\<open>canonicalOutPointAbe\<close>, \<open>canonicalBlock\<close> of
  \<open>wtxmgr/db.go\<close>), and the order in which those keys make a bucket iterate.
\<close>

section \<open>Outpoints\<close>

datatype OutPointAbe = OutPointAbe (TxHash: hash) (OutIndex: u8)

instantiation OutPointAbe :: linorder
begin

definition less_eq_OutPointAbe :: "OutPointAbe \<Rightarrow> OutPointAbe \<Rightarrow> bool" where
  "less_eq_OutPointAbe a b \<longleftrightarrow>
     TxHash a < TxHash b \<or> (TxHash a = TxHash b \<and> OutIndex a \<le> OutIndex b)"

definition less_OutPointAbe :: "OutPointAbe \<Rightarrow> OutPointAbe \<Rightarrow> bool" where
  "less_OutPointAbe a b \<longleftrightarrow>
     TxHash a < TxHash b \<or> (TxHash a = TxHash b \<and> OutIndex a < OutIndex b)"

instance
  by standard
    (auto simp: less_eq_OutPointAbe_def less_OutPointAbe_def intro: OutPointAbe.expand)

end

lemma OutPointAbe_fields_eq [simp]:
  "TxHash a = TxHash b \<and> OutIndex a = OutIndex b \<longleftrightarrow> a = b"
  by (auto intro: OutPointAbe.expand)

definition canonicalOutPointAbe :: "hash \<Rightarrow> u8 \<Rightarrow> bytes" where
  "canonicalOutPointAbe txHash index = be_bytes 32 txHash @ [index]"

definition readCanonicalOutPointAbe :: "bytes \<Rightarrow> OutPointAbe result" where
  "readCanonicalOutPointAbe k =
     (if length k < 32 + 1 then Inl (StoreError ErrData ''short canonical outpoint'')
      else Inr (OutPointAbe (be_word (take 32 k)) (k ! 32)))"

definition canonicalBlock :: "i32 \<Rightarrow> hash \<Rightarrow> bytes" where
  "canonicalBlock blockHeight blockHash = be_bytes 4 blockHeight @ be_bytes 32 blockHash"

text \<open>The key of an outpoint, as the callers build it from the two fields.\<close>

abbreviation op_key :: "OutPointAbe \<Rightarrow> bytes" where
  "op_key op \<equiv> canonicalOutPointAbe (TxHash op) (OutIndex op)"

lemma length_canonicalOutPointAbe [simp]: "length (canonicalOutPointAbe h i) = 33"
  by (simp add: canonicalOutPointAbe_def)

lemma length_canonicalBlock [simp]: "length (canonicalBlock n h) = 36"
  by (simp add: canonicalBlock_def)

lemma canonicalOutPointAbe_inject [simp]:
  "canonicalOutPointAbe h i = canonicalOutPointAbe h' i' \<longleftrightarrow> h = h' \<and> i = i'"
  by (auto simp: canonicalOutPointAbe_def)

lemma canonicalBlock_inject [simp]:
  "canonicalBlock n h = canonicalBlock n' h' \<longleftrightarrow> n = n' \<and> h = h'"
  by (auto simp: canonicalBlock_def)

lemma canonical_neq_Nil [simp]:
  "canonicalOutPointAbe h i \<noteq> []" "canonicalBlock n h \<noteq> []"
  by (simp_all add: canonicalOutPointAbe_def canonicalBlock_def)

lemma readCanonicalOutPointAbe_canonical [codec_simps]:
  "readCanonicalOutPointAbe (canonicalOutPointAbe h i) = Inr (OutPointAbe h i)"
  by (simp add: readCanonicalOutPointAbe_def canonicalOutPointAbe_def nth_append)

lemma readCanonicalOutPointAbe_complete:
  assumes "length k = 33"
  shows "\<exists>op. readCanonicalOutPointAbe k = Inr op \<and> op_key op = k"
proof -
  have k: "k = take 32 k @ [k ! 32]"
    using assms take_Suc_conv_app_nth [of 32 k] by simp
  have "be_bytes 32 (be_word (take 32 k) :: hash) = take 32 k"
    by (rule be_bytes_hash) (simp add: assms)
  with assms k show ?thesis
    by (auto simp: readCanonicalOutPointAbe_def canonicalOutPointAbe_def)
qed

section \<open>The order of keys\<close>

lemma unat_be_word_Cons:
  assumes "8 * length (b # bs) \<le> LENGTH('a)"
  shows "unat (be_word (b # bs) :: 'a::len word) =
    unat b * 256 ^ length bs + unat (be_word bs :: 'a word)"
  using assms
proof (induction bs rule: rev_induct)
  case Nil
  then have "(2::nat) ^ 8 \<le> 2 ^ LENGTH('a)" by (intro power_increasing) auto
  moreover have "unat b < 256" using unsigned_less [of b] by simp
  ultimately show ?case
    by (simp add: be_word_def unsigned_ucast_eq take_bit_nat_eq_self)
next
  case (snoc c bs)
  have step: "unat (be_word (xs @ [c]) :: 'a word) = unat (be_word xs :: 'a word) * 256 + unat c"
    if len: "8 * length xs + 8 \<le> LENGTH('a)" for xs
  proof -
    let ?w = "be_word xs :: 'a word"
    have "?w = take_bit (8 * length xs) ?w"
      by (rule bit_word_eqI) (auto simp: bit_simps dest: be_word_bit_bound)
    then have "unat ?w < 2 ^ (8 * length xs)"
      by (metis take_bit_nat_less_exp unsigned_take_bit_eq)
    then have w: "unat ?w < 256 ^ length xs" by (simp add: power_mult)
    have c: "unat c < 256" using unsigned_less [of c] by simp
    have "unat ?w * 256 + unat c < 256 ^ Suc (length xs)"
      using w c by simp
    also have "(256::nat) ^ Suc (length xs) = 2 ^ (8 * length xs + 8)"
      by (simp add: power_add power_mult)
    also have "\<dots> \<le> 2 ^ LENGTH('a)" using len by (intro power_increasing) auto
    finally have lt: "unat ?w * 256 + unat c < 2 ^ LENGTH('a)" .
    have "push_bit 8 ?w OR ucast c = push_bit 8 ?w + ucast c"
      by (rule disjunctive_add [symmetric]) (auto simp: bit_simps dest: bit_imp_le_length)
    then have "be_word (xs @ [c]) = push_bit 8 ?w + ucast c"
      by (simp add: be_word_snoc)
    also have "\<dots> = of_nat (unat ?w * 256 + unat c)"
      by (simp add: push_bit_eq_mult mult.commute)
    finally show ?thesis using lt by (simp add: unat_of_nat del: of_nat_add of_nat_mult)
  qed
  have "unat (be_word ((b # bs) @ [c]) :: 'a word) = unat (be_word (b # bs) :: 'a word) * 256 + unat c"
    by (rule step) (use snoc.prems in simp)
  also have "\<dots> = (unat b * 256 ^ length bs + unat (be_word bs :: 'a word)) * 256 + unat c"
    using snoc by simp
  also have "\<dots> = unat b * 256 ^ length (bs @ [c]) + unat (be_word (bs @ [c]) :: 'a word)"
    using snoc.prems by (subst step) (simp_all add: algebra_simps)
  finally show ?case by simp
qed

lemma unat_be_word_less:
  assumes "8 * length bs \<le> LENGTH('a)"
  shows "unat (be_word bs :: 'a::len word) < 256 ^ length bs"
  using assms
proof (induction bs)
  case (Cons b bs)
  have "unat b < 256" using unsigned_less [of b] by simp
  then have "Suc (unat b) * 256 ^ length bs \<le> 256 * (256 ^ length bs :: nat)"
    by (intro mult_le_mono1) simp
  moreover have "unat b * 256 ^ length bs + unat (be_word bs :: 'a word)
      < Suc (unat b) * 256 ^ length bs"
    using Cons by simp
  ultimately have "unat b * 256 ^ length bs + unat (be_word bs :: 'a word) < 256 * 256 ^ length bs"
    by (rule less_le_trans [rotated])
  with Cons show ?case by (simp add: unat_be_word_Cons)
qed simp

lemma less_bytes_iff:
  assumes "length bs = length cs" and "8 * length bs \<le> LENGTH('a)"
  shows "bs < cs \<longleftrightarrow> (be_word bs :: 'a::len word) < be_word cs"
  using assms
proof (induction bs cs rule: list_induct2)
  case (Cons b bs c cs)
  let ?n = "length cs"
  have ih: "bs < cs \<longleftrightarrow> unat (be_word bs :: 'a word) < unat (be_word cs :: 'a word)"
    using Cons by (simp add: word_less_nat_alt)
  have bnd: "unat (be_word bs :: 'a word) < 256 ^ ?n" "unat (be_word cs :: 'a word) < 256 ^ ?n"
    using unat_be_word_less [of bs, where 'a = 'a] unat_be_word_less [of cs, where 'a = 'a] Cons
    by simp_all
  have gt: "x * 256 ^ ?n + y < x' * 256 ^ ?n + y'" if "x < x'" "y < 256 ^ ?n" for x x' y y' :: nat
  proof -
    have "x * 256 ^ ?n + y < Suc x * 256 ^ ?n" using that by simp
    also have "\<dots> \<le> x' * 256 ^ ?n" using that by (intro mult_le_mono1) simp
    finally show ?thesis by simp
  qed
  have lex: "b # bs < c # cs \<longleftrightarrow> unat b < unat c \<or> (unat b = unat c \<and> bs < cs)"
    by (simp add: word_less_nat_alt word_unat_eq_iff)
  have val: "(be_word (b # bs) :: 'a word) < be_word (c # cs) \<longleftrightarrow>
      unat b * 256 ^ ?n + unat (be_word bs :: 'a word)
      < unat c * 256 ^ ?n + unat (be_word cs :: 'a word)"
    using Cons by (simp only: word_less_nat_alt unat_be_word_Cons)
      (simp add: unat_be_word_Cons)
  consider "unat b < unat c" | "unat b = unat c" | "unat c < unat b" by linarith
  then show ?case
  proof cases
    case 1
    then show ?thesis using gt [OF 1 bnd(1)] by (simp only: lex val simp_thms)
  next
    case 2
    then show ?thesis by (simp only: lex val ih) simp
  next
    case 3
    have "\<not> b # bs < c # cs" using 3 by (auto simp only: lex)
    moreover have "\<not> (be_word (b # bs) :: 'a word) < be_word (c # cs)"
      using gt [OF 3 bnd(2), of "unat (be_word bs :: 'a word)"] by (auto simp only: val)
    ultimately show ?thesis by blast
  qed
qed simp

lemma be_bytes_less_iff:
  "8 * n = LENGTH('a) \<Longrightarrow> be_bytes n v < be_bytes n w \<longleftrightarrow> v < (w :: 'a::len word)"
  using less_bytes_iff [of "be_bytes n v" "be_bytes n w", where 'a = 'a]
  by (simp add: be_word_bytes)

lemma append_less_iff:
  "length (a :: bytes) = length b \<Longrightarrow> a @ r < b @ s \<longleftrightarrow> a < b \<or> (a = b \<and> r < s)"
  by (induction a b rule: list_induct2) auto

lemma op_key_less_iff: "op_key a < op_key b \<longleftrightarrow> a < b"
  by (auto simp: canonicalOutPointAbe_def append_less_iff be_bytes_less_iff less_OutPointAbe_def)

section \<open>Transactions, and the abec functions the wallet calls\<close>

record OutPointRing =
  opr_Version :: u32
  opr_BlockHashs :: "hash list"
  opr_OutPoints :: "OutPointAbe list"

record TxInAbe =
  in_SerialNumber :: bytes
  in_PreviousOutPointRing :: OutPointRing

record TxOutAbe =
  out_Version :: u32
  out_TxoScript :: bytes

text \<open>\<open>msg_rest\<close> stands for the fields the wallet does not read (fee, memo, witness).\<close>

record MsgTxAbe =
  msg_Version :: u32
  msg_TxIns :: "TxInAbe list"
  msg_TxOuts :: "TxOutAbe list"
  msg_rest :: bytes

text \<open>
  The packages \<open>abec/...\<close> are not part of the repository: the functions and constants of
  theirs that the store calls are the fields of a record, an argument of every definition that
  uses them.
\<close>

record abec =
  DoubleHashH :: "bytes \<Rightarrow> hash"
  GetSerialNumberSerializeSize :: "u32 \<Rightarrow> nat"
  PrivacyLevelRINGCTPre :: u8
  PrivacyLevelPSEUDONYM :: u8
  PrivacyLevelPSEUDONYMCT :: u8
  OutPointRing_Hash :: "OutPointRing \<Rightarrow> hash"
  BlockNumPerRingGroup :: nat
  MsgTx_TxHash :: "MsgTxAbe \<Rightarrow> hash"
  MsgTx_SerializeFull :: "MsgTxAbe \<Rightarrow> bytes result"
  MsgTx_Serialize :: "MsgTxAbe \<Rightarrow> bytes result"
  MsgTx_Deserialize :: "bytes \<Rightarrow> MsgTxAbe result"
  AutId_String :: "hash \<Rightarrow> string"
  NewHashFromStr :: "bytes \<Rightarrow> hash result"

end
