(* ===== verification/Txo.thy ===== *)
theory Txo
  imports Wire
begin

text \<open>
  The transaction outputs the wallet owns, in the three forms of \<open>wtxmgr/tx.go\<close>: spendable,
  spent by an unconfirmed transaction, and spent in a block. Each form has its byte layout
  (\<open>Serialize\<close>, \<open>Deserialize\<close>); the round trips say exactly what survives the database:
  everything but the sub-second part of a time, for a \<open>PublicRand\<close> of 64 bytes.
\<close>

section \<open>Flags\<close>

definition txoFlagCoinbase :: u8 where "txoFlagCoinbase = push_bit 0 1"
definition txoFlagAUTCoin :: u8 where "txoFlagAUTCoin = push_bit 1 1"
definition txoFlagPseudonymous :: u8 where "txoFlagPseudonymous = push_bit 2 1"
definition txoFlagCTAUTCoin :: u8 where "txoFlagCTAUTCoin = push_bit 3 1"
definition txoFlagPseudonymousCT :: u8 where "txoFlagPseudonymousCT = push_bit 4 1"

lemmas txoFlag_defs = txoFlagCoinbase_def txoFlagAUTCoin_def txoFlagPseudonymous_def
  txoFlagCTAUTCoin_def txoFlagPseudonymousCT_def

section \<open>Spendable outputs\<close>

record SpendableTXO =
  txo_Version :: u32
  txo_Height :: i32
  txo_TxOutput :: OutPointAbe
  txo_PackedFlag :: u8
  txo_Amount :: u64
  txo_PublicRand :: bytes
  txo_GenerationTime :: gotime
  txo_RingHash :: hash
  txo_RingSize :: u8
  txo_RingIndex :: u8
  txo_UTXOHash :: hash

definition NewUnspentUTXO ::
  "abec \<Rightarrow> u32 \<Rightarrow> i32 \<Rightarrow> OutPointAbe \<Rightarrow> bool \<Rightarrow> u64 \<Rightarrow> u8 \<Rightarrow> gotime \<Rightarrow> hash \<Rightarrow> u8 \<Rightarrow> u8 \<Rightarrow> bytes
   \<Rightarrow> SpendableTXO" where
  "NewUnspentUTXO A version height txOutput fromCoinBase amount ringIndex generationTime
     ringHash ringSize privacyLevel publicRand =
     (let packedFlag = 0;
          packedFlag = (if fromCoinBase then packedFlag OR txoFlagCoinbase else packedFlag);
          packedFlag =
            (if privacyLevel = PrivacyLevelPSEUDONYM A then packedFlag OR txoFlagPseudonymous
             else if privacyLevel = PrivacyLevelPSEUDONYMCT A
               then packedFlag OR txoFlagPseudonymousCT
             else packedFlag)
      in \<lparr>txo_Version = version, txo_Height = height, txo_TxOutput = txOutput,
          txo_PackedFlag = packedFlag, txo_Amount = amount, txo_PublicRand = publicRand,
          txo_GenerationTime = generationTime, txo_RingHash = ringHash, txo_RingSize = ringSize,
          txo_RingIndex = ringIndex, txo_UTXOHash = 0\<rparr>)"

definition IsCoinbase :: "SpendableTXO \<Rightarrow> bool" where
  "IsCoinbase txo \<longleftrightarrow> txo_PackedFlag txo AND txoFlagCoinbase = txoFlagCoinbase"

definition IsPseudonymous :: "SpendableTXO \<Rightarrow> bool" where
  "IsPseudonymous txo \<longleftrightarrow> txo_PackedFlag txo AND txoFlagPseudonymous = txoFlagPseudonymous"

definition IsPseudonymousCT :: "SpendableTXO \<Rightarrow> bool" where
  "IsPseudonymousCT txo \<longleftrightarrow>
     txo_PackedFlag txo AND txoFlagPseudonymousCT = txoFlagPseudonymousCT"

definition IsCTAUTCoin :: "SpendableTXO \<Rightarrow> bool" where
  "IsCTAUTCoin txo \<longleftrightarrow> txo_PackedFlag txo AND txoFlagCTAUTCoin = txoFlagCTAUTCoin"

text \<open>
  \<open>Hash\<close> keeps its result in \<open>UTXOHash\<close>, so calling it changes the output it is called on;
  \<open>SpendableTXO_Hash\<close> is the value, the write is \<open>memo_hash\<close>.
\<close>

definition SpendableTXO_Hash :: "abec \<Rightarrow> SpendableTXO \<Rightarrow> hash" where
  "SpendableTXO_Hash A txo =
     (if txo_UTXOHash txo \<noteq> 0 then txo_UTXOHash txo
      else DoubleHashH A
        (be_bytes 4 (txo_Version txo) @ be_bytes 4 (txo_Height txo) @
         be_bytes 32 (TxHash (txo_TxOutput txo)) @ [OutIndex (txo_TxOutput txo)] @
         be_bytes 8 (txo_Amount txo) @ be_bytes 32 (txo_RingHash txo) @
         [txo_RingSize txo] @ [txo_RingIndex txo]))"

definition memo_hash :: "abec \<Rightarrow> SpendableTXO \<Rightarrow> SpendableTXO" where
  "memo_hash A txo = txo\<lparr>txo_UTXOHash := SpendableTXO_Hash A txo\<rparr>"

definition PublicRandBytesLen :: nat where
  "PublicRandBytesLen = 64"

definition SpendableTXOSerializedSize :: nat where
  "SpendableTXOSerializedSize = 4 + 4 + 1 + 8 + PublicRandBytesLen + 32 + 1 + 1 + 32 + 8"

definition SpendableTXO_Serialize :: "abec \<Rightarrow> SpendableTXO \<Rightarrow> bytes" where
  "SpendableTXO_Serialize A txo =
     be_bytes 4 (txo_Version txo) @ be_bytes 4 (txo_Height txo) @
     [txo_PackedFlag txo] @ be_bytes 8 (txo_Amount txo) @
     copy_fixed PublicRandBytesLen (txo_PublicRand txo) @
     be_bytes 32 (txo_RingHash txo) @ [txo_RingSize txo] @ [txo_RingIndex txo] @
     be_bytes 32 (SpendableTXO_Hash A txo) @
     be_bytes 8 (unix (txo_GenerationTime txo))"

definition SpendableTXO_Deserialize ::
  "OutPointAbe \<Rightarrow> bytes option \<Rightarrow> SpendableTXO result" where
  "SpendableTXO_Deserialize op v' =
     (case v' of None \<Rightarrow> Inl (GoError ''empty byte slice'')
      | Some v \<Rightarrow>
        if length v < SpendableTXOSerializedSize
        then Inl (GoError ''wrong size of serialized unspent transaction output'')
        else
        rbind (get_u32 v) (\<lambda>(version, r).
        rbind (get_u32 r) (\<lambda>(height, r).
        rbind (get_u8 r) (\<lambda>(flag, r).
        rbind (get_u64 r) (\<lambda>(amount, r).
        rbind (get_bytes PublicRandBytesLen r) (\<lambda>(rand, r).
        rbind (get_hash r) (\<lambda>(ringHash, r).
        rbind (get_u8 r) (\<lambda>(ringSize, r).
        rbind (get_u8 r) (\<lambda>(ringIndex, r).
        rbind (get_hash r) (\<lambda>(utxoHash, r).
        rbind (get_u64 r) (\<lambda>(t, r).
          Inr \<lparr>txo_Version = version, txo_Height = height, txo_TxOutput = op,
               txo_PackedFlag = flag, txo_Amount = amount, txo_PublicRand = rand,
               txo_GenerationTime = time_Unix t, txo_RingHash = ringHash,
               txo_RingSize = ringSize, txo_RingIndex = ringIndex,
               txo_UTXOHash = utxoHash\<rparr>)))))))))))"

lemma length_SpendableTXO_Serialize [simp]: "length (SpendableTXO_Serialize A t) = 155"
  by (simp add: SpendableTXO_Serialize_def PublicRandBytesLen_def)

lemma SpendableTXOSerializedSize_eq [simp]: "SpendableTXOSerializedSize = 155"
  by (simp add: SpendableTXOSerializedSize_def PublicRandBytesLen_def)

text \<open>What a stored output comes back as: the cut of \<open>PublicRand\<close> and of the time.\<close>

definition stored_txo :: "abec \<Rightarrow> SpendableTXO \<Rightarrow> SpendableTXO" where
  "stored_txo A t = (memo_hash A t)\<lparr>
     txo_PublicRand := copy_fixed PublicRandBytesLen (txo_PublicRand t),
     txo_GenerationTime := time_Unix (unix (txo_GenerationTime t))\<rparr>"

definition storable_txo :: "SpendableTXO \<Rightarrow> bool" where
  "storable_txo t \<longleftrightarrow>
     length (txo_PublicRand t) = PublicRandBytesLen \<and> whole_second (txo_GenerationTime t)"

lemma SpendableTXO_Deserialize_prefix:
  "SpendableTXO_Deserialize (txo_TxOutput t) (Some (SpendableTXO_Serialize A t @ rest))
   = Inr (stored_txo A t)"
  by (simp add: SpendableTXO_Deserialize_def SpendableTXO_Serialize_def
      stored_txo_def memo_hash_def PublicRandBytesLen_def codec_simps)

lemma SpendableTXO_Deserialize_Serialize [codec_simps]:
  "SpendableTXO_Deserialize (txo_TxOutput t) (Some (SpendableTXO_Serialize A t))
   = Inr (stored_txo A t)"
  using SpendableTXO_Deserialize_prefix [of t A "[]"] by simp

lemma stored_txo_eq_iff: "stored_txo A t = memo_hash A t \<longleftrightarrow> storable_txo t"
  by (cases t) (auto simp: stored_txo_def memo_hash_def storable_txo_def copy_fixed_eq_iff
      time_Unix_eq_iff)

lemma memo_hash_eq_iff: "memo_hash A t = stored_txo A t \<longleftrightarrow> storable_txo t"
  by (metis stored_txo_eq_iff)

lemma stored_txo_simps [simp]:
  "txo_Amount (stored_txo A t) = txo_Amount t"
  "txo_TxOutput (stored_txo A t) = txo_TxOutput t"
  "txo_PackedFlag (stored_txo A t) = txo_PackedFlag t"
  "txo_RingHash (stored_txo A t) = txo_RingHash t"
  by (simp_all add: stored_txo_def memo_hash_def)

lemma memo_hash_simps [simp]:
  "txo_Amount (memo_hash A t) = txo_Amount t"
  "txo_TxOutput (memo_hash A t) = txo_TxOutput t"
  "txo_PackedFlag (memo_hash A t) = txo_PackedFlag t"
  "storable_txo (memo_hash A t) = storable_txo t"
  by (simp_all add: memo_hash_def storable_txo_def)

lemma storable_stored_txo [simp]: "storable_txo (stored_txo A t)"
  by (simp add: storable_txo_def stored_txo_def)

lemma SpendableTXO_Deserialize_ok:
  "155 \<le> length v \<Longrightarrow> \<exists>t. SpendableTXO_Deserialize op (Some v) = Inr t
     \<and> txo_TxOutput t = op \<and> storable_txo t"
  by (simp add: SpendableTXO_Deserialize_def get_u32_def get_u64_def get_hash_def get_be_def
      get_bytes_def get_u8_def PublicRandBytesLen_def storable_txo_def split: list.split)
    (auto simp: drop_eq_Nil dest!: arg_cong [where f = length])

lemma SpendableTXO_Deserialize_short:
  "length v < 155 \<Longrightarrow> \<exists>e. SpendableTXO_Deserialize op (Some v) = Inl (GoError e)"
  by (simp add: SpendableTXO_Deserialize_def)


section \<open>Outputs spent by an unconfirmed transaction\<close>

record UnconfirmedTXO =
  utx_txo :: SpendableTXO
  utx_SpentByHash :: hash
  utx_SpentTime :: gotime

definition UnconfirmedTXO_Hash :: "abec \<Rightarrow> UnconfirmedTXO \<Rightarrow> hash" where
  "UnconfirmedTXO_Hash A t = SpendableTXO_Hash A (utx_txo t)"

definition UnconfirmedTXOSerializedSize :: nat where
  "UnconfirmedTXOSerializedSize = SpendableTXOSerializedSize + 32 + 8"

definition UnconfirmedTXO_Serialize :: "abec \<Rightarrow> UnconfirmedTXO \<Rightarrow> bytes" where
  "UnconfirmedTXO_Serialize A t =
     SpendableTXO_Serialize A (utx_txo t) @
     be_bytes 32 (utx_SpentByHash t) @
     be_bytes 8 (unix (utx_SpentTime t))"

definition UnconfirmedTXO_Deserialize ::
  "OutPointAbe \<Rightarrow> bytes option \<Rightarrow> UnconfirmedTXO result" where
  "UnconfirmedTXO_Deserialize op v' =
     (case v' of None \<Rightarrow> Inl (GoError ''empty byte slice'')
      | Some v \<Rightarrow>
        if length v < UnconfirmedTXOSerializedSize
        then Inl (GoError ''wrong size of serialized spend but unmined transaction output'')
        else
        rbind (SpendableTXO_Deserialize op (Some v)) (\<lambda>txo.
        rbind (get_bytes SpendableTXOSerializedSize v) (\<lambda>(_, r).
        rbind (get_hash r) (\<lambda>(spentBy, r).
        rbind (get_u64 r) (\<lambda>(t, r).
          Inr \<lparr>utx_txo = txo, utx_SpentByHash = spentBy, utx_SpentTime = time_Unix t\<rparr>)))))"

definition stored_unconfirmed :: "abec \<Rightarrow> UnconfirmedTXO \<Rightarrow> UnconfirmedTXO" where
  "stored_unconfirmed A t = t\<lparr>
     utx_txo := stored_txo A (utx_txo t),
     utx_SpentTime := time_Unix (unix (utx_SpentTime t))\<rparr>"

lemma UnconfirmedTXOSerializedSize_eq [simp]: "UnconfirmedTXOSerializedSize = 195"
  by (simp add: UnconfirmedTXOSerializedSize_def)

lemma length_UnconfirmedTXO_Serialize [simp]: "length (UnconfirmedTXO_Serialize A t) = 195"
  by (simp add: UnconfirmedTXO_Serialize_def)

lemma UnconfirmedTXO_Deserialize_prefix:
  "UnconfirmedTXO_Deserialize (txo_TxOutput (utx_txo t))
     (Some (UnconfirmedTXO_Serialize A t @ rest)) = Inr (stored_unconfirmed A t)"
  by (simp add: UnconfirmedTXO_Deserialize_def UnconfirmedTXO_Serialize_def stored_unconfirmed_def
      SpendableTXO_Deserialize_prefix codec_simps)

lemma UnconfirmedTXO_Deserialize_Serialize [codec_simps]:
  "UnconfirmedTXO_Deserialize (txo_TxOutput (utx_txo t)) (Some (UnconfirmedTXO_Serialize A t))
   = Inr (stored_unconfirmed A t)"
  using UnconfirmedTXO_Deserialize_prefix [of t A "[]"] by simp

lemma stored_unconfirmed_simps [simp]:
  "utx_txo (stored_unconfirmed A t) = stored_txo A (utx_txo t)"
  "utx_SpentByHash (stored_unconfirmed A t) = utx_SpentByHash t"
  by (simp_all add: stored_unconfirmed_def)

lemma UnconfirmedTXO_Deserialize_ok:
  "195 \<le> length v \<Longrightarrow> \<exists>t. UnconfirmedTXO_Deserialize op (Some v) = Inr t
     \<and> txo_TxOutput (utx_txo t) = op"
  using SpendableTXO_Deserialize_ok [of v op]
  by (auto simp: UnconfirmedTXO_Deserialize_def get_u64_def get_hash_def get_be_def
      get_bytes_def)

section \<open>Outputs spent in a block\<close>

record ConfirmedTXO =
  ctx_unconfirmed :: UnconfirmedTXO
  ctx_ConfirmedByBlockHash :: hash
  ctx_ConfirmTime :: gotime

definition ConfirmedTXO_Hash :: "abec \<Rightarrow> ConfirmedTXO \<Rightarrow> hash" where
  "ConfirmedTXO_Hash A t = SpendableTXO_Hash A (utx_txo (ctx_unconfirmed t))"

definition ConfirmedTXOSerializedSize :: nat where
  "ConfirmedTXOSerializedSize = UnconfirmedTXOSerializedSize + 32 + 8"

definition ConfirmedTXO_Serialize :: "abec \<Rightarrow> ConfirmedTXO \<Rightarrow> bytes" where
  "ConfirmedTXO_Serialize A t =
     UnconfirmedTXO_Serialize A (ctx_unconfirmed t) @
     be_bytes 32 (ctx_ConfirmedByBlockHash t) @
     be_bytes 8 (unix (ctx_ConfirmTime t))"

definition ConfirmedTXO_Deserialize ::
  "OutPointAbe \<Rightarrow> bytes option \<Rightarrow> ConfirmedTXO result" where
  "ConfirmedTXO_Deserialize op v' =
     (case v' of None \<Rightarrow> Inl (GoError ''empty byte slice'')
      | Some v \<Rightarrow>
        if length v < ConfirmedTXOSerializedSize
        then Inl (GoError ''wrong size of serialized unspent transaction output'')
        else
        rbind (UnconfirmedTXO_Deserialize op (Some v)) (\<lambda>txo.
        rbind (get_bytes UnconfirmedTXOSerializedSize v) (\<lambda>(_, r).
        rbind (get_hash r) (\<lambda>(confirmedBy, r).
        rbind (get_u64 r) (\<lambda>(t, r).
          Inr \<lparr>ctx_unconfirmed = txo, ctx_ConfirmedByBlockHash = confirmedBy,
               ctx_ConfirmTime = time_Unix t\<rparr>)))))"

definition stored_confirmed :: "abec \<Rightarrow> ConfirmedTXO \<Rightarrow> ConfirmedTXO" where
  "stored_confirmed A t = t\<lparr>
     ctx_unconfirmed := stored_unconfirmed A (ctx_unconfirmed t),
     ctx_ConfirmTime := time_Unix (unix (ctx_ConfirmTime t))\<rparr>"

lemma ConfirmedTXOSerializedSize_eq [simp]: "ConfirmedTXOSerializedSize = 235"
  by (simp add: ConfirmedTXOSerializedSize_def)

lemma length_ConfirmedTXO_Serialize [simp]: "length (ConfirmedTXO_Serialize A t) = 235"
  by (simp add: ConfirmedTXO_Serialize_def)

lemma ConfirmedTXO_Deserialize_prefix:
  "ConfirmedTXO_Deserialize (txo_TxOutput (utx_txo (ctx_unconfirmed t)))
     (Some (ConfirmedTXO_Serialize A t @ rest)) = Inr (stored_confirmed A t)"
  by (simp add: ConfirmedTXO_Deserialize_def ConfirmedTXO_Serialize_def stored_confirmed_def
      UnconfirmedTXO_Deserialize_prefix codec_simps)

lemma ConfirmedTXO_Deserialize_Serialize [codec_simps]:
  "ConfirmedTXO_Deserialize (txo_TxOutput (utx_txo (ctx_unconfirmed t)))
     (Some (ConfirmedTXO_Serialize A t)) = Inr (stored_confirmed A t)"
  using ConfirmedTXO_Deserialize_prefix [of t A "[]"] by simp

lemma stored_confirmed_simps [simp]:
  "ctx_unconfirmed (stored_confirmed A t) = stored_unconfirmed A (ctx_unconfirmed t)"
  by (simp add: stored_confirmed_def)

lemma ConfirmedTXO_Deserialize_ok:
  "235 \<le> length v \<Longrightarrow> \<exists>t. ConfirmedTXO_Deserialize op (Some v) = Inr t
     \<and> txo_TxOutput (utx_txo (ctx_unconfirmed t)) = op"
  using UnconfirmedTXO_Deserialize_ok [of v op]
  by (auto simp: ConfirmedTXO_Deserialize_def get_u64_def get_hash_def get_be_def get_bytes_def)

end
