(* ===== verification/CoinCodec.thy ===== *)
theory CoinCodec
  imports Txo
begin

text \<open>
  The token coins bound to an output (\<open>AUTCoin\<close>, \<open>CTAUTCoin\<close> of \<open>wtxmgr/tx.go\<close>) and their
  byte layouts. A \<open>CTAUTCoin\<close> reserves eight bytes for a four-byte height, so its image ends
  in four zero bytes its reader never looks at, and of its token type only the low bit comes
  back.
\<close>

section \<open>Length-prefixed fields\<close>

definition put_lp32 :: "bytes \<Rightarrow> bytes" where
  "put_lp32 x = be_bytes 4 (of_nat (length x) :: u32) @ x"

definition get_lp32 :: "bytes \<Rightarrow> (bytes \<times> bytes) result" where
  "get_lp32 v = rbind (get_u32 v) (\<lambda>(n, r). get_bytes (unat n) r)"

definition put_lp64 :: "bytes \<Rightarrow> bytes" where
  "put_lp64 x = be_bytes 8 (of_nat (length x) :: u64) @ x"

definition get_lp64 :: "bytes \<Rightarrow> (bytes \<times> bytes) result" where
  "get_lp64 v = rbind (get_u64 v) (\<lambda>(n, r). get_bytes (unat n) r)"

lemma get_lp32_put [codec_simps]:
  "length x < 2 ^ 32 \<Longrightarrow> get_lp32 (put_lp32 x @ r) = Inr (x, r)"
  by (simp add: get_lp32_def put_lp32_def codec_simps unat_of_nat)

lemma get_lp64_put [codec_simps]:
  "length x < 2 ^ 64 \<Longrightarrow> get_lp64 (put_lp64 x @ r) = Inr (x, r)"
  by (simp add: get_lp64_def put_lp64_def codec_simps unat_of_nat)

lemma length_put_lp [simp]:
  "length (put_lp32 x) = 4 + length x" "length (put_lp64 x) = 8 + length x"
  by (simp_all add: put_lp32_def put_lp64_def)

interpretation lp32: byte_codec put_lp32 get_lp32 "\<lambda>x. length x < 2 ^ 32"
  by unfold_locales (simp add: get_lp32_put)

interpretation lp64: byte_codec put_lp64 get_lp64 "\<lambda>x. length x < 2 ^ 64"
  by unfold_locales (simp add: get_lp64_put)

definition byte_of_bool :: "bool \<Rightarrow> u8" where
  "byte_of_bool b = (if b then 1 else 0)"

lemma byte_of_bool_eq_0 [simp]: "byte_of_bool b = 0 \<longleftrightarrow> \<not> b"
  by (simp add: byte_of_bool_def)

section \<open>AUTCoin\<close>

record AUTCoin =
  aut_TxOutput :: OutPointAbe
  aut_AUTIdentifier :: bytes
  aut_IsAUTRootCoin :: bool
  aut_AUTCoinValue :: u64
  aut_AddrKey :: bytes
  aut_Spent :: bool

definition NewAUTCoin :: "OutPointAbe \<Rightarrow> bytes \<Rightarrow> bool \<Rightarrow> u64 \<Rightarrow> bytes \<Rightarrow> AUTCoin" where
  "NewAUTCoin outpoint autIdentifier isAUTRootCoin autCoinValue addrKey =
     \<lparr>aut_TxOutput = outpoint, aut_AUTIdentifier = autIdentifier,
      aut_IsAUTRootCoin = isAUTRootCoin, aut_AUTCoinValue = autCoinValue,
      aut_AddrKey = addrKey, aut_Spent = False\<rparr>"

definition AUTCoin_Serialized :: "AUTCoin \<Rightarrow> bytes" where
  "AUTCoin_Serialized coin =
     be_bytes 32 (TxHash (aut_TxOutput coin)) @ [OutIndex (aut_TxOutput coin)] @
     put_lp32 (aut_AUTIdentifier coin) @
     [byte_of_bool (aut_IsAUTRootCoin coin)] @
     be_bytes 8 (aut_AUTCoinValue coin) @
     put_lp32 (aut_AddrKey coin) @
     [byte_of_bool (aut_Spent coin)]"

definition AUTCoin_Deserialize :: "OutPointAbe \<Rightarrow> bytes option \<Rightarrow> AUTCoin result" where
  "AUTCoin_Deserialize op v' =
     (case v' of None \<Rightarrow> Inl (GoError ''empty byte slice'')
      | Some v \<Rightarrow>
        if length v < 55
        then Inl (GoError ''wrong size of serialized unspent transaction output'')
        else
        rbind (get_hash v) (\<lambda>(txHash, r).
        rbind (rguard (TxHash op = txHash) (GoError ''unmatched aut coin with outpoint'')) (\<lambda>_.
        rbind (get_u8 r) (\<lambda>(index, r).
        rbind (rguard (index = OutIndex op) (GoError ''unmatched aut coin with outpoint'')) (\<lambda>_.
        rbind (get_lp32 r) (\<lambda>(identifier, r).
        rbind (get_u8 r) (\<lambda>(isRoot, r).
        rbind (get_u64 r) (\<lambda>(value, r).
        rbind (get_lp32 r) (\<lambda>(addrKey, r).
        rbind (get_u8 r) (\<lambda>(spent, r).
          Inr \<lparr>aut_TxOutput = op, aut_AUTIdentifier = identifier,
               aut_IsAUTRootCoin = (isRoot \<noteq> 0), aut_AUTCoinValue = value,
               aut_AddrKey = addrKey, aut_Spent = (spent \<noteq> 0)\<rparr>))))))))))"

definition storable_AUTCoin :: "AUTCoin \<Rightarrow> bool" where
  "storable_AUTCoin c \<longleftrightarrow>
     length (aut_AUTIdentifier c) < 2 ^ 32 \<and> length (aut_AddrKey c) < 2 ^ 32 \<and>
     4 \<le> length (aut_AUTIdentifier c) + length (aut_AddrKey c)"

lemma length_AUTCoin_Serialized:
  "length (AUTCoin_Serialized c) = 51 + length (aut_AUTIdentifier c) + length (aut_AddrKey c)"
  by (simp add: AUTCoin_Serialized_def)

lemma AUTCoin_Deserialize_Serialized:
  assumes "storable_AUTCoin c"
  shows "AUTCoin_Deserialize (aut_TxOutput c) (Some (AUTCoin_Serialized c)) = Inr c"
proof -
  have "\<not> length (AUTCoin_Serialized c) < 55"
    using assms by (simp add: length_AUTCoin_Serialized storable_AUTCoin_def)
  with assms show ?thesis
    by (simp add: AUTCoin_Deserialize_def)
      (simp add: AUTCoin_Serialized_def storable_AUTCoin_def codec_simps)
qed

section \<open>CTAUTCoin\<close>

record CTAUTCoin =
  ct_TxOutput :: OutPointAbe
  ct_Height :: i32
  ct_AUTIdentifier :: hash
  ct_IsAUTRootCoin :: bool
  ct_AutTxoType :: u8
  ct_CoinValueScript :: bytes
  ct_Value :: u64
  ct_AddrKey :: bytes
  ct_PublicRand :: bytes
  ct_Spent :: bool

definition NewCTAUTCoin ::
  "OutPointAbe \<Rightarrow> i32 \<Rightarrow> hash \<Rightarrow> bool \<Rightarrow> u8 \<Rightarrow> bytes \<Rightarrow> u64 \<Rightarrow> bytes \<Rightarrow> bytes \<Rightarrow> CTAUTCoin" where
  "NewCTAUTCoin outpoint height autIdentifier isAUTRootCoin autTxoType valueScript value
     addrKey publicRand =
     \<lparr>ct_TxOutput = outpoint, ct_Height = height, ct_AUTIdentifier = autIdentifier,
      ct_IsAUTRootCoin = isAUTRootCoin, ct_AutTxoType = autTxoType,
      ct_CoinValueScript = valueScript, ct_Value = value, ct_AddrKey = addrKey,
      ct_PublicRand = publicRand, ct_Spent = False\<rparr>"

definition ct_flag_byte :: "bool \<Rightarrow> u8 \<Rightarrow> u8" where
  "ct_flag_byte isRoot t = byte_of_bool isRoot OR push_bit 1 t"

definition ct_flag_type :: "u8 \<Rightarrow> u8" where
  "ct_flag_type t = drop_bit 1 (t AND 2)"

definition CTAUTCoin_Serialized :: "CTAUTCoin \<Rightarrow> bytes" where
  "CTAUTCoin_Serialized coin =
     be_bytes 32 (TxHash (ct_TxOutput coin)) @ [OutIndex (ct_TxOutput coin)] @
     be_bytes 4 (ct_Height coin) @
     be_bytes 4 (32 :: u32) @ be_bytes 32 (ct_AUTIdentifier coin) @
     [ct_flag_byte (ct_IsAUTRootCoin coin) (ct_AutTxoType coin)] @
     put_lp64 (ct_CoinValueScript coin) @
     be_bytes 8 (ct_Value coin) @
     put_lp32 (ct_AddrKey coin) @
     put_lp32 (ct_PublicRand coin) @
     [byte_of_bool (ct_Spent coin)] @
     replicate 4 0"

definition NewHash :: "bytes \<Rightarrow> hash result" where
  "NewHash b = (if length b = 32 then Inr (be_word b) else Inl (GoError ''invalid hash length''))"

definition CTAUTCoin_Deserialize :: "OutPointAbe \<Rightarrow> bytes option \<Rightarrow> CTAUTCoin result" where
  "CTAUTCoin_Deserialize op v' =
     (case v' of None \<Rightarrow> Inl (GoError ''empty byte slice'')
      | Some v \<Rightarrow>
        if length v < 55
        then Inl (GoError ''wrong size of serialized ct-aut token'')
        else
        rbind (get_hash v) (\<lambda>(txHash, r).
        rbind (rguard (TxHash op = txHash) (GoError ''unmatched aut coin with outpoint'')) (\<lambda>_.
        rbind (get_u8 r) (\<lambda>(index, r).
        rbind (rguard (index = OutIndex op) (GoError ''unmatched aut coin with outpoint'')) (\<lambda>_.
        rbind (get_u32 r) (\<lambda>(height, r).
        rbind (get_lp32 r) (\<lambda>(idbytes, r).
        rbind (NewHash idbytes) (\<lambda>identifier.
        rbind (get_u8 r) (\<lambda>(t, r).
        rbind (get_lp64 r) (\<lambda>(script, r).
        rbind (get_u64 r) (\<lambda>(value, r).
        rbind (get_lp32 r) (\<lambda>(addrKey, r).
        rbind (get_lp32 r) (\<lambda>(publicRand, r).
        rbind (get_u8 r) (\<lambda>(spent, r).
          Inr \<lparr>ct_TxOutput = op, ct_Height = height, ct_AUTIdentifier = identifier,
               ct_IsAUTRootCoin = (t AND 1 \<noteq> 0), ct_AutTxoType = ct_flag_type t,
               ct_CoinValueScript = script, ct_Value = value, ct_AddrKey = addrKey,
               ct_PublicRand = publicRand, ct_Spent = (spent \<noteq> 0)\<rparr>))))))))))))))"

definition storable_CTAUTCoin :: "CTAUTCoin \<Rightarrow> bool" where
  "storable_CTAUTCoin c \<longleftrightarrow>
     length (ct_CoinValueScript c) < 2 ^ 64 \<and> length (ct_AddrKey c) < 2 ^ 32 \<and>
     length (ct_PublicRand c) < 2 ^ 32"

definition stored_CTAUTCoin :: "CTAUTCoin \<Rightarrow> CTAUTCoin" where
  "stored_CTAUTCoin c = c\<lparr>ct_AutTxoType := ct_AutTxoType c AND 1\<rparr>"

lemma bit_ct_flag_byte:
  "bit (ct_flag_byte b t) n \<longleftrightarrow> n < 8 \<and> (if n = 0 then b else bit t (n - 1))"
  by (cases b; cases n) (simp_all only: ct_flag_byte_def byte_of_bool_def bit_or_iff bit_push_bit_iff
      bit_1_iff bit_0_eq if_True if_False possible_bit_word, simp_all)

lemma ct_flag_byte_root [simp]: "ct_flag_byte b t AND 1 = 0 \<longleftrightarrow> \<not> b"
proof -
  have "ct_flag_byte b t AND 1 = (if b then 1 else 0)"
    by (rule bit_word_eqI) (auto simp only: bit_and_iff bit_1_iff bit_ct_flag_byte bit_0_eq
        bot_apply bot_bool_def bool_simps if_True if_False split: if_splits)
  then show ?thesis by simp
qed

lemma ct_flag_byte_type [simp]: "ct_flag_type (ct_flag_byte b t) = t AND 1"
proof (rule bit_word_eqI)
  fix n assume "n < LENGTH(8)"
  have two: "bit (2 :: u8) m \<longleftrightarrow> m = 1" for m
    using bit_exp_iff [where 'a = u8, of 1 m] by auto
  have "bit (ct_flag_type (ct_flag_byte b t)) n \<longleftrightarrow> n = 0 \<and> bit t 0"
    by (simp only: ct_flag_type_def bit_drop_bit_eq comp_def bit_and_iff bit_ct_flag_byte two) auto
  also have "\<dots> \<longleftrightarrow> bit (t AND 1) n"
    by (simp only: bit_and_iff bit_1_iff) auto
  finally show "bit (ct_flag_type (ct_flag_byte b t)) n = bit (t AND 1) n" .
qed

lemma NewHash_be_bytes [codec_simps]: "NewHash (be_bytes 32 h) = Inr h"
  by (simp add: NewHash_def)

lemma length_CTAUTCoin_Serialized:
  "length (CTAUTCoin_Serialized c) = 103 + length (ct_CoinValueScript c) + length (ct_AddrKey c)
     + length (ct_PublicRand c)"
  by (simp add: CTAUTCoin_Serialized_def)

lemma get_lp32_hash [codec_simps]:
  "get_lp32 (be_bytes 4 (32 :: u32) @ be_bytes 32 (h :: hash) @ r) = Inr (be_bytes 32 h, r)"
  by (simp add: get_lp32_def codec_simps)

lemma CTAUTCoin_Deserialize_Serialized:
  assumes "storable_CTAUTCoin c"
  shows "CTAUTCoin_Deserialize (ct_TxOutput c) (Some (CTAUTCoin_Serialized c))
    = Inr (stored_CTAUTCoin c)"
proof -
  have "\<not> length (CTAUTCoin_Serialized c) < 55"
    by (simp add: length_CTAUTCoin_Serialized)
  with assms show ?thesis
    by (simp add: CTAUTCoin_Deserialize_def)
      (simp add: CTAUTCoin_Serialized_def storable_CTAUTCoin_def stored_CTAUTCoin_def codec_simps)
qed

lemma storable_stored_CTAUTCoin [simp]:
  "storable_CTAUTCoin (stored_CTAUTCoin c) = storable_CTAUTCoin c"
  by (simp add: storable_CTAUTCoin_def stored_CTAUTCoin_def)

text \<open>The check a coin is read under: the outpoint written in it must be the key it is under.\<close>

lemma CTAUTCoin_Deserialize_other:
  assumes "op \<noteq> ct_TxOutput c"
  shows "CTAUTCoin_Deserialize op (Some (CTAUTCoin_Serialized c))
    = Inl (GoError ''unmatched aut coin with outpoint'')"
proof -
  have "\<not> length (CTAUTCoin_Serialized c) < 55"
    by (simp add: length_CTAUTCoin_Serialized)
  moreover have "TxHash op \<noteq> TxHash (ct_TxOutput c) \<or> OutIndex op \<noteq> OutIndex (ct_TxOutput c)"
    using assms by (metis OutPointAbe.expand)
  ultimately show ?thesis
    by (simp add: CTAUTCoin_Deserialize_def)
      (auto simp: CTAUTCoin_Serialized_def codec_simps rguard_def)
qed

end
