(* ===== verification/Ring.thy ===== *)
theory Ring
  imports CoinCodec "HOL-Library.AList"
begin

text \<open>
  Rings (\<open>Ring\<close>: what the chain says of a ring, \<open>UTXORing\<close>: what the wallet knows of it) of
  \<open>wtxmgr/tx.go\<close>: their byte layouts, and \<open>AddGotSerialNumber\<close>, the state machine that
  decides when an output is spent: either its own serial number has appeared, or as many
  serial numbers have appeared as the ring has members.
\<close>

section \<open>Ring\<close>

definition ringFlagCoinbase :: u8 where "ringFlagCoinbase = push_bit 0 1"
definition ringFlagPseudonymous :: u8 where "ringFlagPseudonymous = push_bit 2 1"

record Ring =
  rg_Version :: u32
  rg_BlockHashes :: "hash list"
  rg_TxHashes :: "hash list"
  rg_Index :: "u8 list"
  rg_PackedFlag :: u8
  rg_TxoScripts :: "bytes list"
  rg_BlockHeight :: i32

text \<open>The header of one ring member: transaction hash, output index, script size.\<close>

definition member_header :: "hash \<times> u8 \<times> u32 \<Rightarrow> bytes" where
  "member_header = (\<lambda>(h, i, sz). be_bytes 32 h @ [i] @ be_bytes 4 sz)"

definition get_member_header :: "bytes \<Rightarrow> ((hash \<times> u8 \<times> u32) \<times> bytes) result" where
  "get_member_header v =
     rbind (get_hash v) (\<lambda>(h, r).
     rbind (get_u8 r) (\<lambda>(i, r).
     rbind (get_u32 r) (\<lambda>(sz, r). Inr ((h, i, sz), r))))"

interpretation member_header: byte_codec member_header get_member_header "\<lambda>_. True"
  by unfold_locales (auto simp: member_header_def get_member_header_def codec_simps)

definition ring_headers :: "Ring \<Rightarrow> (hash \<times> u8 \<times> u32) list" where
  "ring_headers r = zip (rg_TxHashes r)
     (zip (rg_Index r) (map (\<lambda>s. of_nat (length s)) (rg_TxoScripts r)))"

definition Ring_Serialize :: "Ring \<Rightarrow> bytes result" where
  "Ring_Serialize r =
     (let txLen = length (rg_TxHashes r)
      in if length (rg_TxoScripts r) < txLen \<or> length (rg_Index r) < txLen
         then Inl out_of_range
         else Inr
           (be_bytes 4 (rg_Version r) @
            concat (map (be_bytes 32) (rg_BlockHashes r)) @
            be_bytes 2 (of_nat txLen :: u16) @
            concat (map member_header (ring_headers r)) @
            [rg_PackedFlag r] @
            concat (take txLen (rg_TxoScripts r)) @
            be_bytes 4 (rg_BlockHeight r)))"

fun read_scripts :: "u32 list \<Rightarrow> bytes \<Rightarrow> (bytes list \<times> bytes) result" where
  "read_scripts [] v = Inr ([], v)"
| "read_scripts (n # ns) v =
     rbind (get_bytes (unat n) v) (\<lambda>(s, r).
     rbind (read_scripts ns r) (\<lambda>(ss, r). Inr (s # ss, r)))"

definition Ring_Deserialize :: "abec \<Rightarrow> bytes \<Rightarrow> Ring result" where
  "Ring_Deserialize A b =
     (if length b < 32 * BlockNumPerRingGroup A + (32 + 2 + 8)
      then Inl (GoError ''wrong length of input byte slice'')
      else
        rbind (get_u32 b) (\<lambda>(version, r).
        rbind (read_n (BlockNumPerRingGroup A) get_hash r) (\<lambda>(blockHashes, r).
        rbind (get_u16 r) (\<lambda>(txLen, r).
        rbind (read_n (unat txLen) get_member_header r) (\<lambda>(heads, r).
        rbind (get_u8 r) (\<lambda>(flag, r).
        rbind (read_scripts (map (\<lambda>(_, _, sz). sz) heads) r) (\<lambda>(scripts, r).
        rbind (get_u32 r) (\<lambda>(height, r).
          Inr \<lparr>rg_Version = version, rg_BlockHashes = blockHashes,
               rg_TxHashes = map (\<lambda>(h, _, _). h) heads,
               rg_Index = map (\<lambda>(_, i, _). i) heads,
               rg_PackedFlag = flag, rg_TxoScripts = scripts,
               rg_BlockHeight = height\<rparr>))))))))"

definition Ring_Hash :: "abec \<Rightarrow> Ring \<Rightarrow> hash result" where
  "Ring_Hash A r =
     (if length (rg_Index r) < length (rg_TxHashes r) then Inl out_of_range
      else Inr (DoubleHashH A
        (be_bytes 4 (rg_Version r) @ [of_nat (length (rg_BlockHashes r))] @
         concat (map (be_bytes 32) (rg_BlockHashes r)) @
         [of_nat (length (rg_TxHashes r))] @
         concat (map (\<lambda>(h, i). be_bytes 32 h @ [i]) (zip (rg_TxHashes r) (rg_Index r))))))"

definition storable_ring :: "abec \<Rightarrow> Ring \<Rightarrow> bool" where
  "storable_ring A r \<longleftrightarrow>
     length (rg_BlockHashes r) = BlockNumPerRingGroup A \<and>
     0 < length (rg_TxHashes r) \<and> length (rg_TxHashes r) < 2 ^ 16 \<and>
     length (rg_Index r) = length (rg_TxHashes r) \<and>
     length (rg_TxoScripts r) = length (rg_TxHashes r) \<and>
     list_all (\<lambda>s. length s < 2 ^ 32) (rg_TxoScripts r)"

lemma read_scripts_concat:
  "list_all (\<lambda>s. length s < 2 ^ 32) ss \<Longrightarrow>
   read_scripts (map (\<lambda>s. of_nat (length s)) ss) (concat ss @ r) = Inr (ss, r)"
  by (induction ss) (simp_all add: unat_of_nat codec_simps)

lemma ring_headers_sel:
  assumes "length (rg_Index r) = length (rg_TxHashes r)"
    and "length (rg_TxoScripts r) = length (rg_TxHashes r)"
  shows "map (\<lambda>(h, _, _). h) (ring_headers r) = rg_TxHashes r"
    and "map (\<lambda>(_, i, _). i) (ring_headers r) = rg_Index r"
    and "map (\<lambda>(_, _, sz). sz) (ring_headers r)
      = map (\<lambda>s. of_nat (length s)) (rg_TxoScripts r)"
    and "length (ring_headers r) = length (rg_TxHashes r)"
  using assms by (auto simp: ring_headers_def intro!: nth_equalityI)

lemma length_member_headers:
  "length (concat (map member_header hs)) = 37 * length hs"
  by (induction hs) (auto simp: member_header_def)

lemma length_concat_hashes:
  "length (concat (map (be_bytes 32) (hs :: hash list))) = 32 * length hs"
  by (induction hs) auto

lemma Ring_Deserialize_Serialize:
  assumes "storable_ring A r"
  obtains v where "Ring_Serialize r = Inr v" "Ring_Deserialize A v = Inr r"
proof -
  let ?v = "be_bytes 4 (rg_Version r) @ concat (map (be_bytes 32) (rg_BlockHashes r)) @
    be_bytes 2 (of_nat (length (rg_TxHashes r)) :: u16) @
    concat (map member_header (ring_headers r)) @ [rg_PackedFlag r] @
    concat (rg_TxoScripts r) @ be_bytes 4 (rg_BlockHeight r)"
  have s: "Ring_Serialize r = Inr ?v"
    using assms by (simp add: Ring_Serialize_def storable_ring_def)
  have "1 \<le> length (rg_TxHashes r)"
    using assms by (cases "rg_TxHashes r") (auto simp: storable_ring_def)
  moreover have "length ?v = 11 + 32 * BlockNumPerRingGroup A + 37 * length (rg_TxHashes r)
      + length (concat (rg_TxoScripts r))"
    using assms
    by (simp add: storable_ring_def length_concat_hashes length_member_headers ring_headers_sel)
  ultimately have len: "\<not> length ?v < 32 * BlockNumPerRingGroup A + (32 + 2 + 8)"
    by linarith
  have "Ring_Deserialize A ?v = Inr r"
    unfolding Ring_Deserialize_def if_not_P [OF len]
    using assms
    by (simp add: storable_ring_def codec_simps hash_codec.read_n_concat
        member_header.read_n_concat list_all_iff ring_headers_sel
        read_scripts_concat unat_of_nat)
  with s show thesis by (rule that)
qed

section \<open>UTXORing\<close>

text \<open>
  \<open>OriginSerialNumberes\<close> is a Go map, nil or not; a map is the list of its entries in the
  order an iteration visits them, an order the language leaves open.
\<close>

record UTXORing =
  ur_Version :: u32
  ur_AllSpent :: bool
  ur_Refreshed :: bool
  ur_RingHash :: hash
  ur_TxHashes :: "hash list"
  ur_OutputIndexes :: "u8 list"
  ur_OriginSerialNumberes :: "(u8 \<times> bytes) list option"
  ur_IsMy :: "bool list"
  ur_Spent :: "bool list"
  ur_GotSerialNumberes :: "bytes list"
  ur_PackedFlag :: u8

definition origins :: "UTXORing \<Rightarrow> (u8 \<times> bytes) list" where
  "origins u = (case ur_OriginSerialNumberes u of None \<Rightarrow> [] | Some m \<Rightarrow> m)"

definition NewUTXORingFromRing :: "Ring \<Rightarrow> hash \<Rightarrow> UTXORing" where
  "NewUTXORingFromRing r ringHash =
     \<lparr>ur_Version = rg_Version r, ur_AllSpent = False, ur_Refreshed = False,
      ur_RingHash = ringHash, ur_TxHashes = rg_TxHashes r, ur_OutputIndexes = rg_Index r,
      ur_OriginSerialNumberes = Some [],
      ur_IsMy = replicate (length (rg_TxHashes r)) False,
      ur_Spent = replicate (length (rg_TxHashes r)) False,
      ur_GotSerialNumberes = [], ur_PackedFlag = rg_PackedFlag r\<rparr>"

text \<open>The two flags of each member in sixteen bits: \<open>IsMy\<close> low, \<open>Spent\<close> eight above.\<close>

definition ring_bits :: "nat \<Rightarrow> bool list \<Rightarrow> bool list \<Rightarrow> u16" where
  "ring_bits n my spent =
     fold (\<lambda>i temp.
       let temp = (if my ! i then temp OR push_bit i 1 else temp)
       in if spent ! i then temp OR push_bit (i + 8) 1 else temp) [0..<n] 0"

definition ring_my_bit :: "u16 \<Rightarrow> nat \<Rightarrow> bool" where
  "ring_my_bit temp i \<longleftrightarrow> temp AND push_bit i 1 \<noteq> 0"

definition ring_spent_bit :: "u16 \<Rightarrow> nat \<Rightarrow> bool" where
  "ring_spent_bit temp i \<longleftrightarrow> temp AND push_bit (i + 8) 1 \<noteq> 0"

definition UTXORing_Serialize :: "abec \<Rightarrow> UTXORing \<Rightarrow> bytes result" where
  "UTXORing_Serialize A u =
     (let txLen = length (ur_TxHashes u);
          snSize = GetSerialNumberSerializeSize A (ur_Version u)
      in if length (ur_OutputIndexes u) < txLen \<or> length (ur_IsMy u) < txLen
            \<or> length (ur_Spent u) < txLen
         then Inl out_of_range
         else Inr
           (be_bytes 4 (ur_Version u) @ [ur_PackedFlag u] @ be_bytes 32 (ur_RingHash u) @
            [of_nat txLen] @
            concat (map (\<lambda>(h, i). be_bytes 32 h @ [i])
              (zip (ur_TxHashes u) (ur_OutputIndexes u))) @
            [of_nat (length (origins u))] @
            concat (map (\<lambda>(index, sn). index # copy_fixed snSize sn) (origins u)) @
            be_bytes 2 (ring_bits txLen (ur_IsMy u) (ur_Spent u)) @
            [of_nat (length (ur_GotSerialNumberes u))] @
            concat (map (copy_fixed snSize) (ur_GotSerialNumberes u))))"

definition get_member :: "bytes \<Rightarrow> ((hash \<times> u8) \<times> bytes) result" where
  "get_member v = rbind (get_hash v) (\<lambda>(h, r). rbind (get_u8 r) (\<lambda>(i, r). Inr ((h, i), r)))"

definition get_origin :: "nat \<Rightarrow> bytes \<Rightarrow> ((u8 \<times> bytes) \<times> bytes) result" where
  "get_origin snSize v =
     rbind (get_u8 v) (\<lambda>(i, r). rbind (get_bytes snSize r) (\<lambda>(sn, r). Inr ((i, sn), r)))"

definition map_of_entries :: "('k \<times> 'v) list \<Rightarrow> ('k \<times> 'v) list" where
  "map_of_entries es = fold (\<lambda>(k, v). AList.update k v) es []"

definition UTXORing_Deserialize :: "abec \<Rightarrow> bytes \<Rightarrow> UTXORing result" where
  "UTXORing_Deserialize A b =
     (if length b < 32 + 1
      then Inl (GoError ''the length of input byte slice less than minimum size'')
      else
        rbind (get_u32 b) (\<lambda>(version, r).
        rbind (get_u8 r) (\<lambda>(flag, r).
        rbind (get_hash r) (\<lambda>(ringHash, r).
        rbind (get_u8 r) (\<lambda>(txLen, r).
        rbind (read_n (unat txLen) get_member r) (\<lambda>(members, r).
        rbind (get_u8 r) (\<lambda>(originSnSize, r).
        rbind (read_n (unat originSnSize) (get_origin (GetSerialNumberSerializeSize A version)) r)
          (\<lambda>(origin, r).
        rbind (get_u16 r) (\<lambda>(temp, r).
        rbind (get_u8 r) (\<lambda>(gotSnSize, r).
        rbind (read_n (unat gotSnSize) (get_bytes (GetSerialNumberSerializeSize A version)) r)
          (\<lambda>(got, r).
          Inr \<lparr>ur_Version = version, ur_AllSpent = False, ur_Refreshed = False,
               ur_RingHash = ringHash, ur_TxHashes = map fst members,
               ur_OutputIndexes = map snd members,
               ur_OriginSerialNumberes =
                 (if originSnSize = 0 then None else Some (map_of_entries origin)),
               ur_IsMy = map (ring_my_bit temp) [0..<unat txLen],
               ur_Spent = map (ring_spent_bit temp) [0..<unat txLen],
               ur_GotSerialNumberes = got, ur_PackedFlag = flag\<rparr>)))))))))))"

definition UTXORing_Copy :: "UTXORing \<Rightarrow> UTXORing" where
  "UTXORing_Copy u =
     \<lparr>ur_Version = ur_Version u, ur_AllSpent = ur_AllSpent u, ur_Refreshed = ur_Refreshed u,
      ur_RingHash = ur_RingHash u, ur_TxHashes = ur_TxHashes u,
      ur_OutputIndexes = ur_OutputIndexes u,
      ur_OriginSerialNumberes = Some (origins u),
      ur_IsMy = ur_IsMy u, ur_Spent = ur_Spent u,
      ur_GotSerialNumberes = ur_GotSerialNumberes u, ur_PackedFlag = ur_PackedFlag u\<rparr>"


lemma bit_ring_bits:
  "bit (ring_bits n my sp) j \<longleftrightarrow>
     j < 16 \<and> ((j < n \<and> my ! j) \<or> (8 \<le> j \<and> j - 8 < n \<and> sp ! (j - 8)))"
proof (induction n)
  case (Suc n)
  have "ring_bits (Suc n) my sp =
      ring_bits n my sp OR (if my ! n then push_bit n 1 else 0)
        OR (if sp ! n then push_bit (n + 8) 1 else 0)"
    by (simp add: ring_bits_def Let_def or.assoc)
  then have "bit (ring_bits (Suc n) my sp) j \<longleftrightarrow>
      bit (ring_bits n my sp) j \<or> (my ! n \<and> n < 16 \<and> j = n) \<or> (sp ! n \<and> n + 8 < 16 \<and> j = n + 8)"
    by (auto simp: bit_simps)
  then show ?case by (auto simp: Suc less_Suc_eq)
qed (simp add: ring_bits_def)

lemma ring_my_bit_iff: "ring_my_bit t i \<longleftrightarrow> bit t i"
  by (simp only: ring_my_bit_def bit_iff_and_push_bit_not_eq_0)

lemma ring_spent_bit_iff: "ring_spent_bit t i \<longleftrightarrow> bit t (i + 8)"
  by (simp only: ring_spent_bit_def bit_iff_and_push_bit_not_eq_0)

lemma ring_bits_my:
  "n \<le> 8 \<Longrightarrow> length my = n \<Longrightarrow> map (ring_my_bit (ring_bits n my sp)) [0..<n] = my"
  by (auto simp: ring_my_bit_iff bit_ring_bits intro!: nth_equalityI)

lemma ring_bits_spent:
  "n \<le> 8 \<Longrightarrow> length sp = n \<Longrightarrow> map (ring_spent_bit (ring_bits n my sp)) [0..<n] = sp"
  by (auto simp: ring_spent_bit_iff bit_ring_bits intro!: nth_equalityI)

lemma map_of_entries_distinct:
  assumes "distinct (map fst es)"
  shows "map_of_entries es = es"
proof -
  have "fold (\<lambda>(k, v). AList.update k v) es m = m @ es"
    if "distinct (map fst (m @ es))" for m :: "('a \<times> 'b) list"
    using that
  proof (induction es arbitrary: m)
    case (Cons e es)
    have "AList.update k v m = m @ [(k, v)]" if "k \<notin> fst ` set m" for k v
      using that by (induction m) auto
    then have "AList.update (fst e) (snd e) m = m @ [e]" using Cons.prems by simp
    with Cons show ?case by (simp add: case_prod_beta)
  qed simp
  from this [of "[]"] assms show ?thesis by (simp add: map_of_entries_def)
qed

interpretation member: byte_codec "\<lambda>(h :: hash, i). be_bytes 32 h @ [i]" get_member "\<lambda>_. True"
  by unfold_locales (auto simp: get_member_def codec_simps)

interpretation origin: byte_codec "\<lambda>(i, sn). i # copy_fixed n sn" "get_origin n"
    "\<lambda>(i, sn). length sn = n" for n
  by unfold_locales (auto simp: get_origin_def codec_simps)

interpretation serial: byte_codec "copy_fixed n" "get_bytes n" "\<lambda>sn. length sn = n" for n
  by unfold_locales (auto simp: codec_simps)

definition storable_utxoring :: "abec \<Rightarrow> UTXORing \<Rightarrow> bool" where
  "storable_utxoring A u \<longleftrightarrow>
     (let n = length (ur_TxHashes u); snSize = GetSerialNumberSerializeSize A (ur_Version u)
      in n \<le> 8 \<and> length (ur_OutputIndexes u) = n \<and> length (ur_IsMy u) = n
         \<and> length (ur_Spent u) = n
         \<and> length (origins u) < 256 \<and> distinct (map fst (origins u))
         \<and> list_all (\<lambda>(_, sn). length sn = snSize) (origins u)
         \<and> length (ur_GotSerialNumberes u) < 256
         \<and> list_all (\<lambda>sn. length sn = snSize) (ur_GotSerialNumberes u))"

definition stored_utxoring :: "UTXORing \<Rightarrow> UTXORing" where
  "stored_utxoring u = u\<lparr>ur_AllSpent := False, ur_Refreshed := False,
     ur_OriginSerialNumberes := (if origins u = [] then None else Some (origins u))\<rparr>"

lemma of_nat_u8_eq_iff: "a < 256 \<Longrightarrow> b < 256 \<Longrightarrow> (of_nat a :: u8) = of_nat b \<longleftrightarrow> a = b"
  by (simp add: word_unat_eq_iff unat_of_nat)

lemma of_nat_eq_0_u8: "n < 256 \<Longrightarrow> (of_nat n :: u8) = 0 \<longleftrightarrow> n = 0"
  by (simp add: word_unat_eq_iff unat_of_nat)

lemma UTXORing_Deserialize_Serialize:
  assumes "storable_utxoring A u"
  obtains v where "UTXORing_Serialize A u = Inr v"
    "UTXORing_Deserialize A v = Inr (stored_utxoring u)"
proof -
  let ?n = "length (ur_TxHashes u)" and ?sz = "GetSerialNumberSerializeSize A (ur_Version u)"
  let ?members = "zip (ur_TxHashes u) (ur_OutputIndexes u)"
  let ?v = "be_bytes 4 (ur_Version u) @ [ur_PackedFlag u] @ be_bytes 32 (ur_RingHash u) @
    [of_nat ?n] @ concat (map (\<lambda>(h, i). be_bytes 32 h @ [i]) ?members) @
    [of_nat (length (origins u))] @
    concat (map (\<lambda>(index, sn). index # copy_fixed ?sz sn) (origins u)) @
    be_bytes 2 (ring_bits ?n (ur_IsMy u) (ur_Spent u)) @
    [of_nat (length (ur_GotSerialNumberes u))] @
    concat (map (copy_fixed ?sz) (ur_GotSerialNumberes u))"
  note st = assms [unfolded storable_utxoring_def Let_def]
  have v: "UTXORing_Serialize A u = Inr ?v"
    using st by (simp add: UTXORing_Serialize_def Let_def)
  have len: "\<not> length ?v < 32 + 1" by simp
  have u8: "unat (of_nat m :: u8) = m" if "m < 256" for m
    using that by (simp add: unat_of_nat)
  have got: "read_n (length (ur_GotSerialNumberes u)) (get_bytes ?sz)
      (concat (map (copy_fixed ?sz) (ur_GotSerialNumberes u))) = Inr (ur_GotSerialNumberes u, [])"
    using serial.read_n_concat [where r = "[]" and xs = "ur_GotSerialNumberes u"] st by simp
  have "UTXORing_Deserialize A ?v = Inr (stored_utxoring u)"
    unfolding UTXORing_Deserialize_def if_not_P [OF len]
    using st
    by (simp add: codec_simps member.read_n_concat origin.read_n_concat got u8
        map_of_entries_distinct ring_bits_my ring_bits_spent of_nat_eq_0_u8 stored_utxoring_def
        list_all_iff)
  with v show thesis by (rule that)
qed

section \<open>AddGotSerialNumber\<close>

text \<open>
  The three loops over the members; \<open>i\<close> is the loop index, \<open>Spent\<close> is only indexed at a
  member that is ours, and indexing beyond it panics.
\<close>

fun mark_all :: "bool list \<Rightarrow> bool list \<Rightarrow> bool list result" where
  "mark_all [] sp = Inr sp"
| "mark_all (m # ms) [] = (if m then Inl out_of_range else mark_all ms [])"
| "mark_all (m # ms) (s # sp) =
     rbind (mark_all ms sp) (\<lambda>sp'. Inr ((if m \<and> \<not> s then True else s) # sp'))"

fun mark_one :: "nat \<Rightarrow> bytes \<Rightarrow> (u8 \<times> bytes) list \<Rightarrow> bool list \<Rightarrow> bool list \<Rightarrow> bool list result"
where
  "mark_one i sn org [] sp = Inr sp"
| "mark_one i sn org (m # ms) [] = (if m then Inl out_of_range else mark_one (Suc i) sn org ms [])"
| "mark_one i sn org (m # ms) (s # sp) =
     (if m \<and> \<not> s \<and> map_of org (of_nat i) = Some sn then Inr (True # sp)
      else rbind (mark_one (Suc i) sn org ms sp) (\<lambda>sp'. Inr (s # sp')))"

fun none_unspent :: "bool list \<Rightarrow> bool list \<Rightarrow> bool result" where
  "none_unspent [] sp = Inr True"
| "none_unspent (m # ms) [] = (if m then Inl out_of_range else none_unspent ms [])"
| "none_unspent (m # ms) (s # sp) = (if m \<and> \<not> s then Inr False else none_unspent ms sp)"

definition AddGotSerialNumber :: "bytes \<Rightarrow> UTXORing \<Rightarrow> UTXORing result" where
  "AddGotSerialNumber serialNumber u =
     (if serialNumber \<in> set (ur_GotSerialNumberes u)
      then Inl (GoError ''there has a same serialNumber in UTXORing'')
      else
        let u = u\<lparr>ur_GotSerialNumberes := ur_GotSerialNumberes u @ [serialNumber]\<rparr>
        in if length (ur_GotSerialNumberes u) = length (ur_TxHashes u)
           then rbind (mark_all (ur_IsMy u) (ur_Spent u)) (\<lambda>sp.
             Inr (u\<lparr>ur_Spent := sp, ur_AllSpent := True\<rparr>))
           else rbind (mark_one 0 serialNumber (origins u) (ur_IsMy u) (ur_Spent u)) (\<lambda>sp.
             rbind (none_unspent (ur_IsMy u) sp) (\<lambda>b.
             Inr (u\<lparr>ur_Spent := sp, ur_AllSpent := b\<rparr>))))"

text \<open>
  The ring as its history determines it: a member is spent exactly when it is ours and its own
  serial number has been seen, or the ring is exhausted.
\<close>

definition member_spent :: "UTXORing \<Rightarrow> nat \<Rightarrow> bool" where
  "member_spent u i \<longleftrightarrow> ur_IsMy u ! i \<and>
     (length (ur_GotSerialNumberes u) = length (ur_TxHashes u) \<or>
      (case map_of (origins u) (of_nat i) of None \<Rightarrow> False
       | Some sn \<Rightarrow> sn \<in> set (ur_GotSerialNumberes u)))"

definition ring_wf :: "UTXORing \<Rightarrow> bool" where
  "ring_wf u \<longleftrightarrow>
     length (ur_IsMy u) = length (ur_TxHashes u) \<and>
     length (ur_Spent u) = length (ur_TxHashes u) \<and>
     length (ur_TxHashes u) \<le> 256 \<and>
     distinct (ur_GotSerialNumberes u) \<and>
     length (ur_GotSerialNumberes u) \<le> length (ur_TxHashes u) \<and>
     distinct (map fst (origins u)) \<and> distinct (map snd (origins u)) \<and>
     list_all (\<lambda>i. ur_Spent u ! i = member_spent u i) [0..<length (ur_TxHashes u)]"

lemma mark_all_eq:
  "length ms = length sp \<Longrightarrow> mark_all ms sp = Inr (map2 (\<lambda>m s. m \<or> s) ms sp)"
  by (induction ms sp rule: list_induct2) auto

lemma none_unspent_eq:
  "length ms = length sp \<Longrightarrow>
   none_unspent ms sp = Inr (list_all (\<lambda>(m, s). m \<longrightarrow> s) (zip ms sp))"
  by (induction ms sp rule: list_induct2) auto

lemma mark_one_ok: "length ms = length sp \<Longrightarrow> \<exists>sp'. mark_one i sn org ms sp = Inr sp'"
proof (induction ms sp arbitrary: i rule: list_induct2)
  case (Cons m ms s sp)
  from Cons(2) [of "Suc i"] show ?case by auto
qed simp

lemma mark_one_length:
  "mark_one i sn org ms sp = Inr sp' \<Longrightarrow> length sp' = length sp"
  by (induction i sn org ms sp arbitrary: sp' rule: mark_one.induct)
    (auto simp: rbind_Inr_iff split: if_splits)

text \<open>
  With distinct serial numbers at most one member matches, so stopping at the first match marks
  every match.
\<close>

lemma mark_one_nth:
  assumes "length ms = length sp" and "mark_one i sn org ms sp = Inr sp'"
    and "distinct (map fst org)" "distinct (map snd org)"
    and "i + length ms \<le> 256"
    and "j < length ms"
  shows "sp' ! j \<longleftrightarrow> sp ! j \<or> (ms ! j \<and> map_of org (of_nat (i + j)) = Some sn)"
  using assms
proof (induction ms sp arbitrary: i j sp' rule: list_induct2)
  case (Cons m ms s sp)
  have inj: "a = b" if "map_of org a = Some sn" "map_of org b = Some sn" for a b
    using that Cons.prems(2,3)
    by (metis map_of_eq_Some_iff map_of_SomeD distinct_map inj_onD prod.inject snd_conv)
  show ?case
  proof (cases "m \<and> \<not> s \<and> map_of org (of_nat i) = Some sn")
    case True
    then have sp': "sp' = True # sp" using Cons.prems(1) by simp
    show ?thesis
    proof (cases j)
      case (Suc j')
      have "(of_nat (i + j) :: u8) \<noteq> of_nat i"
        using Suc Cons.prems(4,5) by (subst of_nat_u8_eq_iff) simp_all
      then have "map_of org (of_nat (i + j)) \<noteq> Some sn" using inj True by blast
      then show ?thesis using Suc sp' by simp
    qed (use True sp' in simp)
  next
    case False
    then obtain t where t: "mark_one (Suc i) sn org ms sp = Inr t" "sp' = s # t"
      using Cons.prems(1) by (auto simp: rbind_Inr_iff split: if_splits)
    show ?thesis
    proof (cases j)
      case (Suc j')
      have "t ! j' \<longleftrightarrow> sp ! j' \<or> (ms ! j' \<and> map_of org (of_nat (Suc i + j')) = Some sn)"
        using Cons.IH [OF t(1) Cons.prems(2,3), of j'] Cons.prems(4,5) Suc by simp
      then show ?thesis using Suc t by simp
    qed (use False t in auto)
  qed
qed simp


lemma origins_update [simp]:
  "origins (u\<lparr>ur_Spent := sp\<rparr>) = origins u"
  "origins (u\<lparr>ur_AllSpent := b\<rparr>) = origins u"
  "origins (u\<lparr>ur_GotSerialNumberes := g\<rparr>) = origins u"
  by (simp_all add: origins_def)

lemma AddGotSerialNumber_total:
  assumes "ring_wf u" and "sn \<notin> set (ur_GotSerialNumberes u)"
  shows "\<exists>u'. AddGotSerialNumber sn u = Inr u'"
proof -
  note wf = assms(1) [unfolded ring_wf_def]
  obtain sp where "mark_one 0 sn (origins u) (ur_IsMy u) (ur_Spent u) = Inr sp"
    using mark_one_ok wf by metis
  then show ?thesis
    using assms(2) wf
    by (auto simp: AddGotSerialNumber_def Let_def mark_all_eq none_unspent_eq mark_one_length)
qed

lemma AddGotSerialNumber_fields:
  assumes "AddGotSerialNumber sn u = Inr u'"
  shows "ur_GotSerialNumberes u' = ur_GotSerialNumberes u @ [sn]"
    and "ur_TxHashes u' = ur_TxHashes u" and "ur_IsMy u' = ur_IsMy u"
    and "origins u' = origins u" and "ur_RingHash u' = ur_RingHash u"
    and "ur_OutputIndexes u' = ur_OutputIndexes u"
    and "sn \<notin> set (ur_GotSerialNumberes u)"
  using assms
  by (auto simp: AddGotSerialNumber_def Let_def rbind_Inr_iff split: if_splits)

lemma AddGotSerialNumber_spent:
  assumes "ring_wf u" and "length (ur_GotSerialNumberes u) < length (ur_TxHashes u)"
    and "AddGotSerialNumber sn u = Inr u'" and "j < length (ur_TxHashes u)"
  shows "ur_Spent u' ! j \<longleftrightarrow> member_spent u' j"
proof -
  note wf = assms(1) [unfolded ring_wf_def list_all_iff]
  note f = AddGotSerialNumber_fields [OF assms(3)]
  have old: "ur_Spent u ! j \<longleftrightarrow> ur_IsMy u ! j \<and>
      (case map_of (origins u) (of_nat j) of None \<Rightarrow> False
       | Some sn \<Rightarrow> sn \<in> set (ur_GotSerialNumberes u))"
    using wf assms(2,4) by (simp add: member_spent_def)
  show ?thesis
  proof (cases "Suc (length (ur_GotSerialNumberes u)) = length (ur_TxHashes u)")
    case True
    then have "ur_Spent u' = map2 (\<lambda>m s. m \<or> s) (ur_IsMy u) (ur_Spent u)"
      using assms(3) f(7) wf by (auto simp: AddGotSerialNumber_def mark_all_eq)
    then show ?thesis
      using wf assms(4) True old by (auto simp: member_spent_def f)
  next
    case False
    then have "mark_one 0 sn (origins u) (ur_IsMy u) (ur_Spent u) = Inr (ur_Spent u')"
      using assms(3) f(7) by (auto simp: AddGotSerialNumber_def Let_def rbind_Inr_iff)
    then have "ur_Spent u' ! j \<longleftrightarrow> ur_Spent u ! j \<or>
        (ur_IsMy u ! j \<and> map_of (origins u) (of_nat j) = Some sn)"
      using mark_one_nth [of "ur_IsMy u" "ur_Spent u" 0 sn "origins u" "ur_Spent u'" j] wf assms(4)
      by simp
    then show ?thesis
      using False old by (auto simp: member_spent_def f split: option.splits)
  qed
qed

lemma AddGotSerialNumber_length:
  assumes "AddGotSerialNumber sn u = Inr u'" and "ring_wf u"
  shows "length (ur_Spent u') = length (ur_Spent u)"
  using assms
  by (auto simp: AddGotSerialNumber_def Let_def rbind_Inr_iff mark_all_eq ring_wf_def
      dest: mark_one_length split: if_splits)

lemma AddGotSerialNumber_wf:
  assumes "ring_wf u" and "length (ur_GotSerialNumberes u) < length (ur_TxHashes u)"
    and "AddGotSerialNumber sn u = Inr u'"
  shows "ring_wf u'"
  using assms(1,2) AddGotSerialNumber_fields [OF assms(3)]
    AddGotSerialNumber_spent [OF assms(1,2,3)] AddGotSerialNumber_length [OF assms(3,1)]
  by (simp add: ring_wf_def list_all_iff)

lemma AddGotSerialNumber_AllSpent:
  assumes "ring_wf u" and "AddGotSerialNumber sn u = Inr u'"
  shows "ur_AllSpent u' \<longleftrightarrow> list_all (\<lambda>(m, s). m \<longrightarrow> s) (zip (ur_IsMy u') (ur_Spent u'))"
proof (cases "Suc (length (ur_GotSerialNumberes u)) = length (ur_TxHashes u)")
  case True
  then have "u' = u\<lparr>ur_GotSerialNumberes := ur_GotSerialNumberes u @ [sn],
      ur_Spent := map2 (\<lambda>m s. m \<or> s) (ur_IsMy u) (ur_Spent u), ur_AllSpent := True\<rparr>"
    using assms AddGotSerialNumber_fields(7) [OF assms(2)]
    by (auto simp: AddGotSerialNumber_def Let_def ring_wf_def mark_all_eq)
  then show ?thesis
    using assms(1) by (auto simp: ring_wf_def list_all_iff set_zip)
next
  case False
  then show ?thesis
    using assms AddGotSerialNumber_fields(7) [OF assms(2)]
    by (auto simp: AddGotSerialNumber_def Let_def ring_wf_def rbind_Inr_iff none_unspent_eq
        dest: mark_one_length)
qed

text \<open>A whole history of serial numbers.\<close>

definition AddGotSerialNumbers :: "bytes list \<Rightarrow> UTXORing \<Rightarrow> UTXORing result" where
  "AddGotSerialNumbers = rfold AddGotSerialNumber"

lemma AddGotSerialNumbers_wf:
  assumes "ring_wf u"
    and "length (ur_GotSerialNumberes u) + length sns \<le> length (ur_TxHashes u)"
    and "AddGotSerialNumbers sns u = Inr u'"
  shows "ring_wf u' \<and> ur_GotSerialNumberes u' = ur_GotSerialNumberes u @ sns
    \<and> ur_TxHashes u' = ur_TxHashes u \<and> ur_IsMy u' = ur_IsMy u \<and> origins u' = origins u"
  using assms
proof (induction sns arbitrary: u)
  case (Cons sn sns)
  then obtain t where t: "AddGotSerialNumber sn u = Inr t" "AddGotSerialNumbers sns t = Inr u'"
    by (auto simp: AddGotSerialNumbers_def rbind_Inr_iff)
  note f = AddGotSerialNumber_fields [OF t(1)]
  have "ring_wf t" using AddGotSerialNumber_wf [OF _ _ t(1)] Cons.prems by simp
  then show ?case using Cons.IH [of t] Cons.prems t f by simp
qed (simp add: AddGotSerialNumbers_def)

lemma AddGotSerialNumbers_total:
  assumes "ring_wf u"
    and "length (ur_GotSerialNumberes u) + length sns \<le> length (ur_TxHashes u)"
    and "distinct (ur_GotSerialNumberes u @ sns)"
  shows "\<exists>u'. AddGotSerialNumbers sns u = Inr u'"
  using assms
proof (induction sns arbitrary: u)
  case (Cons sn sns)
  then obtain t where t: "AddGotSerialNumber sn u = Inr t"
    using AddGotSerialNumber_total [of u sn] by auto
  note f = AddGotSerialNumber_fields [OF t]
  have "ring_wf t" using AddGotSerialNumber_wf [OF _ _ t] Cons.prems by simp
  then show ?case using Cons.IH [of t] Cons.prems t f by (simp add: AddGotSerialNumbers_def)
qed (simp add: AddGotSerialNumbers_def)

text \<open>The order in which a block lists the serial numbers of a ring does not matter.\<close>

lemma AddGotSerialNumbers_order:
  assumes "ring_wf u"
    and "length (ur_GotSerialNumberes u) + length sns \<le> length (ur_TxHashes u)"
    and "AddGotSerialNumbers sns u = Inr a" and "AddGotSerialNumbers sns' u = Inr b"
    and "set sns = set sns'" "distinct sns'"
  shows "ur_Spent a = ur_Spent b"
proof -
  note a = AddGotSerialNumbers_wf [OF assms(1,2,3)]
  have "distinct (ur_GotSerialNumberes u @ sns)" using a by (auto simp: ring_wf_def)
  then have len: "length sns' = length sns"
    using assms(5,6) by (simp add: distinct_card [symmetric])
  note b = AddGotSerialNumbers_wf [OF assms(1) _ assms(4), unfolded len, OF assms(2)]
  have "member_spent a i = member_spent b i" for i
    using a b len assms(5) by (auto simp: member_spent_def split: option.splits)
  then show ?thesis
    using a b by (auto simp: ring_wf_def list_all_iff intro!: nth_equalityI)
qed

lemma ring_wf_New:
  "length (rg_TxHashes r) \<le> 256 \<Longrightarrow> 0 < length (rg_TxHashes r) \<Longrightarrow>
   ring_wf (NewUTXORingFromRing r h)"
  by (auto simp: ring_wf_def NewUTXORingFromRing_def member_spent_def origins_def list_all_iff)

lemma UTXORing_Copy_sel [simp]:
  "ur_TxHashes (UTXORing_Copy u) = ur_TxHashes u"
  "ur_IsMy (UTXORing_Copy u) = ur_IsMy u"
  "ur_Spent (UTXORing_Copy u) = ur_Spent u"
  "ur_GotSerialNumberes (UTXORing_Copy u) = ur_GotSerialNumberes u"
  "origins (UTXORing_Copy u) = origins u"
  by (simp_all add: UTXORing_Copy_def origins_def)

lemma ring_wf_Copy [simp]: "ring_wf (UTXORing_Copy u) = ring_wf u"
proof -
  have "member_spent (UTXORing_Copy u) = member_spent u"
    by (rule ext) (auto simp: member_spent_def split: option.splits)
  then show ?thesis by (simp add: ring_wf_def)
qed

lemma UTXORing_Copy_eq_iff: "UTXORing_Copy u = u \<longleftrightarrow> ur_OriginSerialNumberes u \<noteq> None"
  by (cases u) (auto simp: UTXORing_Copy_def origins_def split: option.splits)

end
