(* ===== verification/BlockIndex.thy ===== *)
theory BlockIndex
  imports Ring
begin

text \<open>
  The values filed per block (\<open>wtxmgr/db.go\<close>, \<open>wtxmgr/db_ctaut.go\<close>): the wallet's outputs in
  the block, the outputs not yet mature, the rings a block spent from together with the serial
  numbers it showed (what a rollback needs), the root coins a re-registration disabled; and the
  value of an output lock. Go maps are lists of entries in iteration order with distinct keys.
\<close>

section \<open>Outputs of a block\<close>

definition outpoint_bytes :: "OutPointAbe \<Rightarrow> bytes" where
  "outpoint_bytes op = be_bytes 32 (TxHash op) @ [OutIndex op]"

lemma length_outpoint_bytes [simp]: "length (outpoint_bytes op) = 33"
  by (simp add: outpoint_bytes_def)

lemma outpoint_bytes_neq_Nil [simp]: "outpoint_bytes op \<noteq> []"
  by (simp add: outpoint_bytes_def)

lemma length_outpoints_bytes [simp]: "length (concat (map outpoint_bytes ops)) = 33 * length ops"
  by (induction ops) auto

definition valueBlockOutputs :: "OutPointAbe list \<Rightarrow> bytes" where
  "valueBlockOutputs outpoints =
     be_bytes 4 (of_nat (length outpoints) :: u32) @ concat (map outpoint_bytes outpoints)"

text \<open>The loop \<open>for offset < len(v)\<close>: it stops at the end of the value, not after \<open>n\<close> entries.\<close>

function read_outpoints :: "bytes \<Rightarrow> OutPointAbe list result" where
  "read_outpoints v =
     (if v = [] then Inr []
      else rbind (get_hash v) (\<lambda>(h, r).
           rbind (get_u8 r) (\<lambda>(i, r).
           rbind (if length r < length v then read_outpoints r else Inl out_of_range) (\<lambda>ops.
             Inr (OutPointAbe h i # ops)))))"
  by pat_completeness auto
termination by (relation "measure length") auto

declare read_outpoints.simps [simp del]

definition readBlockOutputs :: "bytes \<Rightarrow> OutPointAbe list result" where
  "readBlockOutputs v =
     rbind (get_u32 v) (\<lambda>(n, r).
       if length v < unat (4 + n * 33) then Inl (GoError ''wrong value in block output bucket'')
       else read_outpoints r)"

lemma get_hash_outpoint: "get_hash (outpoint_bytes op @ r) = Inr (TxHash op, OutIndex op # r)"
  by (simp add: outpoint_bytes_def codec_simps)

lemma read_outpoints_concat [codec_simps]:
  "read_outpoints (concat (map outpoint_bytes ops)) = Inr ops"
proof (induction ops)
  case (Cons op ops)
  then show ?case
    by (subst read_outpoints.simps) (auto simp: get_hash_outpoint get_u8_Cons)
qed (simp add: read_outpoints.simps)

lemma readBlockOutputs_value:
  assumes "length ops < 2 ^ 26"
  shows "readBlockOutputs (valueBlockOutputs ops) = Inr ops"
proof -
  have "(4 + of_nat (length ops) * 33 :: u32) = of_nat (4 + length ops * 33)" by simp
  moreover have "unat (of_nat (4 + length ops * 33) :: u32) = 4 + length ops * 33"
    using assms by (subst unat_of_nat) simp
  ultimately show ?thesis
    by (simp add: readBlockOutputs_def valueBlockOutputs_def codec_simps del: of_nat_add of_nat_mult)
qed

section \<open>Immature outputs\<close>

type_synonym txo_map = "(OutPointAbe \<times> SpendableTXO) list"

definition immature_unitSize :: nat where
  "immature_unitSize = 4 + 4 + 32 + 1 + 8 + 1 + 8 + PublicRandBytesLen + 32 + 1 + 1"

definition immature_unit :: "SpendableTXO \<Rightarrow> bytes" where
  "immature_unit utxo =
     be_bytes 4 (txo_Version utxo) @ be_bytes 4 (txo_Height utxo) @
     be_bytes 32 (TxHash (txo_TxOutput utxo)) @ [OutIndex (txo_TxOutput utxo)] @
     be_bytes 8 (txo_Amount utxo) @
     copy_fixed PublicRandBytesLen (txo_PublicRand utxo) @
     [txo_RingIndex utxo] @
     be_bytes 8 (unix (txo_GenerationTime utxo)) @
     be_bytes 32 (txo_RingHash utxo) @ [txo_RingSize utxo] @ [txo_PackedFlag utxo]"

definition get_immature_unit :: "bytes \<Rightarrow> (SpendableTXO \<times> bytes) result" where
  "get_immature_unit v =
     rbind (get_u32 v) (\<lambda>(version, r).
     rbind (get_u32 r) (\<lambda>(height, r).
     rbind (get_hash r) (\<lambda>(h, r).
     rbind (get_u8 r) (\<lambda>(i, r).
     rbind (get_u64 r) (\<lambda>(amount, r).
     rbind (get_bytes PublicRandBytesLen r) (\<lambda>(rand, r).
     rbind (get_u8 r) (\<lambda>(ringIndex, r).
     rbind (get_u64 r) (\<lambda>(t, r).
     rbind (get_hash r) (\<lambda>(ringHash, r).
     rbind (get_u8 r) (\<lambda>(ringSize, r).
     rbind (get_u8 r) (\<lambda>(flag, r).
       Inr (\<lparr>txo_Version = version, txo_Height = height, txo_TxOutput = OutPointAbe h i,
             txo_PackedFlag = flag, txo_Amount = amount, txo_PublicRand = rand,
             txo_GenerationTime = time_Unix t, txo_RingHash = ringHash,
             txo_RingSize = ringSize, txo_RingIndex = ringIndex, txo_UTXOHash = 0\<rparr>, r))))))))))))"

definition valueImmatureCoinbaseOutput :: "txo_map \<Rightarrow> bytes" where
  "valueImmatureCoinbaseOutput immatured = concat (map (\<lambda>(_, utxo). immature_unit utxo) immatured)"

definition deserializedImmatureCoinbaseOutput :: "bytes \<Rightarrow> txo_map result" where
  "deserializedImmatureCoinbaseOutput v =
     (if length v mod immature_unitSize \<noteq> 0
      then Inl (GoError ''wrong data stored in database for immature coinbase output'')
      else rbind (read_n (length v div immature_unitSize) get_immature_unit v) (\<lambda>(txos, _).
        Inr (map_of_entries (map (\<lambda>t. (txo_TxOutput t, t)) txos))))"

definition valueImmatureOutput :: "txo_map \<Rightarrow> bytes" where
  "valueImmatureOutput immatureTxo = concat (map (\<lambda>(_, utxo). immature_unit utxo) immatureTxo)"

definition deserializedImmatureOutput :: "bytes \<Rightarrow> txo_map result" where
  "deserializedImmatureOutput v =
     (if length v mod immature_unitSize \<noteq> 0
      then Inl (GoError ''wrong data stored in database for immature output'')
      else rbind (read_n (length v div immature_unitSize) get_immature_unit v) (\<lambda>(txos, _).
        Inr (map_of_entries (map (\<lambda>t. (txo_TxOutput t, t)) txos))))"

text \<open>The cached hash is not written: it comes back unset.\<close>

definition immature_stored :: "SpendableTXO \<Rightarrow> SpendableTXO" where
  "immature_stored t = t\<lparr>txo_UTXOHash := 0,
     txo_PublicRand := copy_fixed PublicRandBytesLen (txo_PublicRand t),
     txo_GenerationTime := time_Unix (unix (txo_GenerationTime t))\<rparr>"

definition txo_map_ok :: "txo_map \<Rightarrow> bool" where
  "txo_map_ok m \<longleftrightarrow> distinct (map fst m) \<and> list_all (\<lambda>(k, t). txo_TxOutput t = k) m"

lemma immature_unitSize_eq [simp]: "immature_unitSize = 156"
  by (simp add: immature_unitSize_def PublicRandBytesLen_def)

lemma length_immature_unit [simp]: "length (immature_unit t) = 156"
  by (simp add: immature_unit_def PublicRandBytesLen_def)

lemma length_immature_units: "length (concat (map (\<lambda>(_, t). immature_unit t) m)) = 156 * length m"
  by (induction m) auto

lemma get_immature_unit_append: "get_immature_unit (immature_unit t @ r) = Inr (immature_stored t, r)"
  by (simp add: get_immature_unit_def immature_unit_def immature_stored_def codec_simps)

lemma read_immature_units:
  "read_n (length m) get_immature_unit (concat (map (\<lambda>(_, t). immature_unit t) m))
   = Inr (map (immature_stored \<circ> snd) m, [])"
  by (induction m) (auto simp: get_immature_unit_append)

lemma immature_stored_simps [simp]:
  "txo_TxOutput (immature_stored t) = txo_TxOutput t"
  "txo_Amount (immature_stored t) = txo_Amount t"
  "txo_PackedFlag (immature_stored t) = txo_PackedFlag t"
  "txo_RingHash (immature_stored t) = txo_RingHash t"
  by (simp_all add: immature_stored_def)

lemma immature_entries:
  assumes "txo_map_ok m"
  shows "map_of_entries (map (\<lambda>t. (txo_TxOutput t, t)) (map (immature_stored \<circ> snd) m))
    = map (\<lambda>(k, t). (k, immature_stored t)) m"
proof -
  have "map (\<lambda>t. (txo_TxOutput t, t)) (map (immature_stored \<circ> snd) m)
      = map (\<lambda>(k, t). (k, immature_stored t)) m"
    using assms by (auto simp: txo_map_ok_def list_all_iff)
  moreover have "map fst (map (\<lambda>(k, t). (k, immature_stored t)) m) = map fst m"
    by auto
  ultimately show ?thesis
    using assms by (simp add: map_of_entries_distinct txo_map_ok_def del: map_map)
qed

lemma deserializedImmatureOutput_value:
  "txo_map_ok m \<Longrightarrow> deserializedImmatureOutput (valueImmatureOutput m)
     = Inr (map (\<lambda>(k, t). (k, immature_stored t)) m)"
  by (simp add: deserializedImmatureOutput_def valueImmatureOutput_def length_immature_units
      read_immature_units immature_entries del: map_map)

lemma deserializedImmatureCoinbaseOutput_value:
  "txo_map_ok m \<Longrightarrow> deserializedImmatureCoinbaseOutput (valueImmatureCoinbaseOutput m)
     = Inr (map (\<lambda>(k, t). (k, immature_stored t)) m)"
  by (simp add: deserializedImmatureCoinbaseOutput_def valueImmatureCoinbaseOutput_def
      length_immature_units read_immature_units immature_entries del: map_map)

section \<open>Disabled root coins\<close>

definition valueBlockDisabledCTAUTRootCoins :: "OutPointAbe list \<Rightarrow> bytes" where
  "valueBlockDisabledCTAUTRootCoins outpoints =
     be_bytes 4 (of_nat (8 + length outpoints * 33) :: u32) @
     be_bytes 4 (of_nat (length outpoints) :: u32) @
     concat (map outpoint_bytes outpoints)"

definition get_outpoint :: "bytes \<Rightarrow> (OutPointAbe \<times> bytes) result" where
  "get_outpoint v =
     rbind (get_hash v) (\<lambda>(h, r). rbind (get_u8 r) (\<lambda>(i, r). Inr (OutPointAbe h i, r)))"

definition readBlockDisabledCTAUTRootCoins :: "bytes \<Rightarrow> OutPointAbe list result" where
  "readBlockDisabledCTAUTRootCoins v =
     rbind (get_u32 v) (\<lambda>(_, r).
     rbind (get_u32 r) (\<lambda>(outpointNum, r).
     rbind (read_n (unat outpointNum) get_outpoint r) (\<lambda>(ops, _). Inr ops)))"

interpretation outpoint: byte_codec outpoint_bytes get_outpoint "\<lambda>_. True"
  by unfold_locales (auto simp: outpoint_bytes_def get_outpoint_def codec_simps)

lemma readBlockDisabled_value:
  assumes "length ops < 2 ^ 32"
  shows "readBlockDisabledCTAUTRootCoins (valueBlockDisabledCTAUTRootCoins ops) = Inr ops"
  using assms outpoint.read_n_concat [of ops "length ops" "[]"]
  by (simp add: readBlockDisabledCTAUTRootCoins_def valueBlockDisabledCTAUTRootCoins_def
      codec_simps unat_of_nat list_all_iff)

section \<open>Rings a block spent from\<close>

record RingHashSerialNumbers =
  utxoRings :: "(hash \<times> UTXORing) list"
  serialNumbers :: "(hash \<times> bytes list) list"

definition lookup_nil :: "('k \<times> 'v list) list \<Rightarrow> 'k \<Rightarrow> 'v list" where
  "lookup_nil m k = (case map_of m k of None \<Rightarrow> [] | Some v \<Rightarrow> v)"

definition lp8 :: "bytes \<Rightarrow> bytes" where
  "lp8 x = of_nat (length x) # x"

definition get_lp8 :: "bytes \<Rightarrow> (bytes \<times> bytes) result" where
  "get_lp8 v = rbind (get_u8 v) (\<lambda>(n, r). get_bytes (unat n) r)"

interpretation lp8: byte_codec lp8 get_lp8 "\<lambda>x. length x < 256"
  by unfold_locales (simp add: lp8_def get_lp8_def codec_simps unat_of_nat)

definition block_input_entry :: "bytes \<Rightarrow> bytes list \<Rightarrow> bytes" where
  "block_input_entry u addedSNs =
     (let uSize = length u;
          size = 2 + 2 + uSize + 1 + sum_list (map (\<lambda>sn. 1 + length sn) addedSNs)
      in be_bytes 2 (of_nat size :: u16) @ be_bytes 2 (of_nat uSize :: u16) @ u @
         [of_nat (length addedSNs)] @ concat (map lp8 addedSNs))"

fun block_input_entries :: "abec \<Rightarrow> (hash \<times> bytes list) list \<Rightarrow> (hash \<times> UTXORing) list \<Rightarrow> bytes result"
where
  "block_input_entries A sns [] = Inr []"
| "block_input_entries A sns ((k, u) # us) =
     rbind (UTXORing_Serialize A u) (\<lambda>s.
     rbind (block_input_entries A sns us) (\<lambda>rest.
       Inr (block_input_entry s (lookup_nil sns k) @ rest)))"

definition valueBlockInput :: "abec \<Rightarrow> RingHashSerialNumbers \<Rightarrow> bytes result" where
  "valueBlockInput A b =
     rbind (block_input_entries A (serialNumbers b) (utxoRings b)) (\<lambda>es.
       Inr (be_bytes 4 (of_nat (6 + length es) :: u32) @
            be_bytes 2 (of_nat (length (utxoRings b)) :: u16) @ es))"

definition get_block_input :: "abec \<Rightarrow> bytes \<Rightarrow> ((UTXORing \<times> bytes list) \<times> bytes) result" where
  "get_block_input A v =
     rbind (get_u16 v) (\<lambda>(_, r).
     rbind (get_u16 r) (\<lambda>(uSize, r).
     rbind (get_bytes (unat uSize) r) (\<lambda>(ub, r).
     rbind (UTXORing_Deserialize A ub) (\<lambda>u.
     rbind (get_u8 r) (\<lambda>(addedSNs, r).
     rbind (read_n (unat addedSNs) get_lp8 r) (\<lambda>(sns, r). Inr ((u, sns), r)))))))"

definition readBlockInput :: "abec \<Rightarrow> bytes \<Rightarrow> (UTXORing \<times> bytes list) list result" where
  "readBlockInput A v =
     rbind (get_u32 v) (\<lambda>(_, r).
     rbind (get_u16 r) (\<lambda>(utxoRingN, r).
     rbind (read_n (unat utxoRingN) (get_block_input A) r) (\<lambda>(es, _). Inr es)))"

definition storable_block_input :: "abec \<Rightarrow> RingHashSerialNumbers \<Rightarrow> bool" where
  "storable_block_input A b \<longleftrightarrow>
     length (utxoRings b) < 2 ^ 16 \<and>
     list_all (\<lambda>(k, u). storable_utxoring A u
       \<and> (case UTXORing_Serialize A u of Inl _ \<Rightarrow> False | Inr s \<Rightarrow> length s < 2 ^ 16)
       \<and> length (lookup_nil (serialNumbers b) k) < 256
       \<and> list_all (\<lambda>sn. length sn < 256) (lookup_nil (serialNumbers b) k)) (utxoRings b)"

lemma get_block_input_entry:
  assumes "UTXORing_Deserialize A s = Inr u" and "length s < 2 ^ 16"
    and "length sns < 256" and "list_all (\<lambda>sn. length sn < 256) sns"
  shows "get_block_input A (block_input_entry s sns @ r) = Inr ((u, sns), r)"
  using assms
  by (simp add: get_block_input_def block_input_entry_def Let_def codec_simps unat_of_nat
      lp8.read_n_concat)

lemma read_block_input_entries:
  assumes "list_all (\<lambda>(k, u). storable_utxoring A u
       \<and> (case UTXORing_Serialize A u of Inl _ \<Rightarrow> False | Inr s \<Rightarrow> length s < 2 ^ 16)
       \<and> length (lookup_nil sns k) < 256
       \<and> list_all (\<lambda>sn. length sn < 256) (lookup_nil sns k)) us"
  shows "\<exists>es. block_input_entries A sns us = Inr es \<and>
    read_n (length us) (get_block_input A) es
      = Inr (map (\<lambda>(k, u). (stored_utxoring u, lookup_nil sns k)) us, [])"
  using assms
proof (induction us)
  case (Cons x us)
  obtain k u where x: "x = (k, u)" by (cases x)
  from Cons.prems obtain s where s: "UTXORing_Serialize A u = Inr s" "length s < 2 ^ 16"
    "UTXORing_Deserialize A s = Inr (stored_utxoring u)"
    by (auto simp: x split: sum.splits elim!: UTXORing_Deserialize_Serialize)
  moreover obtain es where "block_input_entries A sns us = Inr es"
    "read_n (length us) (get_block_input A) es
      = Inr (map (\<lambda>(k, u). (stored_utxoring u, lookup_nil sns k)) us, [])"
    using Cons by auto
  ultimately show ?case
    using Cons.prems by (simp add: x get_block_input_entry)
qed simp

lemma readBlockInput_value:
  assumes "storable_block_input A b"
  obtains v where "valueBlockInput A b = Inr v"
    "readBlockInput A v
      = Inr (map (\<lambda>(k, u). (stored_utxoring u, lookup_nil (serialNumbers b) k)) (utxoRings b))"
proof -
  from read_block_input_entries [of A "serialNumbers b" "utxoRings b"] assms
  obtain es where es: "block_input_entries A (serialNumbers b) (utxoRings b) = Inr es"
    "read_n (length (utxoRings b)) (get_block_input A) es
      = Inr (map (\<lambda>(k, u). (stored_utxoring u, lookup_nil (serialNumbers b) k)) (utxoRings b), [])"
    by (auto simp: storable_block_input_def)
  have n: "unat (of_nat (length (utxoRings b)) :: u16) = length (utxoRings b)"
    using assms by (simp add: storable_block_input_def unat_of_nat)
  show thesis
    by (rule that, simp add: valueBlockInput_def es,
        simp add: readBlockInput_def codec_simps es n)
qed

section \<open>Output locks\<close>

definition serializeLockedOutput :: "hash \<Rightarrow> gotime \<Rightarrow> bytes" where
  "serializeLockedOutput lockID expiry = be_bytes 32 lockID @ be_bytes 8 (unix expiry)"

definition deserializeLockedOutput :: "bytes \<Rightarrow> (hash \<times> gotime) result" where
  "deserializeLockedOutput v =
     rbind (get_hash v) (\<lambda>(lockID, r).
     rbind (get_u64 r) (\<lambda>(t, _). Inr (lockID, time_Unix t)))"

lemma deserializeLockedOutput_serialize [codec_simps]:
  "deserializeLockedOutput (serializeLockedOutput i t) = Inr (i, time_Unix (unix t))"
  by (simp add: deserializeLockedOutput_def serializeLockedOutput_def codec_simps)

end
