(* ===== verification/Namespace.thy ===== *)
theory Namespace
  imports BlockIndex
begin

text \<open>
  The namespace of the transaction store: its root keys, the token counters (maps a put
  writes as JSON and a fetch reads back, carried decoded), its nested buckets, and the log of
  notifications sent. The operations on root keys and on raw bucket entries, the creation and
  deletion of the store (\<open>createStore\<close>, \<open>openStore\<close>, \<open>createBuckets\<close>, \<open>deleteBuckets\<close> of
  \<open>wtxmgr/db.go\<close>, \<open>dropTransactionHistory\<close> of \<open>wtxmgr/migrations.go\<close>).
\<close>

section \<open>The namespace\<close>

datatype rootkey = rootCreateDate | rootVersion | rootMinedBalance | rootSpendableBalance
  | rootImmatureCoinbaseBalance | rootImmatureTransferBalance | rootUnconfirmedBalance
  | rootFreezedBalance

datatype ctautkey = rootCTAUTBalance | rootCTAUTImmatureRootCoinNum
  | rootCTAUTSpendableRootCoinNum | rootCTAUTUnconfirmedRootCoinNum | rootCTAUTRootCoinNum
  | rootCTAUTImmatureTransferBalance | rootCTAUTSpendableBalance | rootCTAUTUnconfirmedBalance

datatype bucket = bucketRequestRecord | bucketTxLabels | bucketLockedOutputs | bucketBlocks
  | bucketBlockOutputs | bucketBlockInputs | bucketImmaturedCoinbaseOutput
  | bucketImmaturedOutput | bucketMaturedOutput | bucketSpentButUnmined | bucketSpentConfirmed
  | bucketCTAUTPoint | bucketBlockDisabledCTAUTPoint | bucketUTXORing | bucketRingDetails
  | bucketUnconfirmedTx | bucketInvalidTx | bucketConfirmedTx | bucketRelevantTxs

text \<open>A notification: its callback, the transaction, the height reported with it.\<close>

datatype notification =
    NotifyTransactionAccepted hash i32
  | NotifyTransactionRollback hash i32
  | NotifyTransactionInvalid hash i32

type_synonym ctmap = "string \<rightharpoonup> u64"

record namespace =
  ns_root :: "rootkey \<Rightarrow> bytes option"
  ns_ctaut :: "ctautkey \<Rightarrow> ctmap option"
  ns_bucket :: "bucket \<Rightarrow> kv option"
  ns_notes :: "notification list"

definition all_rootkeys :: "rootkey list" where
  "all_rootkeys = [rootCreateDate, rootVersion, rootMinedBalance, rootSpendableBalance,
     rootImmatureCoinbaseBalance, rootImmatureTransferBalance, rootUnconfirmedBalance,
     rootFreezedBalance]"

definition all_ctautkeys :: "ctautkey list" where
  "all_ctautkeys = [rootCTAUTBalance, rootCTAUTImmatureRootCoinNum,
     rootCTAUTSpendableRootCoinNum, rootCTAUTUnconfirmedRootCoinNum, rootCTAUTRootCoinNum,
     rootCTAUTImmatureTransferBalance, rootCTAUTSpendableBalance, rootCTAUTUnconfirmedBalance]"

definition all_buckets :: "bucket list" where
  "all_buckets = [bucketRequestRecord, bucketTxLabels, bucketLockedOutputs, bucketBlocks,
     bucketBlockOutputs, bucketBlockInputs, bucketImmaturedCoinbaseOutput,
     bucketImmaturedOutput, bucketMaturedOutput, bucketSpentButUnmined, bucketSpentConfirmed,
     bucketCTAUTPoint, bucketBlockDisabledCTAUTPoint, bucketUTXORing, bucketRingDetails,
     bucketUnconfirmedTx, bucketInvalidTx, bucketConfirmedTx, bucketRelevantTxs]"

definition namespace_empty :: "namespace \<Rightarrow> bool" where
  "namespace_empty ns \<longleftrightarrow>
     list_all (\<lambda>k. ns_root ns k = None) all_rootkeys \<and>
     list_all (\<lambda>k. case ns_ctaut ns k of None \<Rightarrow> True | Some _ \<Rightarrow> False) all_ctautkeys \<and>
     list_all (\<lambda>b. ns_bucket ns b = None) all_buckets"

lemma set_all_rootkeys: "k \<in> set all_rootkeys"
  by (cases k) (simp_all add: all_rootkeys_def)

lemma set_all_ctautkeys: "k \<in> set all_ctautkeys"
  by (cases k) (simp_all add: all_ctautkeys_def)

lemma set_all_buckets: "b \<in> set all_buckets"
  by (cases b) (simp_all add: all_buckets_def)

lemmas set_all_keys = set_all_rootkeys set_all_ctautkeys set_all_buckets

lemma namespace_empty_iff:
  "namespace_empty ns \<longleftrightarrow>
     (\<forall>k. ns_root ns k = None) \<and> (\<forall>k. ns_ctaut ns k = None) \<and> (\<forall>b. ns_bucket ns b = None)"
  by (auto simp: namespace_empty_def list_all_iff set_all_keys split: option.splits)

section \<open>Raw access\<close>

text \<open>
  \<open>ns.NestedReadBucket(b)\<close> is nil for a bucket that does not exist, and a method call on it
  panics. \<open>Put\<close> refuses an empty key; the caller wraps that error.
\<close>

abbreviation nil_bucket :: go_error where
  "nil_bucket \<equiv> GoPanic ''nil pointer dereference''"

definition nested :: "bucket \<Rightarrow> namespace \<Rightarrow> kv result" where
  "nested b ns = (case ns_bucket ns b of None \<Rightarrow> Inl nil_bucket | Some m \<Rightarrow> Inr m)"

definition set_bucket :: "bucket \<Rightarrow> kv option \<Rightarrow> namespace \<Rightarrow> namespace" where
  "set_bucket b m ns = ns\<lparr>ns_bucket := (ns_bucket ns)(b := m)\<rparr>"

definition nested_get :: "bucket \<Rightarrow> bytes \<Rightarrow> namespace \<Rightarrow> bytes option result" where
  "nested_get b k ns = rbind (nested b ns) (\<lambda>m. Inr (kv_get m k))"

definition nested_put :: "string \<Rightarrow> bucket \<Rightarrow> bytes \<Rightarrow> bytes \<Rightarrow> namespace \<Rightarrow> namespace result" where
  "nested_put msg b k v ns =
     rbind (nested b ns) (\<lambda>m.
       if k = [] then Inl (StoreError ErrDatabase msg)
       else Inr (set_bucket b (Some (kv_put k v m)) ns))"

definition nested_delete :: "bucket \<Rightarrow> bytes \<Rightarrow> namespace \<Rightarrow> namespace result" where
  "nested_delete b k ns =
     rbind (nested b ns) (\<lambda>m. Inr (set_bucket b (Some (kv_delete k m)) ns))"

definition root_put :: "rootkey \<Rightarrow> bytes \<Rightarrow> namespace \<Rightarrow> namespace" where
  "root_put k v ns = ns\<lparr>ns_root := (ns_root ns)(k := Some v)\<rparr>"

definition notify :: "notification \<Rightarrow> namespace \<Rightarrow> namespace" where
  "notify n ns = ns\<lparr>ns_notes := ns_notes ns @ [n]\<rparr>"

lemma ns_bucket_set_bucket [simp]:
  "ns_bucket (set_bucket b m ns) b' = (if b' = b then m else ns_bucket ns b')"
  by (simp add: set_bucket_def)

lemma set_bucket_frame [simp]:
  "ns_root (set_bucket b m ns) = ns_root ns"
  "ns_ctaut (set_bucket b m ns) = ns_ctaut ns"
  "ns_notes (set_bucket b m ns) = ns_notes ns"
  by (simp_all add: set_bucket_def)

lemma root_put_sel [simp]:
  "ns_root (root_put k v ns) k' = (if k' = k then Some v else ns_root ns k')"
  "ns_ctaut (root_put k v ns) = ns_ctaut ns"
  "ns_bucket (root_put k v ns) = ns_bucket ns"
  "ns_notes (root_put k v ns) = ns_notes ns"
  by (simp_all add: root_put_def)

lemma notify_sel [simp]:
  "ns_root (notify n ns) = ns_root ns" "ns_ctaut (notify n ns) = ns_ctaut ns"
  "ns_bucket (notify n ns) = ns_bucket ns" "ns_notes (notify n ns) = ns_notes ns @ [n]"
  by (simp_all add: notify_def)

lemma nested_put_Inr_iff:
  "nested_put msg b k v ns = Inr ns' \<longleftrightarrow>
     (\<exists>m. ns_bucket ns b = Some m \<and> k \<noteq> [] \<and> ns' = set_bucket b (Some (kv_put k v m)) ns)"
  by (auto simp: nested_put_def nested_def rbind_Inr_iff split: option.splits)

lemma nested_delete_Inr_iff:
  "nested_delete b k ns = Inr ns' \<longleftrightarrow>
     (\<exists>m. ns_bucket ns b = Some m \<and> ns' = set_bucket b (Some (kv_delete k m)) ns)"
  by (auto simp: nested_delete_def nested_def rbind_Inr_iff split: option.splits)

lemma nested_get_Inr_iff:
  "nested_get b k ns = Inr v \<longleftrightarrow> (\<exists>m. ns_bucket ns b = Some m \<and> v = kv_get m k)"
  by (auto simp: nested_get_def nested_def rbind_Inr_iff split: option.splits)

lemma nested_get_put:
  assumes "nested_put msg b k v ns = Inr ns'"
  shows "nested_get b' k' ns' = (if b' = b \<and> k' = k then Inr (Some v) else nested_get b' k' ns)"
  using assms
  by (auto simp: nested_put_Inr_iff nested_get_def nested_def kv_get_put)

lemma nested_get_delete:
  assumes "nested_delete b k ns = Inr ns'"
  shows "nested_get b' k' ns' = (if b' = b \<and> k' = k then Inr None else nested_get b' k' ns)"
  using assms
  by (auto simp: nested_delete_Inr_iff nested_get_def nested_def kv_get_delete)

lemmas nested_iffs = nested_put_Inr_iff nested_delete_Inr_iff nested_get_Inr_iff

text \<open>Every bucket present is in key order, as the database keeps it.\<close>

definition buckets_ok :: "namespace \<Rightarrow> bool" where
  "buckets_ok ns \<longleftrightarrow>
     list_all (\<lambda>b. case ns_bucket ns b of None \<Rightarrow> True | Some m \<Rightarrow> kv_ok m) all_buckets"

lemma buckets_ok_iff: "buckets_ok ns \<longleftrightarrow> (\<forall>b m. ns_bucket ns b = Some m \<longrightarrow> kv_ok m)"
  by (auto simp: buckets_ok_def list_all_iff set_all_keys split: option.splits)

lemma buckets_okD: "buckets_ok ns \<Longrightarrow> ns_bucket ns b = Some m \<Longrightarrow> kv_ok m"
  by (auto simp: buckets_ok_iff)

lemma buckets_ok_set [intro]: "buckets_ok ns \<Longrightarrow> kv_ok m \<Longrightarrow> buckets_ok (set_bucket b (Some m) ns)"
  by (auto simp: buckets_ok_iff)

lemma buckets_ok_put: "nested_put msg b k v ns = Inr ns' \<Longrightarrow> buckets_ok ns \<Longrightarrow> buckets_ok ns'"
  by (auto simp: nested_put_Inr_iff dest: buckets_okD intro: kv_ok_put)

lemma buckets_ok_delete: "nested_delete b k ns = Inr ns' \<Longrightarrow> buckets_ok ns \<Longrightarrow> buckets_ok ns'"
  by (auto simp: nested_delete_Inr_iff dest: buckets_okD intro: kv_ok_delete)

lemma buckets_ok_frame [simp]:
  "buckets_ok (root_put k v ns) = buckets_ok ns" "buckets_ok (notify n ns) = buckets_ok ns"
  by (simp_all add: buckets_ok_iff)

section \<open>Balances\<close>

definition fetch_amount :: "rootkey \<Rightarrow> namespace \<Rightarrow> u64 result" where
  "fetch_amount key ns =
     (case ns_root ns key of
        None \<Rightarrow> Inl (StoreError ErrData ''balance: short read'')
      | Some v \<Rightarrow> if length v \<noteq> 8 then Inl (StoreError ErrData ''balance: short read'')
                  else Inr (be_word v))"

definition put_amount :: "rootkey \<Rightarrow> u64 \<Rightarrow> namespace \<Rightarrow> namespace" where
  "put_amount key amt ns = root_put key (be_bytes 8 amt) ns"

definition fetchMinedBalance where "fetchMinedBalance = fetch_amount rootMinedBalance"
definition putMinedBalance where "putMinedBalance = put_amount rootMinedBalance"
definition fetchSpendableBalance where "fetchSpendableBalance = fetch_amount rootSpendableBalance"
definition putSpendableBalance where "putSpendableBalance = put_amount rootSpendableBalance"
definition fetchFreezeBalance where "fetchFreezeBalance = fetch_amount rootFreezedBalance"
definition putFreezeBalance where "putFreezeBalance = put_amount rootFreezedBalance"
definition fetchImmatureCoinbaseBalance where
  "fetchImmatureCoinbaseBalance = fetch_amount rootImmatureCoinbaseBalance"
definition putImmatureCoinbaseBalance where
  "putImmatureCoinbaseBalance = put_amount rootImmatureCoinbaseBalance"
definition fetchImmatureTransferBalance where
  "fetchImmatureTransferBalance = fetch_amount rootImmatureTransferBalance"
definition putImmatureTransferBalance where
  "putImmatureTransferBalance = put_amount rootImmatureTransferBalance"
definition fetchUnconfirmedBalance where
  "fetchUnconfirmedBalance = fetch_amount rootUnconfirmedBalance"
definition putUnconfirmedBalance where
  "putUnconfirmedBalance = put_amount rootUnconfirmedBalance"

lemmas balance_defs = fetchMinedBalance_def putMinedBalance_def fetchSpendableBalance_def
  putSpendableBalance_def fetchFreezeBalance_def putFreezeBalance_def
  fetchImmatureCoinbaseBalance_def putImmatureCoinbaseBalance_def
  fetchImmatureTransferBalance_def putImmatureTransferBalance_def
  fetchUnconfirmedBalance_def putUnconfirmedBalance_def

lemma fetch_put_amount [simp]:
  "fetch_amount k (put_amount k' a ns) = (if k = k' then Inr a else fetch_amount k ns)"
  by (simp add: fetch_amount_def put_amount_def)

lemma put_amount_sel [simp]:
  "ns_bucket (put_amount k a ns) = ns_bucket ns" "ns_ctaut (put_amount k a ns) = ns_ctaut ns"
  "ns_notes (put_amount k a ns) = ns_notes ns"
  "buckets_ok (put_amount k a ns) = buckets_ok ns"
  by (simp_all add: put_amount_def)

lemma fetch_amount_frame [simp]:
  "fetch_amount k (set_bucket b m ns) = fetch_amount k ns"
  "fetch_amount k (notify n ns) = fetch_amount k ns"
  by (simp_all add: fetch_amount_def)

section \<open>Token counters\<close>

text \<open>
  Reading a missing entry of a Go map gives 0, so \<open>m[k] -= x\<close> on one leaves \<open>0 - x\<close> modulo
  \<open>2 ^ 64\<close>.
\<close>

definition ct_get :: "ctmap \<Rightarrow> string \<Rightarrow> u64" where
  "ct_get m k = (case m k of None \<Rightarrow> 0 | Some v \<Rightarrow> v)"

definition ct_add :: "string \<Rightarrow> u64 \<Rightarrow> ctmap \<Rightarrow> ctmap" where
  "ct_add k x m = m(k \<mapsto> ct_get m k + x)"

definition ct_sub :: "string \<Rightarrow> u64 \<Rightarrow> ctmap \<Rightarrow> ctmap" where
  "ct_sub k x m = m(k \<mapsto> ct_get m k - x)"

lemma ct_get_add [simp]: "ct_get (ct_add k x m) j = ct_get m j + (if j = k then x else 0)"
  and ct_get_sub [simp]: "ct_get (ct_sub k x m) j = ct_get m j - (if j = k then x else 0)"
  by (simp_all add: ct_get_def ct_add_def ct_sub_def)

definition fetch_ctaut :: "ctautkey \<Rightarrow> namespace \<Rightarrow> ctmap" where
  "fetch_ctaut key ns = (case ns_ctaut ns key of None \<Rightarrow> Map.empty | Some m \<Rightarrow> m)"

definition put_ctaut :: "ctautkey \<Rightarrow> ctmap \<Rightarrow> namespace \<Rightarrow> namespace" where
  "put_ctaut key m ns = ns\<lparr>ns_ctaut := (ns_ctaut ns)(key := Some m)\<rparr>"

definition fetchCTAUTRootCoinNum where
  "fetchCTAUTRootCoinNum = fetch_ctaut rootCTAUTRootCoinNum"
definition putCTAUTRootCoinNum where
  "putCTAUTRootCoinNum = put_ctaut rootCTAUTRootCoinNum"
definition fetchCTAUTMinedBalance where
  "fetchCTAUTMinedBalance = fetch_ctaut rootCTAUTBalance"
definition putCTAUTMinedBalance where
  "putCTAUTMinedBalance = put_ctaut rootCTAUTBalance"
definition fetchCTAUTSpenableBalance where
  "fetchCTAUTSpenableBalance = fetch_ctaut rootCTAUTSpendableBalance"
definition putCTAUTSpenableBalance where
  "putCTAUTSpenableBalance = put_ctaut rootCTAUTSpendableBalance"
definition fetchCTAUTSpenableRootCoinNum where
  "fetchCTAUTSpenableRootCoinNum = fetch_ctaut rootCTAUTSpendableRootCoinNum"
definition putCTAUTSpenableRootCoinNum where
  "putCTAUTSpenableRootCoinNum = put_ctaut rootCTAUTSpendableRootCoinNum"
definition fetchCTAUTImmatureRootCoinNum where
  "fetchCTAUTImmatureRootCoinNum = fetch_ctaut rootCTAUTImmatureRootCoinNum"
definition putCTAUTImmatureRootCoinNum where
  "putCTAUTImmatureRootCoinNum = put_ctaut rootCTAUTImmatureRootCoinNum"
definition fetchCTAUTImmatureTransferBalance where
  "fetchCTAUTImmatureTransferBalance = fetch_ctaut rootCTAUTImmatureTransferBalance"
definition putCTAUTImmatureTransferBalance where
  "putCTAUTImmatureTransferBalance = put_ctaut rootCTAUTImmatureTransferBalance"
definition fetchCTAUTUnconfirmedRootCoinNum where
  "fetchCTAUTUnconfirmedRootCoinNum = fetch_ctaut rootCTAUTUnconfirmedRootCoinNum"
definition putCTAUTUnconfirmedRootCoinNum where
  "putCTAUTUnconfirmedRootCoinNum = put_ctaut rootCTAUTUnconfirmedRootCoinNum"
definition fetchCTAUTUnconfirmedBalance where
  "fetchCTAUTUnconfirmedBalance = fetch_ctaut rootCTAUTUnconfirmedBalance"
definition putCTAUTUnconfirmedBalance where
  "putCTAUTUnconfirmedBalance = put_ctaut rootCTAUTUnconfirmedBalance"

lemmas ctaut_defs = fetchCTAUTRootCoinNum_def putCTAUTRootCoinNum_def
  fetchCTAUTMinedBalance_def putCTAUTMinedBalance_def fetchCTAUTSpenableBalance_def
  putCTAUTSpenableBalance_def fetchCTAUTSpenableRootCoinNum_def
  putCTAUTSpenableRootCoinNum_def fetchCTAUTImmatureRootCoinNum_def
  putCTAUTImmatureRootCoinNum_def fetchCTAUTImmatureTransferBalance_def
  putCTAUTImmatureTransferBalance_def fetchCTAUTUnconfirmedRootCoinNum_def
  putCTAUTUnconfirmedRootCoinNum_def fetchCTAUTUnconfirmedBalance_def
  putCTAUTUnconfirmedBalance_def

lemma fetch_put_ctaut [simp]:
  "fetch_ctaut k (put_ctaut k' m ns) = (if k = k' then m else fetch_ctaut k ns)"
  by (simp add: fetch_ctaut_def put_ctaut_def)

lemma put_ctaut_sel [simp]:
  "ns_bucket (put_ctaut k m ns) = ns_bucket ns" "ns_root (put_ctaut k m ns) = ns_root ns"
  "ns_notes (put_ctaut k m ns) = ns_notes ns"
  "fetch_amount r (put_ctaut k m ns) = fetch_amount r ns"
  "buckets_ok (put_ctaut k m ns) = buckets_ok ns"
  by (simp_all add: put_ctaut_def fetch_amount_def buckets_ok_iff)

lemma fetch_ctaut_frame [simp]:
  "fetch_ctaut k (set_bucket b m ns) = fetch_ctaut k ns"
  "fetch_ctaut k (put_amount r a ns) = fetch_ctaut k ns"
  "fetch_ctaut k (notify n ns) = fetch_ctaut k ns"
  by (simp_all add: fetch_ctaut_def)

end
