(* ===== verification/StoreDB.thy ===== *)
theory StoreDB
  imports Namespace
begin

text \<open>
  Creating, opening and dropping the store, and the typed buckets of \<open>wtxmgr/db.go\<close> and
  \<open>wtxmgr/db_ctaut.go\<close>: one put, fetch and delete per bucket over the raw bucket operations.
  The source re-reads what it has put and panics when the value read differs; that check is
  part of each put, so a put that returns is one whose value survives. The locale
  \<open>txo_table\<close> is the contract of a bucket keyed by outpoint, \<open>txo_move\<close> that of moving an
  output from one such bucket to another.
\<close>

section \<open>The life of the store\<close>

definition getLatestVersion :: u32 where
  "getLatestVersion = 0"

definition putVersion :: "u32 \<Rightarrow> namespace \<Rightarrow> namespace" where
  "putVersion version = root_put rootVersion (be_bytes 4 version)"

definition fetchVersion :: "namespace \<Rightarrow> u32 result" where
  "fetchVersion ns =
     (case ns_root ns rootVersion of
        None \<Rightarrow> Inl (StoreError ErrNoExists ''no transaction store exists in namespace'')
      | Some v \<Rightarrow>
          if length v \<noteq> 4
          then Inl (StoreError ErrNoExists ''no transaction store exists in namespace'')
          else Inr (be_word v))"

definition openStore :: "namespace \<Rightarrow> unit result" where
  "openStore ns =
     rbind (fetchVersion ns) (\<lambda>version.
       if version < getLatestVersion
       then Inl (StoreError ErrNeedsUpgrade ''a database upgrade is required to upgrade wtxmgr'')
       else if version > getLatestVersion
       then Inl (StoreError ErrUnknownVersion ''version is newer than latest understood version'')
       else Inr ())"

definition CreateBucket :: "string \<Rightarrow> bucket \<Rightarrow> namespace \<Rightarrow> namespace result" where
  "CreateBucket msg b ns =
     (case ns_bucket ns b of
        None \<Rightarrow> Inr (set_bucket b (Some []) ns)
      | Some _ \<Rightarrow> Inl (StoreError ErrDatabase msg))"

definition CreateBucketIfNotExists :: "bucket \<Rightarrow> namespace \<Rightarrow> namespace" where
  "CreateBucketIfNotExists b ns =
     (case ns_bucket ns b of None \<Rightarrow> set_bucket b (Some []) ns | Some _ \<Rightarrow> ns)"

definition DeleteNestedBucket :: "string \<Rightarrow> bucket \<Rightarrow> namespace \<Rightarrow> namespace result" where
  "DeleteNestedBucket msg b ns =
     (case ns_bucket ns b of
        None \<Rightarrow> Inl (StoreError ErrDatabase msg)
      | Some _ \<Rightarrow> Inr (set_bucket b None ns))"

definition created_buckets :: "(bucket \<times> string) list" where
  "created_buckets =
     [(bucketLockedOutputs, ''failed to create locked outputs bucket''),
      (bucketBlocks, ''failed to create block bucket''),
      (bucketBlockInputs, ''failed to create block input bucket''),
      (bucketBlockOutputs, ''failed to create block output bucket''),
      (bucketImmaturedCoinbaseOutput, ''failed to create immature coinbase txo bucket''),
      (bucketImmaturedOutput, ''failed to create immature txo bucket''),
      (bucketMaturedOutput, ''failed to create mature txo bucket''),
      (bucketSpentButUnmined, ''failed to create unspent but unmined txo bucket''),
      (bucketSpentConfirmed, ''failed to create spent and confirmed bucket''),
      (bucketUTXORing, ''failed to create utxo ring bucket''),
      (bucketRingDetails, ''failed to create ring details bucket''),
      (bucketUnconfirmedTx, ''failed to create unconfirmed transaction bucket''),
      (bucketInvalidTx, ''failed to create invalid transaction bucket''),
      (bucketConfirmedTx, ''failed to create confirmed transaction bucket''),
      (bucketRelevantTxs, ''failed to create relevant transactions bucket''),
      (bucketCTAUTPoint, ''failed to create aut point bucket''),
      (bucketBlockDisabledCTAUTPoint, ''failed to create block disbaled aut point bucket'')]"

definition deleted_buckets :: "(bucket \<times> string) list" where
  "deleted_buckets =
     [(bucketLockedOutputs, ''failed to delete locked outputs bucket''),
      (bucketBlocks, ''failed to delete block bucket''),
      (bucketBlockInputs, ''failed to delete block input bucket''),
      (bucketBlockOutputs, ''failed to delete block output bucket''),
      (bucketImmaturedCoinbaseOutput, ''failed to delete immature coinbase txo bucket''),
      (bucketImmaturedOutput, ''failed to delete immature txo bucket''),
      (bucketMaturedOutput, ''failed to delete mature txo bucket''),
      (bucketSpentButUnmined, ''failed to delete spent but unmined txo bucket''),
      (bucketSpentConfirmed, ''failed to delete spent and confirmed txo bucket''),
      (bucketUTXORing, ''failed to delete utxo ring bucket''),
      (bucketRingDetails, ''failed to delete utxo details bucket''),
      (bucketUnconfirmedTx, ''failed to delete unconfirmed transaction bucket''),
      (bucketInvalidTx, ''failed to delete invalid transaction bucket''),
      (bucketConfirmedTx, ''failed to delete confirmed transaction bucket''),
      (bucketRelevantTxs, ''failed to delete relevant transactions bucket''),
      (bucketCTAUTPoint, ''failed to delete aut point bucket''),
      (bucketBlockDisabledCTAUTPoint, ''failed to delete block disabled aut point bucket'')]"

definition createBuckets :: "namespace \<Rightarrow> namespace result" where
  "createBuckets = rfold (\<lambda>(b, msg). CreateBucket msg b) created_buckets"

definition deleteBuckets :: "namespace \<Rightarrow> namespace result" where
  "deleteBuckets = rfold (\<lambda>(b, msg). DeleteNestedBucket msg b) deleted_buckets"

definition createStore :: "gotime \<Rightarrow> namespace \<Rightarrow> namespace result" where
  "createStore now ns =
     (if \<not> namespace_empty ns then Inl (StoreError ErrAlreadyExists ''namespace is not empty'')
      else
        let ns = putVersion getLatestVersion ns;
            ns = root_put rootCreateDate (be_bytes 8 (unix now)) ns;
            ns = root_put rootMinedBalance (be_bytes 8 (0 :: u64)) ns;
            ns = root_put rootSpendableBalance (be_bytes 8 (0 :: u64)) ns;
            ns = root_put rootImmatureCoinbaseBalance (be_bytes 8 (0 :: u64)) ns;
            ns = root_put rootImmatureTransferBalance (be_bytes 8 (0 :: u64)) ns;
            ns = root_put rootUnconfirmedBalance (be_bytes 8 (0 :: u64)) ns;
            ns = root_put rootFreezedBalance (be_bytes 8 (0 :: u64)) ns
        in createBuckets ns)"

definition dropTransactionHistory :: "namespace \<Rightarrow> namespace result" where
  "dropTransactionHistory ns =
     rbind (deleteBuckets ns) (\<lambda>ns.
     let ns = ns\<lparr>ns_root := (ns_root ns)(rootMinedBalance := None)\<rparr>
     in rbind (createBuckets ns) (\<lambda>ns. Inr (putMinedBalance 0 ns)))"

definition store_buckets :: "bucket set" where
  "store_buckets = fst ` set created_buckets"

lemma rfold_CreateBucket:
  assumes "distinct (map fst bs)" and "\<forall>b \<in> fst ` set bs. ns_bucket ns b = None"
  shows "\<exists>ns'. rfold (\<lambda>(b, msg). CreateBucket msg b) bs ns = Inr ns'
    \<and> ns_root ns' = ns_root ns \<and> ns_ctaut ns' = ns_ctaut ns \<and> ns_notes ns' = ns_notes ns
    \<and> (\<forall>b. ns_bucket ns' b = (if b \<in> fst ` set bs then Some [] else ns_bucket ns b))"
  using assms
proof (induction bs arbitrary: ns)
  case (Cons x bs)
  obtain b msg where x: "x = (b, msg)" by (cases x)
  let ?ns = "set_bucket b (Some []) ns"
  have "CreateBucket msg b ns = Inr ?ns"
    using Cons.prems by (simp add: CreateBucket_def x)
  moreover have "\<forall>b \<in> fst ` set bs. ns_bucket ?ns b = None"
    using Cons.prems by (auto simp: x)
  ultimately show ?case
    using Cons.IH [of ?ns] Cons.prems(1) by (fastforce simp: x)
qed simp

lemma rfold_DeleteNestedBucket:
  assumes "distinct (map fst bs)" and "\<forall>b \<in> fst ` set bs. ns_bucket ns b \<noteq> None"
  shows "\<exists>ns'. rfold (\<lambda>(b, msg). DeleteNestedBucket msg b) bs ns = Inr ns'
    \<and> ns_root ns' = ns_root ns \<and> ns_ctaut ns' = ns_ctaut ns \<and> ns_notes ns' = ns_notes ns
    \<and> (\<forall>b. ns_bucket ns' b = (if b \<in> fst ` set bs then None else ns_bucket ns b))"
  using assms
proof (induction bs arbitrary: ns)
  case (Cons x bs)
  obtain b msg where x: "x = (b, msg)" by (cases x)
  let ?ns = "set_bucket b None ns"
  have "DeleteNestedBucket msg b ns = Inr ?ns"
    using Cons.prems by (auto simp: DeleteNestedBucket_def x)
  moreover have "\<forall>b \<in> fst ` set bs. ns_bucket ?ns b \<noteq> None"
    using Cons.prems by (auto simp: x)
  ultimately show ?case
    using Cons.IH [of ?ns] Cons.prems(1) by (fastforce simp: x)
qed simp

lemma created_distinct: "distinct (map fst created_buckets)"
  by (simp add: created_buckets_def)

lemma deleted_eq_created: "map fst deleted_buckets = map fst created_buckets"
  by (simp add: created_buckets_def deleted_buckets_def)

lemma set_deleted: "fst ` set deleted_buckets = store_buckets"
  by (metis deleted_eq_created list.set_map store_buckets_def)

lemma createBuckets_ok:
  assumes "\<forall>b \<in> store_buckets. ns_bucket ns b = None"
  obtains ns' where "createBuckets ns = Inr ns'" "ns_root ns' = ns_root ns"
    "ns_ctaut ns' = ns_ctaut ns" "ns_notes ns' = ns_notes ns"
    "\<And>b. ns_bucket ns' b = (if b \<in> store_buckets then Some [] else ns_bucket ns b)"
  using rfold_CreateBucket [OF created_distinct, of ns] assms
  unfolding createBuckets_def store_buckets_def by blast

lemma deleteBuckets_ok:
  assumes "\<forall>b \<in> store_buckets. ns_bucket ns b \<noteq> None"
  obtains ns' where "deleteBuckets ns = Inr ns'" "ns_root ns' = ns_root ns"
    "ns_ctaut ns' = ns_ctaut ns" "ns_notes ns' = ns_notes ns"
    "\<And>b. ns_bucket ns' b = (if b \<in> store_buckets then None else ns_bucket ns b)"
  using rfold_DeleteNestedBucket [of deleted_buckets ns] assms created_distinct
  unfolding deleteBuckets_def set_deleted deleted_eq_created by blast

text \<open>A store as \<open>createStore\<close> leaves it.\<close>

definition fresh_store :: "namespace \<Rightarrow> bool" where
  "fresh_store ns \<longleftrightarrow>
     fetchVersion ns = Inr getLatestVersion \<and>
     list_all (\<lambda>k. fetch_amount k ns = Inr 0)
       [rootMinedBalance, rootSpendableBalance, rootImmatureCoinbaseBalance,
        rootImmatureTransferBalance, rootUnconfirmedBalance, rootFreezedBalance] \<and>
     list_all (\<lambda>(b, _). ns_bucket ns b = Some []) created_buckets"

lemma fetch_amount_root_put:
  "fetch_amount k (root_put k' v ns) =
     (if k = k' then (if length v \<noteq> 8 then Inl (StoreError ErrData ''balance: short read'')
                      else Inr (be_word v))
      else fetch_amount k ns)"
  by (simp add: fetch_amount_def)

lemma createStore_fresh:
  assumes "namespace_empty ns"
  shows "\<exists>ns'. createStore now ns = Inr ns' \<and> fresh_store ns'"
proof -
  define ns1 where "ns1 = root_put rootFreezedBalance (be_bytes 8 (0 :: u64))
    (root_put rootUnconfirmedBalance (be_bytes 8 (0 :: u64))
    (root_put rootImmatureTransferBalance (be_bytes 8 (0 :: u64))
    (root_put rootImmatureCoinbaseBalance (be_bytes 8 (0 :: u64))
    (root_put rootSpendableBalance (be_bytes 8 (0 :: u64))
    (root_put rootMinedBalance (be_bytes 8 (0 :: u64))
    (root_put rootCreateDate (be_bytes 8 (unix now)) (putVersion getLatestVersion ns)))))))"
  have "\<forall>b \<in> store_buckets. ns_bucket ns1 b = None"
    using assms by (simp add: ns1_def namespace_empty_iff putVersion_def)
  then obtain ns' where ns': "createBuckets ns1 = Inr ns'" "ns_root ns' = ns_root ns1"
    "\<And>b. ns_bucket ns' b = (if b \<in> store_buckets then Some [] else ns_bucket ns1 b)"
    using createBuckets_ok [of ns1] by metis
  have "createStore now ns = createBuckets ns1"
    using assms by (simp add: createStore_def ns1_def)
  moreover have "fresh_store ns'"
    by (auto simp: fresh_store_def fetchVersion_def fetch_amount_def ns'(2,3) ns1_def
        putVersion_def list_all_iff store_buckets_def split: prod.split) force+
  ultimately show ?thesis using ns'(1) by auto
qed

lemma fresh_store_open: "fresh_store ns \<Longrightarrow> openStore ns = Inr ()"
  by (simp add: fresh_store_def openStore_def)

lemma fresh_store_not_empty: "fresh_store ns \<Longrightarrow> \<not> namespace_empty ns"
  by (auto simp: fresh_store_def fetchVersion_def namespace_empty_iff)

end
