(* ===== verification/Tables.thy ===== *)
theory Tables
  imports StoreDB
begin

text \<open>
  The typed buckets of \<open>wtxmgr/db.go\<close> and \<open>wtxmgr/db_ctaut.go\<close>: one put, fetch and delete per
  bucket over the raw bucket operations. The source re-reads most of what it puts and panics
  when the value read differs; that check is part of each put here. The locale \<open>txo_table\<close> is
  the contract of a bucket keyed by outpoint, \<open>txo_move\<close> that of moving an output from one such
  bucket to another.
\<close>

section \<open>Contracts\<close>

locale txo_table =
  fixes put :: "'v \<Rightarrow> namespace \<Rightarrow> namespace result"
    and fetch :: "namespace \<Rightarrow> OutPointAbe \<Rightarrow> 'v option result"
    and del :: "OutPointAbe \<Rightarrow> namespace \<Rightarrow> namespace result"
    and outpoint :: "'v \<Rightarrow> OutPointAbe"
    and image :: "'v \<Rightarrow> 'v"
  assumes fetch_put: "put v ns = Inr ns' \<Longrightarrow>
      fetch ns' op = (if op = outpoint v then Inr (Some (image v)) else fetch ns op)"
    and fetch_del: "del op ns = Inr ns' \<Longrightarrow>
      fetch ns' op' = (if op' = op then Inr None else fetch ns op')"
begin

lemma fetch_put_same: "put v ns = Inr ns' \<Longrightarrow> fetch ns' (outpoint v) = Inr (Some (image v))"
  by (simp add: fetch_put)

lemma put_del: "put v ns = Inr ns1 \<Longrightarrow> del (outpoint v) ns1 = Inr ns2 \<Longrightarrow>
    fetch ns (outpoint v) = Inr None \<Longrightarrow> fetch ns2 op = fetch ns op"
  by (auto simp: fetch_put fetch_del)

lemma put_commute:
  "put v ns = Inr a \<Longrightarrow> put w a = Inr b \<Longrightarrow> put w ns = Inr a' \<Longrightarrow> put v a' = Inr b' \<Longrightarrow>
   outpoint v \<noteq> outpoint w \<Longrightarrow> fetch b op = fetch b' op"
  by (simp add: fetch_put)

end

locale txo_move =
  src: txo_table put1 fetch1 del1 outpoint1 image1 + dst: txo_table put2 fetch2 del2 outpoint2 image2
  for put1 :: "'v \<Rightarrow> namespace \<Rightarrow> namespace result" and fetch1 del1 outpoint1 image1
    and put2 :: "'w \<Rightarrow> namespace \<Rightarrow> namespace result" and fetch2 del2 outpoint2 image2 +
  assumes put2_src: "put2 w ns = Inr ns' \<Longrightarrow> fetch1 ns' op = fetch1 ns op"
    and del1_dst: "del1 op' ns = Inr ns' \<Longrightarrow> fetch2 ns' op = fetch2 ns op"
begin

lemma move_src:
  "del1 (outpoint2 w) ns = Inr ns1 \<Longrightarrow> put2 w ns1 = Inr ns2 \<Longrightarrow>
   fetch1 ns2 op = (if op = outpoint2 w then Inr None else fetch1 ns op)"
  by (simp add: put2_src src.fetch_del)

lemma move_dst:
  "del1 (outpoint2 w) ns = Inr ns1 \<Longrightarrow> put2 w ns1 = Inr ns2 \<Longrightarrow>
   fetch2 ns2 op = (if op = outpoint2 w then Inr (Some (image2 w)) else fetch2 ns op)"
  by (simp add: del1_dst dst.fetch_put)

text \<open>An output is never in both tables, if it was not before.\<close>

lemma move_disjoint:
  assumes "del1 (outpoint2 w) ns = Inr ns1" and "put2 w ns1 = Inr ns2"
    and "\<And>op. fetch1 ns op = Inr None \<or> fetch2 ns op = Inr None"
  shows "fetch1 ns2 op = Inr None \<or> fetch2 ns2 op = Inr None"
  using assms(3) [of op] by (auto simp: move_src [OF assms(1,2)] move_dst [OF assms(1,2)])

end

text \<open>\<open>len(v) == 0\<close>: the key is absent, or its value is empty.\<close>

definition nonempty :: "bytes option \<Rightarrow> bytes option" where
  "nonempty v = (case v of None \<Rightarrow> None | Some b \<Rightarrow> if b = [] then None else Some b)"

lemma nonempty_simps [simp]:
  "nonempty None = None" "nonempty (Some b) = (if b = [] then None else Some b)"
  by (simp_all add: nonempty_def)

section \<open>Matured outputs\<close>

definition fetchSpendableTXO :: "namespace \<Rightarrow> hash \<Rightarrow> u8 \<Rightarrow> SpendableTXO option result" where
  "fetchSpendableTXO ns h index =
     rbind (nested_get bucketMaturedOutput (canonicalOutPointAbe h index) ns) (\<lambda>v.
       case nonempty v of None \<Rightarrow> Inr None
       | Some b \<Rightarrow>
           rbind (SpendableTXO_Deserialize (OutPointAbe h index) (Some b)) (\<lambda>op. Inr (Some op)))"

definition putSpendableTXO :: "abec \<Rightarrow> SpendableTXO \<Rightarrow> namespace \<Rightarrow> namespace result" where
  "putSpendableTXO A txo ns =
     (let h = TxHash (txo_TxOutput txo); index = OutIndex (txo_TxOutput txo)
      in rbind (nested_put ''failed to put unspent output'' bucketMaturedOutput
                  (canonicalOutPointAbe h index) (SpendableTXO_Serialize A txo) ns) (\<lambda>ns'.
         case fetchSpendableTXO ns' h index of
           Inl e \<Rightarrow> Inl (GoPanic ''SpendableTXO has unmatched serialization/deserialization'')
         | Inr spendableTXO \<Rightarrow>
             if spendableTXO = Some (memo_hash A txo) then Inr ns'
             else Inl (GoPanic ''SpendableTXO has unmatched serialization/deserialization'')))"

definition existsSpendableTXO :: "namespace \<Rightarrow> bytes \<Rightarrow> bytes option result" where
  "existsSpendableTXO ns k = nested_get bucketMaturedOutput k ns"

definition deleteSpendableTXO :: "bytes \<Rightarrow> namespace \<Rightarrow> namespace result" where
  "deleteSpendableTXO k ns = nested_delete bucketMaturedOutput k ns"

lemma SpendableTXO_Serialize_neq_Nil [simp]: "SpendableTXO_Serialize A t \<noteq> []"
  by (metis length_SpendableTXO_Serialize list.size(3) zero_neq_numeral)

lemma putSpendableTXO_Inr_iff:
  "putSpendableTXO A t ns = Inr ns' \<longleftrightarrow>
     storable_txo t \<and> nested_put ''failed to put unspent output'' bucketMaturedOutput
       (op_key (txo_TxOutput t)) (SpendableTXO_Serialize A t) ns = Inr ns'"
proof -
  have "fetchSpendableTXO n (TxHash (txo_TxOutput t)) (OutIndex (txo_TxOutput t))
      = Inr (Some (stored_txo A t))"
    if "nested_put ''failed to put unspent output'' bucketMaturedOutput
       (op_key (txo_TxOutput t)) (SpendableTXO_Serialize A t) ns = Inr n" for n
    by (simp add: fetchSpendableTXO_def nested_get_put [OF that] codec_simps)
  then show ?thesis
    by (auto simp: putSpendableTXO_def Let_def rbind_Inr_iff stored_txo_eq_iff split: if_splits)
qed

interpretation matured: txo_table "putSpendableTXO A"
    "\<lambda>ns op. fetchSpendableTXO ns (TxHash op) (OutIndex op)" "\<lambda>op. deleteSpendableTXO (op_key op)"
    txo_TxOutput "memo_hash A" for A
proof
  fix v ns ns' op
  assume "putSpendableTXO A v ns = Inr ns'"
  then show "fetchSpendableTXO ns' (TxHash op) (OutIndex op) =
    (if op = txo_TxOutput v then Inr (Some (memo_hash A v))
     else fetchSpendableTXO ns (TxHash op) (OutIndex op))"
    by (auto simp: putSpendableTXO_Inr_iff fetchSpendableTXO_def nested_get_put codec_simps
        stored_txo_eq_iff)
next
  fix op ns ns' op'
  assume "deleteSpendableTXO (op_key op) ns = Inr ns'"
  then show "fetchSpendableTXO ns' (TxHash op') (OutIndex op') =
    (if op' = op then Inr None else fetchSpendableTXO ns (TxHash op') (OutIndex op'))"
    by (auto simp: deleteSpendableTXO_def fetchSpendableTXO_def nested_get_delete)
qed

section \<open>Outputs spent but unmined\<close>

definition fetchUnconfirmedTXO :: "namespace \<Rightarrow> hash \<Rightarrow> u8 \<Rightarrow> UnconfirmedTXO option result" where
  "fetchUnconfirmedTXO ns h index =
     rbind (nested_get bucketSpentButUnmined (canonicalOutPointAbe h index) ns) (\<lambda>v.
       case nonempty v of None \<Rightarrow> Inr None
       | Some b \<Rightarrow>
           rbind (UnconfirmedTXO_Deserialize (OutPointAbe h index) (Some b)) (\<lambda>op. Inr (Some op)))"

definition putUnconfirmedTXO :: "abec \<Rightarrow> UnconfirmedTXO \<Rightarrow> namespace \<Rightarrow> namespace result" where
  "putUnconfirmedTXO A sbuTxo ns =
     (let op = txo_TxOutput (utx_txo sbuTxo)
      in rbind (nested_put ''failed to put spent but unmined output'' bucketSpentButUnmined
                  (op_key op) (UnconfirmedTXO_Serialize A sbuTxo) ns) (\<lambda>ns'.
         case fetchUnconfirmedTXO ns' (TxHash op) (OutIndex op) of
           Inl e \<Rightarrow> Inl (GoPanic ''putUnconfirmedTXO has unmatched serialization/deserialization'')
         | Inr None \<Rightarrow> Inl nil_bucket
         | Inr (Some txo) \<Rightarrow>
             if memo_hash A (utx_txo sbuTxo) = utx_txo txo
                \<and> utx_SpentByHash sbuTxo = utx_SpentByHash txo
             then Inr ns'
             else Inl (GoPanic ''putUnconfirmedTXO has unmatched serialization/deserialization'')))"

definition existsUnconfirmedTXO :: "namespace \<Rightarrow> bytes \<Rightarrow> bytes option result" where
  "existsUnconfirmedTXO ns k = nested_get bucketSpentButUnmined k ns"

definition deleteUnconfirmedTXO :: "bytes \<Rightarrow> namespace \<Rightarrow> namespace result" where
  "deleteUnconfirmedTXO k ns = nested_delete bucketSpentButUnmined k ns"

lemma UnconfirmedTXO_Serialize_neq_Nil [simp]: "UnconfirmedTXO_Serialize A t \<noteq> []"
  by (metis length_UnconfirmedTXO_Serialize list.size(3) zero_neq_numeral)

lemma putUnconfirmedTXO_Inr_iff:
  "putUnconfirmedTXO A t ns = Inr ns' \<longleftrightarrow>
     storable_txo (utx_txo t) \<and>
     nested_put ''failed to put spent but unmined output'' bucketSpentButUnmined
       (op_key (txo_TxOutput (utx_txo t))) (UnconfirmedTXO_Serialize A t) ns = Inr ns'"
proof -
  have "fetchUnconfirmedTXO n (TxHash (txo_TxOutput (utx_txo t)))
      (OutIndex (txo_TxOutput (utx_txo t))) = Inr (Some (stored_unconfirmed A t))"
    if "nested_put ''failed to put spent but unmined output'' bucketSpentButUnmined
       (op_key (txo_TxOutput (utx_txo t))) (UnconfirmedTXO_Serialize A t) ns = Inr n" for n
    by (simp add: fetchUnconfirmedTXO_def nested_get_put [OF that] codec_simps)
  then show ?thesis
    by (auto simp: putUnconfirmedTXO_def Let_def rbind_Inr_iff
        memo_hash_eq_iff split: if_splits)
qed

interpretation unmined: txo_table "putUnconfirmedTXO A"
    "\<lambda>ns op. fetchUnconfirmedTXO ns (TxHash op) (OutIndex op)"
    "\<lambda>op. deleteUnconfirmedTXO (op_key op)" "\<lambda>t. txo_TxOutput (utx_txo t)"
    "stored_unconfirmed A" for A
proof
  fix v ns ns' op
  assume "putUnconfirmedTXO A v ns = Inr ns'"
  then show "fetchUnconfirmedTXO ns' (TxHash op) (OutIndex op) =
    (if op = txo_TxOutput (utx_txo v) then Inr (Some (stored_unconfirmed A v))
     else fetchUnconfirmedTXO ns (TxHash op) (OutIndex op))"
    by (auto simp: putUnconfirmedTXO_Inr_iff fetchUnconfirmedTXO_def nested_get_put codec_simps)
next
  fix op ns ns' op'
  assume "deleteUnconfirmedTXO (op_key op) ns = Inr ns'"
  then show "fetchUnconfirmedTXO ns' (TxHash op') (OutIndex op') =
    (if op' = op then Inr None else fetchUnconfirmedTXO ns (TxHash op') (OutIndex op'))"
    by (auto simp: deleteUnconfirmedTXO_def fetchUnconfirmedTXO_def nested_get_delete)
qed

interpretation spend_move: txo_move "putSpendableTXO A"
    "\<lambda>ns op. fetchSpendableTXO ns (TxHash op) (OutIndex op)" "\<lambda>op. deleteSpendableTXO (op_key op)"
    txo_TxOutput "memo_hash A"
    "putUnconfirmedTXO A" "\<lambda>ns op. fetchUnconfirmedTXO ns (TxHash op) (OutIndex op)"
    "\<lambda>op. deleteUnconfirmedTXO (op_key op)" "\<lambda>t. txo_TxOutput (utx_txo t)"
    "stored_unconfirmed A" for A
  by unfold_locales
    (auto simp: putUnconfirmedTXO_Inr_iff deleteSpendableTXO_def fetchSpendableTXO_def
      fetchUnconfirmedTXO_def nested_get_put nested_get_delete)

section \<open>Outputs spent in a block\<close>

definition fetchConfirmedTXO :: "namespace \<Rightarrow> hash \<Rightarrow> u8 \<Rightarrow> ConfirmedTXO option result" where
  "fetchConfirmedTXO ns h index =
     rbind (nested_get bucketSpentConfirmed (canonicalOutPointAbe h index) ns) (\<lambda>v.
       case nonempty v of None \<Rightarrow> Inr None
       | Some b \<Rightarrow>
           rbind (ConfirmedTXO_Deserialize (OutPointAbe h index) (Some b)) (\<lambda>op. Inr (Some op)))"

definition putConfirmedTXO :: "abec \<Rightarrow> ConfirmedTXO \<Rightarrow> namespace \<Rightarrow> namespace result" where
  "putConfirmedTXO A scTxo ns =
     (let op = txo_TxOutput (utx_txo (ctx_unconfirmed scTxo))
      in rbind (nested_put ''failed to put spent and confirmed output'' bucketSpentConfirmed
                  (op_key op) (ConfirmedTXO_Serialize A scTxo) ns) (\<lambda>ns'.
         case fetchConfirmedTXO ns' (TxHash op) (OutIndex op) of
           Inl e \<Rightarrow> Inl (GoPanic ''SpendableTXO has unmatched serialization/deserialization'')
         | Inr None \<Rightarrow> Inl nil_bucket
         | Inr (Some txo) \<Rightarrow>
             if utx_txo (ctx_unconfirmed txo) = memo_hash A (utx_txo (ctx_unconfirmed scTxo))
                \<and> utx_SpentByHash (ctx_unconfirmed txo) = utx_SpentByHash (ctx_unconfirmed scTxo)
                \<and> ctx_ConfirmedByBlockHash txo = ctx_ConfirmedByBlockHash scTxo
             then Inr ns'
             else Inl (GoPanic ''SpendableTXO has unmatched serialization/deserialization'')))"

definition deleteConfirmedTXO :: "bytes \<Rightarrow> namespace \<Rightarrow> namespace result" where
  "deleteConfirmedTXO k ns = nested_delete bucketSpentConfirmed k ns"

lemma ConfirmedTXO_Serialize_neq_Nil [simp]: "ConfirmedTXO_Serialize A t \<noteq> []"
  by (metis length_ConfirmedTXO_Serialize list.size(3) zero_neq_numeral)

lemma putConfirmedTXO_Inr_iff:
  "putConfirmedTXO A t ns = Inr ns' \<longleftrightarrow>
     storable_txo (utx_txo (ctx_unconfirmed t)) \<and>
     nested_put ''failed to put spent and confirmed output'' bucketSpentConfirmed
       (op_key (txo_TxOutput (utx_txo (ctx_unconfirmed t)))) (ConfirmedTXO_Serialize A t) ns
     = Inr ns'"
proof -
  let ?op = "txo_TxOutput (utx_txo (ctx_unconfirmed t))"
  have "fetchConfirmedTXO n (TxHash ?op) (OutIndex ?op) = Inr (Some (stored_confirmed A t))"
    if "nested_put ''failed to put spent and confirmed output'' bucketSpentConfirmed
       (op_key ?op) (ConfirmedTXO_Serialize A t) ns = Inr n" for n
    by (simp add: fetchConfirmedTXO_def nested_get_put [OF that] codec_simps)
  moreover have "ctx_ConfirmedByBlockHash (stored_confirmed A t) = ctx_ConfirmedByBlockHash t"
    by (simp add: stored_confirmed_def)
  ultimately show ?thesis
    by (auto simp: putConfirmedTXO_def Let_def rbind_Inr_iff stored_txo_eq_iff split: if_splits)
qed

interpretation confirmed: txo_table "putConfirmedTXO A"
    "\<lambda>ns op. fetchConfirmedTXO ns (TxHash op) (OutIndex op)"
    "\<lambda>op. deleteConfirmedTXO (op_key op)" "\<lambda>t. txo_TxOutput (utx_txo (ctx_unconfirmed t))"
    "stored_confirmed A" for A
proof
  fix v ns ns' op
  assume "putConfirmedTXO A v ns = Inr ns'"
  then show "fetchConfirmedTXO ns' (TxHash op) (OutIndex op) =
    (if op = txo_TxOutput (utx_txo (ctx_unconfirmed v)) then Inr (Some (stored_confirmed A v))
     else fetchConfirmedTXO ns (TxHash op) (OutIndex op))"
    by (auto simp: putConfirmedTXO_Inr_iff fetchConfirmedTXO_def nested_get_put codec_simps)
next
  fix op ns ns' op'
  assume "deleteConfirmedTXO (op_key op) ns = Inr ns'"
  then show "fetchConfirmedTXO ns' (TxHash op') (OutIndex op') =
    (if op' = op then Inr None else fetchConfirmedTXO ns (TxHash op') (OutIndex op'))"
    by (auto simp: deleteConfirmedTXO_def fetchConfirmedTXO_def nested_get_delete)
qed

interpretation confirm_move: txo_move "putUnconfirmedTXO A"
    "\<lambda>ns op. fetchUnconfirmedTXO ns (TxHash op) (OutIndex op)"
    "\<lambda>op. deleteUnconfirmedTXO (op_key op)" "\<lambda>t. txo_TxOutput (utx_txo t)"
    "stored_unconfirmed A"
    "putConfirmedTXO A" "\<lambda>ns op. fetchConfirmedTXO ns (TxHash op) (OutIndex op)"
    "\<lambda>op. deleteConfirmedTXO (op_key op)" "\<lambda>t. txo_TxOutput (utx_txo (ctx_unconfirmed t))"
    "stored_confirmed A" for A
  by unfold_locales
    (auto simp: putConfirmedTXO_Inr_iff deleteUnconfirmedTXO_def fetchConfirmedTXO_def
      fetchUnconfirmedTXO_def nested_get_put nested_get_delete)

end
