(* ===== verification/Records.thy ===== *)
theory Records
  imports Tables
begin

text \<open>
  The remaining typed buckets of \<open>wtxmgr/db.go\<close> and \<open>wtxmgr/db_ctaut.go\<close>: token coins, rings,
  the per-block indexes, and the transaction records of the unconfirmed, invalid and confirmed
  buckets.
\<close>

section \<open>Token coins\<close>

definition putRawCTAUTCoin :: "hash \<Rightarrow> u8 \<Rightarrow> CTAUTCoin \<Rightarrow> namespace \<Rightarrow> namespace result" where
  "putRawCTAUTCoin txHash index coin ns =
     nested_put ''failed to put aut entry'' bucketCTAUTPoint (canonicalOutPointAbe txHash index)
       (CTAUTCoin_Serialized coin) ns"

definition store_wrap :: "string \<Rightarrow> 'a result \<Rightarrow> 'a result" where
  "store_wrap msg r =
     (case r of Inl (GoPanic e) \<Rightarrow> Inl (GoPanic e) | Inl _ \<Rightarrow> Inl (StoreError ErrDatabase msg)
      | Inr x \<Rightarrow> Inr x)"

lemma store_wrap_Inr_iff [simp]: "store_wrap msg r = Inr x \<longleftrightarrow> r = Inr x"
  by (auto simp: store_wrap_def split: sum.splits go_error.splits)

lemma store_wrap_Inr [simp]: "store_wrap msg (Inr x) = Inr x"
  by (simp add: store_wrap_def)

definition fetchRawCTAUTCoin :: "namespace \<Rightarrow> hash \<Rightarrow> u8 \<Rightarrow> CTAUTCoin result" where
  "fetchRawCTAUTCoin ns txHash index =
     rbind (nested_get bucketCTAUTPoint (canonicalOutPointAbe txHash index) ns) (\<lambda>v.
       case nonempty v of None \<Rightarrow> Inl (StoreError ErrDatabase ''failed to fetch aut coin'')
       | Some b \<Rightarrow> store_wrap ''failed to deserialize the aut coin''
           (CTAUTCoin_Deserialize (OutPointAbe txHash index) (Some b)))"

definition existsRawCTAUTCoin :: "namespace \<Rightarrow> bytes \<Rightarrow> bytes option result" where
  "existsRawCTAUTCoin ns k = nested_get bucketCTAUTPoint k ns"

definition deleteRawCTAUTCoin :: "bytes \<Rightarrow> namespace \<Rightarrow> namespace result" where
  "deleteRawCTAUTCoin k ns = nested_delete bucketCTAUTPoint k ns"

text \<open>Marking a coin spent returns it with the mark, and whether it bore the mark before.\<close>

definition spendCTAUTCoin ::
  "hash \<Rightarrow> u8 \<Rightarrow> namespace \<Rightarrow> ((CTAUTCoin \<times> bool) \<times> namespace) result" where
  "spendCTAUTCoin txHash index ns =
     rbind (fetchRawCTAUTCoin ns txHash index) (\<lambda>token.
     let spent = ct_Spent token; token = token\<lparr>ct_Spent := True\<rparr>
     in rbind (store_wrap ''failed to spent aut coin'' (putRawCTAUTCoin txHash index token ns))
          (\<lambda>ns. Inr ((token, spent), ns)))"

definition restoreCTAUTCoin :: "hash \<Rightarrow> u8 \<Rightarrow> namespace \<Rightarrow> (CTAUTCoin \<times> namespace) result" where
  "restoreCTAUTCoin txHash index ns =
     rbind (fetchRawCTAUTCoin ns txHash index) (\<lambda>autCoin.
     let autCoin = autCoin\<lparr>ct_Spent := False\<rparr>
     in rbind (store_wrap ''failed to spent aut coin'' (putRawCTAUTCoin txHash index autCoin ns))
          (\<lambda>ns. Inr (autCoin, ns)))"

lemma CTAUTCoin_Serialized_neq_Nil [simp]: "CTAUTCoin_Serialized c \<noteq> []"
  by (simp add: CTAUTCoin_Serialized_def)

lemma fetchRawCTAUTCoin_put:
  assumes "putRawCTAUTCoin h i c ns = Inr ns'" and "ct_TxOutput c = OutPointAbe h i"
    and "storable_CTAUTCoin c"
  shows "fetchRawCTAUTCoin ns' h i = Inr (stored_CTAUTCoin c)"
  using assms(1) CTAUTCoin_Deserialize_Serialized [OF assms(3)] assms(2)
  by (simp add: fetchRawCTAUTCoin_def putRawCTAUTCoin_def nested_get_put)

lemma fetchRawCTAUTCoin_put_other:
  assumes "putRawCTAUTCoin h i c ns = Inr ns'" and "(h', i') \<noteq> (h, i)"
  shows "fetchRawCTAUTCoin ns' h' i' = fetchRawCTAUTCoin ns h' i'"
  using assms by (auto simp: fetchRawCTAUTCoin_def putRawCTAUTCoin_def nested_get_put)

lemma CTAUTCoin_Deserialize_TxOutput:
  "CTAUTCoin_Deserialize op v = Inr c \<Longrightarrow> ct_TxOutput c = op"
  by (auto simp: CTAUTCoin_Deserialize_def rbind_Inr_iff split: option.splits if_splits)

lemma get_bytes_length: "get_bytes n v = Inr (b, r) \<Longrightarrow> length b = n"
  by (auto simp: get_bytes_def split: if_splits)

lemma get_lp32_length: "get_lp32 v = Inr (b, r) \<Longrightarrow> length b < 2 ^ 32"
proof -
  have "unat n < 2 ^ 32" for n :: u32 using unsigned_less [of n] by simp
  then show "get_lp32 v = Inr (b, r) \<Longrightarrow> length b < 2 ^ 32"
    by (auto simp: get_lp32_def rbind_Inr_iff dest!: get_bytes_length)
qed

lemma get_lp64_length: "get_lp64 v = Inr (b, r) \<Longrightarrow> length b < 2 ^ 64"
proof -
  have "unat n < 2 ^ 64" for n :: u64 using unsigned_less [of n] by simp
  then show "get_lp64 v = Inr (b, r) \<Longrightarrow> length b < 2 ^ 64"
    by (auto simp: get_lp64_def rbind_Inr_iff dest!: get_bytes_length)
qed

lemma CTAUTCoin_Deserialize_storable:
  assumes "CTAUTCoin_Deserialize op v = Inr c"
  shows "storable_CTAUTCoin c"
  using assms
  by (auto simp: CTAUTCoin_Deserialize_def rbind_Inr_iff storable_CTAUTCoin_def
      split: option.splits if_splits dest!: get_lp32_length get_lp64_length)

lemma ct_flag_type_idem [simp]: "ct_flag_type t AND 1 = ct_flag_type t"
proof (rule bit_word_eqI)
  fix n assume "n < LENGTH(8)"
  have two: "bit (2 :: u8) m \<longleftrightarrow> m = 1" for m
    using bit_exp_iff [where 'a = u8, of 1 m] by auto
  show "bit (ct_flag_type t AND 1) n = bit (ct_flag_type t) n"
    by (simp only: ct_flag_type_def bit_and_iff bit_1_iff bit_drop_bit_eq comp_def two) auto
qed

lemma CTAUTCoin_Deserialize_stored:
  assumes "CTAUTCoin_Deserialize op v = Inr c"
  shows "stored_CTAUTCoin c = c"
  using assms
  by (auto simp: CTAUTCoin_Deserialize_def rbind_Inr_iff stored_CTAUTCoin_def
      split: option.splits if_splits)

lemma fetchRawCTAUTCoin_ok:
  assumes "fetchRawCTAUTCoin ns h i = Inr c"
  shows "ct_TxOutput c = OutPointAbe h i" "storable_CTAUTCoin c" "stored_CTAUTCoin c = c"
  using assms CTAUTCoin_Deserialize_TxOutput CTAUTCoin_Deserialize_storable
    CTAUTCoin_Deserialize_stored
  by (auto simp: fetchRawCTAUTCoin_def rbind_Inr_iff split: option.splits)

text \<open>Spending and restoring a coin are inverse up to the mark it bore.\<close>

lemma stored_CTAUTCoin_Spent [simp]:
  "stored_CTAUTCoin (c\<lparr>ct_Spent := b\<rparr>) = (stored_CTAUTCoin c)\<lparr>ct_Spent := b\<rparr>"
  "storable_CTAUTCoin (c\<lparr>ct_Spent := b\<rparr>) = storable_CTAUTCoin c"
  by (simp_all add: stored_CTAUTCoin_def storable_CTAUTCoin_def)

lemma spendCTAUTCoin_spec:
  assumes "spendCTAUTCoin h i ns = Inr ((token, spent), ns')"
  shows "\<exists>c. fetchRawCTAUTCoin ns h i = Inr c \<and> token = c\<lparr>ct_Spent := True\<rparr> \<and> spent = ct_Spent c
    \<and> fetchRawCTAUTCoin ns' h i = Inr (c\<lparr>ct_Spent := True\<rparr>)"
proof -
  obtain c where c: "fetchRawCTAUTCoin ns h i = Inr c" "token = c\<lparr>ct_Spent := True\<rparr>"
    "spent = ct_Spent c" "putRawCTAUTCoin h i token ns = Inr ns'"
    using assms by (auto simp: spendCTAUTCoin_def Let_def rbind_Inr_iff)
  note ok = fetchRawCTAUTCoin_ok [OF c(1)]
  have "fetchRawCTAUTCoin ns' h i = Inr (stored_CTAUTCoin token)"
    by (rule fetchRawCTAUTCoin_put [OF c(4)]) (simp_all add: c(2) ok)
  with c ok show ?thesis by simp
qed

lemma restoreCTAUTCoin_spec:
  assumes "restoreCTAUTCoin h i ns = Inr (token, ns')"
  shows "\<exists>c. fetchRawCTAUTCoin ns h i = Inr c \<and> token = c\<lparr>ct_Spent := False\<rparr>
    \<and> fetchRawCTAUTCoin ns' h i = Inr (c\<lparr>ct_Spent := False\<rparr>)"
proof -
  obtain c where c: "fetchRawCTAUTCoin ns h i = Inr c" "token = c\<lparr>ct_Spent := False\<rparr>"
    "putRawCTAUTCoin h i token ns = Inr ns'"
    using assms by (auto simp: restoreCTAUTCoin_def Let_def rbind_Inr_iff)
  note ok = fetchRawCTAUTCoin_ok [OF c(1)]
  have "fetchRawCTAUTCoin ns' h i = Inr (stored_CTAUTCoin token)"
    by (rule fetchRawCTAUTCoin_put [OF c(3)]) (simp_all add: c(2) ok)
  with c ok show ?thesis by simp
qed

section \<open>Rings\<close>

definition fetchRingDetails :: "abec \<Rightarrow> namespace \<Rightarrow> bytes \<Rightarrow> Ring result" where
  "fetchRingDetails A ns k =
     rbind (nested_get bucketRingDetails k ns) (\<lambda>v.
       case v of None \<Rightarrow> Inl (GoError ''the pair is not exist'')
       | Some b \<Rightarrow> Ring_Deserialize A b)"

definition FetchRingDetails :: "abec \<Rightarrow> namespace \<Rightarrow> bytes \<Rightarrow> Ring result" where
  "FetchRingDetails A ns k = fetchRingDetails A ns k"

definition putRingDetails :: "abec \<Rightarrow> hash \<Rightarrow> Ring \<Rightarrow> namespace \<Rightarrow> namespace result" where
  "putRingDetails A ringHash ring ns =
     rbind (Ring_Serialize ring) (\<lambda>v.
     rbind (nested_put ''failed to put ring details'' bucketRingDetails (be_bytes 32 ringHash) v ns)
       (\<lambda>ns'.
       if fetchRingDetails A ns' (be_bytes 32 ringHash) = Inr ring then Inr ns'
       else Inl (GoPanic ''putRingDetails has unmatched serialization/deserialization'')))"

text \<open>
  \<open>existsRingDetails\<close> copies the hash into its own nil key, so it asks for the empty key
  whatever the hash.
\<close>

definition existsRingDetails :: "namespace \<Rightarrow> hash \<Rightarrow> (bytes \<times> bytes option) result" where
  "existsRingDetails ns h = rbind (nested_get bucketRingDetails [] ns) (\<lambda>v. Inr ([], v))"

definition deleteRingDetails :: "bytes \<Rightarrow> namespace \<Rightarrow> namespace result" where
  "deleteRingDetails k ns = nested_delete bucketRingDetails k ns"

definition updateDeletedHeightRingDetails ::
  "abec \<Rightarrow> hash \<Rightarrow> i32 \<Rightarrow> namespace \<Rightarrow> namespace result" where
  "updateDeletedHeightRingDetails A ringHash height ns =
     rbind (store_wrap ''failed to fetch ring details''
              (fetchRingDetails A ns (be_bytes 32 ringHash))) (\<lambda>ring.
     putRingDetails A ringHash (ring\<lparr>rg_BlockHeight := height\<rparr>) ns)"

definition fetchUTXORing :: "abec \<Rightarrow> namespace \<Rightarrow> bytes \<Rightarrow> UTXORing option result" where
  "fetchUTXORing A ns k =
     rbind (nested_get bucketUTXORing k ns) (\<lambda>v.
       case v of None \<Rightarrow> Inr None
       | Some b \<Rightarrow> rbind (UTXORing_Deserialize A b) (\<lambda>u. Inr (Some u)))"

text \<open>\<open>reflect.DeepEqual\<close> on maps: a nil map differs from an empty one; order is no matter.\<close>

definition go_map_eq :: "('k \<times> 'v) list option \<Rightarrow> ('k \<times> 'v) list option \<Rightarrow> bool" where
  "go_map_eq a b =
     (case (a, b) of
        (None, None) \<Rightarrow> True
      | (Some m, Some m') \<Rightarrow>
          list_all (\<lambda>(k, v). map_of m' k = Some v) m \<and> list_all (\<lambda>(k, v). map_of m k = Some v) m'
      | _ \<Rightarrow> False)"

definition utxoring_deep_equal :: "UTXORing \<Rightarrow> UTXORing \<Rightarrow> bool" where
  "utxoring_deep_equal u v \<longleftrightarrow>
     u\<lparr>ur_OriginSerialNumberes := None\<rparr> = v\<lparr>ur_OriginSerialNumberes := None\<rparr> \<and>
     go_map_eq (ur_OriginSerialNumberes u) (ur_OriginSerialNumberes v)"

definition putUTXORing :: "abec \<Rightarrow> hash \<Rightarrow> UTXORing \<Rightarrow> namespace \<Rightarrow> namespace result" where
  "putUTXORing A ringHash u ns =
     rbind (UTXORing_Serialize A u) (\<lambda>v.
     rbind (nested_put ''failed to put utxoring'' bucketUTXORing (be_bytes 32 ringHash) v ns)
       (\<lambda>ns'.
       case fetchUTXORing A ns' (be_bytes 32 ringHash) of
         Inr (Some res) \<Rightarrow>
           if utxoring_deep_equal u res then Inr ns'
           else Inl (GoPanic ''UTXORing has unmatched serialization/deserialization'')
       | _ \<Rightarrow> Inl (GoPanic ''UTXORing has unmatched serialization/deserialization'')))"

definition existsUTXORing :: "namespace \<Rightarrow> hash \<Rightarrow> (bytes \<times> bytes option) result" where
  "existsUTXORing ns h =
     rbind (nested_get bucketUTXORing (be_bytes 32 h) ns) (\<lambda>v. Inr (be_bytes 32 h, v))"

definition deleteUTXORing :: "bytes \<Rightarrow> namespace \<Rightarrow> namespace result" where
  "deleteUTXORing k ns = nested_delete bucketUTXORing k ns"

lemma go_map_eq_refl: "distinct (map fst m) \<Longrightarrow> go_map_eq (Some m) (Some m)"
  by (auto simp: go_map_eq_def list_all_iff)

lemma putUTXORing_frame:
  assumes "putUTXORing A h u ns = Inr ns'"
  shows "\<exists>v. nested_put ''failed to put utxoring'' bucketUTXORing (be_bytes 32 h) v ns = Inr ns'
    \<and> UTXORing_Serialize A u = Inr v"
    and "\<exists>r. fetchUTXORing A ns' (be_bytes 32 h) = Inr (Some r) \<and> utxoring_deep_equal u r"
proof -
  from assms obtain v n where v: "UTXORing_Serialize A u = Inr v"
    "nested_put ''failed to put utxoring'' bucketUTXORing (be_bytes 32 h) v ns = Inr n"
    and c: "(case fetchUTXORing A n (be_bytes 32 h) of
         Inr (Some res) \<Rightarrow>
           if utxoring_deep_equal u res then Inr n
           else Inl (GoPanic ''UTXORing has unmatched serialization/deserialization'')
       | _ \<Rightarrow> Inl (GoPanic ''UTXORing has unmatched serialization/deserialization'')) = Inr ns'"
    unfolding putUTXORing_def by (elim rbind_InrE)
  from c obtain r where "fetchUTXORing A n (be_bytes 32 h) = Inr (Some r)"
    "utxoring_deep_equal u r" "n = ns'"
    by (cases "fetchUTXORing A n (be_bytes 32 h)") (auto split: option.splits if_splits)
  with v show
    "\<exists>v. nested_put ''failed to put utxoring'' bucketUTXORing (be_bytes 32 h) v ns = Inr ns'
      \<and> UTXORing_Serialize A u = Inr v"
    "\<exists>r. fetchUTXORing A ns' (be_bytes 32 h) = Inr (Some r) \<and> utxoring_deep_equal u r"
    by auto
qed

text \<open>
  When the put succeeds, exactly: the ring has the shape the layout can hold, is not to be
  deleted, and its map of serial numbers is nil when it has none.
\<close>

lemma putUTXORing_ok:
  assumes "storable_utxoring A u" and "\<not> ur_AllSpent u" "\<not> ur_Refreshed u"
    and "ur_OriginSerialNumberes u \<noteq> Some []" and "ns_bucket ns bucketUTXORing = Some m"
  shows "\<exists>ns'. putUTXORing A h u ns = Inr ns'
    \<and> fetchUTXORing A ns' (be_bytes 32 h) = Inr (Some u)"
proof -
  obtain v where v: "UTXORing_Serialize A u = Inr v"
    "UTXORing_Deserialize A v = Inr (stored_utxoring u)"
    using UTXORing_Deserialize_Serialize [OF assms(1)] by blast
  have u: "stored_utxoring u = u"
    using assms(2-4) by (cases u) (auto simp: stored_utxoring_def origins_def split: option.splits)
  let ?ns = "set_bucket bucketUTXORing (Some (kv_put (be_bytes 32 h) v m)) ns"
  have p: "nested_put ''failed to put utxoring'' bucketUTXORing (be_bytes 32 h) v ns = Inr ?ns"
    using assms(5) by (simp add: nested_put_Inr_iff)
  have f: "fetchUTXORing A ?ns (be_bytes 32 h) = Inr (Some u)"
    using v(2) by (simp add: fetchUTXORing_def nested_get_put [OF p] u)
  have "utxoring_deep_equal u u"
    using assms(1)
    by (auto simp: utxoring_deep_equal_def go_map_eq_def storable_utxoring_def Let_def origins_def
        list_all_iff split: option.splits)
  then have "putUTXORing A h u ns = Inr ?ns"
    using v(1) p f by (simp add: putUTXORing_def)
  with f show ?thesis by blast
qed

lemma putUTXORing_AllSpent:
  assumes "ur_AllSpent u \<or> ur_Refreshed u"
  shows "putUTXORing A h u ns \<noteq> Inr ns'"
proof
  assume "putUTXORing A h u ns = Inr ns'"
  then obtain r where r: "fetchUTXORing A ns' (be_bytes 32 h) = Inr (Some r)"
    "utxoring_deep_equal u r"
    using putUTXORing_frame(2) by blast
  then have "\<not> ur_AllSpent r \<and> \<not> ur_Refreshed r"
    by (auto simp: fetchUTXORing_def rbind_Inr_iff UTXORing_Deserialize_def
        split: option.splits if_splits)
  moreover have "ur_AllSpent r = ur_AllSpent u \<and> ur_Refreshed r = ur_Refreshed u"
    using r(2) by (cases u; cases r) (simp add: utxoring_deep_equal_def)
  ultimately show False using assms by simp
qed

lemma putRingDetails_frame:
  assumes "putRingDetails A h r ns = Inr ns'"
  shows "\<exists>v. nested_put ''failed to put ring details'' bucketRingDetails (be_bytes 32 h) v ns
      = Inr ns'"
    and "fetchRingDetails A ns' (be_bytes 32 h) = Inr r"
  using assms by (auto simp: putRingDetails_def rbind_Inr_iff split: if_splits)

end
