(* ===== verification/TxTables.thy ===== *)
theory TxTables
  imports Records
begin

text \<open>
  Transaction and block records, and the buckets that hold them (\<open>wtxmgr/tx.go\<close>,
  \<open>wtxmgr/db.go\<close>): the unconfirmed, invalid and confirmed transactions, the relevance index
  from an outpoint to the transactions that spend it, the recent raw blocks, and the per-block
  indexes of outputs, inputs, immature outputs and disabled root coins.
\<close>

section \<open>Transaction records\<close>

record TxRecord =
  rec_MsgTx :: MsgTxAbe
  rec_Hash :: hash
  rec_Received :: gotime
  rec_SerializedTx :: "bytes option"

text \<open>\<open>Serialize\<close> caches the serialised transaction in the record it is called on.\<close>

definition TxRecord_Serialize :: "abec \<Rightarrow> TxRecord \<Rightarrow> (bytes \<times> TxRecord) result" where
  "TxRecord_Serialize A tx =
     rbind (case nonempty (rec_SerializedTx tx) of
              None \<Rightarrow> MsgTx_Serialize A (rec_MsgTx tx)
            | Some s \<Rightarrow> Inr s) (\<lambda>s.
       Inr (be_bytes 8 (unix (rec_Received tx)) @ s, tx\<lparr>rec_SerializedTx := Some s\<rparr>))"

definition TxRecord_Deserialize :: "abec \<Rightarrow> bytes \<Rightarrow> TxRecord result" where
  "TxRecord_Deserialize A v =
     (if length v < 8 then Inl (GoError ''invalid serialized transaction'')
      else rbind (get_u64 v) (\<lambda>(t, r).
           rbind (MsgTx_Deserialize A r) (\<lambda>msg.
             Inr \<lparr>rec_MsgTx = msg, rec_Hash = MsgTx_TxHash A msg, rec_Received = time_Unix t,
                  rec_SerializedTx = Some r\<rparr>)))"

definition input_error :: "string \<Rightarrow> 'a result \<Rightarrow> 'a result" where
  "input_error msg r =
     (case r of Inl (GoPanic e) \<Rightarrow> Inl (GoPanic e) | Inl _ \<Rightarrow> Inl (StoreError ErrInput msg)
      | Inr x \<Rightarrow> Inr x)"

lemma input_error_Inr [simp]: "input_error msg (Inr x) = Inr x"
  by (simp add: input_error_def)

lemma input_error_Inr_iff [simp]: "input_error msg r = Inr x \<longleftrightarrow> r = Inr x"
  by (auto simp: input_error_def split: sum.splits go_error.splits)

definition NewTxRecord :: "abec \<Rightarrow> bytes \<Rightarrow> gotime \<Rightarrow> TxRecord result" where
  "NewTxRecord A serializedTx received =
     rbind (input_error ''failed to deserialize transaction'' (MsgTx_Deserialize A serializedTx))
       (\<lambda>msg. Inr \<lparr>rec_MsgTx = msg, rec_Hash = DoubleHashH A serializedTx,
                   rec_Received = received, rec_SerializedTx = Some serializedTx\<rparr>)"

definition NewTxRecordFromMsgTx :: "abec \<Rightarrow> MsgTxAbe \<Rightarrow> gotime \<Rightarrow> TxRecord result" where
  "NewTxRecordFromMsgTx A msgTx received =
     rbind (input_error ''failed to serialize transaction'' (MsgTx_SerializeFull A msgTx))
       (\<lambda>s. Inr \<lparr>rec_MsgTx = msgTx, rec_Hash = MsgTx_TxHash A msgTx,
                 rec_Received = received, rec_SerializedTx = Some s\<rparr>)"

text \<open>
  The buffer of the first branch has the capacity \<open>SerializeSize\<close>, which \<open>Serialize\<close> fills.
\<close>

definition valueTxRecord :: "abec \<Rightarrow> TxRecord \<Rightarrow> bytes result" where
  "valueTxRecord A rec =
     (case rec_SerializedTx rec of
        None \<Rightarrow>
          rbind (input_error ''unable to serialize transaction'' (MsgTx_Serialize A (rec_MsgTx rec)))
            (\<lambda>s. Inr (be_bytes 8 (unix (rec_Received rec)) @ s))
      | Some s \<Rightarrow> Inr (be_bytes 8 (unix (rec_Received rec)) @ s))"

text \<open>\<open>readRawTxRecord\<close> leaves \<open>SerializedTx\<close> as it was in the record it fills.\<close>

definition readRawTxRecord :: "abec \<Rightarrow> hash \<Rightarrow> bytes \<Rightarrow> TxRecord \<Rightarrow> TxRecord result" where
  "readRawTxRecord A txHash v rec =
     (if length v < 8 then Inl (StoreError ErrData ''short read'')
      else rbind (get_u64 v) (\<lambda>(t, r).
           case MsgTx_Deserialize A r of
             Inl (GoPanic e) \<Rightarrow> Inl (GoPanic e)
           | Inl _ \<Rightarrow> Inl (StoreError ErrData ''failed to deserialize transaction'')
           | Inr msg \<Rightarrow>
               Inr (rec\<lparr>rec_Hash := txHash, rec_Received := time_Unix t, rec_MsgTx := msg\<rparr>)))"

lemma TxRecord_Deserialize_Serialize:
  assumes "TxRecord_Serialize A tx = Inr (v, tx')"
    and "MsgTx_Deserialize A (drop 8 v) = Inr (rec_MsgTx tx)"
    and "rec_Hash tx = MsgTx_TxHash A (rec_MsgTx tx)" and "whole_second (rec_Received tx)"
  shows "TxRecord_Deserialize A v = Inr tx'"
  using assms
  by (cases tx) (auto simp: TxRecord_Serialize_def TxRecord_Deserialize_def rbind_Inr_iff codec_simps)

definition putTxRecord :: "abec \<Rightarrow> bucket \<Rightarrow> TxRecord \<Rightarrow> namespace \<Rightarrow> namespace result" where
  "putTxRecord A bucketName tx ns =
     rbind (TxRecord_Serialize A tx) (\<lambda>(v, tx).
       case TxRecord_Deserialize A v of
         Inl e \<Rightarrow> Inl (GoPanic ''unmatched TxRecord Serialized/Deserialized'')
       | Inr res \<Rightarrow>
           if res = tx
           then nested_put ''fail to put unconfirmed transaction'' bucketName
                  (be_bytes 32 (rec_Hash tx)) v ns
           else Inl (GoPanic ''unmatched TxRecord Serialized/Deserialized''))"

definition putUnconfirmedTx where "putUnconfirmedTx A = putTxRecord A bucketUnconfirmedTx"
definition putInvalidTx where "putInvalidTx A = putTxRecord A bucketInvalidTx"
definition putConfirmedTx where "putConfirmedTx A = putTxRecord A bucketConfirmedTx"

text \<open>A raw record moved between buckets gets the present time for its first eight bytes.\<close>

definition retime :: "gotime \<Rightarrow> bytes \<Rightarrow> bytes result" where
  "retime now v = (if length v < 8 then Inl out_of_range
     else Inr (be_bytes 8 (unix now) @ drop 8 v))"

definition putRawUnconfirmedTx :: "gotime \<Rightarrow> bytes \<Rightarrow> bytes \<Rightarrow> namespace \<Rightarrow> namespace result" where
  "putRawUnconfirmedTx now k v ns =
     rbind (retime now v) (\<lambda>v.
       nested_put ''fail to put unconfirmed transaction'' bucketUnconfirmedTx k v ns)"

definition putRawInvalidTx :: "gotime \<Rightarrow> bytes \<Rightarrow> bytes \<Rightarrow> namespace \<Rightarrow> namespace result" where
  "putRawInvalidTx now k v ns =
     rbind (retime now v) (\<lambda>v.
       nested_put ''fail to put invalid transaction'' bucketInvalidTx k v ns)"

definition putRawConfirmedTx :: "bytes \<Rightarrow> bytes \<Rightarrow> namespace \<Rightarrow> namespace result" where
  "putRawConfirmedTx k v ns =
     nested_put ''fail to put confirmed transaction'' bucketConfirmedTx k v ns"

definition putRawRelevantTxs :: "bytes \<Rightarrow> bytes \<Rightarrow> namespace \<Rightarrow> namespace result" where
  "putRawRelevantTxs k v ns =
     nested_put ''fail to put relevant transactions'' bucketRelevantTxs k v ns"

definition existsRawUnconfirmedTx :: "namespace \<Rightarrow> bytes \<Rightarrow> bytes option result" where
  "existsRawUnconfirmedTx ns k = nested_get bucketUnconfirmedTx k ns"

definition existsRawInvalidTx :: "namespace \<Rightarrow> bytes \<Rightarrow> bytes option result" where
  "existsRawInvalidTx ns k = nested_get bucketInvalidTx k ns"

definition existsRawConfirmedTx :: "namespace \<Rightarrow> bytes \<Rightarrow> bytes option result" where
  "existsRawConfirmedTx ns k = nested_get bucketConfirmedTx k ns"

definition existsRawReleventTxs :: "namespace \<Rightarrow> bytes \<Rightarrow> bytes option result" where
  "existsRawReleventTxs ns k = nested_get bucketRelevantTxs k ns"

definition deleteRawUnconfirmedTx :: "bytes \<Rightarrow> namespace \<Rightarrow> namespace result" where
  "deleteRawUnconfirmedTx k ns = nested_delete bucketUnconfirmedTx k ns"

definition deleteRawInvalidTx :: "bytes \<Rightarrow> namespace \<Rightarrow> namespace result" where
  "deleteRawInvalidTx k ns = nested_delete bucketInvalidTx k ns"

definition deleteRawConfirmedTx :: "bytes \<Rightarrow> namespace \<Rightarrow> namespace result" where
  "deleteRawConfirmedTx k ns = nested_delete bucketConfirmedTx k ns"

lemmas raw_tx_defs = putRawUnconfirmedTx_def putRawInvalidTx_def putRawConfirmedTx_def
  putRawRelevantTxs_def existsRawUnconfirmedTx_def existsRawInvalidTx_def
  existsRawConfirmedTx_def existsRawReleventTxs_def deleteRawUnconfirmedTx_def
  deleteRawInvalidTx_def deleteRawConfirmedTx_def

section \<open>Block records\<close>

record MsgBlockAbe =
  mb_PrevBlock :: hash
  mb_Timestamp :: gotime
  mb_Transactions :: "MsgTxAbe list"
  mb_rest :: bytes

text \<open>Further \<open>abec\<close> functions, those on blocks.\<close>

record abecblk =
  MsgBlock_SerializeNoWitness :: "MsgBlockAbe \<Rightarrow> bytes result"
  MsgBlock_DeserializeNoWitness :: "bytes \<Rightarrow> MsgBlockAbe result"
  MsgBlock_Serialize :: "MsgBlockAbe \<Rightarrow> bytes result"
  MsgBlock_Deserialize :: "bytes \<Rightarrow> MsgBlockAbe result"
  MsgBlock_BlockHash :: "MsgBlockAbe \<Rightarrow> hash"

record BlockRecord =
  blk_MsgBlock :: MsgBlockAbe
  blk_Height :: i32
  blk_Hash :: hash
  blk_RecvTime :: gotime
  blk_TxRecords :: "TxRecord list"
  blk_SerializedBlock :: bytes

text \<open>
  The height is the first four bytes of the first block hash the coinbase transaction's first
  input refers to.
\<close>

definition coinbase_height :: "MsgBlockAbe \<Rightarrow> i32 result" where
  "coinbase_height b =
     rbind (go_nth (mb_Transactions b) 0) (\<lambda>tx.
     rbind (go_nth (msg_TxIns tx) 0) (\<lambda>txin.
     rbind (go_nth (opr_BlockHashs (in_PreviousOutPointRing txin)) 0) (\<lambda>h.
       Inr (be_word (take 4 (be_bytes 32 h))))))"

fun tx_records :: "abec \<Rightarrow> gotime \<Rightarrow> MsgTxAbe list \<Rightarrow> TxRecord list result" where
  "tx_records A t [] = Inr []"
| "tx_records A t (tx # txs) =
     rbind (NewTxRecordFromMsgTx A tx t) (\<lambda>r.
     rbind (tx_records A t txs) (\<lambda>rs. Inr (r # rs)))"

definition NewBlockRecord :: "abec \<Rightarrow> abecblk \<Rightarrow> bytes \<Rightarrow> BlockRecord result" where
  "NewBlockRecord A B serializedBlock =
     rbind (input_error ''failed to deserialize block''
              (MsgBlock_DeserializeNoWitness B serializedBlock)) (\<lambda>msg.
     rbind (coinbase_height msg) (\<lambda>height.
     rbind (tx_records A (mb_Timestamp msg) (mb_Transactions msg)) (\<lambda>recs.
       Inr \<lparr>blk_MsgBlock = msg, blk_Height = height, blk_Hash = MsgBlock_BlockHash B msg,
            blk_RecvTime = mb_Timestamp msg, blk_TxRecords = recs,
            blk_SerializedBlock = serializedBlock\<rparr>)))"

definition NewBlockRecordFromMsgBlock :: "abec \<Rightarrow> abecblk \<Rightarrow> MsgBlockAbe \<Rightarrow> BlockRecord result" where
  "NewBlockRecordFromMsgBlock A B msgBlock =
     rbind (input_error ''failed to serialize block'' (MsgBlock_Serialize B msgBlock)) (\<lambda>s.
     rbind (coinbase_height msgBlock) (\<lambda>height.
     rbind (tx_records A (mb_Timestamp msgBlock) (mb_Transactions msgBlock)) (\<lambda>recs.
       Inr \<lparr>blk_MsgBlock = msgBlock, blk_Height = height,
            blk_Hash = MsgBlock_BlockHash B msgBlock, blk_RecvTime = mb_Timestamp msgBlock,
            blk_TxRecords = recs, blk_SerializedBlock = s\<rparr>)))"

definition putBlockRecord :: "abecblk \<Rightarrow> BlockRecord option \<Rightarrow> namespace \<Rightarrow> namespace result" where
  "putBlockRecord B block' ns =
     (case block' of None \<Rightarrow> Inl (GoError ''block with nil pointer'')
      | Some block \<Rightarrow>
          rbind (if blk_SerializedBlock block = []
                 then MsgBlock_SerializeNoWitness B (blk_MsgBlock block)
                 else Inr (blk_SerializedBlock block)) (\<lambda>v.
          rbind (nested_put ''failed to store block'' bucketBlocks
                   (canonicalBlock (blk_Height block) (blk_Hash block)) v ns) (\<lambda>ns'.
            if rbind (MsgBlock_Deserialize B v) (MsgBlock_Serialize B) = Inr v then Inr ns'
            else Inl (GoPanic ''MsgBlockAbe has unmatched serialization/deserialization''))))"

definition fetchBlockRecord ::
  "abec \<Rightarrow> abecblk \<Rightarrow> namespace \<Rightarrow> i32 \<Rightarrow> hash \<Rightarrow> BlockRecord option result" where
  "fetchBlockRecord A B ns height h =
     rbind (nested_get bucketBlocks (canonicalBlock height h) ns) (\<lambda>v.
       case nonempty v of None \<Rightarrow> Inr None
       | Some b \<Rightarrow>
           rbind (MsgBlock_Deserialize B b) (\<lambda>msg.
           rbind (NewBlockRecordFromMsgBlock A B msg) (\<lambda>r. Inr (Some r))))"

definition deleteRawBlock :: "bytes \<Rightarrow> namespace \<Rightarrow> namespace result" where
  "deleteRawBlock k ns = nested_delete bucketBlocks k ns"

text \<open>Every entry is visited once, as the bucket stood when the iteration began.\<close>

definition deleteRawBlockWithBlockHeight :: "i32 \<Rightarrow> namespace \<Rightarrow> namespace result" where
  "deleteRawBlockWithBlockHeight height ns =
     rbind (nested bucketBlocks ns) (\<lambda>m.
       rfold (\<lambda>(k, v) ns.
         rbind (get_be 4 k) (\<lambda>(h, _).
           if height = h then deleteRawBlock k ns else Inr ns)) m ns)"

section \<open>Per-block indexes\<close>

definition fetchBlockOutput :: "namespace \<Rightarrow> i32 \<Rightarrow> hash \<Rightarrow> OutPointAbe list option result" where
  "fetchBlockOutput ns blockHeight blockHash =
     rbind (nested_get bucketBlockOutputs (canonicalBlock blockHeight blockHash) ns) (\<lambda>v.
       case nonempty v of None \<Rightarrow> Inr None
       | Some b \<Rightarrow> rbind (readBlockOutputs b) (\<lambda>ops. Inr (if ops = [] then None else Some ops)))"

definition option_list :: "'a list option \<Rightarrow> 'a list" where
  "option_list m = (case m of None \<Rightarrow> [] | Some xs \<Rightarrow> xs)"

lemma option_list_simps [simp]: "option_list None = []" "option_list (Some xs) = xs"
  by (simp_all add: option_list_def)

definition putBlockOutputs :: "i32 \<Rightarrow> hash \<Rightarrow> OutPointAbe list \<Rightarrow> namespace \<Rightarrow> namespace result" where
  "putBlockOutputs blockHeight blockHash outpoints ns =
     rbind (nested_put ''failed to put block output'' bucketBlockOutputs
              (canonicalBlock blockHeight blockHash) (valueBlockOutputs outpoints) ns) (\<lambda>ns'.
       case fetchBlockOutput ns' blockHeight blockHash of
         Inl e \<Rightarrow> Inl (GoPanic ''error fetchBlockOutput in putBlockOutputs'')
       | Inr outpoints2 \<Rightarrow>
           if option_list outpoints2 = outpoints then Inr ns'
           else Inl (GoPanic ''error fetchBlockOutput in putBlockOutputs''))"

text \<open>
  \<open>fetchBlockOutputWithHeight\<close> keeps the last entry of the height in key order; the size test
  is the one of \<open>fetchBlockOutput\<close>.
\<close>

definition fetchBlockOutputWithHeight ::
  "namespace \<Rightarrow> i32 \<Rightarrow> (bytes \<times> OutPointAbe list) option result" where
  "fetchBlockOutputWithHeight ns height =
     rbind (nested bucketBlockOutputs ns) (\<lambda>m.
     rbind (rfold (\<lambda>(key, val) found.
              rbind (get_be 4 key) (\<lambda>(h, _).
                Inr (if h = height then Some (copy_fixed 36 key, val) else found))) m None) (\<lambda>found.
       case found of None \<Rightarrow> Inr None
       | Some (k, v) \<Rightarrow> rbind (readBlockOutputs v) (\<lambda>ops. Inr (Some (k, ops)))))"

definition deleteBlockOutput :: "bytes \<Rightarrow> namespace \<Rightarrow> namespace result" where
  "deleteBlockOutput k ns = nested_delete bucketBlockOutputs k ns"

definition fetchBlockInput ::
  "abec \<Rightarrow> namespace \<Rightarrow> bytes \<Rightarrow> (UTXORing \<times> bytes list) list result" where
  "fetchBlockInput A ns k =
     (if length k < 32 then Inl (StoreError ErrData ''short read'')
      else rbind (nested_get bucketBlockInputs k ns) (\<lambda>v'.
        case v' of None \<Rightarrow> Inl (GoError ''this entry is empty'')
        | Some v \<Rightarrow> readBlockInput A v))"

text \<open>What is compared of each ring read back: all but \<open>AllSpent\<close> and \<open>Refreshed\<close>.\<close>

definition block_input_matches ::
  "RingHashSerialNumbers \<Rightarrow> UTXORing \<times> bytes list \<Rightarrow> bool" where
  "block_input_matches b e =
     (let r = fst e; sns = snd e
      in case (map_of (utxoRings b) (ur_RingHash r), map_of (serialNumbers b) (ur_RingHash r)) of
           (Some u, Some sn) \<Rightarrow>
             utxoring_deep_equal (r\<lparr>ur_AllSpent := False, ur_Refreshed := False\<rparr>)
               (u\<lparr>ur_AllSpent := False, ur_Refreshed := False\<rparr>) \<and> sns = sn
         | _ \<Rightarrow> False)"

definition putBlockInputs ::
  "abec \<Rightarrow> i32 \<Rightarrow> hash \<Rightarrow> RingHashSerialNumbers \<Rightarrow> namespace \<Rightarrow> namespace result" where
  "putBlockInputs A blockHeight blockHash blockInputs ns =
     (let k = canonicalBlock blockHeight blockHash
      in rbind (valueBlockInput A blockInputs) (\<lambda>v.
         rbind (nested_put ''failed to put block input'' bucketBlockInputs k v ns) (\<lambda>ns'.
           case fetchBlockInput A ns' k of
             Inl e \<Rightarrow> Inl (GoPanic ''unmatched putBlockInputs/fetchBlockInput'')
           | Inr es \<Rightarrow>
               if length es = length (utxoRings blockInputs)
                  \<and> list_all (block_input_matches blockInputs) es
               then Inr ns'
               else Inl (GoPanic ''unmatched putBlockInputs/fetchBlockInput''))))"

definition deleteBlockInput :: "bytes \<Rightarrow> namespace \<Rightarrow> namespace result" where
  "deleteBlockInput k ns = nested_delete bucketBlockInputs k ns"

definition putImmatureCoinbaseOutput ::
  "i32 \<Rightarrow> hash \<Rightarrow> txo_map \<Rightarrow> namespace \<Rightarrow> namespace result" where
  "putImmatureCoinbaseOutput blockHeight blockHash txos ns =
     nested_put ''failed to put immature coinbase output'' bucketImmaturedCoinbaseOutput
       (canonicalBlock blockHeight blockHash) (valueImmatureCoinbaseOutput txos) ns"

definition fetchImmatureCoinbaseOutput :: "namespace \<Rightarrow> i32 \<Rightarrow> hash \<Rightarrow> txo_map option result" where
  "fetchImmatureCoinbaseOutput ns height h =
     rbind (nested_get bucketImmaturedCoinbaseOutput (canonicalBlock height h) ns) (\<lambda>v.
       case nonempty v of None \<Rightarrow> Inr None
       | Some b \<Rightarrow> rbind (deserializedImmatureCoinbaseOutput b) (\<lambda>m. Inr (Some m)))"

definition existsRawImmatureCoinbaseOutput :: "namespace \<Rightarrow> bytes \<Rightarrow> bytes option result" where
  "existsRawImmatureCoinbaseOutput ns k = nested_get bucketImmaturedCoinbaseOutput k ns"

definition deleteImmatureCoinbaseOutput :: "bytes \<Rightarrow> namespace \<Rightarrow> namespace result" where
  "deleteImmatureCoinbaseOutput k ns = nested_delete bucketImmaturedCoinbaseOutput k ns"

definition fetchImmatureOutput :: "namespace \<Rightarrow> i32 \<Rightarrow> hash \<Rightarrow> txo_map option result" where
  "fetchImmatureOutput ns height h =
     rbind (nested_get bucketImmaturedOutput (canonicalBlock height h) ns) (\<lambda>v.
       case nonempty v of None \<Rightarrow> Inr None
       | Some b \<Rightarrow> rbind (deserializedImmatureOutput b) (\<lambda>m. Inr (Some m)))"

text \<open>The field-by-field comparison of both loops: all fields but the cached hash.\<close>

definition immature_matches :: "txo_map \<Rightarrow> txo_map \<Rightarrow> bool" where
  "immature_matches a b \<longleftrightarrow>
     list_all (\<lambda>(op, t).
       case map_of b op of None \<Rightarrow> False
       | Some t2 \<Rightarrow> t2\<lparr>txo_UTXOHash := 0\<rparr> = t\<lparr>txo_UTXOHash := 0\<rparr>) a"

definition putImmatureOutput ::
  "i32 \<Rightarrow> hash \<Rightarrow> txo_map \<Rightarrow> namespace \<Rightarrow> namespace result" where
  "putImmatureOutput blockHeight blockHash txos ns =
     rbind (nested_put ''failed to put immature output'' bucketImmaturedOutput
              (canonicalBlock blockHeight blockHash) (valueImmatureOutput txos) ns) (\<lambda>ns'.
       case fetchImmatureOutput ns' blockHeight blockHash of
         Inl e \<Rightarrow> Inl (GoPanic ''unmatched fetchImmatureOutput'')
       | Inr immatureOutput \<Rightarrow>
           if immature_matches txos (option_list immatureOutput)
              \<and> immature_matches (option_list immatureOutput) txos
           then Inr ns'
           else Inl (GoPanic ''putImmatureOutput unmatched''))"

definition deleteImmatureOutput :: "bytes \<Rightarrow> namespace \<Rightarrow> namespace result" where
  "deleteImmatureOutput k ns = nested_delete bucketImmaturedOutput k ns"

definition putBlockDisabledCTAUTRootCoins ::
  "i32 \<Rightarrow> hash \<Rightarrow> OutPointAbe list \<Rightarrow> namespace \<Rightarrow> namespace result" where
  "putBlockDisabledCTAUTRootCoins blockHeight blockHash outpoints ns =
     nested_put ''failed to put disable aut points'' bucketBlockDisabledCTAUTPoint
       (canonicalBlock blockHeight blockHash) (valueBlockDisabledCTAUTRootCoins outpoints) ns"

definition fetchBlockDisabledCTAUTRootCoins ::
  "namespace \<Rightarrow> bytes \<Rightarrow> OutPointAbe list option result" where
  "fetchBlockDisabledCTAUTRootCoins ns k =
     rbind (nested_get bucketBlockDisabledCTAUTPoint k ns) (\<lambda>v.
       case nonempty v of None \<Rightarrow> Inr None
       | Some b \<Rightarrow> rbind (readBlockDisabledCTAUTRootCoins b) (\<lambda>ops. Inr (Some ops)))"

definition deleteBlockDisabledCTAUTRootCoins :: "bytes \<Rightarrow> namespace \<Rightarrow> namespace result" where
  "deleteBlockDisabledCTAUTRootCoins k ns = nested_delete bucketBlockDisabledCTAUTPoint k ns"

lemma fetchBlockDisabled_put:
  assumes "putBlockDisabledCTAUTRootCoins height h ops ns = Inr ns'" and "length ops < 2 ^ 32"
  shows "fetchBlockDisabledCTAUTRootCoins ns' (canonicalBlock height h) = Inr (Some ops)"
proof -
  have "valueBlockDisabledCTAUTRootCoins ops \<noteq> []"
    by (simp add: valueBlockDisabledCTAUTRootCoins_def)
  with assms show ?thesis
    by (auto simp: fetchBlockDisabledCTAUTRootCoins_def putBlockDisabledCTAUTRootCoins_def
        nested_get_put readBlockDisabled_value)
qed

lemma putBlockOutputs_ok:
  assumes "length ops < 2 ^ 26" and "ns_bucket ns bucketBlockOutputs = Some m"
  shows "\<exists>ns'. putBlockOutputs height h ops ns = Inr ns' \<and>
    fetchBlockOutput ns' height h = Inr (if ops = [] then None else Some ops)"
proof -
  let ?ns = "set_bucket bucketBlockOutputs
    (Some (kv_put (canonicalBlock height h) (valueBlockOutputs ops) m)) ns"
  have p: "nested_put ''failed to put block output'' bucketBlockOutputs (canonicalBlock height h)
      (valueBlockOutputs ops) ns = Inr ?ns"
    using assms(2) by (simp add: nested_put_Inr_iff)
  have "valueBlockOutputs ops \<noteq> []"
    by (simp add: valueBlockOutputs_def)
  then have f: "fetchBlockOutput ?ns height h = Inr (if ops = [] then None else Some ops)"
    using assms(1) by (simp add: fetchBlockOutput_def nested_get_put [OF p] readBlockOutputs_value)
  then have "putBlockOutputs height h ops ns = Inr ?ns"
    by (simp add: putBlockOutputs_def p)
  with f show ?thesis by blast
qed

text \<open>When the put of immature outputs goes through.\<close>

lemma fetchImmatureOutput_put:
  assumes "nested_put msg bucketImmaturedOutput (canonicalBlock height h) (valueImmatureOutput m) ns
      = Inr ns'" and "txo_map_ok m"
  shows "fetchImmatureOutput ns' height h
    = Inr (if m = [] then None else Some (map (\<lambda>(k, t). (k, immature_stored t)) m))"
proof -
  have "valueImmatureOutput m = [] \<longleftrightarrow> m = []"
    by (metis deserializedImmatureOutput_value length_0_conv length_immature_units
        mult_is_0 valueImmatureOutput_def zero_neq_numeral)
  with assms show ?thesis
    by (auto simp: fetchImmatureOutput_def nested_get_put deserializedImmatureOutput_value)
qed

lemma map_of_immature_stored:
  "map_of (map (\<lambda>(k, t). (k, immature_stored t)) m) op = map_option immature_stored (map_of m op)"
  by (induction m) auto

lemma immature_stored_eq_iff:
  "(immature_stored t)\<lparr>txo_UTXOHash := 0\<rparr> = t\<lparr>txo_UTXOHash := 0\<rparr> \<longleftrightarrow> storable_txo t"
  by (cases t) (auto simp: immature_stored_def storable_txo_def copy_fixed_eq_iff time_Unix_eq_iff)

lemma putImmatureOutput_Inr_iff:
  assumes "txo_map_ok m"
  shows "putImmatureOutput height h m ns = Inr ns' \<longleftrightarrow>
    list_all (\<lambda>(_, t). storable_txo t) m \<and>
    nested_put ''failed to put immature output'' bucketImmaturedOutput (canonicalBlock height h)
      (valueImmatureOutput m) ns = Inr ns'"
proof -
  have d: "distinct (map fst m)" using assms by (simp add: txo_map_ok_def)
  have "immature_matches m (map (\<lambda>(k, t). (k, immature_stored t)) m)
      \<longleftrightarrow> list_all (\<lambda>(_, t). storable_txo t) m"
    unfolding immature_matches_def list_all_iff
    by (rule ball_cong)
      (auto simp: map_of_immature_stored immature_stored_eq_iff map_of_is_SomeI [OF d])
  moreover have "immature_matches (map (\<lambda>(k, t). (k, immature_stored t)) m) m
      \<longleftrightarrow> list_all (\<lambda>(_, t). storable_txo t) m"
    unfolding immature_matches_def list_all_iff set_map ball_simps
    by (rule ball_cong)
      (auto simp: immature_stored_eq_iff [symmetric] map_of_is_SomeI [OF d])
  ultimately show ?thesis
    using fetchImmatureOutput_put [OF _ assms]
    by (auto simp: putImmatureOutput_def rbind_Inr_iff split: if_splits)
qed

end
