(* ===== verification/Queries.thy ===== *)
theory Queries
  imports TxTables
begin

text \<open>
  Reading the store (\<open>UnspentOutputs\<close> and its siblings, \<open>Balance\<close>, \<open>CTAUTBalance\<close>,
  \<open>AUTRootCoinNum\<close> of \<open>wtxmgr/tx.go\<close>), output locks, transaction labels and request records.
\<close>

section \<open>Lists of outputs\<close>

text \<open>
  An error of the callback of \<open>ForEach\<close> ends the iteration; one that is not a store error is
  wrapped into a database error.
\<close>

definition wrap_iter :: "string \<Rightarrow> 'a result \<Rightarrow> 'a result" where
  "wrap_iter msg r =
     (case r of Inl (GoError _) \<Rightarrow> Inl (StoreError ErrDatabase msg) | _ \<Rightarrow> r)"

lemma wrap_iter_Inr_iff [simp]: "wrap_iter msg r = Inr x \<longleftrightarrow> r = Inr x"
  by (auto simp: wrap_iter_def split: sum.splits go_error.splits)

lemma wrap_iter_Inr [simp]: "wrap_iter msg (Inr x) = Inr x"
  by (simp add: wrap_iter_def)

definition UnmaturedOutputs :: "namespace \<Rightarrow> SpendableTXO list result" where
  "UnmaturedOutputs ns =
     rbind (wrap_iter ''failed iterating unspent bucket''
       (rbind (nested bucketImmaturedCoinbaseOutput ns) (\<lambda>m.
        rfold (\<lambda>(_, v) acc. rbind (deserializedImmatureCoinbaseOutput v) (\<lambda>op.
          Inr (acc @ map snd op))) m []))) (\<lambda>unmatureds.
     wrap_iter ''failed iterating unspent bucket''
       (rbind (nested bucketImmaturedOutput ns) (\<lambda>m.
        rfold (\<lambda>(_, v) acc. rbind (deserializedImmatureOutput v) (\<lambda>op.
          Inr (acc @ map snd op))) m unmatureds)))"

definition SpentAndMinedOutputs :: "namespace \<Rightarrow> ConfirmedTXO list result" where
  "SpentAndMinedOutputs ns =
     wrap_iter ''failed iterating unspent bucket''
       (rbind (nested bucketSpentConfirmed ns) (\<lambda>m.
        rfold (\<lambda>(k, v) acc. rbind (readCanonicalOutPointAbe k) (\<lambda>op.
          rbind (ConfirmedTXO_Deserialize op (Some v)) (\<lambda>t. Inr (acc @ [t])))) m []))"

definition SpentButUnminedOutputs :: "namespace \<Rightarrow> UnconfirmedTXO list result" where
  "SpentButUnminedOutputs ns =
     wrap_iter ''failed iterating unspent bucket''
       (rbind (nested bucketSpentButUnmined ns) (\<lambda>m.
        rfold (\<lambda>(k, v) acc. rbind (readCanonicalOutPointAbe k) (\<lambda>op.
          rbind (UnconfirmedTXO_Deserialize op (Some v)) (\<lambda>t. Inr (acc @ [t])))) m []))"

definition UnspentOutputs :: "namespace \<Rightarrow> SpendableTXO list result" where
  "UnspentOutputs ns =
     wrap_iter ''failed iterating unspent bucket''
       (rbind (nested bucketMaturedOutput ns) (\<lambda>m.
        rfold (\<lambda>(k, v) acc. rbind (readCanonicalOutPointAbe k) (\<lambda>op.
          rbind (SpendableTXO_Deserialize op (Some v)) (\<lambda>t. Inr (acc @ [t])))) m []))"

fun fetch_txos :: "namespace \<Rightarrow> CTAUTCoin list \<Rightarrow> SpendableTXO option list result" where
  "fetch_txos ns [] = Inr []"
| "fetch_txos ns (coin # coins) =
     rbind (fetchSpendableTXO ns (TxHash (ct_TxOutput coin)) (OutIndex (ct_TxOutput coin))) (\<lambda>t.
     rbind (fetch_txos ns coins) (\<lambda>ts. Inr (t # ts)))"

definition UnspentOutputsCTAUT ::
  "namespace \<Rightarrow> hash \<Rightarrow> bool \<Rightarrow> (CTAUTCoin list \<times> SpendableTXO option list) result" where
  "UnspentOutputsCTAUT ns autIdentifier isRootCoin =
     (case ns_bucket ns bucketCTAUTPoint of
        None \<Rightarrow> Inl (GoError ''non-exist bucket for ct-aut point'')
      | Some m \<Rightarrow>
          rbind (wrap_iter ''failed iterating aut point bucket''
            (rfold (\<lambda>(k, v) tokens. rbind (readCanonicalOutPointAbe k) (\<lambda>op.
              rbind (CTAUTCoin_Deserialize op (Some v)) (\<lambda>ust.
                if isRootCoin \<and> \<not> ct_IsAUTRootCoin ust then Inr tokens
                else if \<not> isRootCoin \<and> ct_IsAUTRootCoin ust then Inr tokens
                else if ct_AUTIdentifier ust \<noteq> autIdentifier then Inr tokens
                else if ct_Spent ust then Inr tokens
                else Inr (tokens @ [ust])))) m [])) (\<lambda>tokens.
          rbind (fetch_txos ns tokens) (\<lambda>utxos. Inr (tokens, utxos))))"

text \<open>The loop over a bucket keyed by outpoint, with the accumulator generalised.\<close>

definition decode_entry :: "(OutPointAbe \<Rightarrow> bytes option \<Rightarrow> 'a result) \<Rightarrow> bytes \<times> bytes \<Rightarrow> 'a result" where
  "decode_entry dec e = rbind (readCanonicalOutPointAbe (fst e)) (\<lambda>op. dec op (Some (snd e)))"

lemma rfold_decode:
  assumes "rfold (\<lambda>(k, v) acc. rbind (readCanonicalOutPointAbe k) (\<lambda>op.
      rbind (dec op (Some v)) (\<lambda>t. Inr (acc @ [t])))) m acc = Inr ts"
  shows "\<exists>us. ts = acc @ us \<and> list_all2 (\<lambda>e t. decode_entry dec e = Inr t) m us"
  using assms
proof (induction m arbitrary: acc)
  case (Cons e m)
  obtain k v where e: "e = (k, v)" by (cases e)
  from Cons.prems obtain op t where t: "readCanonicalOutPointAbe k = Inr op"
    "dec op (Some v) = Inr t"
    "rfold (\<lambda>(k, v) acc. rbind (readCanonicalOutPointAbe k) (\<lambda>op.
      rbind (dec op (Some v)) (\<lambda>t. Inr (acc @ [t])))) m (acc @ [t]) = Inr ts"
    by (auto simp: e rbind_Inr_iff)
  then obtain us where "ts = (acc @ [t]) @ us" "list_all2 (\<lambda>e t. decode_entry dec e = Inr t) m us"
    using Cons.IH by blast
  then show ?case
    by (intro exI [where x = "t # us"]) (simp add: e t decode_entry_def)
qed simp

lemma UnspentOutputs_entries:
  assumes "UnspentOutputs ns = Inr ts"
  shows "\<exists>m. ns_bucket ns bucketMaturedOutput = Some m \<and>
    list_all2 (\<lambda>e t. decode_entry SpendableTXO_Deserialize e = Inr t) m ts"
  using assms rfold_decode [where acc = "[]"]
  by (auto simp: UnspentOutputs_def nested_def rbind_Inr_iff split: option.splits)

lemma SpentButUnminedOutputs_entries:
  assumes "SpentButUnminedOutputs ns = Inr ts"
  shows "\<exists>m. ns_bucket ns bucketSpentButUnmined = Some m \<and>
    list_all2 (\<lambda>e t. decode_entry UnconfirmedTXO_Deserialize e = Inr t) m ts"
  using assms rfold_decode [where acc = "[]"]
  by (auto simp: SpentButUnminedOutputs_def nested_def rbind_Inr_iff split: option.splits)

section \<open>Balances\<close>

definition Balance :: "namespace \<Rightarrow> u64 list result" where
  "Balance ns =
     rbind (fetchMinedBalance ns) (\<lambda>allBal.
     rbind (fetchSpendableBalance ns) (\<lambda>spendableBal.
     rbind (fetchImmatureCoinbaseBalance ns) (\<lambda>immatureCBBal.
     rbind (fetchImmatureTransferBalance ns) (\<lambda>immatureTRBal.
     rbind (fetchUnconfirmedBalance ns) (\<lambda>unconfirmdBal.
       Inr [allBal, spendableBal, immatureCBBal, immatureTRBal, unconfirmdBal])))))"

definition CTAUTBalance :: "namespace \<Rightarrow> ctmap list result" where
  "CTAUTBalance ns = Inr [fetchCTAUTMinedBalance ns, fetchCTAUTSpenableBalance ns,
     fetchCTAUTImmatureTransferBalance ns, fetchCTAUTUnconfirmedBalance ns]"

definition AUTRootCoinNum :: "namespace \<Rightarrow> ctmap list result" where
  "AUTRootCoinNum ns = Inr [fetchCTAUTRootCoinNum ns, fetchCTAUTImmatureRootCoinNum ns,
     fetchCTAUTSpenableRootCoinNum ns, fetchCTAUTUnconfirmedRootCoinNum ns]"

section \<open>Output locks\<close>

definition isLockedOutput ::
  "namespace \<Rightarrow> OutPointAbe \<Rightarrow> gotime \<Rightarrow> (hash \<times> gotime) option result" where
  "isLockedOutput ns op timeNow =
     (case ns_bucket ns bucketLockedOutputs of None \<Rightarrow> Inr None
      | Some m \<Rightarrow>
          (case kv_get m (op_key op) of None \<Rightarrow> Inr None
           | Some v \<Rightarrow>
               rbind (deserializeLockedOutput v) (\<lambda>(lockID, expiry).
                 Inr (if \<not> time_Before timeNow expiry then None else Some (lockID, expiry)))))"

definition lockOutput :: "hash \<Rightarrow> OutPointAbe \<Rightarrow> gotime \<Rightarrow> namespace \<Rightarrow> namespace result" where
  "lockOutput lockID op expiry ns =
     nested_put ''put failed'' bucketLockedOutputs (op_key op)
       (serializeLockedOutput lockID expiry) (CreateBucketIfNotExists bucketLockedOutputs ns)"

definition unlockOutput :: "OutPointAbe \<Rightarrow> namespace \<Rightarrow> namespace result" where
  "unlockOutput op ns =
     (case ns_bucket ns bucketLockedOutputs of None \<Rightarrow> Inr ns
      | Some m \<Rightarrow> nested_delete bucketLockedOutputs (op_key op) ns)"

definition forEachLockedOutput ::
  "(OutPointAbe \<Rightarrow> hash \<Rightarrow> gotime \<Rightarrow> 's \<Rightarrow> 's) \<Rightarrow> namespace \<Rightarrow> 's \<Rightarrow> 's result" where
  "forEachLockedOutput f ns s =
     (case ns_bucket ns bucketLockedOutputs of None \<Rightarrow> Inr s
      | Some m \<Rightarrow>
          rfold (\<lambda>(k, v) s.
            rbind (readCanonicalOutPointAbe k) (\<lambda>op.
            rbind (deserializeLockedOutput v) (\<lambda>(lockID, expiry).
              Inr (f op lockID expiry s)))) m s)"

definition isKnownOutput :: "namespace \<Rightarrow> OutPointAbe \<Rightarrow> bool" where
  "isKnownOutput ns op \<longleftrightarrow> False"

definition DefaultLockDuration_seconds :: u64 where
  "DefaultLockDuration_seconds = 600"

definition time_Add :: "gotime \<Rightarrow> u64 \<Rightarrow> gotime" where
  "time_Add t secs = GoTime (unix t + secs) (nsec t)"

definition LockOutput ::
  "gotime \<Rightarrow> hash \<Rightarrow> OutPointAbe \<Rightarrow> namespace \<Rightarrow> (gotime \<times> namespace) result" where
  "LockOutput now lockID op ns =
     (if \<not> isKnownOutput ns op then Inl (GoError ''unknown output'')
      else rbind (isLockedOutput ns op now) (\<lambda>l.
        if (case l of None \<Rightarrow> False | Some (lockedID, _) \<Rightarrow> lockedID \<noteq> lockID)
        then Inl (GoError ''output already locked'')
        else let expiry = time_Add now DefaultLockDuration_seconds
             in rbind (lockOutput lockID op expiry ns) (\<lambda>ns. Inr (expiry, ns))))"

definition UnlockOutput :: "gotime \<Rightarrow> hash \<Rightarrow> OutPointAbe \<Rightarrow> namespace \<Rightarrow> namespace result" where
  "UnlockOutput now lockID op ns =
     (if \<not> isKnownOutput ns op then Inl (GoError ''unknown output'')
      else rbind (isLockedOutput ns op now) (\<lambda>l.
        case l of None \<Rightarrow> Inr ns
        | Some (lockedID, _) \<Rightarrow>
            if lockedID \<noteq> lockID then Inl (GoError ''output unlock not alowed'')
            else unlockOutput op ns))"

definition DeleteExpiredLockedOutputs :: "gotime \<Rightarrow> namespace \<Rightarrow> namespace result" where
  "DeleteExpiredLockedOutputs now ns =
     rbind (forEachLockedOutput (\<lambda>op _ expiration expired.
              if \<not> time_Before now expiration then expired @ [op] else expired) ns [])
       (\<lambda>expiredOutputs. rfold unlockOutput expiredOutputs ns)"

lemma isLockedOutput_lock:
  assumes "lockOutput i op expiry ns = Inr ns'"
  shows "isLockedOutput ns' op' now =
    (if op' = op
     then Inr (if time_Before now (time_Unix (unix expiry)) then Some (i, time_Unix (unix expiry))
               else None)
     else isLockedOutput ns op' now)"
proof -
  let ?m = "case ns_bucket ns bucketLockedOutputs of None \<Rightarrow> [] | Some m \<Rightarrow> m"
  have "ns_bucket ns' bucketLockedOutputs
      = Some (kv_put (op_key op) (serializeLockedOutput i expiry) ?m)"
    using assms
    by (auto simp: lockOutput_def nested_put_Inr_iff CreateBucketIfNotExists_def
        split: option.splits)
  moreover have "kv_get [] k = None" "kv_get [(k', v)] k = (if k = k' then Some v else None)"
    for k k' v by (auto simp: kv_get_def)
  ultimately show ?thesis
    by (cases "ns_bucket ns bucketLockedOutputs")
      (auto simp: isLockedOutput_def kv_get_put codec_simps)
qed

lemma unlockOutput_rfold:
  "\<exists>ns'. rfold unlockOutput ops ns = Inr ns' \<and>
     (\<forall>m. ns_bucket ns bucketLockedOutputs = Some m \<longrightarrow>
        (\<exists>m'. ns_bucket ns' bucketLockedOutputs = Some m' \<and>
          (\<forall>k. kv_get m' k = (if k \<in> op_key ` set ops then None else kv_get m k)))) \<and>
     (ns_bucket ns bucketLockedOutputs = None \<longrightarrow> ns' = ns)"
proof (induction ops arbitrary: ns)
  case (Cons op ops)
  show ?case
  proof (cases "ns_bucket ns bucketLockedOutputs")
    case None
    then show ?thesis using Cons.IH [of ns] by (auto simp: unlockOutput_def)
  next
    case (Some m)
    let ?ns = "set_bucket bucketLockedOutputs (Some (kv_delete (op_key op) m)) ns"
    have u: "unlockOutput op ns = Inr ?ns"
      using Some by (simp add: unlockOutput_def nested_delete_Inr_iff)
    obtain ns' m' where "rfold unlockOutput ops ?ns = Inr ns'"
      "ns_bucket ns' bucketLockedOutputs = Some m'"
      "\<And>k. kv_get m' k = (if k \<in> op_key ` set ops then None else kv_get (kv_delete (op_key op) m) k)"
      using Cons.IH [of ?ns] by auto
    then show ?thesis
      using Some u by (auto simp: kv_get_delete)
  qed
qed auto

text \<open>What \<open>DeleteExpiredLockedOutputs\<close> collects.\<close>

lemma collect_expired:
  assumes "rfold (\<lambda>(k, v) s.
      rbind (readCanonicalOutPointAbe k) (\<lambda>op.
      rbind (deserializeLockedOutput v) (\<lambda>(lockID, expiry).
        Inr (if \<not> time_Before now expiry then s @ [op] else s)))) m acc = Inr ops"
  shows "set ops = set acc \<union> {op. \<exists>k v i e. (k, v) \<in> set m \<and> readCanonicalOutPointAbe k = Inr op \<and>
      deserializeLockedOutput v = Inr (i, e) \<and> \<not> time_Before now e}
    \<and> (\<forall>(k, v) \<in> set m. \<exists>op i e. readCanonicalOutPointAbe k = Inr op
         \<and> deserializeLockedOutput v = Inr (i, e))"
  using assms
proof (induction m arbitrary: acc)
  case (Cons x m)
  obtain k v where x: "x = (k, v)" by (cases x)
  from Cons.prems obtain op i e where kv: "readCanonicalOutPointAbe k = Inr op"
    "deserializeLockedOutput v = Inr (i, e)"
    by (auto simp: x rbind_Inr_iff)
  then show ?case
    using Cons.IH [of "if \<not> time_Before now e then acc @ [op] else acc"] Cons.prems
    by (cases "time_Before now e") (auto simp: x)
qed simp

definition lock_keys_ok :: "namespace \<Rightarrow> bool" where
  "lock_keys_ok ns \<longleftrightarrow>
     (case ns_bucket ns bucketLockedOutputs of None \<Rightarrow> True
      | Some m \<Rightarrow> kv_ok m \<and> list_all (\<lambda>(k, v). length k = 33) m)"

lemma DeleteExpiredLockedOutputs_get:
  assumes "DeleteExpiredLockedOutputs now ns = Inr ns'" and "lock_keys_ok ns"
    and "ns_bucket ns bucketLockedOutputs = Some m"
  shows "\<exists>m'. ns_bucket ns' bucketLockedOutputs = Some m' \<and>
    (\<forall>op. kv_get m' (op_key op) =
       (case kv_get m (op_key op) of None \<Rightarrow> None
        | Some v \<Rightarrow> (case deserializeLockedOutput v of
            Inl _ \<Rightarrow> Some v
          | Inr (i, e) \<Rightarrow> if time_Before now e then Some v else None)))"
proof -
  from assms(1,3) obtain ops where r: "rfold (\<lambda>(k, v) s.
      rbind (readCanonicalOutPointAbe k) (\<lambda>op.
      rbind (deserializeLockedOutput v) (\<lambda>(lockID, expiry).
        Inr (if \<not> time_Before now expiry then s @ [op] else s)))) m [] = Inr ops"
    "rfold unlockOutput ops ns = Inr ns'"
    by (auto simp: DeleteExpiredLockedOutputs_def forEachLockedOutput_def rbind_Inr_iff)
  note c = collect_expired [OF r(1)]
  obtain m' where m': "ns_bucket ns' bucketLockedOutputs = Some m'"
    "\<And>k. kv_get m' k = (if k \<in> op_key ` set ops then None else kv_get m k)"
    using unlockOutput_rfold [of ops ns] r(2) assms(3) by auto
  have ok: "kv_ok m" and len: "\<And>k v. (k, v) \<in> set m \<Longrightarrow> length k = 33"
    using assms(2,3) by (auto simp: lock_keys_ok_def list_all_iff)
  have mem: "op \<in> set ops \<longleftrightarrow> (\<exists>v i e. kv_get m (op_key op) = Some v \<and>
      deserializeLockedOutput v = Inr (i, e) \<and> \<not> time_Before now e)" for op
  proof -
    have "k = op_key op" if "(k, v) \<in> set m" "readCanonicalOutPointAbe k = Inr op" for k v
      using readCanonicalOutPointAbe_complete [OF len [OF that(1)]] that(2) by auto
    then show ?thesis
      using c kv.entries_get [OF ok] readCanonicalOutPointAbe_canonical [of "TxHash op" "OutIndex op"]
      by auto
  qed
  have "kv_get m' (op_key op) =
       (case kv_get m (op_key op) of None \<Rightarrow> None
        | Some v \<Rightarrow> (case deserializeLockedOutput v of
            Inl _ \<Rightarrow> Some v
          | Inr (i, e) \<Rightarrow> if time_Before now e then Some v else None))" for op
  proof -
    have "op_key op \<in> op_key ` set ops \<longleftrightarrow> op \<in> set ops" by (auto dest: OutPointAbe.expand)
    then show ?thesis
      by (auto simp: m'(2) mem split: option.splits sum.splits)
  qed
  with m'(1) show ?thesis by blast
qed

section \<open>Labels\<close>

definition TxLabelLimit :: nat where
  "TxLabelLimit = 500"

definition label_value :: "bytes \<Rightarrow> bytes" where
  "label_value label = be_bytes 2 (of_nat (length label) :: u16) @ label"

definition PutTxLabel :: "hash \<Rightarrow> bytes \<Rightarrow> namespace \<Rightarrow> namespace result" where
  "PutTxLabel txid label ns =
     (if length label = 0 then Inl (GoError ''empty transaction label not allowed'')
      else if length label > TxLabelLimit then Inl (GoError ''transaction label exceeds limit'')
      else nested_put ''put'' bucketTxLabels (be_bytes 32 txid) (label_value label)
             (CreateBucketIfNotExists bucketTxLabels ns))"

definition DeserializeLabel :: "bytes \<Rightarrow> bytes result" where
  "DeserializeLabel v =
     rbind (get_u16 v) (\<lambda>(n, r).
       if n = 0 then Inl (GoError ''empty transaction label not allowed'') else Inr r)"

definition FetchTxLabel :: "namespace \<Rightarrow> hash \<Rightarrow> bytes result" where
  "FetchTxLabel ns txid =
     (case ns_bucket ns bucketTxLabels of
        None \<Rightarrow> Inl (GoError ''labels bucket does not exist'')
      | Some m \<Rightarrow>
          (case kv_get m (be_bytes 32 txid) of
             None \<Rightarrow> Inl (GoError ''label for transaction not found'')
           | Some v \<Rightarrow> DeserializeLabel v))"

lemma PutTxLabel_Fetch:
  assumes "PutTxLabel txid label ns = Inr ns'"
  shows "FetchTxLabel ns' txid = Inr label"
    and "h \<noteq> txid \<Longrightarrow> FetchTxLabel ns h = Inr l \<Longrightarrow> FetchTxLabel ns' h = Inr l"
proof -
  have len: "0 < length label" "length label \<le> 500"
    using assms by (auto simp: PutTxLabel_def TxLabelLimit_def split: if_splits)
  then have "(of_nat (length label) :: u16) \<noteq> 0"
    by (simp add: word_unat_eq_iff unat_of_nat)
  then have d: "DeserializeLabel (label_value label) = Inr label"
    by (simp add: DeserializeLabel_def label_value_def codec_simps)
  show "FetchTxLabel ns' txid = Inr label"
    using assms len d
    by (auto simp: PutTxLabel_def TxLabelLimit_def nested_put_Inr_iff FetchTxLabel_def kv_get_put
        split: if_splits)
  show "h \<noteq> txid \<Longrightarrow> FetchTxLabel ns h = Inr l \<Longrightarrow> FetchTxLabel ns' h = Inr l"
    using assms len
    by (auto simp: PutTxLabel_def TxLabelLimit_def nested_put_Inr_iff FetchTxLabel_def kv_get_put
        CreateBucketIfNotExists_def split: if_splits option.splits)
qed

section \<open>Request records\<close>

definition PutRequestHashAndTxHash :: "bytes \<Rightarrow> bytes \<Rightarrow> namespace \<Rightarrow> namespace result" where
  "PutRequestHashAndTxHash requestHash txHash ns =
     nested_put ''put'' bucketRequestRecord requestHash txHash
       (CreateBucketIfNotExists bucketRequestRecord ns)"

definition GetTxHashRequestHash :: "abec \<Rightarrow> namespace \<Rightarrow> bytes \<Rightarrow> hash result" where
  "GetTxHashRequestHash A ns requestHash =
     (case ns_bucket ns bucketRequestRecord of
        None \<Rightarrow> Inl (GoError ''request bucket is empty'')
      | Some m \<Rightarrow>
          (case nonempty (kv_get m requestHash) of
             None \<Rightarrow> Inl (GoError ''not exist'')
           | Some b \<Rightarrow> NewHashFromStr A b))"

lemma GetTxHash_Put:
  assumes "PutRequestHashAndTxHash r t ns = Inr ns'" and "t \<noteq> []"
  shows "GetTxHashRequestHash A ns' r = NewHashFromStr A t"
  using assms
  by (auto simp: PutRequestHashAndTxHash_def GetTxHashRequestHash_def nested_put_Inr_iff kv_get_put)

end
