(* ===== verification/Ledger.thy ===== *)
theory Ledger
  imports Queries
begin

text \<open>
  How operations move what the store holds: the set of buckets an operation may touch, the sum
  of the amounts filed in a bucket, and the accounting invariant \<open>ledger_ok\<close> that ties the
  balances at the root to the outputs in the buckets.
\<close>

section \<open>What an operation touches\<close>

definition only_buckets :: "bucket set \<Rightarrow> namespace \<Rightarrow> namespace \<Rightarrow> bool" where
  "only_buckets B ns ns' \<longleftrightarrow>
     ns_root ns' = ns_root ns \<and> ns_ctaut ns' = ns_ctaut ns \<and>
     (\<forall>b. b \<notin> B \<longrightarrow> ns_bucket ns' b = ns_bucket ns b) \<and>
     (\<forall>b. ns_bucket ns' b = None \<longleftrightarrow> ns_bucket ns b = None) \<and>
     (buckets_ok ns \<longrightarrow> buckets_ok ns')"

lemma only_buckets_refl [intro, simp]: "only_buckets B ns ns"
  by (simp add: only_buckets_def)

lemma only_buckets_trans:
  "only_buckets B ns1 ns2 \<Longrightarrow> only_buckets B ns2 ns3 \<Longrightarrow> only_buckets B ns1 ns3"
  by (simp add: only_buckets_def)

lemma only_buckets_mono: "only_buckets B ns ns' \<Longrightarrow> B \<subseteq> C \<Longrightarrow> only_buckets C ns ns'"
  by (auto simp: only_buckets_def)

lemma only_buckets_put: "nested_put msg b k v ns = Inr ns' \<Longrightarrow> b \<in> B \<Longrightarrow> only_buckets B ns ns'"
  by (auto simp: only_buckets_def nested_put_Inr_iff dest: buckets_okD intro: kv_ok_put
      split: if_splits)

lemma only_buckets_delete: "nested_delete b k ns = Inr ns' \<Longrightarrow> b \<in> B \<Longrightarrow> only_buckets B ns ns'"
  by (auto simp: only_buckets_def nested_delete_Inr_iff dest: buckets_okD intro: kv_ok_delete
      split: if_splits)

lemma only_buckets_notify [simp]: "only_buckets B ns (notify n ns)"
  by (auto simp: only_buckets_def buckets_ok_iff)

lemma only_buckets_notify_right [simp]: "only_buckets B ns (notify n ns') = only_buckets B ns ns'"
  by (auto simp: only_buckets_def buckets_ok_iff)

lemma only_bucketsD:
  assumes "only_buckets B ns ns'"
  shows "fetch_amount k ns' = fetch_amount k ns" "fetch_ctaut c ns' = fetch_ctaut c ns"
    "b \<notin> B \<Longrightarrow> ns_bucket ns' b = ns_bucket ns b" "buckets_ok ns \<Longrightarrow> buckets_ok ns'"
    "ns_bucket ns' b = None \<longleftrightarrow> ns_bucket ns b = None"
  using assms by (simp_all add: only_buckets_def fetch_amount_def fetch_ctaut_def)

lemma only_buckets_get:
  "only_buckets B ns ns' \<Longrightarrow> b \<notin> B \<Longrightarrow> nested_get b k ns' = nested_get b k ns"
  by (simp add: only_buckets_def nested_get_def nested_def)

lemma only_buckets_rfold:
  assumes "rfold f xs s = Inr s'"
    and "\<And>x s s'. x \<in> set xs \<Longrightarrow> f x s = Inr s' \<Longrightarrow> only_buckets B (p s) (p s')"
  shows "only_buckets B (p s) (p s')"
  using assms(1)
  by (rule rfold_invariant [where P = "\<lambda>t. only_buckets B (p s) (p t)"])
    (auto intro: only_buckets_trans assms(2))

section \<open>Amounts in a bucket\<close>

text \<open>The amount at its place in the value of an output, in any of its forms.\<close>

definition value_amount :: "bytes \<Rightarrow> u64" where
  "value_amount v = be_word (take 8 (drop 9 v))"

definition kv_amount :: "kv \<Rightarrow> u64" where
  "kv_amount m = (\<Sum>(k, v)\<leftarrow>m. value_amount v)"

definition bucket_amount :: "bucket \<Rightarrow> namespace \<Rightarrow> u64" where
  "bucket_amount b ns = (case ns_bucket ns b of None \<Rightarrow> 0 | Some m \<Rightarrow> kv_amount m)"

lemma value_amount_Spendable [simp]: "value_amount (SpendableTXO_Serialize A t) = txo_Amount t"
  by (simp add: value_amount_def SpendableTXO_Serialize_def)

lemma value_amount_Unconfirmed [simp]:
  "value_amount (UnconfirmedTXO_Serialize A t) = txo_Amount (utx_txo t)"
  by (simp add: value_amount_def UnconfirmedTXO_Serialize_def SpendableTXO_Serialize_def)

lemma SpendableTXO_Deserialize_facts:
  assumes "SpendableTXO_Deserialize op (Some v) = Inr t"
  shows "txo_Amount t = value_amount v" "txo_TxOutput t = op" "storable_txo t"
proof -
  have d: "drop 9 v = tl (drop 8 v)" using drop_Suc [of 8 v] tl_drop [of 8 v] by simp
  show "txo_Amount t = value_amount v" "txo_TxOutput t = op" "storable_txo t"
    using assms
    by (auto simp: SpendableTXO_Deserialize_def rbind_Inr_iff get_u32_def get_u64_def get_hash_def
      get_be_def get_bytes_def get_u8_def value_amount_def storable_txo_def d
      split: if_splits list.splits)
qed

lemma UnconfirmedTXO_Deserialize_facts:
  assumes "UnconfirmedTXO_Deserialize op (Some v) = Inr t"
  shows "txo_Amount (utx_txo t) = value_amount v" "txo_TxOutput (utx_txo t) = op"
    "storable_txo (utx_txo t)"
  using assms SpendableTXO_Deserialize_facts
  by (auto simp: UnconfirmedTXO_Deserialize_def rbind_Inr_iff split: if_splits)

lemma kv_amount_put_fresh:
  "kv_ok m \<Longrightarrow> kv_get m k = None \<Longrightarrow> kv_amount (kv_put k v m) = value_amount v + kv_amount m"
  unfolding kv_amount_def by (rule kv.sum_put_fresh)

lemma kv_amount_delete:
  "kv_ok m \<Longrightarrow> kv_get m k = Some v \<Longrightarrow> kv_amount m = value_amount v + kv_amount (kv_delete k m)"
  unfolding kv_amount_def by (rule kv.sum_del_present)

lemma kv_amount_Nil [simp]: "kv_amount [] = 0"
  by (simp add: kv_amount_def)

lemma bucket_amount_delete:
  assumes "nested_delete b k ns = Inr ns'" and "nested_get b k ns = Inr (Some v)" and "buckets_ok ns"
  shows "bucket_amount b ns = value_amount v + bucket_amount b ns'"
  using assms kv_amount_delete
  by (auto simp: nested_iffs bucket_amount_def dest: buckets_okD)

lemma bucket_amount_put_fresh:
  assumes "nested_put msg b k v ns = Inr ns'" and "nested_get b k ns = Inr None" and "buckets_ok ns"
  shows "bucket_amount b ns' = value_amount v + bucket_amount b ns"
  using assms kv_amount_put_fresh
  by (auto simp: nested_iffs bucket_amount_def dest: buckets_okD)

lemma bucket_amount_only:
  "only_buckets B ns ns' \<Longrightarrow> b \<notin> B \<Longrightarrow> bucket_amount b ns' = bucket_amount b ns"
  by (simp add: bucket_amount_def only_buckets_def)

lemma bucket_amount_frame [simp]:
  "bucket_amount b (put_amount k a ns) = bucket_amount b ns"
  "bucket_amount b (put_ctaut c m ns) = bucket_amount b ns"
  "bucket_amount b (notify n ns) = bucket_amount b ns"
  by (simp_all add: bucket_amount_def)

section \<open>The accounting invariant\<close>

text \<open>
  No outpoint is filed both as spendable and as spent, and the two balances at the root are the
  sums of the two buckets.
\<close>

definition ledger_ok :: "namespace \<Rightarrow> bool" where
  "ledger_ok ns \<longleftrightarrow>
     buckets_ok ns \<and>
     ns_bucket ns bucketMaturedOutput \<noteq> None \<and> ns_bucket ns bucketSpentButUnmined \<noteq> None \<and>
     (\<forall>k. nested_get bucketMaturedOutput k ns = Inr None
        \<or> nested_get bucketSpentButUnmined k ns = Inr None) \<and>
     fetch_amount rootSpendableBalance ns = Inr (bucket_amount bucketMaturedOutput ns) \<and>
     fetch_amount rootUnconfirmedBalance ns = Inr (bucket_amount bucketSpentButUnmined ns)"

lemma ledger_ok_only:
  assumes "only_buckets B ns ns'" and "bucketMaturedOutput \<notin> B" and "bucketSpentButUnmined \<notin> B"
    and "ledger_ok ns"
  shows "ledger_ok ns'"
  using assms
  by (simp add: ledger_ok_def only_bucketsD [OF assms(1)] only_buckets_get [OF assms(1)]
      bucket_amount_only [OF assms(1)])

lemma ledger_ok_fresh:
  assumes "fresh_store ns" and "\<And>b m. ns_bucket ns b = Some m \<Longrightarrow> kv_ok m"
  shows "ledger_ok ns"
  using assms
  by (auto simp: ledger_ok_def buckets_ok_iff fresh_store_def created_buckets_def nested_get_def
      nested_def kv_get_def bucket_amount_def)

text \<open>The sum of what \<open>UnspentOutputs\<close> lists is the spendable balance.\<close>

lemma UnspentOutputs_sum:
  assumes "UnspentOutputs ns = Inr ts"
  shows "(\<Sum>t\<leftarrow>ts. txo_Amount t) = bucket_amount bucketMaturedOutput ns"
proof -
  obtain m where m: "ns_bucket ns bucketMaturedOutput = Some m"
    "list_all2 (\<lambda>e t. decode_entry SpendableTXO_Deserialize e = Inr t) m ts"
    using UnspentOutputs_entries [OF assms] by blast
  from m(2) have "(\<Sum>t\<leftarrow>ts. txo_Amount t) = kv_amount m"
    by (induction rule: list_all2_induct)
      (auto simp: kv_amount_def decode_entry_def rbind_Inr_iff SpendableTXO_Deserialize_facts)
  with m(1) show ?thesis by (simp add: bucket_amount_def)
qed

lemma SpentButUnminedOutputs_sum:
  assumes "SpentButUnminedOutputs ns = Inr ts"
  shows "(\<Sum>t\<leftarrow>ts. txo_Amount (utx_txo t)) = bucket_amount bucketSpentButUnmined ns"
proof -
  obtain m where m: "ns_bucket ns bucketSpentButUnmined = Some m"
    "list_all2 (\<lambda>e t. decode_entry UnconfirmedTXO_Deserialize e = Inr t) m ts"
    using SpentButUnminedOutputs_entries [OF assms] by blast
  from m(2) have "(\<Sum>t\<leftarrow>ts. txo_Amount (utx_txo t)) = kv_amount m"
    by (induction rule: list_all2_induct)
      (auto simp: kv_amount_def decode_entry_def rbind_Inr_iff UnconfirmedTXO_Deserialize_facts)
  with m(1) show ?thesis by (simp add: bucket_amount_def)
qed

text \<open>A fresh store satisfies the invariant.\<close>

lemma createStore_ledger_ok:
  assumes "createStore now ns = Inr ns'"
  shows "ledger_ok ns'"
proof -
  have e: "namespace_empty ns" using assms by (auto simp: createStore_def split: if_splits)
  have "fresh_store ns'" using createStore_fresh [OF e, of now] assms by auto
  moreover have "kv_ok m" if b: "ns_bucket ns' b = Some m" for b m
  proof -
    have r: "rfold (\<lambda>(b, msg). CreateBucket msg b) created_buckets n = Inr n' \<Longrightarrow>
        buckets_ok n \<Longrightarrow> buckets_ok n'" for n n'
      by (erule rfold_invariant [where P = buckets_ok])
        (auto simp: CreateBucket_def split: option.splits intro!: buckets_ok_set kv.ok_empty)
    have "buckets_ok ns" using e by (auto simp: namespace_empty_iff buckets_ok_iff)
    moreover have "rfold (\<lambda>(b, msg). CreateBucket msg b) created_buckets
        (root_put rootFreezedBalance (be_bytes 8 (0 :: u64))
        (root_put rootUnconfirmedBalance (be_bytes 8 (0 :: u64))
        (root_put rootImmatureTransferBalance (be_bytes 8 (0 :: u64))
        (root_put rootImmatureCoinbaseBalance (be_bytes 8 (0 :: u64))
        (root_put rootSpendableBalance (be_bytes 8 (0 :: u64))
        (root_put rootMinedBalance (be_bytes 8 (0 :: u64))
        (root_put rootCreateDate (be_bytes 8 (unix now))
        (root_put rootVersion (be_bytes 4 getLatestVersion) ns)))))))) = Inr ns'"
      using assms by (simp add: createStore_def e createBuckets_def putVersion_def Let_def)
    ultimately have "buckets_ok ns'" by (auto dest!: r)
    with b show ?thesis by (rule buckets_okD [rotated])
  qed
  ultimately show ?thesis by (rule ledger_ok_fresh)
qed

end
