(* ===== verification/InsertTx.thy ===== *)
theory InsertTx
  imports Ledger
begin

text \<open>
  \<open>Store.InsertTx\<close> of \<open>wtxmgr/tx.go\<close>, which records an unconfirmed transaction of the wallet:
  each of the wallet's outputs it spends moves from the matured bucket to the spent-but-unmined
  one, the balances and token counters move with it, and every other transaction known to spend
  the same output becomes invalid. \<open>now\<close> is the present time, \<open>height\<close> the height the wallet
  is synced to. \<open>DeleteRawUnmined\<close> and \<open>ConfirmSpentTXO\<close> of \<open>wtxmgr/db.go\<close> follow.
\<close>

section \<open>The steps of InsertTx\<close>

text \<open>The loop over the map of serial numbers stops at the first match in iteration order.\<close>

definition find_origin :: "UTXORing \<Rightarrow> bytes \<Rightarrow> nat option" where
  "find_origin u sn = map_option (\<lambda>(k, _). unat k) (find (\<lambda>(_, s). s = sn) (origins u))"

function chunks32 :: "bytes \<Rightarrow> bytes list" where
  "chunks32 v = (if length v < 32 then [] else take 32 v # chunks32 (drop 32 v))"
  by pat_completeness auto
termination by (relation "measure length") auto

declare chunks32.simps [simp del]

definition insert_ct_move :: "abec \<Rightarrow> SpendableTXO \<Rightarrow> namespace \<Rightarrow> namespace result" where
  "insert_ct_move A utxo ns =
     (if \<not> IsCTAUTCoin utxo then Inr ns
      else rbind (fetchRawCTAUTCoin ns (TxHash (txo_TxOutput utxo)) (OutIndex (txo_TxOutput utxo)))
        (\<lambda>autCoin.
        let ident = AutId_String A (ct_AUTIdentifier autCoin)
        in if ct_IsAUTRootCoin autCoin
           then let spendable = ct_sub ident 1 (fetchCTAUTSpenableRootCoinNum ns);
                    unconfirmed = ct_add ident 1 (fetchCTAUTUnconfirmedRootCoinNum ns)
                in Inr (putCTAUTUnconfirmedRootCoinNum unconfirmed
                     (putCTAUTSpenableRootCoinNum spendable ns))
           else let spendable = ct_sub ident (ct_Value autCoin) (fetchCTAUTSpenableBalance ns);
                    unconfirmed = ct_add ident (ct_Value autCoin) (fetchCTAUTUnconfirmedBalance ns)
                in Inr (putCTAUTUnconfirmedBalance unconfirmed
                     (putCTAUTSpenableBalance spendable ns))))"

text \<open>
  A conflicting transaction found in one bucket (through \<open>ex\<close>, removed by \<open>del\<close>) becomes
  invalid.
\<close>

definition invalidate_conflict ::
  "abec \<Rightarrow> gotime \<Rightarrow> i32 \<Rightarrow> (namespace \<Rightarrow> bytes \<Rightarrow> bytes option result)
   \<Rightarrow> (bytes \<Rightarrow> namespace \<Rightarrow> namespace result) \<Rightarrow> bytes \<Rightarrow> namespace \<Rightarrow> namespace result" where
  "invalidate_conflict A now height ex del c ns =
     rbind (ex ns c) (\<lambda>v.
       case nonempty v of None \<Rightarrow> Inr ns
       | Some conflictTx \<Rightarrow>
           rbind (TxRecord_Deserialize A conflictTx) (\<lambda>tx.
           if be_bytes 32 (rec_Hash tx) \<noteq> c
           then Inl (GoError ''unmatched transaction in unconfirmed transaction bucket'')
           else rbind (del c ns) (\<lambda>ns.
                rbind (putRawInvalidTx now c conflictTx ns) (\<lambda>ns.
                  Inr (notify (NotifyTransactionInvalid (rec_Hash tx) height) ns)))))"

definition insert_conflict ::
  "abec \<Rightarrow> gotime \<Rightarrow> i32 \<Rightarrow> hash \<Rightarrow> bytes \<Rightarrow> bool \<times> namespace \<Rightarrow> (bool \<times> namespace) result" where
  "insert_conflict A now height recHash c s =
     (let (flag, ns) = s
      in if be_bytes 32 recHash = c
         then rbind (deleteRawConfirmedTx c ns) (\<lambda>ns.
              rbind (deleteRawInvalidTx c ns) (\<lambda>ns. Inr (True, ns)))
         else rbind (invalidate_conflict A now height existsRawUnconfirmedTx deleteRawUnconfirmedTx
                       c ns) (\<lambda>ns.
              rbind (invalidate_conflict A now height existsRawConfirmedTx deleteRawConfirmedTx
                       c ns) (\<lambda>ns. Inr (flag, ns))))"

definition insert_relevant ::
  "abec \<Rightarrow> gotime \<Rightarrow> i32 \<Rightarrow> hash \<Rightarrow> bytes \<Rightarrow> namespace \<Rightarrow> namespace result" where
  "insert_relevant A now height recHash k ns =
     rbind (existsRawReleventTxs ns k) (\<lambda>v.
     let relevantTxs = (case v of None \<Rightarrow> [] | Some b \<Rightarrow> b)
     in rbind (rfold (insert_conflict A now height recHash) (chunks32 relevantTxs) (False, ns))
          (\<lambda>(flag, ns).
          if flag then Inr ns
          else putRawRelevantTxs k (relevantTxs @ be_bytes 32 recHash) ns))"

text \<open>The move of one output with its amount.\<close>

definition insert_move ::
  "abec \<Rightarrow> gotime \<Rightarrow> hash \<Rightarrow> OutPointAbe \<Rightarrow> namespace \<Rightarrow> (SpendableTXO \<times> namespace) result" where
  "insert_move A now recHash op ns =
     rbind (nested_get bucketMaturedOutput (op_key op) ns) (\<lambda>v'.
     case v' of None \<Rightarrow> Inl (GoError ''there is no such a utxo in bucket'')
     | Some v \<Rightarrow>
       rbind (fetchSpendableBalance ns) (\<lambda>spendableBal.
       rbind (fetchUnconfirmedBalance ns) (\<lambda>unconfirmedBal.
       rbind (SpendableTXO_Deserialize op (Some v)) (\<lambda>utxo.
       let amt = txo_Amount utxo;
           ns = putSpendableBalance (spendableBal - amt) ns;
           ns = putUnconfirmedBalance (unconfirmedBal + amt) ns
       in rbind (deleteSpendableTXO (op_key op) ns) (\<lambda>ns.
          rbind (putUnconfirmedTXO A
            \<lparr>utx_txo = utxo, utx_SpentByHash = recHash, utx_SpentTime = now\<rparr> ns) (\<lambda>ns.
            Inr (utxo, ns)))))))"

definition insert_input ::
  "abec \<Rightarrow> gotime \<Rightarrow> i32 \<Rightarrow> hash \<Rightarrow> TxInAbe \<Rightarrow> namespace \<Rightarrow> namespace result" where
  "insert_input A now height recHash txin ns =
     rbind (fetchUTXORing A ns (be_bytes 32 (OutPointRing_Hash A (in_PreviousOutPointRing txin))))
       (\<lambda>u'.
       case u' of None \<Rightarrow> Inl nil_bucket
       | Some u \<Rightarrow>
         (case find_origin u (in_SerialNumber txin) of
            None \<Rightarrow> Inr ns
          | Some index \<Rightarrow>
              rbind (go_nth (opr_OutPoints (in_PreviousOutPointRing txin)) index) (\<lambda>op.
              rbind (insert_move A now recHash op ns) (\<lambda>(utxo, ns).
              rbind (insert_ct_move A utxo ns) (\<lambda>ns.
                insert_relevant A now height recHash (op_key op) ns)))))"

definition InsertTx ::
  "abec \<Rightarrow> gotime \<Rightarrow> i32 \<Rightarrow> TxRecord \<Rightarrow> bool \<Rightarrow> namespace \<Rightarrow> namespace result" where
  "InsertTx A now height rec hasBlock ns =
     (if hasBlock then Inl (GoError ''InsertTx just considerates the unconfirmed transaction'')
      else rbind (existsRawUnconfirmedTx ns (be_bytes 32 (rec_Hash rec))) (\<lambda>v.
        if v \<noteq> None then Inr ns
        else rbind (rfold (insert_input A now height (rec_Hash rec)) (msg_TxIns (rec_MsgTx rec)) ns)
          (\<lambda>ns.
          rbind (valueTxRecord A rec) (\<lambda>v.
          rbind (putRawUnconfirmedTx now (be_bytes 32 (rec_Hash rec)) v ns) (\<lambda>ns.
            Inr (notify (NotifyTransactionRollback (rec_Hash rec) height) ns))))))"

section \<open>Frames\<close>

abbreviation tx_buckets :: "bucket set" where
  "tx_buckets \<equiv> {bucketUnconfirmedTx, bucketInvalidTx, bucketConfirmedTx, bucketRelevantTxs}"

lemma put_raw_only:
  "putRawUnconfirmedTx now k v ns = Inr ns' \<Longrightarrow> only_buckets tx_buckets ns ns'"
  "putRawInvalidTx now k v ns = Inr ns' \<Longrightarrow> only_buckets tx_buckets ns ns'"
  "putRawConfirmedTx k v ns = Inr ns' \<Longrightarrow> only_buckets tx_buckets ns ns'"
  "putRawRelevantTxs k v ns = Inr ns' \<Longrightarrow> only_buckets tx_buckets ns ns'"
  "deleteRawUnconfirmedTx k ns = Inr ns' \<Longrightarrow> only_buckets tx_buckets ns ns'"
  "deleteRawInvalidTx k ns = Inr ns' \<Longrightarrow> only_buckets tx_buckets ns ns'"
  "deleteRawConfirmedTx k ns = Inr ns' \<Longrightarrow> only_buckets tx_buckets ns ns'"
  by (auto simp: raw_tx_defs rbind_Inr_iff intro: only_buckets_put only_buckets_delete)

lemma invalidate_conflict_only:
  assumes "invalidate_conflict A now height ex del c ns = Inr ns'"
    and "\<And>c ns ns'. del c ns = Inr ns' \<Longrightarrow> only_buckets tx_buckets ns ns'"
  shows "only_buckets tx_buckets ns ns'"
  using assms(1) unfolding invalidate_conflict_def Inr_iffs
  by (auto simp: Inr_iffs dest!: assms(2) put_raw_only(2)) (metis only_buckets_trans)

lemma invalidate_only:
  "invalidate_conflict A now height ex deleteRawUnconfirmedTx c ns = Inr ns'
     \<Longrightarrow> only_buckets tx_buckets ns ns'"
  "invalidate_conflict A now height ex deleteRawConfirmedTx c ns = Inr ns'
     \<Longrightarrow> only_buckets tx_buckets ns ns'"
  by (erule invalidate_conflict_only, erule put_raw_only)+

lemma insert_conflict_only:
  assumes "insert_conflict A now height h c s = Inr s'"
  shows "only_buckets tx_buckets (snd s) (snd s')"
proof -
  obtain flag ns where s: "s = (flag, ns)" by (cases s)
  consider ns1 ns2 where "deleteRawConfirmedTx c ns = Inr ns1" "deleteRawInvalidTx c ns1 = Inr ns2"
      "s' = (True, ns2)"
    | ns1 ns2 where "invalidate_conflict A now height existsRawUnconfirmedTx
        deleteRawUnconfirmedTx c ns = Inr ns1"
      "invalidate_conflict A now height existsRawConfirmedTx deleteRawConfirmedTx c ns1 = Inr ns2"
      "s' = (flag, ns2)"
    using assms by (auto simp: insert_conflict_def s Inr_iffs)
  then show ?thesis
    by cases (auto simp: s intro: only_buckets_trans put_raw_only(6,7) invalidate_only)
qed

lemma insert_relevant_only:
  assumes "insert_relevant A now height h k ns = Inr ns'"
  shows "only_buckets tx_buckets ns ns'"
proof -
  obtain cs flag ns1 where r: "rfold (insert_conflict A now height h) cs (False, ns)
      = Inr (flag, ns1)" and last: "ns' = ns1 \<or> (\<exists>v. putRawRelevantTxs k v ns1 = Inr ns')"
    using assms by (auto simp: insert_relevant_def Let_def rbind_Inr_iff split: if_splits)
  have "only_buckets tx_buckets ns ns1"
    using only_buckets_rfold [OF r, where p = snd, OF insert_conflict_only] by simp
  with last show ?thesis by (auto dest: put_raw_only(4) intro: only_buckets_trans)
qed

lemma insert_ct_move_frame:
  assumes "insert_ct_move A utxo ns = Inr ns'"
  shows "ns_bucket ns' = ns_bucket ns" "ns_root ns' = ns_root ns" "ns_notes ns' = ns_notes ns"
  using assms
  by (auto simp: insert_ct_move_def Let_def rbind_Inr_iff ctaut_defs split: if_splits)

lemma ledger_ok_cong:
  "ns_bucket ns' = ns_bucket ns \<Longrightarrow> ns_root ns' = ns_root ns \<Longrightarrow> ledger_ok ns' = ledger_ok ns"
  by (simp add: ledger_ok_def buckets_ok_iff nested_get_def nested_def fetch_amount_def
      bucket_amount_def)

text \<open>The heart of \<open>InsertTx\<close>: one output moves, and the books still balance.\<close>

lemma insert_move_facts:
  assumes "insert_move A now h op ns = Inr (utxo, ns')"
  obtains v sp un ns1 ns2 where
    "nested_get bucketMaturedOutput (op_key op) ns = Inr (Some v)"
    "fetch_amount rootSpendableBalance ns = Inr sp"
    "fetch_amount rootUnconfirmedBalance ns = Inr un"
    "SpendableTXO_Deserialize op (Some v) = Inr utxo"
    "ns1 = put_amount rootUnconfirmedBalance (un + txo_Amount utxo)
       (put_amount rootSpendableBalance (sp - txo_Amount utxo) ns)"
    "nested_delete bucketMaturedOutput (op_key op) ns1 = Inr ns2"
    "putUnconfirmedTXO A \<lparr>utx_txo = utxo, utx_SpentByHash = h, utx_SpentTime = now\<rparr> ns2 = Inr ns'"
  using assms
  by (auto simp: insert_move_def Let_def rbind_Inr_iff balance_defs deleteSpendableTXO_def
      split: option.splits)

lemma nested_get_put_amount [simp]: "nested_get b k (put_amount r a ns) = nested_get b k ns"
  by (simp add: nested_get_def nested_def)

lemma insert_move_ledger_ok:
  assumes "insert_move A now h op ns = Inr (utxo, ns')" and "ledger_ok ns"
  shows "ledger_ok ns'"
proof -
  let ?M = bucketMaturedOutput and ?U = bucketSpentButUnmined and ?k = "op_key op"
  from assms(1) obtain v sp un ns1 ns2 where s:
    "nested_get ?M ?k ns = Inr (Some v)"
    "fetch_amount rootSpendableBalance ns = Inr sp"
    "fetch_amount rootUnconfirmedBalance ns = Inr un"
    "SpendableTXO_Deserialize op (Some v) = Inr utxo"
    "ns1 = put_amount rootUnconfirmedBalance (un + txo_Amount utxo)
       (put_amount rootSpendableBalance (sp - txo_Amount utxo) ns)"
    "nested_delete ?M ?k ns1 = Inr ns2"
    "putUnconfirmedTXO A \<lparr>utx_txo = utxo, utx_SpentByHash = h, utx_SpentTime = now\<rparr> ns2 = Inr ns'"
    by (rule insert_move_facts)
  note utxo = SpendableTXO_Deserialize_facts [OF s(4)]
  have p: "nested_put ''failed to put spent but unmined output'' ?U ?k
      (UnconfirmedTXO_Serialize A \<lparr>utx_txo = utxo, utx_SpentByHash = h, utx_SpentTime = now\<rparr>) ns2
      = Inr ns'"
    using s(7) utxo(2) by (simp add: putUnconfirmedTXO_Inr_iff)
  note l = assms(2) [unfolded ledger_ok_def]
  have "nested_get ?M ?k ns = Inr None \<or> nested_get ?U ?k ns = Inr None" using l by blast
  then have ok1: "buckets_ok ns1" and u1: "nested_get ?U ?k ns1 = Inr None"
    using l s(1) by (simp_all add: s(5))
  have ok2: "buckets_ok ns2" by (rule buckets_ok_delete [OF s(6) ok1])
  have u2: "nested_get ?U ?k ns2 = Inr None"
    by (simp add: nested_get_delete [OF s(6)] u1)
  have m: "bucket_amount ?M ns = value_amount v + bucket_amount ?M ns2"
    using bucket_amount_delete [OF s(6) _ ok1, of v] s(1) by (simp add: s(5))
  have o1: "only_buckets {?M} ns1 ns2" by (rule only_buckets_delete [OF s(6)]) simp
  have o2: "only_buckets {?U} ns2 ns'" by (rule only_buckets_put [OF p]) simp
  have m': "bucket_amount ?M ns' = bucket_amount ?M ns2"
    by (rule bucket_amount_only [OF o2]) simp
  have un: "bucket_amount ?U ns' = value_amount v + bucket_amount ?U ns"
    using bucket_amount_put_fresh [OF p u2 ok2] bucket_amount_only [OF o1, of ?U]
    by (simp add: utxo(1) s(5))
  have "nested_get ?M k ns' = Inr None \<or> nested_get ?U k ns' = Inr None" for k
    using l by (auto simp: nested_get_put [OF p] nested_get_delete [OF s(6)] s(5))
  moreover have "ns_bucket ns' ?M \<noteq> None" "ns_bucket ns' ?U \<noteq> None"
    using l only_bucketsD(5) [OF o1] only_bucketsD(5) [OF o2] by (simp_all add: s(5))
  ultimately show ?thesis
    using l m m' un utxo(1) s(2,3) only_bucketsD(1) [OF o1] only_bucketsD(1) [OF o2]
      only_bucketsD(4) [OF o2 ok2]
    by (simp add: ledger_ok_def s(5))
qed

lemma insert_input_ledger_ok:
  assumes "insert_input A now height h txin ns = Inr ns'" and "ledger_ok ns"
  shows "ledger_ok ns'"
proof -
  consider "ns' = ns" | op utxo ns1 ns2 where "insert_move A now h op ns = Inr (utxo, ns1)"
    "insert_ct_move A utxo ns1 = Inr ns2" "insert_relevant A now height h (op_key op) ns2 = Inr ns'"
    using assms(1) by (auto simp: insert_input_def Inr_iffs)
  then show ?thesis
  proof cases
    case 2
    have "ledger_ok ns1" by (rule insert_move_ledger_ok [OF 2(1) assms(2)])
    then have "ledger_ok ns2"
      using ledger_ok_cong [OF insert_ct_move_frame(1,2) [OF 2(2)]] by simp
    then show ?thesis
      by (rule ledger_ok_only [OF insert_relevant_only [OF 2(3)], rotated 2]) simp_all
  qed (simp add: assms(2))
qed

lemma InsertTx_ledger:
  assumes "InsertTx A now height rec hasBlock ns = Inr ns'" and "ledger_ok ns"
  shows "ledger_ok ns'"
proof -
  consider "ns' = ns" | ns1 ns2 v where
    "rfold (insert_input A now height (rec_Hash rec)) (msg_TxIns (rec_MsgTx rec)) ns = Inr ns1"
    "putRawUnconfirmedTx now (be_bytes 32 (rec_Hash rec)) v ns1 = Inr ns2"
    "ns' = notify (NotifyTransactionRollback (rec_Hash rec) height) ns2"
    using assms(1) by (auto simp: InsertTx_def rbind_Inr_iff split: if_splits)
  then show ?thesis
  proof cases
    case 2
    have "ledger_ok ns1"
      by (rule rfold_invariant [where P = ledger_ok, OF 2(1) assms(2)])
        (rule insert_input_ledger_ok)
    then have "ledger_ok ns2"
      by (rule ledger_ok_only [OF put_raw_only(1) [OF 2(2)], rotated 2]) simp_all
    then show ?thesis using ledger_ok_cong [of ns' ns2] by (simp add: 2(3))
  qed (simp add: assms(2))
qed


section \<open>Where the outputs go\<close>

text \<open>The wallet's output an input spends, if the ring of the input says it is one.\<close>

definition owned_input :: "abec \<Rightarrow> namespace \<Rightarrow> TxInAbe \<Rightarrow> OutPointAbe option" where
  "owned_input A ns txin =
     (case fetchUTXORing A ns (be_bytes 32 (OutPointRing_Hash A (in_PreviousOutPointRing txin))) of
        Inr (Some u) \<Rightarrow>
          (case find_origin u (in_SerialNumber txin) of
             Some i \<Rightarrow>
               if i < length (opr_OutPoints (in_PreviousOutPointRing txin))
               then Some (opr_OutPoints (in_PreviousOutPointRing txin) ! i) else None
           | None \<Rightarrow> None)
      | _ \<Rightarrow> None)"

abbreviation spendable_at :: "namespace \<Rightarrow> OutPointAbe \<Rightarrow> SpendableTXO option result" where
  "spendable_at ns op \<equiv> fetchSpendableTXO ns (TxHash op) (OutIndex op)"

abbreviation unmined_at :: "namespace \<Rightarrow> OutPointAbe \<Rightarrow> UnconfirmedTXO option result" where
  "unmined_at ns op \<equiv> fetchUnconfirmedTXO ns (TxHash op) (OutIndex op)"

lemma fetch_only:
  assumes "only_buckets B ns ns'"
  shows "bucketMaturedOutput \<notin> B \<Longrightarrow> fetchSpendableTXO ns' h i = fetchSpendableTXO ns h i"
    and "bucketSpentButUnmined \<notin> B \<Longrightarrow> fetchUnconfirmedTXO ns' h i = fetchUnconfirmedTXO ns h i"
    and "bucketUTXORing \<notin> B \<Longrightarrow> fetchUTXORing A ns' k = fetchUTXORing A ns k"
  using only_buckets_get [OF assms]
  by (simp_all add: fetchSpendableTXO_def fetchUnconfirmedTXO_def fetchUTXORing_def)

lemma fetch_cong:
  assumes "ns_bucket ns' = ns_bucket ns"
  shows "fetchSpendableTXO ns' h i = fetchSpendableTXO ns h i"
    "fetchUnconfirmedTXO ns' h i = fetchUnconfirmedTXO ns h i"
    "fetchUTXORing A ns' k = fetchUTXORing A ns k" "nested_get b k ns' = nested_get b k ns"
  using assms
  by (simp_all add: fetchSpendableTXO_def fetchUnconfirmedTXO_def fetchUTXORing_def nested_get_def
      nested_def)

lemma SpendableTXO_Deserialize_Nil: "SpendableTXO_Deserialize op (Some []) \<noteq> Inr t"
  by (simp add: SpendableTXO_Deserialize_def)

lemma insert_move_spec:
  assumes "insert_move A now h op ns = Inr (utxo, ns')"
  shows "spendable_at ns op = Inr (Some utxo)"
    and "spendable_at ns' op' = (if op' = op then Inr None else spendable_at ns op')"
    and "unmined_at ns' op' =
      (if op' = op
       then Inr (Some (stored_unconfirmed A
              \<lparr>utx_txo = utxo, utx_SpentByHash = h, utx_SpentTime = now\<rparr>))
       else unmined_at ns op')"
    and "b \<notin> {bucketMaturedOutput, bucketSpentButUnmined} \<Longrightarrow> ns_bucket ns' b = ns_bucket ns b"
proof -
  let ?t = "\<lparr>utx_txo = utxo, utx_SpentByHash = h, utx_SpentTime = now\<rparr>"
  from assms obtain v sp un ns1 ns2 where s:
    "nested_get bucketMaturedOutput (op_key op) ns = Inr (Some v)"
    "fetch_amount rootSpendableBalance ns = Inr sp"
    "fetch_amount rootUnconfirmedBalance ns = Inr un"
    "SpendableTXO_Deserialize op (Some v) = Inr utxo"
    "ns1 = put_amount rootUnconfirmedBalance (un + txo_Amount utxo)
       (put_amount rootSpendableBalance (sp - txo_Amount utxo) ns)"
    "nested_delete bucketMaturedOutput (op_key op) ns1 = Inr ns2"
    "putUnconfirmedTXO A ?t ns2 = Inr ns'"
    by (rule insert_move_facts)
  have op: "txo_TxOutput (utx_txo ?t) = op"
    using SpendableTXO_Deserialize_facts(2) [OF s(4)] by simp
  have "v \<noteq> []" using s(4) SpendableTXO_Deserialize_Nil by auto
  with s(1,4) show "spendable_at ns op = Inr (Some utxo)"
    by (simp add: fetchSpendableTXO_def)
  have d: "deleteSpendableTXO (op_key (txo_TxOutput (utx_txo ?t))) ns1 = Inr ns2"
    using s(6) op by (simp add: deleteSpendableTXO_def)
  have c: "ns_bucket ns1 = ns_bucket ns" by (simp add: s(5))
  show "spendable_at ns' op' = (if op' = op then Inr None else spendable_at ns op')"
    using spend_move.move_src [OF d s(7), of op'] op fetch_cong(1) [OF c] by simp
  show "unmined_at ns' op' = (if op' = op then Inr (Some (stored_unconfirmed A ?t))
      else unmined_at ns op')"
    using spend_move.move_dst [OF d s(7), of op'] op fetch_cong(2) [OF c] by simp
  show "b \<notin> {bucketMaturedOutput, bucketSpentButUnmined} \<Longrightarrow> ns_bucket ns' b = ns_bucket ns b"
    using s(6,7) c by (auto simp: putUnconfirmedTXO_Inr_iff nested_iffs)
qed

lemma insert_input_spec:
  assumes "insert_input A now height h txin ns = Inr ns'"
  shows "(owned_input A ns txin = None \<and> ns' = ns) \<or>
    (\<exists>op utxo. owned_input A ns txin = Some op \<and> spendable_at ns op = Inr (Some utxo) \<and>
      (\<forall>op'. spendable_at ns' op' = (if op' = op then Inr None else spendable_at ns op')) \<and>
      (\<forall>op'. unmined_at ns' op' =
        (if op' = op
         then Inr (Some (stored_unconfirmed A
                \<lparr>utx_txo = utxo, utx_SpentByHash = h, utx_SpentTime = now\<rparr>))
         else unmined_at ns op')))"
    (is ?cases)
    and "owned_input A ns' = owned_input A ns"
proof -
  consider u where "ns' = ns"
      "fetchUTXORing A ns (be_bytes 32 (OutPointRing_Hash A (in_PreviousOutPointRing txin)))
        = Inr (Some u)" "find_origin u (in_SerialNumber txin) = None"
    | u i op utxo ns1 ns2 where
      "fetchUTXORing A ns (be_bytes 32 (OutPointRing_Hash A (in_PreviousOutPointRing txin)))
        = Inr (Some u)" "find_origin u (in_SerialNumber txin) = Some i"
      "go_nth (opr_OutPoints (in_PreviousOutPointRing txin)) i = Inr op"
      "insert_move A now h op ns = Inr (utxo, ns1)"
      "insert_ct_move A utxo ns1 = Inr ns2" "insert_relevant A now height h (op_key op) ns2 = Inr ns'"
    using assms by (auto simp: insert_input_def Inr_iffs)
  then have "?cases \<and> owned_input A ns' = owned_input A ns"
  proof cases
    case 1
    then show ?thesis by (simp add: owned_input_def)
  next
    case (2 u i op utxo ns1 ns2)
    note m = insert_move_spec [OF 2(4)]
    note c = fetch_cong [OF insert_ct_move_frame(1) [OF 2(5)]]
    note r = fetch_only [OF insert_relevant_only [OF 2(6)], simplified]
    have o: "owned_input A ns txin = Some op"
      using 2(1-3) by (simp add: owned_input_def)
    have "?cases" using o m(1,2,3) by (simp add: r c)
    moreover have "fetchUTXORing A ns1 k = fetchUTXORing A ns k" for k
      using m(4) [of bucketUTXORing] by (simp add: fetchUTXORing_def nested_get_def nested_def)
    then have "owned_input A ns' = owned_input A ns"
      by (auto simp: owned_input_def r c fun_eq_iff)
    ultimately show ?thesis by blast
  qed
  then show ?cases "owned_input A ns' = owned_input A ns" by blast+
qed

text \<open>All inputs in turn.\<close>

definition inputs_moved ::
  "abec \<Rightarrow> gotime \<Rightarrow> hash \<Rightarrow> OutPointAbe list \<Rightarrow> namespace \<Rightarrow> namespace \<Rightarrow> bool" where
  "inputs_moved A now h ops ns ns' \<longleftrightarrow>
     distinct ops \<and>
     (\<forall>op. spendable_at ns' op = (if op \<in> set ops then Inr None else spendable_at ns op)) \<and>
     (\<forall>op. op \<notin> set ops \<longrightarrow> unmined_at ns' op = unmined_at ns op) \<and>
     (\<forall>op \<in> set ops. \<exists>utxo. spendable_at ns op = Inr (Some utxo) \<and>
        unmined_at ns' op = Inr (Some (stored_unconfirmed A
          \<lparr>utx_txo = utxo, utx_SpentByHash = h, utx_SpentTime = now\<rparr>)))"

lemma inputs_moved_Cons:
  assumes "inputs_moved A now h ops t ns'" and "spendable_at ns op = Inr (Some utxo)"
    and "\<And>op'. spendable_at t op' = (if op' = op then Inr None else spendable_at ns op')"
    and "\<And>op'. unmined_at t op' =
        (if op' = op
         then Inr (Some (stored_unconfirmed A
                \<lparr>utx_txo = utxo, utx_SpentByHash = h, utx_SpentTime = now\<rparr>))
         else unmined_at ns op')"
  shows "inputs_moved A now h (op # ops) ns ns'"
proof -
  have "op \<notin> set ops"
    using assms(1,3) by (fastforce simp: inputs_moved_def)
  moreover have "\<exists>utxo. spendable_at ns op' = Inr (Some utxo) \<and>
        unmined_at ns' op' = Inr (Some (stored_unconfirmed A
          \<lparr>utx_txo = utxo, utx_SpentByHash = h, utx_SpentTime = now\<rparr>))" if "op' \<in> set ops" for op'
    using assms(1,3) that by (fastforce simp: inputs_moved_def split: if_splits)
  ultimately show ?thesis using assms by (auto simp: inputs_moved_def)
qed

lemma insert_inputs_spec:
  assumes "rfold (insert_input A now height h) txins ns = Inr ns'"
  shows "inputs_moved A now h (List.map_filter (owned_input A ns) txins) ns ns'
    \<and> owned_input A ns' = owned_input A ns"
  using assms
proof (induction txins arbitrary: ns)
  case Nil
  then show ?case by (simp add: map_filter_simps inputs_moved_def)
next
  case (Cons txin txins)
  obtain t where t: "insert_input A now height h txin ns = Inr t"
    "rfold (insert_input A now height h) txins t = Inr ns'"
    using Cons.prems by (auto simp: rbind_Inr_iff)
  note i = insert_input_spec [OF t(1)]
  have IH: "inputs_moved A now h (List.map_filter (owned_input A ns) txins) t ns'"
    "owned_input A ns' = owned_input A ns"
    using Cons.IH [OF t(2)] by (simp_all add: i(2))
  from i(1) show ?case
  proof (elim disjE exE conjE)
    fix op utxo
    assume o: "owned_input A ns txin = Some op" "spendable_at ns op = Inr (Some utxo)"
      "\<forall>op'. spendable_at t op' = (if op' = op then Inr None else spendable_at ns op')"
      "\<forall>op'. unmined_at t op' =
        (if op' = op
         then Inr (Some (stored_unconfirmed A
                \<lparr>utx_txo = utxo, utx_SpentByHash = h, utx_SpentTime = now\<rparr>))
         else unmined_at ns op')"
    then show ?thesis
      using inputs_moved_Cons [OF IH(1) o(2)] IH(2) by (simp add: map_filter_simps)
  qed (use IH in \<open>simp add: map_filter_simps\<close>)
qed

text \<open>A transaction the wallet did not know yet.\<close>

lemma InsertTx_cases:
  assumes "InsertTx A now height rec hasBlock ns = Inr ns'"
  obtains (known) v where "\<not> hasBlock" "ns' = ns"
      "existsRawUnconfirmedTx ns (be_bytes 32 (rec_Hash rec)) = Inr (Some v)"
    | (new) ns1 ns2 v where "\<not> hasBlock"
      "existsRawUnconfirmedTx ns (be_bytes 32 (rec_Hash rec)) = Inr None"
      "rfold (insert_input A now height (rec_Hash rec)) (msg_TxIns (rec_MsgTx rec)) ns = Inr ns1"
      "valueTxRecord A rec = Inr v"
      "putRawUnconfirmedTx now (be_bytes 32 (rec_Hash rec)) v ns1 = Inr ns2"
      "ns' = notify (NotifyTransactionRollback (rec_Hash rec) height) ns2"
  using assms by (auto simp: InsertTx_def Inr_iffs)

lemma InsertTx_moves:
  assumes "InsertTx A now height rec hasBlock ns = Inr ns'"
    and "existsRawUnconfirmedTx ns (be_bytes 32 (rec_Hash rec)) = Inr None"
  shows "inputs_moved A now (rec_Hash rec)
    (List.map_filter (owned_input A ns) (msg_TxIns (rec_MsgTx rec))) ns ns'"
  using assms(1)
proof (cases rule: InsertTx_cases)
  case (new ns1 ns2 v)
  have n: "ns_bucket ns' = ns_bucket ns2" by (simp add: new(6))
  note f = fetch_only [OF put_raw_only(1) [OF new(5)], simplified]
  show ?thesis
    using insert_inputs_spec [OF new(3)]
    by (simp add: inputs_moved_def fetch_cong [OF n] f)
qed (use assms(2) in simp)

text \<open>Inserting a transaction twice is inserting it once.\<close>

lemma InsertTx_records:
  assumes "InsertTx A now height rec hasBlock ns = Inr ns'"
  shows "\<exists>v. existsRawUnconfirmedTx ns' (be_bytes 32 (rec_Hash rec)) = Inr (Some v)"
  using assms
proof (cases rule: InsertTx_cases)
  case (new ns1 ns2 v)
  then obtain w where w: "nested_put ''fail to put unconfirmed transaction'' bucketUnconfirmedTx
      (be_bytes 32 (rec_Hash rec)) w ns1 = Inr ns2"
    by (auto simp: putRawUnconfirmedTx_def rbind_Inr_iff)
  have n: "ns_bucket ns' = ns_bucket ns2" by (simp add: new(6))
  show ?thesis
    by (simp add: existsRawUnconfirmedTx_def fetch_cong(4) [OF n] nested_get_put [OF w])
qed auto

lemma InsertTx_idempotent:
  assumes "InsertTx A now height rec hasBlock ns = Inr ns'"
  shows "InsertTx A now2 height2 rec hasBlock ns' = Inr ns'"
proof -
  have "\<not> hasBlock" using assms by (auto simp: InsertTx_def)
  with InsertTx_records [OF assms] show ?thesis by (auto simp: InsertTx_def)
qed

section \<open>Conservation\<close>

text \<open>What \<open>InsertTx\<close> conserves: amounts only change side.\<close>

definition amount_at :: "rootkey \<Rightarrow> namespace \<Rightarrow> u64" where
  "amount_at k ns = (case fetch_amount k ns of Inl _ \<Rightarrow> 0 | Inr a \<Rightarrow> a)"

definition conserved :: "namespace \<Rightarrow> namespace \<Rightarrow> bool" where
  "conserved ns ns' \<longleftrightarrow>
     (\<forall>k. k \<notin> {rootSpendableBalance, rootUnconfirmedBalance} \<longrightarrow>
        fetch_amount k ns' = fetch_amount k ns) \<and>
     amount_at rootSpendableBalance ns' + amount_at rootUnconfirmedBalance ns' =
       amount_at rootSpendableBalance ns + amount_at rootUnconfirmedBalance ns \<and>
     (\<forall>c. c \<notin> {rootCTAUTSpendableBalance, rootCTAUTUnconfirmedBalance,
             rootCTAUTSpendableRootCoinNum, rootCTAUTUnconfirmedRootCoinNum} \<longrightarrow>
        fetch_ctaut c ns' = fetch_ctaut c ns) \<and>
     (\<forall>i. ct_get (fetchCTAUTSpenableBalance ns') i + ct_get (fetchCTAUTUnconfirmedBalance ns') i =
        ct_get (fetchCTAUTSpenableBalance ns) i + ct_get (fetchCTAUTUnconfirmedBalance ns) i) \<and>
     (\<forall>i. ct_get (fetchCTAUTSpenableRootCoinNum ns') i
            + ct_get (fetchCTAUTUnconfirmedRootCoinNum ns') i =
        ct_get (fetchCTAUTSpenableRootCoinNum ns) i
            + ct_get (fetchCTAUTUnconfirmedRootCoinNum ns) i)"

lemma conserved_refl [simp]: "conserved ns ns"
  by (simp add: conserved_def)

lemma conserved_trans: "conserved a b \<Longrightarrow> conserved b c \<Longrightarrow> conserved a c"
  by (simp add: conserved_def)

lemma conserved_only: "only_buckets B ns ns' \<Longrightarrow> conserved ns ns'"
  by (simp add: conserved_def amount_at_def only_bucketsD ctaut_defs)

lemma insert_move_conserved:
  assumes "insert_move A now h op ns = Inr (utxo, ns')"
  shows "conserved ns ns'"
proof -
  from assms obtain v sp un ns1 ns2 where s:
    "nested_get bucketMaturedOutput (op_key op) ns = Inr (Some v)"
    "fetch_amount rootSpendableBalance ns = Inr sp"
    "fetch_amount rootUnconfirmedBalance ns = Inr un"
    "SpendableTXO_Deserialize op (Some v) = Inr utxo"
    "ns1 = put_amount rootUnconfirmedBalance (un + txo_Amount utxo)
       (put_amount rootSpendableBalance (sp - txo_Amount utxo) ns)"
    "nested_delete bucketMaturedOutput (op_key op) ns1 = Inr ns2"
    "putUnconfirmedTXO A \<lparr>utx_txo = utxo, utx_SpentByHash = h, utx_SpentTime = now\<rparr> ns2 = Inr ns'"
    by (rule insert_move_facts)
  have "conserved ns ns1"
    by (simp add: s(5) conserved_def amount_at_def s(2,3) ctaut_defs)
  moreover have "conserved ns1 ns2"
    by (rule conserved_only [OF only_buckets_delete [OF s(6), of "{bucketMaturedOutput}"]]) simp
  moreover have "conserved ns2 ns'"
    using s(7) by (auto simp: putUnconfirmedTXO_Inr_iff intro: conserved_only only_buckets_put)
  ultimately show ?thesis by (blast intro: conserved_trans)
qed

lemma insert_ct_move_conserved:
  "insert_ct_move A utxo ns = Inr ns' \<Longrightarrow> conserved ns ns'"
  by (auto simp: insert_ct_move_def Let_def Inr_iffs conserved_def amount_at_def ctaut_defs)

lemma InsertTx_conserved:
  assumes "InsertTx A now height rec hasBlock ns = Inr ns'"
  shows "conserved ns ns'"
  using assms
proof (cases rule: InsertTx_cases)
  case (new ns1 ns2 v)
  have step: "conserved a b" if "insert_input A now height h txin a = Inr b" for h txin a b
    using that
    by (auto simp: insert_input_def Inr_iffs;
        blast intro: conserved_trans insert_move_conserved insert_ct_move_conserved
          conserved_only insert_relevant_only)
  have "conserved ns ns1"
    by (rule rfold_invariant [where P = "conserved ns", OF new(3)])
      (auto intro: conserved_trans step)
  moreover have "conserved ns1 ns2" by (rule conserved_only [OF put_raw_only(1) [OF new(5)]])
  moreover have "conserved ns2 ns'"
    unfolding new(6) by (rule conserved_only [OF only_buckets_notify])
  ultimately show ?thesis by (blast intro: conserved_trans)
qed simp

end
