(* ===== verification/Unmined.thy ===== *)
theory Unmined
  imports InsertTx
begin

text \<open>
  The fate of conflicting transactions under \<open>InsertTx\<close>; and the operations that take an
  output out of the unmined state again: \<open>DeleteRawUnmined\<close>, called when the node rejects a
  transaction the wallet rebroadcasts, \<open>ConfirmSpentTXO\<close>, \<open>unconfirmRelevantTx\<close> and
  \<open>invalidRelevantTx\<close> (\<open>wtxmgr/db.go\<close>, \<open>wtxmgr/tx.go\<close>).
\<close>

section \<open>Conflicting transactions\<close>

definition unconfirmed_tx :: "namespace \<Rightarrow> bytes \<Rightarrow> bytes option" where
  "unconfirmed_tx ns c =
     (case ns_bucket ns bucketUnconfirmedTx of None \<Rightarrow> None | Some m \<Rightarrow> nonempty (kv_get m c))"

text \<open>The transactions on record as spending the outpoint of key \<open>k\<close>.\<close>

definition relevant_list :: "namespace \<Rightarrow> bytes \<Rightarrow> bytes" where
  "relevant_list ns k =
     (case ns_bucket ns bucketRelevantTxs of None \<Rightarrow> []
      | Some m \<Rightarrow> (case kv_get m k of None \<Rightarrow> [] | Some b \<Rightarrow> b))"

lemma unconfirmed_tx_cong:
  "ns_bucket ns' bucketUnconfirmedTx = ns_bucket ns bucketUnconfirmedTx \<Longrightarrow>
   unconfirmed_tx ns' c = unconfirmed_tx ns c"
  by (simp add: unconfirmed_tx_def)

lemma relevant_list_cong:
  "ns_bucket ns' bucketRelevantTxs = ns_bucket ns bucketRelevantTxs \<Longrightarrow>
   relevant_list ns' k = relevant_list ns k"
  by (simp add: relevant_list_def)

lemma invalidate_unconfirmed_tx:
  assumes "invalidate_conflict A now height existsRawUnconfirmedTx deleteRawUnconfirmedTx c ns
    = Inr ns'"
  shows "unconfirmed_tx ns' d = (if d = c then None else unconfirmed_tx ns d)"
    and "ns_bucket ns' bucketRelevantTxs = ns_bucket ns bucketRelevantTxs"
  using assms
  by (auto simp: invalidate_conflict_def raw_tx_defs Inr_iffs nested_iffs unconfirmed_tx_def
      kv_get_delete)

lemma invalidate_confirmed_tx:
  assumes "invalidate_conflict A now height existsRawConfirmedTx deleteRawConfirmedTx c ns
    = Inr ns'"
  shows "unconfirmed_tx ns' d = unconfirmed_tx ns d"
    and "ns_bucket ns' bucketRelevantTxs = ns_bucket ns bucketRelevantTxs"
  using assms
  by (auto simp: invalidate_conflict_def raw_tx_defs Inr_iffs nested_iffs unconfirmed_tx_def)

lemma insert_conflict_tx:
  assumes "insert_conflict A now height h c s = Inr s'"
  shows "unconfirmed_tx (snd s') d
      = (if d = c \<and> d \<noteq> be_bytes 32 h then None else unconfirmed_tx (snd s) d)"
    and "ns_bucket (snd s') bucketRelevantTxs = ns_bucket (snd s) bucketRelevantTxs"
    and "fst s' \<longleftrightarrow> fst s \<or> c = be_bytes 32 h"
proof -
  obtain flag ns where s: "s = (flag, ns)" by (cases s)
  consider ns1 ns2 where "be_bytes 32 h = c" "deleteRawConfirmedTx c ns = Inr ns1"
      "deleteRawInvalidTx c ns1 = Inr ns2" "s' = (True, ns2)"
    | ns1 ns2 where "be_bytes 32 h \<noteq> c"
      "invalidate_conflict A now height existsRawUnconfirmedTx deleteRawUnconfirmedTx c ns = Inr ns1"
      "invalidate_conflict A now height existsRawConfirmedTx deleteRawConfirmedTx c ns1 = Inr ns2"
      "s' = (flag, ns2)"
    using assms by (auto simp: insert_conflict_def s Inr_iffs)
  then have "unconfirmed_tx (snd s') d
      = (if d = c \<and> d \<noteq> be_bytes 32 h then None else unconfirmed_tx (snd s) d)
    \<and> ns_bucket (snd s') bucketRelevantTxs = ns_bucket (snd s) bucketRelevantTxs
    \<and> (fst s' \<longleftrightarrow> fst s \<or> c = be_bytes 32 h)"
  proof cases
    case 1
    then show ?thesis
      by (auto simp: s raw_tx_defs nested_iffs intro!: unconfirmed_tx_cong)
  next
    case 2
    then show ?thesis
      using invalidate_unconfirmed_tx [OF 2(2)] invalidate_confirmed_tx [OF 2(3)] by (auto simp: s)
  qed
  then show "unconfirmed_tx (snd s') d
      = (if d = c \<and> d \<noteq> be_bytes 32 h then None else unconfirmed_tx (snd s) d)"
    "ns_bucket (snd s') bucketRelevantTxs = ns_bucket (snd s) bucketRelevantTxs"
    "fst s' \<longleftrightarrow> fst s \<or> c = be_bytes 32 h"
    by blast+
qed

lemma insert_conflicts_tx:
  assumes "rfold (insert_conflict A now height h) cs s = Inr s'"
  shows "unconfirmed_tx (snd s') d
      = (if d \<in> set cs \<and> d \<noteq> be_bytes 32 h then None else unconfirmed_tx (snd s) d)
    \<and> ns_bucket (snd s') bucketRelevantTxs = ns_bucket (snd s) bucketRelevantTxs
    \<and> (fst s' \<longleftrightarrow> fst s \<or> be_bytes 32 h \<in> set cs)"
  using assms
proof (induction cs arbitrary: s)
  case (Cons c cs)
  then obtain t where t: "insert_conflict A now height h c s = Inr t"
    "rfold (insert_conflict A now height h) cs t = Inr s'"
    by (auto simp: rbind_Inr_iff)
  show ?case using insert_conflict_tx [OF t(1)] Cons.IH [OF t(2)] by auto
qed simp

lemma insert_relevant_tx:
  assumes "insert_relevant A now height h k ns = Inr ns'"
  shows "unconfirmed_tx ns' d =
      (if d \<in> set (chunks32 (relevant_list ns k)) \<and> d \<noteq> be_bytes 32 h then None
       else unconfirmed_tx ns d)"
    and "k' \<noteq> k \<Longrightarrow> relevant_list ns' k' = relevant_list ns k'"
    and "relevant_list ns' k = relevant_list ns k \<and> be_bytes 32 h \<in> set (chunks32 (relevant_list ns k))
      \<or> relevant_list ns' k = relevant_list ns k @ be_bytes 32 h"
proof -
  obtain v flag ns1 where v: "existsRawReleventTxs ns k = Inr v"
    and r: "rfold (insert_conflict A now height h)
        (chunks32 (case v of None \<Rightarrow> [] | Some b \<Rightarrow> b)) (False, ns) = Inr (flag, ns1)"
    and last: "flag \<and> ns' = ns1 \<or> \<not> flag \<and>
      putRawRelevantTxs k ((case v of None \<Rightarrow> [] | Some b \<Rightarrow> b) @ be_bytes 32 h) ns1 = Inr ns'"
    using assms by (auto simp: insert_relevant_def Let_def rbind_Inr_iff split: if_splits)
  have rl: "(case v of None \<Rightarrow> [] | Some b \<Rightarrow> b) = relevant_list ns k"
    using v by (auto simp: existsRawReleventTxs_def nested_iffs relevant_list_def)
  note c = insert_conflicts_tx [OF r [unfolded rl], simplified]
  show "unconfirmed_tx ns' d =
      (if d \<in> set (chunks32 (relevant_list ns k)) \<and> d \<noteq> be_bytes 32 h then None
       else unconfirmed_tx ns d)"
    using last c [of d] unconfirmed_tx_cong [of ns' ns1 d]
    by (auto simp: putRawRelevantTxs_def nested_iffs)
  show "k' \<noteq> k \<Longrightarrow> relevant_list ns' k' = relevant_list ns k'"
    using last c by (auto simp: putRawRelevantTxs_def nested_iffs relevant_list_def kv_get_put)
  show "relevant_list ns' k = relevant_list ns k \<and> be_bytes 32 h \<in> set (chunks32 (relevant_list ns k))
      \<or> relevant_list ns' k = relevant_list ns k @ be_bytes 32 h"
    using last c unfolding rl
    by (auto simp: putRawRelevantTxs_def nested_iffs relevant_list_def kv_get_put)
qed

lemma insert_input_tx:
  assumes "insert_input A now height h txin ns = Inr ns'"
  shows "unconfirmed_tx ns' d =
      (if \<exists>op. owned_input A ns txin = Some op \<and> d \<in> set (chunks32 (relevant_list ns (op_key op)))
            \<and> d \<noteq> be_bytes 32 h
       then None else unconfirmed_tx ns d)"
    and "owned_input A ns txin \<noteq> Some op \<Longrightarrow>
      relevant_list ns' (op_key op) = relevant_list ns (op_key op)"
proof -
  consider "ns' = ns" "owned_input A ns txin = None"
    | op utxo ns1 ns2 where "owned_input A ns txin = Some op"
      "insert_move A now h op ns = Inr (utxo, ns1)"
      "insert_ct_move A utxo ns1 = Inr ns2" "insert_relevant A now height h (op_key op) ns2 = Inr ns'"
    using assms by (auto simp: insert_input_def Inr_iffs owned_input_def)
  then have "unconfirmed_tx ns' d =
      (if \<exists>op. owned_input A ns txin = Some op \<and> d \<in> set (chunks32 (relevant_list ns (op_key op)))
            \<and> d \<noteq> be_bytes 32 h
       then None else unconfirmed_tx ns d)
    \<and> (owned_input A ns txin \<noteq> Some op \<longrightarrow>
      relevant_list ns' (op_key op) = relevant_list ns (op_key op))"
  proof cases
    case (2 op' utxo ns1 ns2)
    have b: "ns_bucket ns2 b = ns_bucket ns b" if "b \<in> tx_buckets" for b
      using insert_move_spec(4) [OF 2(2), of b] insert_ct_move_frame(1) [OF 2(3)] that by auto
    have r: "relevant_list ns2 k = relevant_list ns k" for k
      by (rule relevant_list_cong) (simp add: b)
    have u: "unconfirmed_tx ns2 d = unconfirmed_tx ns d"
      by (rule unconfirmed_tx_cong) (simp add: b)
    show ?thesis
      using insert_relevant_tx(1) [OF 2(4), of d] insert_relevant_tx(2) [OF 2(4), of "op_key op"] 2(1)
      by (auto simp: r u)
  qed simp
  then show "unconfirmed_tx ns' d =
      (if \<exists>op. owned_input A ns txin = Some op \<and> d \<in> set (chunks32 (relevant_list ns (op_key op)))
            \<and> d \<noteq> be_bytes 32 h
       then None else unconfirmed_tx ns d)"
    "owned_input A ns txin \<noteq> Some op \<Longrightarrow>
      relevant_list ns' (op_key op) = relevant_list ns (op_key op)"
    by blast+
qed

lemma insert_inputs_tx:
  assumes "rfold (insert_input A now height h) txins ns = Inr ns'"
    and "op \<in> set (List.map_filter (owned_input A ns) txins)"
    and "d \<in> set (chunks32 (relevant_list ns (op_key op)))" and "d \<noteq> be_bytes 32 h"
  shows "unconfirmed_tx ns' d = None"
  using assms
proof (induction txins arbitrary: ns)
  case Nil
  then show ?case by (simp add: map_filter_simps)
next
  case (Cons txin txins)
  then obtain t where t: "insert_input A now height h txin ns = Inr t"
    "rfold (insert_input A now height h) txins t = Inr ns'"
    by (auto simp: rbind_Inr_iff)
  note i = insert_input_tx [OF t(1)]
  have gone: "unconfirmed_tx s' d = None"
    if "rfold (insert_input A now height h) xs s = Inr s'" "unconfirmed_tx s d = None" for xs s s'
    by (rule rfold_invariant [where P = "\<lambda>n. unconfirmed_tx n d = None", OF that])
      (auto simp: insert_input_tx(1))
  show ?case
  proof (cases "owned_input A ns txin = Some op")
    case True
    then have "unconfirmed_tx t d = None" using i(1) [of d] Cons.prems(3,4) by auto
    then show ?thesis by (rule gone [OF t(2)])
  next
    case False
    then have "op \<in> set (List.map_filter (owned_input A t) txins)"
      using Cons.prems(2) insert_input_spec(2) [OF t(1)]
      by (auto simp: map_filter_simps split: option.splits)
    then show ?thesis
      using Cons.IH [OF t(2)] i(2) [OF False] Cons.prems(3,4) by simp
  qed
qed

text \<open>
  After \<open>InsertTx\<close>, the transaction inserted is the only unconfirmed one among those on record
  as spending any of its inputs.
\<close>

lemma InsertTx_sole_spender:
  assumes "InsertTx A now height rec hasBlock ns = Inr ns'"
    and "existsRawUnconfirmedTx ns (be_bytes 32 (rec_Hash rec)) = Inr None"
    and "op \<in> set (List.map_filter (owned_input A ns) (msg_TxIns (rec_MsgTx rec)))"
    and "d \<in> set (chunks32 (relevant_list ns (op_key op)))" and "d \<noteq> be_bytes 32 (rec_Hash rec)"
  shows "unconfirmed_tx ns' d = None"
  using assms(1)
proof (cases rule: InsertTx_cases)
  case (new ns1 ns2 v)
  have "unconfirmed_tx ns1 d = None"
    by (rule insert_inputs_tx [OF new(3) assms(3-5)])
  then show ?thesis
    using new(5,6) assms(5)
    by (auto simp: putRawUnconfirmedTx_def rbind_Inr_iff nested_iffs unconfirmed_tx_def kv_get_put)
qed (use assms(2) in simp)

section \<open>DeleteRawUnmined\<close>

text \<open>One input: its output, if it is one of the wallet's, goes back to the matured bucket.\<close>

definition unmined_input :: "abec \<Rightarrow> TxInAbe \<Rightarrow> namespace \<Rightarrow> namespace result" where
  "unmined_input A input ns =
     (case fetchUTXORing A ns (be_bytes 32 (OutPointRing_Hash A (in_PreviousOutPointRing input))) of
        Inl (GoPanic e) \<Rightarrow> Inl (GoPanic e)
      | Inl _ \<Rightarrow> Inr ns
      | Inr None \<Rightarrow> Inr ns
      | Inr (Some utxoRing) \<Rightarrow>
          (case find_origin utxoRing (in_SerialNumber input) of
             None \<Rightarrow> Inr ns
           | Some idx \<Rightarrow>
               rbind (go_nth (ur_TxHashes utxoRing) idx) (\<lambda>h.
               rbind (go_nth (ur_OutputIndexes utxoRing) idx) (\<lambda>i.
               rbind (case fetchUnconfirmedTXO ns h i of
                        Inl (GoPanic e) \<Rightarrow> Inl (GoPanic e)
                      | Inl _ \<Rightarrow>
                          Inl (GoError ''can not find unconfirmed txo in unconfirmed txo bucket'')
                      | Inr t \<Rightarrow> Inr t) (\<lambda>sbuTxo.
               rbind (deleteUnconfirmedTXO (canonicalOutPointAbe h i) ns) (\<lambda>ns.
                 case sbuTxo of None \<Rightarrow> Inr ns
                 | Some t \<Rightarrow> putSpendableTXO A (utx_txo t) ns))))))"

definition DeleteRawUnmined :: "abec \<Rightarrow> MsgTxAbe \<Rightarrow> namespace \<Rightarrow> namespace result" where
  "DeleteRawUnmined A tx ns =
     rbind (rfold (unmined_input A) (msg_TxIns tx) ns) (\<lambda>ns.
       deleteRawUnconfirmedTx (be_bytes 32 (MsgTx_TxHash A tx)) ns)"

text \<open>It never touches a balance or a token counter, whatever it moves.\<close>

lemma unmined_input_only:
  assumes "unmined_input A input ns = Inr ns'"
  shows "only_buckets {bucketMaturedOutput, bucketSpentButUnmined} ns ns'"
  using assms
  by (auto simp: unmined_input_def Inr_iffs putSpendableTXO_Inr_iff deleteUnconfirmedTXO_def
      intro: only_buckets_trans only_buckets_put only_buckets_delete)

lemma DeleteRawUnmined_only:
  assumes "DeleteRawUnmined A tx ns = Inr ns'"
  shows "only_buckets {bucketMaturedOutput, bucketSpentButUnmined, bucketUnconfirmedTx} ns ns'"
proof -
  obtain ns1 where r: "rfold (unmined_input A) (msg_TxIns tx) ns = Inr ns1"
    and d: "deleteRawUnconfirmedTx (be_bytes 32 (MsgTx_TxHash A tx)) ns1 = Inr ns'"
    using assms by (auto simp: DeleteRawUnmined_def rbind_Inr_iff)
  have "only_buckets {bucketMaturedOutput, bucketSpentButUnmined} ns ns1"
    using only_buckets_rfold [OF r, where p = "\<lambda>x. x", OF unmined_input_only] .
  then have "only_buckets {bucketMaturedOutput, bucketSpentButUnmined, bucketUnconfirmedTx} ns ns1"
    by (rule only_buckets_mono) auto
  moreover have "only_buckets {bucketMaturedOutput, bucketSpentButUnmined, bucketUnconfirmedTx} ns1 ns'"
    using d unfolding deleteRawUnconfirmedTx_def by (rule only_buckets_delete) simp
  ultimately show ?thesis by (rule only_buckets_trans)
qed

lemma DeleteRawUnmined_balances:
  "DeleteRawUnmined A tx ns = Inr ns' \<Longrightarrow>
   fetch_amount k ns' = fetch_amount k ns \<and> fetch_ctaut c ns' = fetch_ctaut c ns"
  using only_bucketsD(1,2) [OF DeleteRawUnmined_only] by blast


section \<open>ConfirmSpentTXO\<close>

text \<open>The counters \<open>ConfirmSpentTXO\<close> loads, changes and stores back.\<close>

record confirm_acct =
  ca_balance :: u64
  ca_spendable :: u64
  ca_rootNum :: ctmap
  ca_spendableRootNum :: ctmap
  ca_bals :: ctmap
  ca_spendableBals :: ctmap

definition confirm_ct ::
  "abec \<Rightarrow> bool \<Rightarrow> SpendableTXO \<Rightarrow> namespace \<Rightarrow> confirm_acct \<Rightarrow> confirm_acct result" where
  "confirm_ct A fromSpendable utxo ns a =
     (if \<not> IsCTAUTCoin utxo then Inr a
      else rbind (fetchRawCTAUTCoin ns (TxHash (txo_TxOutput utxo)) (OutIndex (txo_TxOutput utxo)))
        (\<lambda>token.
        let ident = AutId_String A (ct_AUTIdentifier token)
        in if ct_IsAUTRootCoin token
           then let a = (if fromSpendable
                         then a\<lparr>ca_spendableRootNum := ct_sub ident 1 (ca_spendableRootNum a)\<rparr>
                         else a)
                in Inr (a\<lparr>ca_rootNum := ct_sub ident 1 (ca_rootNum a)\<rparr>)
           else let a = (if fromSpendable
                         then a\<lparr>ca_spendableBals :=
                                  ct_sub ident (ct_Value token) (ca_spendableBals a)\<rparr>
                         else a)
                in Inr (a\<lparr>ca_bals := ct_sub ident (ct_Value token) (ca_bals a)\<rparr>)))"

definition ConfirmSpentTXO ::
  "abec \<Rightarrow> gotime \<Rightarrow> hash \<Rightarrow> u8 \<Rightarrow> hash \<Rightarrow> hash \<Rightarrow> namespace \<Rightarrow> namespace result" where
  "ConfirmSpentTXO A now txHash index spentTxHash confirmedBy ns =
     (let k = canonicalOutPointAbe txHash index
      in rbind (fetchMinedBalance ns) (\<lambda>balance.
         rbind (fetchSpendableBalance ns) (\<lambda>spendableBal.
         let a = \<lparr>ca_balance = balance, ca_spendable = spendableBal,
                  ca_rootNum = fetchCTAUTRootCoinNum ns,
                  ca_spendableRootNum = fetchCTAUTSpenableRootCoinNum ns,
                  ca_bals = fetchCTAUTMinedBalance ns,
                  ca_spendableBals = fetchCTAUTSpenableBalance ns\<rparr>
         in rbind (case fetchSpendableTXO ns txHash index of
              Inr None \<Rightarrow> Inl nil_bucket
            | Inr (Some utxo) \<Rightarrow>
                let amt = txo_Amount utxo;
                    a = a\<lparr>ca_balance := ca_balance a - amt,
                          ca_spendable := ca_spendable a - amt\<rparr>
                in rbind (deleteSpendableTXO k ns) (\<lambda>ns.
                   let scTxo = \<lparr>ctx_unconfirmed = \<lparr>utx_txo = utxo, utx_SpentByHash = spentTxHash,
                                 utx_SpentTime = now\<rparr>,
                               ctx_ConfirmedByBlockHash = confirmedBy, ctx_ConfirmTime = now\<rparr>
                   in rbind (confirm_ct A True utxo ns a) (\<lambda>a. Inr (scTxo, a, ns)))
            | Inl (GoPanic e) \<Rightarrow> Inl (GoPanic e)
            | Inl _ \<Rightarrow>
                (case fetchUnconfirmedTXO ns txHash index of
                   Inr None \<Rightarrow> Inl nil_bucket
                 | Inr (Some sbuTxo) \<Rightarrow>
                     let a = a\<lparr>ca_balance := ca_balance a - txo_Amount (utx_txo sbuTxo)\<rparr>
                     in rbind (deleteUnconfirmedTXO k ns) (\<lambda>ns.
                        let u = (if utx_SpentByHash sbuTxo \<noteq> spentTxHash
                                 then sbuTxo\<lparr>utx_SpentByHash := spentTxHash, utx_SpentTime := now\<rparr>
                                 else sbuTxo);
                            scTxo = \<lparr>ctx_unconfirmed = u,
                                    ctx_ConfirmedByBlockHash = confirmedBy, ctx_ConfirmTime = now\<rparr>
                        in rbind (confirm_ct A False (utx_txo sbuTxo) ns a)
                             (\<lambda>a. Inr (scTxo, a, ns)))
                 | Inl (GoPanic e) \<Rightarrow> Inl (GoPanic e)
                 | Inl _ \<Rightarrow> Inl (GoError ''can not find txo'')))
            (\<lambda>(scTxo, a, ns).
            rbind (putConfirmedTXO A scTxo ns) (\<lambda>ns.
              Inr (putCTAUTSpenableBalance (ca_spendableBals a)
                  (putCTAUTMinedBalance (ca_bals a)
                  (putCTAUTSpenableRootCoinNum (ca_spendableRootNum a)
                  (putCTAUTRootCoinNum (ca_rootNum a)
                  (putMinedBalance (ca_balance a)
                  (putSpendableBalance (ca_spendable a) ns)))))))))))"

text \<open>
  An output that is not matured is a nil pointer to \<open>ConfirmSpentTXO\<close>: the branch for
  unconfirmed outputs is taken only on an error, which an absent output is not.
\<close>

lemma ConfirmSpentTXO_absent:
  assumes "fetchMinedBalance ns = Inr a" and "fetchSpendableBalance ns = Inr b"
    and "fetchSpendableTXO ns h i = Inr None"
  shows "ConfirmSpentTXO A now h i spender block ns = Inl nil_bucket"
  using assms by (simp add: ConfirmSpentTXO_def Let_def)

lemma fetchSpendableTXO_entry:
  assumes "fetchSpendableTXO ns h i = Inr (Some t)"
  obtains v where "nested_get bucketMaturedOutput (canonicalOutPointAbe h i) ns = Inr (Some v)"
    "SpendableTXO_Deserialize (OutPointAbe h i) (Some v) = Inr t"
  using assms
  by (auto simp: fetchSpendableTXO_def Inr_iffs nonempty_def split: option.splits if_splits)

lemma confirm_ct_amounts:
  assumes "confirm_ct A b t ns a = Inr a'"
  shows "ca_balance a' = ca_balance a" "ca_spendable a' = ca_spendable a"
  using assms by (auto simp: confirm_ct_def Let_def Inr_iffs)

lemma ConfirmSpentTXO_spendable:
  assumes "ConfirmSpentTXO A now h i spender block ns = Inr ns'"
    and "fetchSpendableTXO ns h i = Inr (Some utxo)" and "ledger_ok ns"
  shows "ledger_ok ns'"
    and "amount_at rootMinedBalance ns' = amount_at rootMinedBalance ns - txo_Amount utxo"
    and "fetchSpendableTXO ns' h i = Inr None"
    and "\<exists>t. fetchConfirmedTXO ns' h i = Inr (Some t) \<and>
      utx_SpentByHash (ctx_unconfirmed t) = spender \<and> ctx_ConfirmedByBlockHash t = block"
proof -
  let ?op = "OutPointAbe h i" and ?k = "canonicalOutPointAbe h i"
  let ?sc = "\<lparr>ctx_unconfirmed = \<lparr>utx_txo = utxo, utx_SpentByHash = spender, utx_SpentTime = now\<rparr>,
      ctx_ConfirmedByBlockHash = block, ctx_ConfirmTime = now\<rparr>"
  obtain v where v: "nested_get bucketMaturedOutput ?k ns = Inr (Some v)"
    "SpendableTXO_Deserialize ?op (Some v) = Inr utxo"
    using fetchSpendableTXO_entry [OF assms(2)] .
  note facts = SpendableTXO_Deserialize_facts [OF v(2)]
  let ?a = "\<lambda>bal sp. \<lparr>ca_balance = bal - txo_Amount utxo, ca_spendable = sp - txo_Amount utxo,
      ca_rootNum = fetchCTAUTRootCoinNum ns, ca_spendableRootNum = fetchCTAUTSpenableRootCoinNum ns,
      ca_bals = fetchCTAUTMinedBalance ns, ca_spendableBals = fetchCTAUTSpenableBalance ns\<rparr>"
  obtain bal sp a' ns1 ns2 where s: "fetch_amount rootMinedBalance ns = Inr bal"
    "fetch_amount rootSpendableBalance ns = Inr sp"
    "confirm_ct A True utxo ns1 (?a bal sp) = Inr a'"
    "nested_delete bucketMaturedOutput ?k ns = Inr ns1" "putConfirmedTXO A ?sc ns1 = Inr ns2"
    "ns' = putCTAUTSpenableBalance (ca_spendableBals a')
                  (putCTAUTMinedBalance (ca_bals a')
                  (putCTAUTSpenableRootCoinNum (ca_spendableRootNum a')
                  (putCTAUTRootCoinNum (ca_rootNum a')
                  (putMinedBalance (ca_balance a')
                  (putSpendableBalance (ca_spendable a') ns2)))))"
    using assms(1,2)
    by (auto simp: ConfirmSpentTXO_def Let_def rbind_Inr_iff balance_defs deleteSpendableTXO_def)
  note amt = confirm_ct_amounts [OF s(3), simplified]
  have b': "ns_bucket ns' = ns_bucket ns2" by (simp add: s(6) balance_defs ctaut_defs)
  have p: "nested_put ''failed to put spent and confirmed output'' bucketSpentConfirmed ?k
      (ConfirmedTXO_Serialize A ?sc) ns1 = Inr ns2"
    using s(5) facts(2) by (simp add: putConfirmedTXO_Inr_iff)
  note l = assms(3) [unfolded ledger_ok_def]
  have ok: "buckets_ok ns" using l by simp
  have o1: "only_buckets {bucketMaturedOutput} ns ns1"
    by (rule only_buckets_delete [OF s(4)]) simp
  have o2: "only_buckets {bucketSpentConfirmed} ns1 ns2" by (rule only_buckets_put [OF p]) simp
  have m: "bucket_amount bucketMaturedOutput ns
      = txo_Amount utxo + bucket_amount bucketMaturedOutput ns2"
    using bucket_amount_delete [OF s(4) v(1) ok] bucket_amount_only [OF o2, of bucketMaturedOutput]
      facts(1) by simp
  have u: "bucket_amount bucketSpentButUnmined ns2 = bucket_amount bucketSpentButUnmined ns"
    using bucket_amount_only [OF o1, of bucketSpentButUnmined]
      bucket_amount_only [OF o2, of bucketSpentButUnmined] by simp
  have g: "nested_get b k ns2 = (if b = bucketMaturedOutput \<and> k = ?k then Inr None
      else if b = bucketSpentConfirmed \<and> k = ?k then Inr (Some (ConfirmedTXO_Serialize A ?sc))
      else nested_get b k ns)" for b k
    by (auto simp: nested_get_put [OF p] nested_get_delete [OF s(4)])
  have amounts: "fetch_amount rootSpendableBalance ns' = Inr (sp - txo_Amount utxo)"
    "fetch_amount rootUnconfirmedBalance ns' = fetch_amount rootUnconfirmedBalance ns"
    "fetch_amount rootMinedBalance ns' = Inr (bal - txo_Amount utxo)"
    using amt only_bucketsD(1) [OF o1] only_bucketsD(1) [OF o2]
    by (simp_all add: s(6) balance_defs ctaut_defs)
  have "ns_bucket ns2 b \<noteq> None" if "ns_bucket ns b \<noteq> None" for b
    using only_bucketsD(5) [OF o1, of b] only_bucketsD(5) [OF o2, of b] that by simp
  moreover have "buckets_ok ns2"
    using only_bucketsD(4) [OF o1 ok] only_bucketsD(4) [OF o2] by simp
  moreover have "buckets_ok ns' = buckets_ok ns2" by (simp add: buckets_ok_iff b')
  ultimately show "ledger_ok ns'"
    using l m u s(2) by (auto simp: ledger_ok_def amounts bucket_amount_def b' fetch_cong [OF b'] g)
  show "amount_at rootMinedBalance ns' = amount_at rootMinedBalance ns - txo_Amount utxo"
    by (simp add: amount_at_def amounts s(1))
  show "fetchSpendableTXO ns' h i = Inr None"
    by (simp add: fetchSpendableTXO_def fetch_cong [OF b'] g)
  have "fetchConfirmedTXO ns2 (TxHash ?op) (OutIndex ?op) = Inr (Some (stored_confirmed A ?sc))"
    using confirmed.fetch_put [OF s(5), of ?op] facts(2) by simp
  then have "fetchConfirmedTXO ns' h i = Inr (Some (stored_confirmed A ?sc))"
    by (simp add: fetchConfirmedTXO_def fetch_cong [OF b'])
  then show "\<exists>t. fetchConfirmedTXO ns' h i = Inr (Some t) \<and>
      utx_SpentByHash (ctx_unconfirmed t) = spender \<and> ctx_ConfirmedByBlockHash t = block"
    by (simp add: stored_confirmed_def)
qed

section \<open>Loops over the relevance index\<close>

text \<open>
  \<open>unconfirmRelevantTx\<close> and \<open>invalidRelevantTx\<close> differ in the bucket they look in first, the
  one they fall back to, and the notification. Their loop runs while \<open>offset <= len\<close>; \<open>v\<close> is
  the rest of the list at the offset.
\<close>

definition relevant_step ::
  "abec \<Rightarrow> (namespace \<Rightarrow> bytes \<Rightarrow> bytes option result) \<Rightarrow> (bytes \<Rightarrow> namespace \<Rightarrow> namespace result)
   \<Rightarrow> (namespace \<Rightarrow> bytes \<Rightarrow> bytes option result) \<Rightarrow> (bytes \<Rightarrow> namespace \<Rightarrow> namespace result)
   \<Rightarrow> (hash \<Rightarrow> notification) \<Rightarrow> bytes \<Rightarrow> namespace \<Rightarrow> namespace result" where
  "relevant_step A ex1 del1 ex2 del2 note txh ns =
     rbind (ex1 ns txh) (\<lambda>v1.
     rbind (case nonempty v1 of Some s \<Rightarrow> Inr (Some (s, del1))
            | None \<Rightarrow> rbind (ex2 ns txh) (\<lambda>v2.
                case nonempty v2 of Some s \<Rightarrow> Inr (Some (s, del2)) | None \<Rightarrow> Inr None)) (\<lambda>found.
       case found of None \<Rightarrow> Inr ns
       | Some (s, del) \<Rightarrow>
           rbind (TxRecord_Deserialize A s) (\<lambda>tx.
           if be_bytes 32 (rec_Hash tx) \<noteq> txh
           then Inl (GoError ''unmatched transaction in unconfirmed transaction bucket'')
           else rbind (del txh ns) (\<lambda>ns.
                rbind (putInvalidTx A tx ns) (\<lambda>ns. Inr (notify (note (rec_Hash tx)) ns))))))"

function relevant_loop :: "(bytes \<Rightarrow> namespace \<Rightarrow> namespace result) \<Rightarrow> bytes \<Rightarrow> namespace \<Rightarrow> namespace result"
where
  "relevant_loop step v ns =
     (if length v < 32 then Inl out_of_range
      else rbind (step (take 32 v) ns) (\<lambda>ns. relevant_loop step (drop 32 v) ns))"
  by pat_completeness auto
termination by (relation "measure (\<lambda>(_, v, _). length v)") auto

declare relevant_loop.simps [simp del]

definition unconfirmRelevantTx :: "abec \<Rightarrow> OutPointAbe \<Rightarrow> i32 \<Rightarrow> namespace \<Rightarrow> namespace result" where
  "unconfirmRelevantTx A op height ns =
     rbind (existsRawReleventTxs ns (op_key op)) (\<lambda>v.
       relevant_loop (relevant_step A existsRawConfirmedTx deleteRawConfirmedTx
           existsRawInvalidTx deleteRawInvalidTx (\<lambda>h. NotifyTransactionRollback h height))
         (case v of None \<Rightarrow> [] | Some b \<Rightarrow> b) ns)"

definition invalidRelevantTx :: "abec \<Rightarrow> OutPointAbe \<Rightarrow> i32 \<Rightarrow> namespace \<Rightarrow> namespace result" where
  "invalidRelevantTx A op height ns =
     rbind (existsRawReleventTxs ns (op_key op)) (\<lambda>v.
       relevant_loop (relevant_step A existsRawUnconfirmedTx deleteRawUnconfirmedTx
           existsRawConfirmedTx deleteRawConfirmedTx (\<lambda>h. NotifyTransactionInvalid h height))
         (case v of None \<Rightarrow> [] | Some b \<Rightarrow> b) ns)"

text \<open>The bound of the loop is one slice too far: it never ends but with an error or a panic.\<close>

lemma relevant_loop_fails: "\<exists>e. relevant_loop step v ns = Inl e"
proof (induction step v ns rule: relevant_loop.induct)
  case (1 step v ns)
  then show ?case
    by (subst relevant_loop.simps) (cases "step (take 32 v) ns"; auto simp: relevant_loop.simps)
qed

lemma unconfirmRelevantTx_fails: "\<exists>e. unconfirmRelevantTx A op height ns = Inl e"
  and invalidRelevantTx_fails: "\<exists>e. invalidRelevantTx A op height ns = Inl e"
  by (simp_all add: unconfirmRelevantTx_def invalidRelevantTx_def rbind_def relevant_loop_fails
      split: sum.splits)

end
