(* ===== verification/Receive.thy ===== *)
theory Receive
  imports Unmined
begin

text \<open>
  What \<open>InsertBlock\<close> asks of the packages it builds on (cryptography, token scripts, ring
  construction of \<open>abec\<close>; the key manager), and the functions of \<open>wtxmgr/tx.go\<close> that use it to
  decide which outputs are the wallet's: \<open>ReceiveTxo\<close>, \<open>ReceiveCTAUTToken\<close>, \<open>GenSNForTxo\<close>.
\<close>

section \<open>Parameters\<close>

datatype AutScriptType = AutScriptTypeRegistration | AutScriptTypeReRegistration
  | AutScriptTypeBurn | AutScriptTypeOther

text \<open>A token script: its generated tokens carry the output index they are bound to.\<close>

record AutScript =
  as_Type :: AutScriptType
  as_Identifier :: hash
  as_GeneratedTokens :: "(u8 \<times> bytes) list"

record RingEntry =
  re_Version :: u32
  re_IsCoinBase :: bool
  re_BlockHashs :: "hash list"
  re_OutPoints :: "OutPointAbe list"
  re_TxOuts :: "TxOutAbe list"

text \<open>
  \<open>DetectAndAssemble\<close> is the script of a transaction, none when there is none or when it fails
  (the source logs and goes on); \<open>CryptoValueKeyReGen\<close> returns its two keys beside its error;
  a parsed token output is carried by its bytes; \<open>BuildTxoRings\<close> is given each block with the
  height set for it, and returns one entry per ring id.
\<close>

record crypto =
  GetTxoPrivacyLevel :: "TxOutAbe \<Rightarrow> u8 result"
  TxoCoinDetectByCoinDetectorRootKey :: "TxOutAbe \<Rightarrow> bytes \<Rightarrow> bool result"
  TxoCoinReceiveByRootSeeds :: "TxOutAbe \<Rightarrow> bytes \<Rightarrow> bytes \<Rightarrow> (bool \<times> u64) result"
  ExtractCoinAddressFromTxo :: "TxOutAbe \<Rightarrow> bytes result"
  ExtractPublicRandFromTxo :: "TxOutAbe \<Rightarrow> bytes result"
  TxoCoinSerialNumberGenByKey :: "TxOutAbe \<Rightarrow> hash \<Rightarrow> u8 \<Rightarrow> bytes \<Rightarrow> bytes result"
  TxoCoinSerialNumberGenByRootSeed :: "TxOutAbe \<Rightarrow> hash \<Rightarrow> u8 \<Rightarrow> bytes \<Rightarrow> bytes result"
  CryptoValueKeyReGen :: "bytes \<Rightarrow> bytes \<Rightarrow> (bytes \<times> bytes) \<times> go_error option"
  ExtractAutTxoValue :: "bytes \<Rightarrow> bytes \<Rightarrow> bytes \<Rightarrow> u64 result"
  AutTxo_Deserialize :: "bytes \<Rightarrow> bytes result"
  GetAutTxoType :: "bytes \<Rightarrow> u8 result"
  DetectAndAssemble :: "MsgTxAbe \<Rightarrow> AutScript option"
  GetBlockNumPerRingGroup :: "i32 \<Rightarrow> i32"
  GetTxoRingSize :: "i32 \<Rightarrow> nat"
  NewBlockAbe :: "MsgBlockAbe \<Rightarrow> MsgBlockAbe result"
  BuildTxoRings ::
    "i32 \<Rightarrow> nat \<Rightarrow> (i32 \<times> MsgBlockAbe) list \<Rightarrow> (hash \<times> RingEntry) list result"
  CoinbaseMaturity :: i32

record root_seeds =
  rs_coinSpend :: bytes
  rs_snKey :: bytes
  rs_coinValue :: bytes
  rs_detectorRootKey :: bytes
  rs_coinValueAut :: bytes

text \<open>
  The address manager: its root seeds, whether its scheme is the one without seeds, and the
  serial-number key of an address there (fetched and decrypted).
\<close>

record manager =
  FetchProtectedRootSeeds :: "root_seeds result"
  CryptoSchemeIsRingCT :: bool
  AddressSnKey :: "bytes \<Rightarrow> bytes result"

section \<open>Receiving\<close>

definition ReceiveTxo ::
  "abec \<Rightarrow> crypto \<Rightarrow> manager \<Rightarrow> TxOutAbe \<Rightarrow> (bool \<times> u64 \<times> bytes \<times> bytes \<times> u8) result" where
  "ReceiveTxo A K M txOut =
     rbind (GetTxoPrivacyLevel K txOut) (\<lambda>privacyLevel.
     if privacyLevel = PrivacyLevelRINGCTPre A then Inr (False, 0, [], [], 0)
     else rbind (FetchProtectedRootSeeds M) (\<lambda>seeds.
     rbind (TxoCoinDetectByCoinDetectorRootKey K txOut (rs_detectorRootKey seeds)) (\<lambda>detected.
     if \<not> detected then Inr (False, 0, [], [], privacyLevel)
     else rbind (TxoCoinReceiveByRootSeeds K txOut (rs_coinValue seeds) (rs_detectorRootKey seeds))
       (\<lambda>(valid, v).
     rbind (ExtractCoinAddressFromTxo K txOut) (\<lambda>coinAddr.
     rbind (ExtractPublicRandFromTxo K txOut) (\<lambda>publicRand.
       Inr (valid, v, be_bytes 32 (DoubleHashH A coinAddr), publicRand, privacyLevel)))))))"

text \<open>The error of the key generation is overwritten by the last call, hence never looked at.\<close>

definition ReceiveCTAUTToken ::
  "abec \<Rightarrow> crypto \<Rightarrow> manager \<Rightarrow> TxOutAbe \<Rightarrow> bytes \<Rightarrow> u64 result" where
  "ReceiveCTAUTToken A K M txOut ctautTxo =
     rbind (GetTxoPrivacyLevel K txOut) (\<lambda>privacyLevel.
     if privacyLevel \<noteq> PrivacyLevelPSEUDONYMCT A then Inr 0
     else rbind (FetchProtectedRootSeeds M) (\<lambda>seeds.
     rbind (ExtractPublicRandFromTxo K txOut) (\<lambda>publicRand.
     let ((pk, sk), _) = CryptoValueKeyReGen K (rs_coinValueAut seeds) publicRand
     in ExtractAutTxoValue K ctautTxo pk sk)))"

definition GenSNForTxo ::
  "abec \<Rightarrow> crypto \<Rightarrow> manager \<Rightarrow> TxOutAbe \<Rightarrow> hash \<Rightarrow> u8 \<Rightarrow> bytes result" where
  "GenSNForTxo A K M txOut ringHash index =
     rbind (ExtractCoinAddressFromTxo K txOut) (\<lambda>coinAddr.
     if CryptoSchemeIsRingCT M
     then rbind (AddressSnKey M coinAddr) (\<lambda>asksn.
            TxoCoinSerialNumberGenByKey K txOut ringHash index asksn)
     else rbind (GetTxoPrivacyLevel K txOut) (\<lambda>privacyLevel.
          if privacyLevel = PrivacyLevelPSEUDONYM A
          then TxoCoinSerialNumberGenByRootSeed K txOut ringHash index []
          else rbind (FetchProtectedRootSeeds M) (\<lambda>seeds.
               TxoCoinSerialNumberGenByRootSeed K txOut ringHash index (rs_snKey seeds))))"

lemma ReceiveTxo_invalid_rings:
  assumes "ReceiveTxo A K M txOut = Inr (True, v, addrKey, publicRand, level)"
  shows "level \<noteq> PrivacyLevelRINGCTPre A" "length addrKey = 32"
    "TxoCoinReceiveByRootSeeds K txOut (rs_coinValue seeds) (rs_detectorRootKey seeds)
       = Inr (True, v) \<or> FetchProtectedRootSeeds M \<noteq> Inr seeds"
  using assms by (auto simp: ReceiveTxo_def Inr_iffs)

section \<open>The accounts of the wallet\<close>

text \<open>
  The balances and token counters \<open>InsertBlock\<close> and \<open>rollback\<close> load at the start, change in
  memory and store at the end.
\<close>

record acct =
  a_balance :: u64
  a_spendable :: u64
  a_immatureCB :: u64
  a_immatureTR :: u64
  a_unconfirmed :: u64
  a_ctBal :: ctmap
  a_ctSpendable :: ctmap
  a_ctImmature :: ctmap
  a_ctUnconfirmed :: ctmap
  a_rcNum :: ctmap
  a_rcImmature :: ctmap
  a_rcSpendable :: ctmap
  a_rcUnconfirmed :: ctmap

definition load_acct :: "namespace \<Rightarrow> acct result" where
  "load_acct ns =
     rbind (fetchMinedBalance ns) (\<lambda>balance.
     rbind (fetchSpendableBalance ns) (\<lambda>spendableBal.
     rbind (fetchImmatureCoinbaseBalance ns) (\<lambda>immatureCBBal.
     rbind (fetchImmatureTransferBalance ns) (\<lambda>immatureTRBal.
     rbind (fetchUnconfirmedBalance ns) (\<lambda>unconfirmedBal.
       Inr \<lparr>a_balance = balance, a_spendable = spendableBal, a_immatureCB = immatureCBBal,
            a_immatureTR = immatureTRBal, a_unconfirmed = unconfirmedBal,
            a_ctBal = fetchCTAUTMinedBalance ns, a_ctSpendable = fetchCTAUTSpenableBalance ns,
            a_ctImmature = fetchCTAUTImmatureTransferBalance ns,
            a_ctUnconfirmed = fetchCTAUTUnconfirmedBalance ns,
            a_rcNum = fetchCTAUTRootCoinNum ns, a_rcImmature = fetchCTAUTImmatureRootCoinNum ns,
            a_rcSpendable = fetchCTAUTSpenableRootCoinNum ns,
            a_rcUnconfirmed = fetchCTAUTUnconfirmedRootCoinNum ns\<rparr>)))))"

definition save_acct :: "acct \<Rightarrow> namespace \<Rightarrow> namespace" where
  "save_acct a ns =
     (let ns = putSpendableBalance (a_spendable a) ns;
          ns = putImmatureCoinbaseBalance (a_immatureCB a) ns;
          ns = putImmatureTransferBalance (a_immatureTR a) ns;
          ns = putUnconfirmedBalance (a_unconfirmed a) ns;
          ns = putMinedBalance (a_balance a) ns;
          ns = putCTAUTImmatureRootCoinNum (a_rcImmature a) ns;
          ns = putCTAUTSpenableRootCoinNum (a_rcSpendable a) ns;
          ns = putCTAUTUnconfirmedRootCoinNum (a_rcUnconfirmed a) ns;
          ns = putCTAUTRootCoinNum (a_rcNum a) ns;
          ns = putCTAUTImmatureTransferBalance (a_ctImmature a) ns;
          ns = putCTAUTSpenableBalance (a_ctSpendable a) ns;
          ns = putCTAUTUnconfirmedBalance (a_ctUnconfirmed a) ns;
          ns = putCTAUTMinedBalance (a_ctBal a) ns
      in ns)"

text \<open>The whole is the sum of its parts: for coins, for each token, for its root coins.\<close>

definition acct_ok :: "acct \<Rightarrow> bool" where
  "acct_ok a \<longleftrightarrow>
     a_balance a = a_spendable a + a_immatureCB a + a_immatureTR a + a_unconfirmed a \<and>
     (\<forall>i. ct_get (a_ctBal a) i =
        ct_get (a_ctSpendable a) i + ct_get (a_ctImmature a) i + ct_get (a_ctUnconfirmed a) i) \<and>
     (\<forall>i. ct_get (a_rcNum a) i =
        ct_get (a_rcSpendable a) i + ct_get (a_rcImmature a) i + ct_get (a_rcUnconfirmed a) i)"

definition books_ok :: "namespace \<Rightarrow> bool" where
  "books_ok ns \<longleftrightarrow> (\<exists>a. load_acct ns = Inr a \<and> acct_ok a)"

lemma load_save_acct [simp]: "load_acct (save_acct a ns) = Inr a"
  by (simp add: load_acct_def save_acct_def Let_def balance_defs ctaut_defs)

lemma books_ok_save: "acct_ok a \<Longrightarrow> books_ok (save_acct a ns)"
  by (auto simp: books_ok_def)

lemma save_acct_bucket [simp]: "ns_bucket (save_acct a ns) = ns_bucket ns"
  by (simp add: save_acct_def Let_def balance_defs ctaut_defs)

lemma load_acct_only: "only_buckets B ns ns' \<Longrightarrow> load_acct ns' = load_acct ns"
  by (simp add: load_acct_def only_bucketsD balance_defs ctaut_defs)

lemma books_ok_conserved:
  assumes "conserved ns ns'" and "books_ok ns" and "fetchSpendableBalance ns' = Inr sp"
    and "fetchUnconfirmedBalance ns' = Inr un"
  shows "books_ok ns'"
proof -
  obtain a where a: "load_acct ns = Inr a" "acct_ok a" using assms(2) by (auto simp: books_ok_def)
  note c = assms(1) [unfolded conserved_def]
  from a(1) have f: "fetch_amount rootMinedBalance ns = Inr (a_balance a)"
    "fetch_amount rootSpendableBalance ns = Inr (a_spendable a)"
    "fetch_amount rootImmatureCoinbaseBalance ns = Inr (a_immatureCB a)"
    "fetch_amount rootImmatureTransferBalance ns = Inr (a_immatureTR a)"
    "fetch_amount rootUnconfirmedBalance ns = Inr (a_unconfirmed a)"
    and t: "a_ctBal a = fetchCTAUTMinedBalance ns" "a_ctSpendable a = fetchCTAUTSpenableBalance ns"
    "a_ctImmature a = fetchCTAUTImmatureTransferBalance ns"
    "a_ctUnconfirmed a = fetchCTAUTUnconfirmedBalance ns"
    "a_rcNum a = fetchCTAUTRootCoinNum ns" "a_rcImmature a = fetchCTAUTImmatureRootCoinNum ns"
    "a_rcSpendable a = fetchCTAUTSpenableRootCoinNum ns"
    "a_rcUnconfirmed a = fetchCTAUTUnconfirmedRootCoinNum ns"
    by (auto simp: load_acct_def rbind_Inr_iff balance_defs)
  have k: "fetch_amount rootMinedBalance ns' = Inr (a_balance a)"
    "fetch_amount rootImmatureCoinbaseBalance ns' = Inr (a_immatureCB a)"
    "fetch_amount rootImmatureTransferBalance ns' = Inr (a_immatureTR a)"
    using c f by simp_all
  have s: "sp + un = a_spendable a + a_unconfirmed a"
    using c f assms(3,4) by (simp add: amount_at_def balance_defs)
  have "acct_ok \<lparr>a_balance = a_balance a, a_spendable = sp, a_immatureCB = a_immatureCB a,
            a_immatureTR = a_immatureTR a, a_unconfirmed = un,
            a_ctBal = fetchCTAUTMinedBalance ns', a_ctSpendable = fetchCTAUTSpenableBalance ns',
            a_ctImmature = fetchCTAUTImmatureTransferBalance ns',
            a_ctUnconfirmed = fetchCTAUTUnconfirmedBalance ns',
            a_rcNum = fetchCTAUTRootCoinNum ns', a_rcImmature = fetchCTAUTImmatureRootCoinNum ns',
            a_rcSpendable = fetchCTAUTSpenableRootCoinNum ns',
            a_rcUnconfirmed = fetchCTAUTUnconfirmedRootCoinNum ns'\<rparr>"
  proof -
    have "fetchCTAUTMinedBalance ns' = fetchCTAUTMinedBalance ns"
      "fetchCTAUTImmatureTransferBalance ns' = fetchCTAUTImmatureTransferBalance ns"
      "fetchCTAUTRootCoinNum ns' = fetchCTAUTRootCoinNum ns"
      "fetchCTAUTImmatureRootCoinNum ns' = fetchCTAUTImmatureRootCoinNum ns"
      using c by (simp_all add: ctaut_defs)
    then show ?thesis
      using a(2) c s by (simp add: acct_ok_def t algebra_simps)
  qed
  then show ?thesis
    using k assms(3,4) by (simp add: books_ok_def load_acct_def balance_defs)
qed

end
