(* ===== verification/BlockSteps.thy ===== *)
theory BlockSteps
  imports Receive
begin

text \<open>
  \<open>Store.InsertBlock\<close> of \<open>wtxmgr/tx.go\<close>, first half: the coinbase outputs, and for each
  transfer transaction its inputs (which ring each spends from, the serial number it shows, the
  transactions it makes invalid), the members of the rings that are spent by now, its outputs
  and their tokens, and the root coins a re-registration disables.
\<close>

section \<open>State\<close>

text \<open>
  \<open>bs_rings\<close> is \<open>relevantUTXORings\<close>, \<open>bs_inputs\<close> is \<open>blockInputs\<close> (nil until the first ring
  of the wallet is met), \<open>bs_transfer\<close> is \<open>transferOutputs\<close>, \<open>bs_outputs\<close> is the list under
  the only key of \<open>blockOutputs\<close>.
\<close>

record bstate =
  bs_acct :: acct
  bs_ns :: namespace
  bs_rings :: "(hash \<times> UTXORing) list"
  bs_inputs :: "RingHashSerialNumbers option"
  bs_coinbase :: txo_map
  bs_transfer :: txo_map
  bs_outputs :: "OutPointAbe list"
  bs_disabled :: "OutPointAbe list"

section \<open>Coinbase outputs\<close>

definition receive_coinbase ::
  "abec \<Rightarrow> crypto \<Rightarrow> manager \<Rightarrow> BlockRecord \<Rightarrow> MsgTxAbe \<Rightarrow> nat \<times> TxOutAbe \<Rightarrow> bstate
   \<Rightarrow> bstate result" where
  "receive_coinbase A K M block coinbaseTx iout st =
     (let (i, out) = iout
      in rbind (ReceiveTxo A K M out) (\<lambda>(valid, v, _, publicRand, privacyLevel).
         if \<not> valid then Inr st
         else
           let a = bs_acct st;
               a = a\<lparr>a_immatureCB := a_immatureCB a + v, a_balance := a_balance a + v\<rparr>;
               k = OutPointAbe (MsgTx_TxHash A coinbaseTx) (of_nat i);
               tmp = NewUnspentUTXO A (out_Version out) (blk_Height block) k True v 0xFF
                       (blk_RecvTime block) 0 0 privacyLevel publicRand
           in Inr (st\<lparr>bs_acct := a, bs_coinbase := AList.update k tmp (bs_coinbase st),
                     bs_outputs := bs_outputs st @ [k]\<rparr>)))"

section \<open>Inputs\<close>

text \<open>
  Another unconfirmed transaction on record for the same output becomes invalid; a confirmed
  one is left alone here.
\<close>

definition block_conflict ::
  "gotime \<Rightarrow> i32 \<Rightarrow> hash \<Rightarrow> bytes \<Rightarrow> bool \<times> namespace \<Rightarrow> (bool \<times> namespace) result" where
  "block_conflict now height txiHash c s =
     (let (flag, ns) = s
      in if be_bytes 32 txiHash = c then Inr (True, ns)
         else rbind (existsRawUnconfirmedTx ns c) (\<lambda>v.
           case nonempty v of None \<Rightarrow> Inr (flag, ns)
           | Some conflictTx \<Rightarrow>
               rbind (deleteRawUnconfirmedTx c ns) (\<lambda>ns.
               rbind (putRawInvalidTx now c conflictTx ns) (\<lambda>ns.
                 Inr (flag, notify (NotifyTransactionInvalid (be_word c) height) ns)))))"

definition block_relevant ::
  "gotime \<Rightarrow> i32 \<Rightarrow> hash \<Rightarrow> bytes \<Rightarrow> namespace \<Rightarrow> namespace result" where
  "block_relevant now height txiHash k ns =
     rbind (existsRawReleventTxs ns k) (\<lambda>v.
     let relevantTxs = (case v of None \<Rightarrow> [] | Some b \<Rightarrow> b)
     in rbind (rfold (block_conflict now height txiHash) (chunks32 relevantTxs) (False, ns))
          (\<lambda>(flag, ns).
          if flag then Inr ns
          else putRawRelevantTxs k (relevantTxs @ be_bytes 32 txiHash) ns))"

text \<open>
  The ring an input spends from: the one this block has already touched, or the stored one,
  which is then noted in \<open>blockInputs\<close> as it was and worked on in a copy. \<open>None\<close> when the ring
  is not the wallet's.
\<close>

definition load_ring ::
  "abec \<Rightarrow> hash \<Rightarrow> bytes \<Rightarrow> bstate \<Rightarrow> (UTXORing \<times> bstate) option result" where
  "load_ring A ringHash serialNumber st =
     (case map_of (bs_rings st) ringHash of
        Some u \<Rightarrow> Inr (Some (u, st))
      | None \<Rightarrow>
          rbind (existsUTXORing (bs_ns st) ringHash) (\<lambda>(key, val).
          case val of None \<Rightarrow> Inr None
          | Some _ \<Rightarrow>
              rbind (fetchUTXORing A (bs_ns st) key) (\<lambda>oldU'.
              case oldU' of None \<Rightarrow> Inr None
              | Some oldU \<Rightarrow>
                  if serialNumber \<in> set (ur_GotSerialNumberes oldU)
                  then Inl (GoError ''there has a same serialNumber in UTXORing'')
                  else
                    let b = (case bs_inputs st of
                               None \<Rightarrow> \<lparr>utxoRings = [], serialNumbers = []\<rparr> | Some b \<Rightarrow> b);
                        b = (if map_of (utxoRings b) ringHash = None
                             then b\<lparr>utxoRings := utxoRings b @ [(ringHash, oldU)]\<rparr> else b)
                    in Inr (Some (UTXORing_Copy oldU, st\<lparr>bs_inputs := Some b\<rparr>)))))"

text \<open>The boolean is \<open>consumeTxo\<close>.\<close>

definition block_input ::
  "abec \<Rightarrow> gotime \<Rightarrow> BlockRecord \<Rightarrow> MsgTxAbe \<Rightarrow> TxInAbe \<Rightarrow> bool \<times> bstate \<Rightarrow> (bool \<times> bstate) result"
where
  "block_input A now block txi txin s =
     (let (consume, st) = s;
          serialNumber = in_SerialNumber txin;
          ringHash = OutPointRing_Hash A (in_PreviousOutPointRing txin)
      in rbind (load_ring A ringHash serialNumber st) (\<lambda>r.
         case r of None \<Rightarrow> Inr (consume, st)
         | Some (u, st) \<Rightarrow>
             rbind (case find_origin u serialNumber of
                      None \<Rightarrow> Inr (consume, bs_ns st)
                    | Some index \<Rightarrow>
                        rbind (go_nth (ur_TxHashes u) index) (\<lambda>h.
                        rbind (go_nth (ur_OutputIndexes u) index) (\<lambda>i.
                        rbind (block_relevant now (blk_Height block) (MsgTx_TxHash A txi)
                                 (canonicalOutPointAbe h i) (bs_ns st)) (\<lambda>ns. Inr (True, ns)))))
               (\<lambda>(consume, ns).
             case bs_inputs st of None \<Rightarrow> Inl nil_bucket
             | Some b \<Rightarrow>
                 let sns = lookup_nil (serialNumbers b) ringHash @ [serialNumber];
                     b = b\<lparr>serialNumbers := AList.update ringHash sns (serialNumbers b)\<rparr>
                 in rbind (AddGotSerialNumber serialNumber u) (\<lambda>u.
                      Inr (consume, st\<lparr>bs_ns := ns, bs_inputs := Some b,
                             bs_rings := AList.update ringHash u (bs_rings st)\<rparr>)))))"

section \<open>The transaction itself\<close>

definition confirm_tx ::
  "abec \<Rightarrow> BlockRecord \<Rightarrow> MsgTxAbe \<Rightarrow> namespace \<Rightarrow> namespace result" where
  "confirm_tx A block txi ns =
     (let txhash = MsgTx_TxHash A txi; k = be_bytes 32 txhash
      in rbind (existsRawUnconfirmedTx ns k) (\<lambda>v.
         rbind (case nonempty v of None \<Rightarrow> Inr ns | Some _ \<Rightarrow> deleteRawUnconfirmedTx k ns) (\<lambda>ns.
         rbind (existsRawInvalidTx ns k) (\<lambda>v.
         rbind (case nonempty v of None \<Rightarrow> Inr ns | Some _ \<Rightarrow> deleteRawInvalidTx k ns) (\<lambda>ns.
         rbind (NewTxRecordFromMsgTx A txi (blk_RecvTime block)) (\<lambda>txRecord.
         rbind (valueTxRecord A txRecord) (\<lambda>v.
         rbind (putRawConfirmedTx k v ns) (\<lambda>ns.
           Inr (notify (NotifyTransactionAccepted txhash (blk_Height block)) ns)))))))))"

section \<open>Spent members of the rings\<close>

text \<open>A token coin leaves the count it is in, unless it had been disabled before.\<close>

definition consume_token ::
  "abec \<Rightarrow> bool \<Rightarrow> SpendableTXO \<Rightarrow> acct \<times> namespace \<Rightarrow> (acct \<times> namespace) result" where
  "consume_token A fromSpendable txo s =
     (let (a, ns) = s
      in if \<not> IsCTAUTCoin txo then Inr (a, ns)
         else rbind (spendCTAUTCoin (TxHash (txo_TxOutput txo)) (OutIndex (txo_TxOutput txo)) ns)
           (\<lambda>((token, alreadySpent), ns).
           let ident = AutId_String A (ct_AUTIdentifier token)
           in if alreadySpent then Inr (a, ns)
              else if ct_IsAUTRootCoin token
              then let a = a\<lparr>a_rcNum := ct_sub ident 1 (a_rcNum a)\<rparr>
                   in Inr (if fromSpendable
                           then a\<lparr>a_rcSpendable := ct_sub ident 1 (a_rcSpendable a)\<rparr>
                           else a\<lparr>a_rcUnconfirmed := ct_sub ident 1 (a_rcUnconfirmed a)\<rparr>, ns)
              else let v = ct_Value token; a = a\<lparr>a_ctBal := ct_sub ident v (a_ctBal a)\<rparr>
                   in Inr (if fromSpendable
                           then a\<lparr>a_ctSpendable := ct_sub ident v (a_ctSpendable a)\<rparr>
                           else a\<lparr>a_ctUnconfirmed := ct_sub ident v (a_ctUnconfirmed a)\<rparr>, ns)))"

text \<open>
  An output found in neither bucket is looked up among the confirmed ones, but nothing is
  stored for it.
\<close>

definition spend_member ::
  "abec \<Rightarrow> BlockRecord \<Rightarrow> hash \<Rightarrow> UTXORing \<Rightarrow> nat \<Rightarrow> acct \<times> namespace \<Rightarrow> (acct \<times> namespace) result"
where
  "spend_member A block txhash u t s =
     rbind (go_nth (ur_IsMy u) t) (\<lambda>my.
     if \<not> my then Inr s
     else rbind (go_nth (ur_Spent u) t) (\<lambda>spent.
     if \<not> spent then Inr s
     else
       let (a, ns) = s
       in rbind (go_nth (ur_TxHashes u) t) (\<lambda>h.
          rbind (go_nth (ur_OutputIndexes u) t) (\<lambda>i.
          rbind (existsSpendableTXO ns (canonicalOutPointAbe h i)) (\<lambda>serializedTXO.
          case serializedTXO of
            Some v \<Rightarrow>
              rbind (SpendableTXO_Deserialize (OutPointAbe h i) (Some v)) (\<lambda>txo.
              let amt = txo_Amount txo;
                  a = a\<lparr>a_balance := a_balance a - amt, a_spendable := a_spendable a - amt\<rparr>;
                  confirmedTxo = \<lparr>ctx_unconfirmed =
                      \<lparr>utx_txo = txo, utx_SpentByHash = txhash,
                       utx_SpentTime = blk_RecvTime block\<rparr>,
                    ctx_ConfirmedByBlockHash = blk_Hash block,
                    ctx_ConfirmTime = blk_RecvTime block\<rparr>
              in rbind (deleteSpendableTXO (canonicalOutPointAbe h i) ns) (\<lambda>ns.
                 rbind (consume_token A True txo (a, ns)) (\<lambda>(a, ns).
                 rbind (putConfirmedTXO A confirmedTxo ns) (\<lambda>ns. Inr (a, ns)))))
          | None \<Rightarrow>
            rbind (existsUnconfirmedTXO ns (canonicalOutPointAbe h i)) (\<lambda>serializedTXO.
            case serializedTXO of
              Some v \<Rightarrow>
                rbind (UnconfirmedTXO_Deserialize (OutPointAbe h i) (Some v)) (\<lambda>txo.
                let amt = txo_Amount (utx_txo txo);
                    a = a\<lparr>a_balance := a_balance a - amt,
                          a_unconfirmed := a_unconfirmed a - amt\<rparr>;
                    confirmedTxo = \<lparr>ctx_unconfirmed = txo,
                      ctx_ConfirmedByBlockHash = blk_Hash block,
                      ctx_ConfirmTime = blk_RecvTime block\<rparr>
                in rbind (deleteUnconfirmedTXO (canonicalOutPointAbe h i) ns) (\<lambda>ns.
                   rbind (consume_token A False (utx_txo txo) (a, ns)) (\<lambda>(a, ns).
                   rbind (putConfirmedTXO A confirmedTxo ns) (\<lambda>ns. Inr (a, ns)))))
            | None \<Rightarrow> rbind (fetchConfirmedTXO ns h i) (\<lambda>_. Inr (a, ns))))))))"

definition flush_ring ::
  "abec \<Rightarrow> BlockRecord \<Rightarrow> hash \<Rightarrow> hash \<times> UTXORing \<Rightarrow> acct \<times> namespace \<Rightarrow> (acct \<times> namespace) result"
where
  "flush_ring A block txhash hu s =
     (let (ringHash, u) = hu
      in rbind (rfold (spend_member A block txhash u) [0..<length (ur_IsMy u)] s) (\<lambda>(a, ns).
         if ur_AllSpent u
         then rbind (deleteUTXORing (be_bytes 32 ringHash) ns) (\<lambda>ns.
              rbind (updateDeletedHeightRingDetails A ringHash (blk_Height block) ns) (\<lambda>ns.
                Inr (a, ns)))
         else rbind (putUTXORing A ringHash u ns) (\<lambda>ns. Inr (a, ns))))"

section \<open>Outputs and tokens\<close>

text \<open>The first generated token bound to the output; the last one of a burn does not count.\<close>

definition find_token :: "AutScript \<Rightarrow> u8 \<Rightarrow> bytes option" where
  "find_token sc j =
     (let toks = (if as_Type sc = AutScriptTypeBurn then butlast (as_GeneratedTokens sc)
                  else as_GeneratedTokens sc)
      in map_option snd (find (\<lambda>(i, _). i = j) toks))"

definition receive_token ::
  "abec \<Rightarrow> crypto \<Rightarrow> manager \<Rightarrow> BlockRecord \<Rightarrow> AutScript \<Rightarrow> TxOutAbe \<Rightarrow> OutPointAbe \<Rightarrow> bytes
   \<Rightarrow> bytes \<Rightarrow> bytes \<Rightarrow> acct \<times> namespace \<Rightarrow> (acct \<times> namespace) result" where
  "receive_token A K M block sc out k addrKey publicRand valueScript s =
     (let (a, ns) = s;
          isAUTRootCoin = (as_Type sc = AutScriptTypeRegistration
                           \<or> as_Type sc = AutScriptTypeReRegistration)
      in rbind (if isAUTRootCoin then Inr (0, 0)
                else rbind (AutTxo_Deserialize K valueScript) (\<lambda>ctautTxo.
                     rbind (GetAutTxoType K ctautTxo) (\<lambda>autTxoType.
                     rbind (ReceiveCTAUTToken A K M out ctautTxo) (\<lambda>v. Inr (autTxoType, v)))))
           (\<lambda>(autTxoType, v).
         let token = NewCTAUTCoin k (blk_Height block) (as_Identifier sc) isAUTRootCoin autTxoType
                       valueScript v addrKey publicRand;
             ident = AutId_String A (as_Identifier sc)
         in rbind (putRawCTAUTCoin (TxHash k) (OutIndex k) token ns) (\<lambda>ns.
            if isAUTRootCoin
            then Inr (a\<lparr>a_rcNum := ct_add ident 1 (a_rcNum a),
                        a_rcImmature := ct_add ident 1 (a_rcImmature a)\<rparr>, ns)
            else Inr (a\<lparr>a_ctBal := ct_add ident v (a_ctBal a),
                        a_ctImmature := ct_add ident v (a_ctImmature a)\<rparr>, ns))))"

definition receive_output ::
  "abec \<Rightarrow> crypto \<Rightarrow> manager \<Rightarrow> BlockRecord \<Rightarrow> MsgTxAbe \<Rightarrow> AutScript option \<Rightarrow> nat \<times> TxOutAbe
   \<Rightarrow> bstate \<Rightarrow> bstate result" where
  "receive_output A K M block txi script jout st =
     (let (j, out) = jout
      in rbind (ReceiveTxo A K M out) (\<lambda>(valid, v, addrKey, publicRand, privacyLevel).
         if \<not> valid then Inr st
         else
           let a = bs_acct st;
               a = a\<lparr>a_immatureTR := a_immatureTR a + v, a_balance := a_balance a + v\<rparr>;
               k = OutPointAbe (MsgTx_TxHash A txi) (of_nat j);
               tmp = NewUnspentUTXO A (out_Version out) (blk_Height block) k False v 0xFF
                       (blk_RecvTime block) 0 0 privacyLevel publicRand;
               tok = (case script of None \<Rightarrow> None
                      | Some sc \<Rightarrow> map_option (\<lambda>vs. (sc, vs)) (find_token sc (of_nat j)));
               tmp = (if tok = None then tmp
                      else tmp\<lparr>txo_PackedFlag := txo_PackedFlag tmp OR txoFlagCTAUTCoin\<rparr>)
           in rbind (case tok of None \<Rightarrow> Inr (a, bs_ns st)
                     | Some (sc, vs) \<Rightarrow>
                         receive_token A K M block sc out k addrKey publicRand vs (a, bs_ns st))
                (\<lambda>(a, ns).
                Inr (st\<lparr>bs_acct := a, bs_ns := ns,
                        bs_transfer := AList.update k tmp (bs_transfer st),
                        bs_outputs := bs_outputs st @ [k]\<rparr>))))"

text \<open>A re-registration disables every older root coin of the token still unspent.\<close>

definition disable_root_coin ::
  "abec \<Rightarrow> hash \<Rightarrow> CTAUTCoin \<Rightarrow> bstate \<Rightarrow> bstate result" where
  "disable_root_coin A txhash coin st =
     (if TxHash (ct_TxOutput coin) = txhash then Inr st
      else rbind (spendCTAUTCoin (TxHash (ct_TxOutput coin)) (OutIndex (ct_TxOutput coin))
                    (bs_ns st)) (\<lambda>((_, alreadySpent), ns).
        if alreadySpent then Inr (st\<lparr>bs_ns := ns\<rparr>)
        else let a = bs_acct st; ident = AutId_String A (ct_AUTIdentifier coin)
             in Inr (st\<lparr>bs_ns := ns,
                  bs_acct := a\<lparr>a_rcNum := ct_sub ident 1 (a_rcNum a),
                               a_rcSpendable := ct_sub ident 1 (a_rcSpendable a)\<rparr>,
                  bs_disabled := bs_disabled st @ [ct_TxOutput coin]\<rparr>)))"

definition reregister ::
  "abec \<Rightarrow> hash \<Rightarrow> AutScript option \<Rightarrow> bstate \<Rightarrow> bstate result" where
  "reregister A txhash script st =
     (case script of None \<Rightarrow> Inr st
      | Some sc \<Rightarrow>
          if as_Type sc \<noteq> AutScriptTypeReRegistration then Inr st
          else rbind (UnspentOutputsCTAUT (bs_ns st) (as_Identifier sc) True)
            (\<lambda>(remainRootCoins, _). rfold (disable_root_coin A txhash) remainRootCoins st))"

section \<open>One transfer transaction\<close>

definition block_tx ::
  "abec \<Rightarrow> crypto \<Rightarrow> manager \<Rightarrow> gotime \<Rightarrow> BlockRecord \<Rightarrow> TxRecord \<Rightarrow> bstate \<Rightarrow> bstate result" where
  "block_tx A K M now block rec st =
     (let txi = rec_MsgTx rec; txhash = MsgTx_TxHash A txi; script = DetectAndAssemble K txi
      in rbind (rfold (block_input A now block txi) (msg_TxIns txi) (False, st)) (\<lambda>(consume, st).
         rbind (if consume then confirm_tx A block txi (bs_ns st) else Inr (bs_ns st)) (\<lambda>ns.
         rbind (rfold (flush_ring A block txhash) (bs_rings st) (bs_acct st, ns)) (\<lambda>(a, ns).
         rbind (rfold (receive_output A K M block txi script)
                  (List.enumerate 0 (msg_TxOuts txi)) (st\<lparr>bs_acct := a, bs_ns := ns\<rparr>)) (\<lambda>st.
           reregister A txhash script st)))))"

end
