(* ===== verification/InsertBlock.thy ===== *)
theory InsertBlock
  imports BlockSteps "HOL-Library.Signed_Division"
begin

text \<open>
  \<open>Store.InsertBlock\<close> of \<open>wtxmgr/tx.go\<close>, second half: the indexes of the block, the coinbase
  outputs that mature, the rings formed when a ring group closes and the transfer outputs that
  become spendable with them; then \<open>InsertBlock\<close> and \<open>InsertGenesisBlock\<close> as a whole.
\<close>

section \<open>Heights\<close>

text \<open>\<open>%\<close> on \<open>int32\<close> truncates towards zero, and panics on a zero divisor.\<close>

definition i32_rem :: "i32 \<Rightarrow> i32 \<Rightarrow> i32 result" where
  "i32_rem a b =
     (if b = 0 then Inl (GoPanic ''integer divide by zero'')
      else Inr (word_of_int (sint a smod sint b)))"

definition NUMBERBLOCK :: i32 where "NUMBERBLOCK = 24"

definition closes_group :: "crypto \<Rightarrow> i32 \<Rightarrow> bool result" where
  "closes_group K height =
     (let blockNum = GetBlockNumPerRingGroup K height
      in rbind (i32_rem height blockNum) (\<lambda>r. Inr (r = blockNum - 1)))"

section \<open>Indexes of the block\<close>

definition index_block :: "abec \<Rightarrow> BlockRecord \<Rightarrow> bstate \<Rightarrow> bstate result" where
  "index_block A block st =
     (let height = blk_Height block; h = blk_Hash block
      in rbind (case bs_inputs st of None \<Rightarrow> Inr (bs_ns st)
                | Some b \<Rightarrow> putBlockInputs A height h b (bs_ns st)) (\<lambda>ns.
         rbind (if bs_disabled st = [] then Inr ns
                else putBlockDisabledCTAUTRootCoins height h (bs_disabled st) ns) (\<lambda>ns.
         rbind (if bs_outputs st = [] then Inr ns
                else putBlockOutputs height h (bs_outputs st) ns) (\<lambda>ns.
           Inr (st\<lparr>bs_ns := ns\<rparr>)))))"

section \<open>Maturity of coinbase outputs\<close>

definition mature_coinbase_output ::
  "abec \<Rightarrow> OutPointAbe \<times> SpendableTXO \<Rightarrow> acct \<times> namespace \<Rightarrow> (acct \<times> namespace) result" where
  "mature_coinbase_output A out s =
     (let (a, ns) = s; utxo = snd out;
          utxo = utxo\<lparr>txo_PackedFlag := txo_PackedFlag utxo OR txoFlagCoinbase\<rparr>;
          amt = txo_Amount utxo
      in rbind (putSpendableTXO A utxo ns) (\<lambda>ns.
           Inr (a\<lparr>a_spendable := a_spendable a + amt, a_immatureCB := a_immatureCB a - amt\<rparr>, ns)))"

definition mature_coinbase_block ::
  "abec \<Rightarrow> i32 \<Rightarrow> nat \<times> hash \<Rightarrow> acct \<times> namespace \<Rightarrow> (acct \<times> namespace) result" where
  "mature_coinbase_block A base ih s =
     (let (i, h) = ih; (a, ns) = s; utxoHeight = base - of_nat i
      in rbind (fetchImmatureCoinbaseOutput ns utxoHeight h) (\<lambda>utxos.
         rbind (rfold (mature_coinbase_output A) (option_list utxos) (a, ns)) (\<lambda>(a, ns).
         rbind (deleteImmatureCoinbaseOutput (canonicalBlock utxoHeight h) ns) (\<lambda>ns.
           Inr (a, ns)))))"

definition mature_coinbase ::
  "abec \<Rightarrow> crypto \<Rightarrow> BlockRecord \<Rightarrow> hash list \<Rightarrow> acct \<times> namespace \<Rightarrow> (acct \<times> namespace) result"
where
  "mature_coinbase A K block maturedBlockHashs s =
     (let height = blk_Height block; maturity = CoinbaseMaturity K;
          blockNum = GetBlockNumPerRingGroup K height
      in if sint height < sint maturity then Inr s
         else rbind (i32_rem (height - maturity + 1) blockNum) (\<lambda>r.
           if r \<noteq> 0 then Inr s
           else rfold (mature_coinbase_block A (height - maturity))
                  (List.enumerate 0 maturedBlockHashs) s))"

section \<open>Maturity of transfer outputs\<close>

definition mature_token ::
  "abec \<Rightarrow> OutPointAbe \<Rightarrow> SpendableTXO \<Rightarrow> acct \<Rightarrow> namespace \<Rightarrow> acct result" where
  "mature_token A key utxo a ns =
     (if \<not> IsCTAUTCoin utxo then Inr a
      else rbind (fetchRawCTAUTCoin ns (TxHash key) (OutIndex key)) (\<lambda>token.
        let ident = AutId_String A (ct_AUTIdentifier token)
        in Inr (if ct_IsAUTRootCoin token
                then a\<lparr>a_rcSpendable := ct_add ident 1 (a_rcSpendable a),
                       a_rcImmature := ct_sub ident 1 (a_rcImmature a)\<rparr>
                else a\<lparr>a_ctSpendable := ct_add ident (ct_Value token) (a_ctSpendable a),
                       a_ctImmature := ct_sub ident (ct_Value token) (a_ctImmature a)\<rparr>)))"

definition mature_transfer ::
  "abec \<Rightarrow> OutPointAbe \<times> SpendableTXO \<Rightarrow> acct \<times> namespace \<Rightarrow> (acct \<times> namespace) result" where
  "mature_transfer A out s =
     (let (key, utxo) = out; (a, ns) = s; amt = txo_Amount utxo
      in rbind (putSpendableTXO A utxo ns) (\<lambda>ns.
         let a = a\<lparr>a_spendable := a_spendable a + amt, a_immatureTR := a_immatureTR a - amt\<rparr>
         in rbind (mature_token A key utxo a ns) (\<lambda>a. Inr (a, ns))))"

text \<open>The token is looked up by the output's own outpoint, or by the key of the map.\<close>

definition by_outpoint :: "txo_map \<Rightarrow> txo_map" where
  "by_outpoint m = map (\<lambda>(_, t). (txo_TxOutput t, t)) m"

section \<open>Blocks and outputs of a ring group\<close>

text \<open>The wallet's immature outputs of an earlier block: of its coinbase, of its transfers.\<close>

definition prev_outputs :: "namespace \<Rightarrow> i32 \<Rightarrow> hash \<Rightarrow> (txo_map \<times> txo_map) result" where
  "prev_outputs ns height h =
     rbind (case fetchBlockOutput ns height h of
              Inl (GoError e) \<Rightarrow> if e = ''the entry is empty'' then Inr None else Inl (GoError e)
            | r \<Rightarrow> r) (\<lambda>outputs.
       case outputs of None \<Rightarrow> Inr ([], [])
       | Some _ \<Rightarrow>
           rbind (fetchImmatureCoinbaseOutput ns height h) (\<lambda>coinbase.
           rbind (fetchImmatureOutput ns height h) (\<lambda>transfer.
             Inr (option_list coinbase, option_list transfer))))"

text \<open>
  The raw block as stored, or from \<open>extraBlock\<close>, which is then stored; a height missing there
  is a nil record, and taking its block panics.
\<close>

definition group_block ::
  "abec \<Rightarrow> abecblk \<Rightarrow> (u32 \<times> BlockRecord) list \<Rightarrow> i32 \<Rightarrow> hash \<Rightarrow> namespace
   \<Rightarrow> (MsgBlockAbe \<times> namespace) result" where
  "group_block A B extraBlock height h ns =
     (let extra = (case map_of extraBlock height of None \<Rightarrow> Inl nil_bucket
                   | Some r \<Rightarrow> rbind (putBlockRecord B (Some r) ns) (\<lambda>ns.
                       Inr (blk_MsgBlock r, ns)))
      in case fetchBlockRecord A B ns height h of
           Inl (GoPanic e) \<Rightarrow> Inl (GoPanic e)
         | Inl _ \<Rightarrow> extra
         | Inr None \<Rightarrow> extra
         | Inr (Some r) \<Rightarrow> Inr (blk_MsgBlock r, ns))"

section \<open>Rings\<close>

text \<open>
  All members of a ring are pseudonymous or none is. The level starts at a value that is no
  level of an output.
\<close>

definition level_step :: "abec \<Rightarrow> crypto \<Rightarrow> TxOutAbe \<Rightarrow> u8 \<Rightarrow> u8 result" where
  "level_step A K out privacyLevel =
     rbind (GetTxoPrivacyLevel K out) (\<lambda>txoLevel.
     let privacyLevel = (if privacyLevel = PrivacyLevelPSEUDONYM A + 1 then txoLevel
                         else privacyLevel)
     in if (txoLevel = PrivacyLevelPSEUDONYM A) \<noteq> (privacyLevel = PrivacyLevelPSEUDONYM A)
        then Inl (GoError ''wrong ring formed'')
        else Inr privacyLevel)"

definition ring_of_entry :: "abec \<Rightarrow> crypto \<Rightarrow> RingEntry \<Rightarrow> Ring result" where
  "ring_of_entry A K e =
     rbind (rfold (level_step A K) (re_TxOuts e) (PrivacyLevelPSEUDONYM A + 1)) (\<lambda>privacyLevel.
     let flag = (if re_IsCoinBase e then ringFlagCoinbase else 0);
         flag = (if privacyLevel = PrivacyLevelPSEUDONYM A then flag OR ringFlagPseudonymous
                 else flag)
     in Inr \<lparr>rg_Version = re_Version e, rg_BlockHashes = re_BlockHashs e,
             rg_TxHashes = map TxHash (re_OutPoints e), rg_Index = map OutIndex (re_OutPoints e),
             rg_PackedFlag = flag, rg_TxoScripts = map out_TxoScript (re_TxOuts e),
             rg_BlockHeight = 0\<rparr>)"

text \<open>
  The six maps an outpoint of a ring may be found in, in the order they are asked: coinbase and
  transfer outputs of this block, of the one before, of the one before that.
\<close>

definition find_owned :: "txo_map list \<Rightarrow> OutPointAbe \<Rightarrow> (nat \<times> SpendableTXO) option" where
  "find_owned maps op =
     (case List.find (\<lambda>(i, m). map_of m op \<noteq> None) (List.enumerate 0 maps) of
        None \<Rightarrow> None
      | Some (i, m) \<Rightarrow> map_option (\<lambda>t. (i, t)) (map_of m op))"

definition member_index :: "UTXORing \<Rightarrow> OutPointAbe \<Rightarrow> nat" where
  "member_index u op =
     length (takeWhile (\<lambda>p. p \<noteq> (TxHash op, OutIndex op))
       (zip (ur_TxHashes u) (ur_OutputIndexes u)))"

definition own_member ::
  "abec \<Rightarrow> crypto \<Rightarrow> manager \<Rightarrow> hash \<Rightarrow> RingEntry \<Rightarrow> OutPointAbe
   \<Rightarrow> txo_map list \<times> (Ring \<times> UTXORing) option \<Rightarrow> (txo_map list \<times> (Ring \<times> UTXORing) option) result"
where
  "own_member A K M ringHash e op s =
     (let (maps, work) = s
      in case find_owned maps op of
           None \<Rightarrow> Inr s
         | Some (i, utxo) \<Rightarrow>
             rbind (case work of
                      Some w \<Rightarrow> Inr w
                    | None \<Rightarrow> rbind (ring_of_entry A K e) (\<lambda>ring.
                        Inr (ring, NewUTXORingFromRing ring ringHash))) (\<lambda>(ring, u).
             let index = member_index u op;
                 utxo = utxo\<lparr>txo_RingHash := ringHash,
                             txo_RingSize := of_nat (length (ur_TxHashes u)),
                             txo_RingIndex := of_nat index\<rparr>
             in if length (ur_IsMy u) \<le> index then Inl out_of_range
                else
                  rbind (go_nth (rg_TxoScripts ring) index) (\<lambda>txoScript.
                  rbind (GenSNForTxo A K M \<lparr>out_Version = rg_Version ring, out_TxoScript = txoScript\<rparr>
                           (ur_RingHash u) (of_nat index)) (\<lambda>sn.
                    Inr (maps[i := AList.update op utxo (maps ! i)],
                         Some (ring,
                           u\<lparr>ur_IsMy := (ur_IsMy u)[index := True],
                             ur_OriginSerialNumberes :=
                               Some (AList.update (of_nat index) sn (origins u))\<rparr>))))))"

definition form_ring ::
  "abec \<Rightarrow> crypto \<Rightarrow> manager \<Rightarrow> hash \<times> RingEntry
   \<Rightarrow> txo_map list \<times> (hash \<times> Ring \<times> UTXORing) list
   \<Rightarrow> (txo_map list \<times> (hash \<times> Ring \<times> UTXORing) list) result" where
  "form_ring A K M he s =
     (let (ringHash, e) = he; (maps, rings) = s
      in rbind (rfold (own_member A K M ringHash e) (re_OutPoints e) (maps, None)) (\<lambda>(maps, work).
           Inr (maps, case work of None \<Rightarrow> rings | Some w \<Rightarrow> rings @ [(ringHash, w)])))"

definition store_ring :: "abec \<Rightarrow> hash \<times> Ring \<times> UTXORing \<Rightarrow> namespace \<Rightarrow> namespace result" where
  "store_ring A hru ns =
     (let (ringHash, ring, u) = hru
      in rbind (putUTXORing A ringHash u ns) (\<lambda>ns. putRingDetails A ringHash ring ns))"

section \<open>Closing a ring group\<close>

definition build_rings ::
  "abec \<Rightarrow> crypto \<Rightarrow> i32 \<Rightarrow> MsgBlockAbe \<Rightarrow> MsgBlockAbe \<Rightarrow> MsgBlockAbe
   \<Rightarrow> (MsgBlockAbe \<times> MsgBlockAbe \<times> (hash \<times> RingEntry) list) result" where
  "build_rings A K height msg0 msg1 msg2 =
     rbind (NewBlockAbe K msg0) (\<lambda>b0.
     rbind (NewBlockAbe K msg1) (\<lambda>b1.
     rbind (NewBlockAbe K msg2) (\<lambda>b2.
       if mb_Transactions b0 = [] \<or> mb_Transactions b1 = [] \<or> mb_Transactions b2 = []
       then Inl out_of_range
       else rbind (BuildTxoRings K (GetBlockNumPerRingGroup K height) (GetTxoRingSize K height)
                    [(height - 2, b0), (height - 1, b1), (height, b2)])
              (\<lambda>entries. Inr (b0, b1, entries)))))"

definition put_coinbase_maps ::
  "i32 \<Rightarrow> hash \<Rightarrow> txo_map \<Rightarrow> namespace \<Rightarrow> namespace result" where
  "put_coinbase_maps height h m ns =
     (if m = [] then Inr ns else putImmatureCoinbaseOutput height h m ns)"

text \<open>
  The outputs of the two earlier blocks: coinbase outputs are stored again with their rings,
  transfer outputs become spendable.
\<close>

definition mature_group ::
  "abec \<Rightarrow> i32 \<Rightarrow> hash \<times> hash \<times> txo_map \<times> txo_map \<Rightarrow> hash \<times> hash \<times> txo_map \<times> txo_map
   \<Rightarrow> acct \<times> namespace \<Rightarrow> (acct \<times> namespace) result" where
  "mature_group A height p1 p0 s =
     (let (hash1, prev1, coinbase1, transfer1) = p1; (hash0, prev0, coinbase0, transfer0) = p0;
          (a, ns) = s
      in rbind (put_coinbase_maps (height - 1) hash1 coinbase1 ns) (\<lambda>ns.
         rbind (put_coinbase_maps (height - 2) hash0 coinbase0 ns) (\<lambda>ns.
         rbind (rfold (mature_transfer A) (by_outpoint transfer1) (a, ns)) (\<lambda>(a, ns).
         rbind (deleteImmatureOutput (canonicalBlock (height - 1) prev1) ns) (\<lambda>ns.
         rbind (rfold (mature_transfer A) transfer0 (a, ns)) (\<lambda>(a, ns).
         rbind (deleteImmatureOutput (canonicalBlock (height - 2) prev0) ns) (\<lambda>ns.
           Inr (a, ns))))))))"

text \<open>The boolean says that none of the outputs of the three blocks is the wallet's.\<close>

definition close_group ::
  "abec \<Rightarrow> abecblk \<Rightarrow> crypto \<Rightarrow> manager \<Rightarrow> BlockRecord \<Rightarrow> (u32 \<times> BlockRecord) list \<Rightarrow> bstate
   \<Rightarrow> (bool \<times> bstate) result" where
  "close_group A B K M block extraBlock st =
     (let height = blk_Height block; msg2 = blk_MsgBlock block; prev1 = mb_PrevBlock msg2
      in rbind (prev_outputs (bs_ns st) (height - 1) prev1) (\<lambda>(coinbase1, transfer1).
         rbind (group_block A B extraBlock (height - 1) prev1 (bs_ns st)) (\<lambda>(msg1, ns).
         let prev0 = mb_PrevBlock msg1
         in rbind (prev_outputs ns (height - 2) prev0) (\<lambda>(coinbase0, transfer0).
         if bs_coinbase st = [] \<and> bs_transfer st = [] \<and> coinbase1 = [] \<and> transfer1 = []
            \<and> coinbase0 = [] \<and> transfer0 = []
         then Inr (True, st\<lparr>bs_ns := ns\<rparr>)
         else
           rbind (group_block A B extraBlock (height - 2) prev0 ns) (\<lambda>(msg0, ns).
           rbind (build_rings A K height msg0 msg1 msg2) (\<lambda>(b0, b1, entries).
           rbind (rfold (form_ring A K M) entries
                    ([bs_coinbase st, bs_transfer st, coinbase1, transfer1, coinbase0, transfer0],
                     [])) (\<lambda>(maps, rings).
           rbind (rfold (store_ring A) rings ns) (\<lambda>ns.
           rbind (mature_group A height
                    (MsgBlock_BlockHash B b1, prev1, maps ! 2, maps ! 3)
                    (MsgBlock_BlockHash B b0, prev0, maps ! 4, maps ! 5) (bs_acct st, ns))
             (\<lambda>(a, ns).
             Inr (False, st\<lparr>bs_acct := a, bs_ns := ns, bs_coinbase := maps ! 0,
                            bs_transfer := maps ! 1\<rparr>))))))))))"

section \<open>InsertBlock\<close>

definition finish_block ::
  "abec \<Rightarrow> BlockRecord \<Rightarrow> bool \<Rightarrow> bstate \<Rightarrow> (acct \<times> namespace) result" where
  "finish_block A block closing st =
     (let height = blk_Height block; h = blk_Hash block
      in rbind (put_coinbase_maps height h (bs_coinbase st) (bs_ns st)) (\<lambda>ns.
         if closing then rfold (mature_transfer A) (by_outpoint (bs_transfer st)) (bs_acct st, ns)
         else if bs_transfer st = [] then Inr (bs_acct st, ns)
         else rbind (putImmatureOutput height h (bs_transfer st) ns) (\<lambda>ns. Inr (bs_acct st, ns))))"

definition start_block :: "acct \<Rightarrow> namespace \<Rightarrow> bstate" where
  "start_block a ns =
     \<lparr>bs_acct = a, bs_ns = ns, bs_rings = [], bs_inputs = None, bs_coinbase = [],
      bs_transfer = [], bs_outputs = [], bs_disabled = []\<rparr>"

definition scan_block ::
  "abec \<Rightarrow> abecblk \<Rightarrow> crypto \<Rightarrow> manager \<Rightarrow> gotime \<Rightarrow> BlockRecord \<Rightarrow> acct \<Rightarrow> namespace
   \<Rightarrow> bstate result" where
  "scan_block A B K M now block a ns =
     rbind (putBlockRecord B (Some block) ns) (\<lambda>ns.
     rbind (if sint NUMBERBLOCK < sint (blk_Height block)
            then deleteRawBlockWithBlockHeight (blk_Height block - NUMBERBLOCK) ns
            else Inr ns) (\<lambda>ns.
     rbind (go_nth (blk_TxRecords block) 0) (\<lambda>rec.
     let coinbaseTx = rec_MsgTx rec
     in rbind (rfold (receive_coinbase A K M block coinbaseTx)
                 (List.enumerate 0 (msg_TxOuts coinbaseTx)) (start_block a ns)) (\<lambda>st.
        rfold (block_tx A K M now block) (tl (blk_TxRecords block)) st))))"

definition InsertBlock ::
  "abec \<Rightarrow> abecblk \<Rightarrow> crypto \<Rightarrow> manager \<Rightarrow> gotime \<Rightarrow> BlockRecord \<Rightarrow> (u32 \<times> BlockRecord) list
   \<Rightarrow> hash list \<Rightarrow> namespace \<Rightarrow> namespace result" where
  "InsertBlock A B K M now block extraBlock maturedBlockHashs ns =
     rbind (load_acct ns) (\<lambda>a.
     rbind (scan_block A B K M now block a ns) (\<lambda>st.
     rbind (index_block A block st) (\<lambda>st.
     rbind (mature_coinbase A K block maturedBlockHashs (bs_acct st, bs_ns st)) (\<lambda>(a, ns).
     rbind (closes_group K (blk_Height block)) (\<lambda>closing.
     rbind (if closing
            then close_group A B K M block extraBlock (st\<lparr>bs_acct := a, bs_ns := ns\<rparr>)
            else Inr (False, st\<lparr>bs_acct := a, bs_ns := ns\<rparr>)) (\<lambda>(done, st).
       if done then Inr (save_acct (bs_acct st) (bs_ns st))
       else rbind (finish_block A block closing st) (\<lambda>(a, ns). Inr (save_acct a ns))))))))"

section \<open>InsertGenesisBlock\<close>

definition genesis_output ::
  "abec \<Rightarrow> crypto \<Rightarrow> manager \<Rightarrow> BlockRecord \<Rightarrow> MsgTxAbe \<Rightarrow> nat \<times> TxOutAbe
   \<Rightarrow> u64 \<times> u64 \<times> txo_map \<times> OutPointAbe list \<Rightarrow> (u64 \<times> u64 \<times> txo_map \<times> OutPointAbe list) result"
where
  "genesis_output A K M block coinbaseTx iout s =
     (let (i, out) = iout; (immatureCBBal, balance, coinbase, outputs) = s
      in rbind (ReceiveTxo A K M out) (\<lambda>(success, v, _, publicRand, _).
         if \<not> success then Inr s
         else
           let k = OutPointAbe (MsgTx_TxHash A coinbaseTx) (of_nat i);
               tmp = NewUnspentUTXO A (out_Version out) (blk_Height block) k True v 0xFF
                       (blk_RecvTime block) 0 0 (PrivacyLevelRINGCTPre A) publicRand
           in Inr (immatureCBBal + v, balance + v, AList.update k tmp coinbase, outputs @ [k])))"

definition InsertGenesisBlock ::
  "abec \<Rightarrow> abecblk \<Rightarrow> crypto \<Rightarrow> manager \<Rightarrow> BlockRecord \<Rightarrow> namespace \<Rightarrow> namespace result" where
  "InsertGenesisBlock A B K M block ns =
     rbind (fetchMinedBalance ns) (\<lambda>balance.
     rbind (fetchSpendableBalance ns) (\<lambda>spendableBal.
     rbind (fetchImmatureCoinbaseBalance ns) (\<lambda>immatureCBBal.
     rbind (fetchImmatureTransferBalance ns) (\<lambda>immatureTRBal.
     rbind (fetchUnconfirmedBalance ns) (\<lambda>unconfirmedBal.
     rbind (putBlockRecord B (Some block) ns) (\<lambda>ns.
     rbind (go_nth (blk_TxRecords block) 0) (\<lambda>rec.
     let coinbaseTx = rec_MsgTx rec
     in rbind (rfold (genesis_output A K M block coinbaseTx)
                 (List.enumerate 0 (msg_TxOuts coinbaseTx)) (immatureCBBal, balance, [], []))
          (\<lambda>(immatureCBBal, balance, coinbase, outputs).
        rbind (if outputs = [] then Inr ns
               else putImmatureCoinbaseOutput (blk_Height block) (blk_Hash block) coinbase ns)
          (\<lambda>ns.
        rbind (if outputs = [] then Inr ns
               else putBlockOutputs (blk_Height block) (blk_Hash block) outputs ns) (\<lambda>ns.
        let ns = putSpendableBalance spendableBal ns;
            ns = putImmatureCoinbaseBalance immatureCBBal ns;
            ns = putImmatureTransferBalance immatureTRBal ns;
            ns = putUnconfirmedBalance unconfirmedBal ns
        in Inr (putMinedBalance balance ns)))))))))))"

end
