(* ===== verification/Rollback.thy ===== *)
theory Rollback
  imports InsertBlock
begin

text \<open>
  \<open>Store.rollback\<close> of \<open>wtxmgr/tx.go\<close>: the blocks above a height are undone from the highest
  down. For each block: when it closed a ring group, the outputs of the group become immature
  again and their rings are deleted; its own outputs are dropped; the rings it spent from are put
  back as they were and the members spent there are made spendable again; the root coins it
  disabled are restored; the coinbase outputs that matured with it become immature again.

  \<open>BH\<close> is \<open>manager.BlockHash\<close>, the hash the address manager has on record for a height.
\<close>

section \<open>Blocks on record\<close>

text \<open>The keys of the blocks on record from some height on, and the highest of these heights.\<close>

definition collect_key :: "i32 \<Rightarrow> bytes \<times> bytes \<Rightarrow> (i32 \<times> bytes) list \<times> i32
   \<Rightarrow> ((i32 \<times> bytes) list \<times> i32) result" where
  "collect_key from kv s =
     (let (k, _) = kv; (keysWithHeight, maxHeight) = s
      in rbind (get_be 4 k) (\<lambda>(heightK, _).
         if sint from \<le> sint heightK
         then Inr (AList.update heightK k keysWithHeight,
                   if sint maxHeight < sint heightK then heightK else maxHeight)
         else Inr s))"

definition collect_keys :: "i32 \<Rightarrow> i32 \<Rightarrow> namespace \<Rightarrow> ((i32 \<times> bytes) list \<times> i32) result" where
  "collect_keys height blockNum ns =
     rbind (nested bucketBlocks ns) (\<lambda>m. rfold (collect_key (height - blockNum)) m ([], height))"

text \<open>The hash in the key on record, or else what the address manager says.\<close>

definition height_hash :: "(i32 \<Rightarrow> hash result) \<Rightarrow> (i32 \<times> bytes) list \<Rightarrow> i32 \<Rightarrow> hash result" where
  "height_hash BH keysWithHeight h =
     (case map_of keysWithHeight h of Some k \<Rightarrow> NewHash (drop 4 k) | None \<Rightarrow> BH h)"

definition key_or_nil :: "(i32 \<times> bytes) list \<Rightarrow> i32 \<Rightarrow> bytes" where
  "key_or_nil keysWithHeight h = (case map_of keysWithHeight h of None \<Rightarrow> [] | Some k \<Rightarrow> k)"

section \<open>Relevant transactions\<close>

text \<open>
  A transaction on record in one bucket (through \<open>ex\<close>, removed by \<open>del\<close>) is put into another;
  with \<open>assertion\<close> the record must be that of the transaction it is filed under.
\<close>

definition move_tx ::
  "abec \<Rightarrow> bool \<Rightarrow> (namespace \<Rightarrow> bytes \<Rightarrow> bytes option result)
   \<Rightarrow> (bytes \<Rightarrow> namespace \<Rightarrow> namespace result) \<Rightarrow> (bytes \<Rightarrow> bytes \<Rightarrow> namespace \<Rightarrow> namespace result)
   \<Rightarrow> (hash \<Rightarrow> notification) \<Rightarrow> bytes \<Rightarrow> namespace \<Rightarrow> namespace result" where
  "move_tx A assertion ex del put note c ns =
     rbind (ex ns c) (\<lambda>v.
       case nonempty v of None \<Rightarrow> Inr ns
       | Some conflictTx \<Rightarrow>
           rbind (if \<not> assertion then Inr ()
                  else rbind (TxRecord_Deserialize A conflictTx) (\<lambda>tx.
                    if be_bytes 32 (rec_Hash tx) \<noteq> c
                    then Inl (GoError ''unmatched transaction in unconfirmed transaction bucket'')
                    else Inr ())) (\<lambda>_.
           rbind (del c ns) (\<lambda>ns.
           rbind (put c conflictTx ns) (\<lambda>ns. Inr (notify (note (be_word c)) ns)))))"

definition each_relevant ::
  "(bytes \<Rightarrow> namespace \<Rightarrow> namespace result) \<Rightarrow> bytes \<Rightarrow> namespace \<Rightarrow> namespace result" where
  "each_relevant step k ns =
     rbind (existsRawReleventTxs ns k) (\<lambda>v.
       rfold step (chunks32 (case v of None \<Rightarrow> [] | Some b \<Rightarrow> b)) ns)"

text \<open>Unconfirmed transactions become invalid; so do the confirmed ones, when asked for.\<close>

definition invalidate_relevant ::
  "abec \<Rightarrow> gotime \<Rightarrow> i32 \<Rightarrow> bool \<Rightarrow> bytes \<Rightarrow> namespace \<Rightarrow> namespace result" where
  "invalidate_relevant A now i confirmed =
     each_relevant (\<lambda>c ns.
       rbind (move_tx A False existsRawUnconfirmedTx deleteRawUnconfirmedTx (putRawInvalidTx now)
                (\<lambda>h. NotifyTransactionInvalid h i) c ns) (\<lambda>ns.
       if confirmed
       then move_tx A False existsRawConfirmedTx deleteRawConfirmedTx (putRawInvalidTx now)
              (\<lambda>h. NotifyTransactionInvalid h i) c ns
       else Inr ns))"

text \<open>Confirmed and invalid transactions become unconfirmed again.\<close>

definition reinstate_relevant ::
  "abec \<Rightarrow> gotime \<Rightarrow> i32 \<Rightarrow> bool \<Rightarrow> bytes \<Rightarrow> namespace \<Rightarrow> namespace result" where
  "reinstate_relevant A now i assertion =
     each_relevant (\<lambda>c ns.
       rbind (move_tx A assertion existsRawConfirmedTx deleteRawConfirmedTx
                (putRawUnconfirmedTx now) (\<lambda>h. NotifyTransactionRollback h i) c ns) (\<lambda>ns.
       move_tx A assertion existsRawInvalidTx deleteRawInvalidTx
         (putRawUnconfirmedTx now) (\<lambda>h. NotifyTransactionRollback h i) c ns))"

section \<open>A ring group reopened\<close>

text \<open>Fetching one output, where an error counts as not found.\<close>

definition found :: "'a option result \<Rightarrow> 'a option result" where
  "found r = (case r of Inl (GoPanic e) \<Rightarrow> Inl (GoPanic e) | Inl _ \<Rightarrow> Inr None | Inr x \<Rightarrow> Inr x)"

definition reset_ring :: "SpendableTXO \<Rightarrow> SpendableTXO" where
  "reset_ring t = t\<lparr>txo_RingHash := 0, txo_RingSize := 0, txo_RingIndex := 0xFF\<rparr>"

text \<open>
  The token of an output that becomes immature again: from the spendable count, where the coin
  is left as it is, or from the unconfirmed count, where it is marked unspent.
\<close>

definition demote_token ::
  "abec \<Rightarrow> bool \<Rightarrow> SpendableTXO \<Rightarrow> OutPointAbe \<Rightarrow> acct \<times> namespace \<Rightarrow> (acct \<times> namespace) result"
where
  "demote_token A fromSpendable txo op s =
     (let (a, ns) = s
      in if \<not> IsCTAUTCoin txo then Inr s
         else rbind (fetchRawCTAUTCoin ns (TxHash op) (OutIndex op)) (\<lambda>token.
           let ident = AutId_String A (ct_AUTIdentifier token); v = ct_Value token;
               a = (if ct_IsAUTRootCoin token
                    then (if fromSpendable
                          then a\<lparr>a_rcSpendable := ct_sub ident 1 (a_rcSpendable a)\<rparr>
                          else a\<lparr>a_rcUnconfirmed := ct_sub ident 1 (a_rcUnconfirmed a)\<rparr>)
                         \<lparr>a_rcImmature := ct_add ident 1 (a_rcImmature a)\<rparr>
                    else (if fromSpendable
                          then a\<lparr>a_ctSpendable := ct_sub ident v (a_ctSpendable a)\<rparr>
                          else a\<lparr>a_ctUnconfirmed := ct_sub ident v (a_ctUnconfirmed a)\<rparr>)
                         \<lparr>a_ctImmature := ct_add ident v (a_ctImmature a)\<rparr>)
           in if fromSpendable then Inr (a, ns)
              else rbind (putRawCTAUTCoin (TxHash op) (OutIndex op) (token\<lparr>ct_Spent := False\<rparr>) ns)
                     (\<lambda>ns. Inr (a, ns))))"

record group_state =
  gs_acct :: acct
  gs_ns :: namespace
  gs_rings :: "hash list"
  gs_coinbase :: txo_map
  gs_transfer :: txo_map

text \<open>
  One outpoint of a block of the group: an immature coinbase output forgets its ring; a
  spendable, unconfirmed or confirmed one becomes an immature transfer output.
\<close>

definition demote_output ::
  "abec \<Rightarrow> gotime \<Rightarrow> i32 \<Rightarrow> OutPointAbe \<Rightarrow> group_state \<Rightarrow> group_state result" where
  "demote_output A now i op s =
     (let a = gs_acct s; ns = gs_ns s;
          fileit = (\<lambda>t a ns. s\<lparr>gs_acct := a, gs_ns := ns,
                      gs_rings := List.insert (txo_RingHash t) (gs_rings s),
                      gs_transfer := AList.update op (reset_ring t) (gs_transfer s)\<rparr>)
      in case map_of (gs_coinbase s) op of
        Some utxo \<Rightarrow>
          Inr (s\<lparr>gs_rings := List.insert (txo_RingHash utxo) (gs_rings s),
                 gs_coinbase := AList.update op (reset_ring utxo) (gs_coinbase s)\<rparr>)
      | None \<Rightarrow>
          rbind (found (fetchSpendableTXO ns (TxHash op) (OutIndex op))) (\<lambda>t'. case t' of
            Some t \<Rightarrow>
              let a = a\<lparr>a_spendable := a_spendable a - txo_Amount t,
                        a_immatureTR := a_immatureTR a + txo_Amount t\<rparr>
              in rbind (demote_token A True t (txo_TxOutput t) (a, ns)) (\<lambda>(a, ns).
                 rbind (invalidate_relevant A now i False (op_key op) ns) (\<lambda>ns.
                 rbind (deleteSpendableTXO (op_key op) ns) (\<lambda>ns. Inr (fileit t a ns))))
          | None \<Rightarrow>
          rbind (found (fetchUnconfirmedTXO ns (TxHash op) (OutIndex op))) (\<lambda>u'. case u' of
            Some u \<Rightarrow>
              let t = utx_txo u;
                  a = a\<lparr>a_unconfirmed := a_unconfirmed a - txo_Amount t,
                        a_immatureTR := a_immatureTR a + txo_Amount t\<rparr>
              in rbind (demote_token A False t op (a, ns)) (\<lambda>(a, ns).
                 rbind (invalidate_relevant A now i False (op_key op) ns) (\<lambda>ns.
                 rbind (deleteUnconfirmedTXO (op_key op) ns) (\<lambda>ns. Inr (fileit t a ns))))
          | None \<Rightarrow>
          rbind (found (fetchConfirmedTXO ns (TxHash op) (OutIndex op))) (\<lambda>c'. case c' of
            Some c \<Rightarrow>
              let t = utx_txo (ctx_unconfirmed c);
                  a = a\<lparr>a_immatureTR := a_immatureTR a + txo_Amount t,
                        a_balance := a_balance a + txo_Amount t\<rparr>
              in rbind (demote_token A False t op (a, ns)) (\<lambda>(a, ns).
                 rbind (invalidate_relevant A now i True (op_key op) ns) (\<lambda>ns.
                 rbind (deleteConfirmedTXO (op_key op) ns) (\<lambda>ns. Inr (fileit t a ns))))
          | None \<Rightarrow> Inr s))))"

text \<open>One block of the group; a block without outputs of the wallet on record is passed over.\<close>

definition demote_block ::
  "abec \<Rightarrow> gotime \<Rightarrow> (i32 \<Rightarrow> hash result) \<Rightarrow> (i32 \<times> bytes) list \<Rightarrow> i32 \<Rightarrow> nat
   \<Rightarrow> hash list \<times> acct \<times> namespace \<Rightarrow> (hash list \<times> acct \<times> namespace) result" where
  "demote_block A now BH keysWithHeight i j s =
     (let (rings, a, ns) = s; blockHeight = i - of_nat j
      in rbind (height_hash BH keysWithHeight blockHeight) (\<lambda>blockHash.
         rbind (found (fetchBlockOutput ns blockHeight blockHash)) (\<lambda>outpoints.
         case outpoints of None \<Rightarrow> Inr s
         | Some ops \<Rightarrow>
             rbind (fetchImmatureCoinbaseOutput ns blockHeight blockHash) (\<lambda>cbOutput.
             rbind (rfold (demote_output A now i) ops
                     \<lparr>gs_acct = a, gs_ns = ns, gs_rings = rings,
                      gs_coinbase = option_list cbOutput, gs_transfer = []\<rparr>) (\<lambda>g.
             rbind (putImmatureCoinbaseOutput blockHeight blockHash (gs_coinbase g) (gs_ns g))
               (\<lambda>ns.
             rbind (putImmatureOutput blockHeight blockHash (gs_transfer g) ns) (\<lambda>ns.
               Inr (gs_rings g, gs_acct g, ns))))))))"

definition drop_ring :: "hash \<Rightarrow> namespace \<Rightarrow> namespace result" where
  "drop_ring h ns =
     rbind (deleteUTXORing (be_bytes 32 h) ns) (\<lambda>ns. deleteRingDetails (be_bytes 32 h) ns)"

definition reopen_group ::
  "abec \<Rightarrow> crypto \<Rightarrow> gotime \<Rightarrow> (i32 \<Rightarrow> hash result) \<Rightarrow> (i32 \<times> bytes) list \<Rightarrow> i32
   \<Rightarrow> acct \<times> namespace \<Rightarrow> (acct \<times> namespace) result" where
  "reopen_group A K now BH keysWithHeight i s =
     (let blockNumOfRing = GetBlockNumPerRingGroup K i
      in rbind (closes_group K i) (\<lambda>closing.
         if \<not> closing then Inr s
         else rbind (rfold (demote_block A now BH keysWithHeight i)
                      [0..<nat (sint blockNumOfRing)] ([], s)) (\<lambda>(rings, a, ns).
              rbind (rfold drop_ring rings ns) (\<lambda>ns. Inr (a, ns)))))"

section \<open>Outputs of the block\<close>

definition drop_coinbase_output :: "OutPointAbe \<times> SpendableTXO \<Rightarrow> acct \<Rightarrow> acct" where
  "drop_coinbase_output out a =
     (let amt = txo_Amount (snd out)
      in a\<lparr>a_immatureCB := a_immatureCB a - amt, a_balance := a_balance a - amt\<rparr>)"

definition drop_coinbase ::
  "(i32 \<times> bytes) list \<Rightarrow> i32 \<Rightarrow> hash \<Rightarrow> acct \<times> namespace \<Rightarrow> (acct \<times> namespace) result" where
  "drop_coinbase keysWithHeight i blockHash s =
     (let (a, ns) = s
      in rbind (found (fetchImmatureCoinbaseOutput ns i blockHash)) (\<lambda>outs.
         case outs of None \<Rightarrow> Inr s
         | Some m \<Rightarrow>
             rbind (deleteImmatureCoinbaseOutput (key_or_nil keysWithHeight i) ns) (\<lambda>ns.
               Inr (fold drop_coinbase_output m a, ns))))"

text \<open>The token of a dropped output leaves its counts, and the wallet.\<close>

definition drop_transfer_output ::
  "abec \<Rightarrow> OutPointAbe \<times> SpendableTXO \<Rightarrow> acct \<times> namespace \<Rightarrow> (acct \<times> namespace) result" where
  "drop_transfer_output A out s =
     (let (op, t) = out; (a, ns) = s; amt = txo_Amount t;
          a = a\<lparr>a_immatureTR := a_immatureTR a - amt, a_balance := a_balance a - amt\<rparr>
      in if \<not> IsCTAUTCoin t then Inr (a, ns)
         else rbind (fetchRawCTAUTCoin ns (TxHash (txo_TxOutput t)) (OutIndex (txo_TxOutput t)))
           (\<lambda>token.
           let ident = AutId_String A (ct_AUTIdentifier token); v = ct_Value token;
               a = (if ct_IsAUTRootCoin token
                    then a\<lparr>a_rcImmature := ct_sub ident 1 (a_rcImmature a),
                           a_rcNum := ct_sub ident 1 (a_rcNum a)\<rparr>
                    else a\<lparr>a_ctImmature := ct_sub ident v (a_ctImmature a),
                           a_ctBal := ct_sub ident v (a_ctBal a)\<rparr>)
           in rbind (deleteRawCTAUTCoin (op_key op) ns) (\<lambda>ns. Inr (a, ns))))"

definition drop_transfer ::
  "abec \<Rightarrow> (i32 \<times> bytes) list \<Rightarrow> i32 \<Rightarrow> hash \<Rightarrow> acct \<times> namespace \<Rightarrow> (acct \<times> namespace) result" where
  "drop_transfer A keysWithHeight i blockHash s =
     (let (a, ns) = s
      in rbind (found (fetchImmatureOutput ns i blockHash)) (\<lambda>outs.
         case outs of None \<Rightarrow> Inr s
         | Some m \<Rightarrow>
             rbind (rfold (drop_transfer_output A) m s) (\<lambda>(a, ns).
             rbind (deleteImmatureOutput (key_or_nil keysWithHeight i) ns) (\<lambda>ns. Inr (a, ns)))))"

section \<open>Inputs of the block\<close>

text \<open>
  An output spent in the block is spendable again, with its token, and the transactions on
  record for it are unconfirmed again.
\<close>

definition restore_token ::
  "abec \<Rightarrow> SpendableTXO \<Rightarrow> OutPointAbe \<Rightarrow> acct \<times> namespace \<Rightarrow> (acct \<times> namespace) result" where
  "restore_token A t op s =
     (let (a, ns) = s
      in if IsCoinbase t \<or> \<not> IsCTAUTCoin t then Inr s
         else rbind (fetchRawCTAUTCoin ns (TxHash (txo_TxOutput t)) (OutIndex (txo_TxOutput t)))
           (\<lambda>token.
           let ident = AutId_String A (ct_AUTIdentifier token); v = ct_Value token;
               a = (if ct_IsAUTRootCoin token
                    then a\<lparr>a_rcSpendable := ct_add ident 1 (a_rcSpendable a),
                           a_rcNum := ct_add ident 1 (a_rcNum a)\<rparr>
                    else a\<lparr>a_ctSpendable := ct_add ident v (a_ctSpendable a),
                           a_ctBal := ct_add ident v (a_ctBal a)\<rparr>)
           in rbind (putRawCTAUTCoin (TxHash op) (OutIndex op) (token\<lparr>ct_Spent := False\<rparr>) ns)
                (\<lambda>ns. Inr (a, ns))))"

definition restore_output ::
  "abec \<Rightarrow> gotime \<Rightarrow> i32 \<Rightarrow> bool \<Rightarrow> OutPointAbe \<Rightarrow> ConfirmedTXO option \<Rightarrow> acct \<times> namespace
   \<Rightarrow> (acct \<times> namespace) result" where
  "restore_output A now i assertion op scoutput s =
     (let (a, ns) = s
      in case scoutput of None \<Rightarrow> Inl nil_bucket
         | Some c \<Rightarrow>
             let t = utx_txo (ctx_unconfirmed c)
             in rbind (putSpendableTXO A t ns) (\<lambda>ns.
                let a = a\<lparr>a_spendable := a_spendable a + txo_Amount t,
                          a_balance := a_balance a + txo_Amount t\<rparr>
                in rbind (restore_token A t op (a, ns)) (\<lambda>(a, ns).
                   rbind (reinstate_relevant A now i assertion (op_key (txo_TxOutput t)) ns) (\<lambda>ns.
                   rbind (deleteConfirmedTXO (op_key op) ns) (\<lambda>ns. Inr (a, ns))))))"

text \<open>A ring deleted with the block: all its members that were unspent before are restored.\<close>

definition restore_member ::
  "abec \<Rightarrow> gotime \<Rightarrow> i32 \<Rightarrow> UTXORing \<Rightarrow> nat \<Rightarrow> acct \<times> namespace \<Rightarrow> (acct \<times> namespace) result" where
  "restore_member A now i u k s =
     rbind (go_nth (ur_IsMy u) k) (\<lambda>my.
     if \<not> my then Inr s
     else rbind (go_nth (ur_Spent u) k) (\<lambda>spent.
     if spent then Inr s
     else rbind (go_nth (ur_TxHashes u) k) (\<lambda>h.
          rbind (go_nth (ur_OutputIndexes u) k) (\<lambda>idx.
          rbind (fetchConfirmedTXO (snd s) h idx) (\<lambda>c.
            restore_output A now i False (OutPointAbe h idx) c s)))))"

text \<open>The first member with that serial number that was ours and unspent before the block.\<close>

fun find_unspent :: "UTXORing \<Rightarrow> bytes \<Rightarrow> (u8 \<times> bytes) list \<Rightarrow> nat option result" where
  "find_unspent u sn [] = Inr None"
| "find_unspent u sn ((m, sn') # os) =
     (if sn' \<noteq> sn then find_unspent u sn os
      else rbind (go_nth (ur_IsMy u) (unat m)) (\<lambda>my.
           if \<not> my then find_unspent u sn os
           else rbind (go_nth (ur_Spent u) (unat m)) (\<lambda>spent.
                if spent then find_unspent u sn os else Inr (Some (unat m)))))"

definition restore_serial ::
  "abec \<Rightarrow> gotime \<Rightarrow> i32 \<Rightarrow> UTXORing \<Rightarrow> UTXORing \<Rightarrow> bytes \<Rightarrow> acct \<times> namespace
   \<Rightarrow> (acct \<times> namespace) result" where
  "restore_serial A now i old u sn s =
     rbind (find_unspent old sn (origins u)) (\<lambda>m'.
       case m' of None \<Rightarrow> Inr s
       | Some m \<Rightarrow>
           rbind (go_nth (ur_TxHashes old) m) (\<lambda>h.
           rbind (go_nth (ur_OutputIndexes old) m) (\<lambda>idx.
           rbind (found (fetchConfirmedTXO (snd s) h idx)) (\<lambda>c.
             restore_output A now i True (OutPointAbe h idx) c s))))"

definition restore_ring ::
  "abec \<Rightarrow> gotime \<Rightarrow> i32 \<Rightarrow> UTXORing \<times> bytes list \<Rightarrow> acct \<times> namespace \<Rightarrow> (acct \<times> namespace) result"
where
  "restore_ring A now i us s =
     (let (old, sns) = us
      in rbind (fetchUTXORing A (snd s) (be_bytes 32 (ur_RingHash old))) (\<lambda>u'.
         rbind (case u' of
                  None \<Rightarrow> rfold (restore_member A now i old) [0..<length (ur_IsMy old)] s
                | Some u \<Rightarrow> rfold (restore_serial A now i old u) sns s) (\<lambda>(a, ns).
         rbind (putUTXORing A (ur_RingHash old) old ns) (\<lambda>ns. Inr (a, ns)))))"

text \<open>An error of \<open>fetchBlockInput\<close> leaves nothing to restore.\<close>

definition restore_inputs ::
  "abec \<Rightarrow> gotime \<Rightarrow> (i32 \<times> bytes) list \<Rightarrow> i32 \<Rightarrow> acct \<times> namespace \<Rightarrow> (acct \<times> namespace) result"
where
  "restore_inputs A now keysWithHeight i s =
     (case fetchBlockInput A (snd s) (key_or_nil keysWithHeight i) of
        Inl (GoPanic e) \<Rightarrow> Inl (GoPanic e)
      | Inl _ \<Rightarrow> Inr s
      | Inr es \<Rightarrow> rfold (restore_ring A now i) es s)"

section \<open>Disabled root coins\<close>

definition restore_root_coin ::
  "abec \<Rightarrow> OutPointAbe \<Rightarrow> acct \<times> namespace \<Rightarrow> (acct \<times> namespace) result" where
  "restore_root_coin A point s =
     (let (a, ns) = s
      in rbind (restoreCTAUTCoin (TxHash point) (OutIndex point) ns) (\<lambda>(coin, ns).
         let ident = AutId_String A (ct_AUTIdentifier coin)
         in Inr (a\<lparr>a_rcNum := ct_add ident 1 (a_rcNum a),
                   a_rcSpendable := ct_add ident 1 (a_rcSpendable a)\<rparr>, ns)))"

definition restore_root_coins ::
  "abec \<Rightarrow> (i32 \<times> bytes) list \<Rightarrow> i32 \<Rightarrow> acct \<times> namespace \<Rightarrow> (acct \<times> namespace) result" where
  "restore_root_coins A keysWithHeight i s =
     (let k = key_or_nil keysWithHeight i
      in rbind (fetchBlockDisabledCTAUTRootCoins (snd s) k) (\<lambda>points.
         rbind (rfold (restore_root_coin A) (option_list points) s) (\<lambda>(a, ns).
         rbind (deleteBlockDisabledCTAUTRootCoins k ns) (\<lambda>ns. Inr (a, ns)))))"

section \<open>Coinbase outputs that matured with the block\<close>

text \<open>
  An output found unconfirmed or confirmed is rebuilt field by field, without its public
  randomness. One found confirmed is added to the unconfirmed balance.
\<close>

definition rebuilt :: "SpendableTXO \<Rightarrow> SpendableTXO" where
  "rebuilt t = t\<lparr>txo_PublicRand := [], txo_UTXOHash := 0\<rparr>"

definition coinbase_only :: "('a \<Rightarrow> SpendableTXO) \<Rightarrow> 'a option \<Rightarrow> 'a option" where
  "coinbase_only p t' =
     (case t' of None \<Rightarrow> None | Some t \<Rightarrow> if IsCoinbase (p t) then Some t else None)"

definition unmature_output ::
  "abec \<Rightarrow> gotime \<Rightarrow> i32 \<Rightarrow> OutPointAbe \<Rightarrow> txo_map \<times> acct \<times> namespace
   \<Rightarrow> (txo_map \<times> acct \<times> namespace) result" where
  "unmature_output A now i op s =
     (let (cb, a, ns) = s
      in rbind (found (fetchSpendableTXO ns (TxHash op) (OutIndex op))) (\<lambda>t'.
         case coinbase_only (\<lambda>t. t) t' of
           Some t \<Rightarrow>
             let a = a\<lparr>a_spendable := a_spendable a - txo_Amount t,
                       a_immatureCB := a_immatureCB a + txo_Amount t\<rparr>
             in rbind (invalidate_relevant A now i True (op_key (txo_TxOutput t)) ns) (\<lambda>ns.
                rbind (deleteSpendableTXO (op_key op) ns) (\<lambda>ns. Inr (AList.update op t cb, a, ns)))
         | None \<Rightarrow>
         rbind (found (fetchUnconfirmedTXO ns (TxHash op) (OutIndex op))) (\<lambda>u'.
         case coinbase_only utx_txo u' of
           Some u \<Rightarrow>
             let t = utx_txo u;
                 a = a\<lparr>a_unconfirmed := a_unconfirmed a - txo_Amount t,
                       a_immatureCB := a_immatureCB a + txo_Amount t\<rparr>
             in rbind (invalidate_relevant A now i True (op_key (txo_TxOutput t)) ns) (\<lambda>ns.
                rbind (deleteUnconfirmedTXO (op_key op) ns) (\<lambda>ns.
                  Inr (AList.update op (rebuilt t) cb, a, ns)))
         | None \<Rightarrow>
         rbind (found (fetchConfirmedTXO ns (TxHash op) (OutIndex op))) (\<lambda>c'.
         case coinbase_only (\<lambda>c. utx_txo (ctx_unconfirmed c)) c' of
           Some c \<Rightarrow>
             let t = utx_txo (ctx_unconfirmed c);
                 a = a\<lparr>a_unconfirmed := a_unconfirmed a + txo_Amount t,
                       a_balance := a_balance a + txo_Amount t\<rparr>
             in rbind (invalidate_relevant A now i True (op_key (txo_TxOutput t)) ns) (\<lambda>ns.
                rbind (deleteConfirmedTXO (op_key op) ns) (\<lambda>ns.
                  Inr (AList.update op (rebuilt t) cb, a, ns)))
         | None \<Rightarrow> Inr s))))"

text \<open>The outputs of the older block are stored under the height and hash of this one.\<close>

definition unmature_block ::
  "abec \<Rightarrow> gotime \<Rightarrow> i32 \<Rightarrow> hash \<Rightarrow> i32 \<Rightarrow> nat \<Rightarrow> acct \<times> namespace \<Rightarrow> (acct \<times> namespace) result"
where
  "unmature_block A now i blockHash maturity ii s =
     (let (a, ns) = s
      in rbind (fetchBlockOutputWithHeight ns (i - maturity - of_nat ii)) (\<lambda>r.
         case r of None \<Rightarrow> Inr s
         | Some (key, outpoints) \<Rightarrow>
             if outpoints = [] then Inr s
             else rbind (rfold (unmature_output A now i) outpoints ([], a, ns)) (\<lambda>(cb, a, ns).
                  rbind (putImmatureCoinbaseOutput i blockHash cb ns) (\<lambda>ns. Inr (a, ns)))))"

definition unmature_coinbase ::
  "abec \<Rightarrow> crypto \<Rightarrow> gotime \<Rightarrow> i32 \<Rightarrow> i32 \<Rightarrow> hash \<Rightarrow> acct \<times> namespace \<Rightarrow> (acct \<times> namespace) result"
where
  "unmature_coinbase A K now blockNum i blockHash s =
     (let maturity = CoinbaseMaturity K
      in if sint i < sint maturity then Inr s
         else rbind (i32_rem (i - maturity + 1) blockNum) (\<lambda>r.
           if r \<noteq> 0 then Inr s
           else rfold (unmature_block A now i blockHash maturity) [0..<nat (sint blockNum)] s))"

section \<open>One block, and rollback as a whole\<close>

definition undo_block ::
  "abec \<Rightarrow> crypto \<Rightarrow> gotime \<Rightarrow> (i32 \<Rightarrow> hash result) \<Rightarrow> (i32 \<times> bytes) list \<Rightarrow> i32 \<Rightarrow> i32
   \<Rightarrow> acct \<times> namespace \<Rightarrow> (acct \<times> namespace) result" where
  "undo_block A K now BH keysWithHeight blockNum i s =
     rbind (reopen_group A K now BH keysWithHeight i s) (\<lambda>s.
     rbind (height_hash BH keysWithHeight i) (\<lambda>blockHash.
     rbind (drop_coinbase keysWithHeight i blockHash s) (\<lambda>s.
     rbind (drop_transfer A keysWithHeight i blockHash s) (\<lambda>s.
     rbind (restore_inputs A now keysWithHeight i s) (\<lambda>(a, ns).
     rbind (deleteRawBlockWithBlockHeight i ns) (\<lambda>ns.
     rbind (restore_root_coins A keysWithHeight i (a, ns)) (\<lambda>s.
       unmature_coinbase A K now blockNum i blockHash s)))))))"

definition heights_down :: "i32 \<Rightarrow> i32 \<Rightarrow> i32 list" where
  "heights_down maxHeight height =
     map (\<lambda>n. height + of_nat n) (rev [1..<Suc (nat (sint maxHeight - sint height))])"

definition rollback ::
  "abec \<Rightarrow> crypto \<Rightarrow> gotime \<Rightarrow> (i32 \<Rightarrow> hash result) \<Rightarrow> i32 \<Rightarrow> namespace \<Rightarrow> namespace result" where
  "rollback A K now BH height ns =
     rbind (load_acct ns) (\<lambda>a.
     let blockNum = GetBlockNumPerRingGroup K height
     in rbind (collect_keys height blockNum ns) (\<lambda>(keysWithHeight, maxHeight).
        rbind (rfold (undo_block A K now BH keysWithHeight blockNum)
                 (heights_down maxHeight height) (a, ns)) (\<lambda>(a, ns).
          Inr (save_acct a ns))))"

definition Rollback ::
  "abec \<Rightarrow> crypto \<Rightarrow> gotime \<Rightarrow> (i32 \<Rightarrow> hash result) \<Rightarrow> i32 \<Rightarrow> namespace \<Rightarrow> namespace result" where
  "Rollback A K now BH height ns = rollback A K now BH height ns"

end
