(* ===== verification/Books.thy ===== *)
theory Books
  imports InsertBlock
begin

text \<open>
  What \<open>InsertBlock\<close> keeps: the books of the wallet (each total is the sum of its parts, for
  coins, tokens and root coins), and, while it scans the transactions of a block, the agreement
  of the spendable and unconfirmed balances with the outputs on file.
\<close>

section \<open>The books against the buckets\<close>

definition filed :: "acct \<times> namespace \<Rightarrow> bool" where
  "filed s \<longleftrightarrow>
     (let (a, ns) = s
      in buckets_ok ns \<and>
         ns_bucket ns bucketMaturedOutput \<noteq> None \<and> ns_bucket ns bucketSpentButUnmined \<noteq> None \<and>
         (\<forall>k. nested_get bucketMaturedOutput k ns = Inr None
            \<or> nested_get bucketSpentButUnmined k ns = Inr None) \<and>
         a_spendable a = bucket_amount bucketMaturedOutput ns \<and>
         a_unconfirmed a = bucket_amount bucketSpentButUnmined ns)"

text \<open>A step that keeps the books: balanced, and in agreement with the buckets.\<close>

definition balanced :: "acct \<times> namespace \<Rightarrow> acct \<times> namespace \<Rightarrow> bool" where
  "balanced s s' \<longleftrightarrow> (acct_ok (fst s) \<longrightarrow> acct_ok (fst s'))"

definition audited :: "acct \<times> namespace \<Rightarrow> acct \<times> namespace \<Rightarrow> bool" where
  "audited s s' \<longleftrightarrow> balanced s s' \<and> (filed s \<longrightarrow> filed s')"

definition other_buckets :: "bucket set" where
  "other_buckets = - {bucketMaturedOutput, bucketSpentButUnmined}"

lemma other_buckets_simps [simp]:
  "b \<in> other_buckets \<longleftrightarrow> b \<noteq> bucketMaturedOutput \<and> b \<noteq> bucketSpentButUnmined"
  by (simp add: other_buckets_def)

lemma balanced_refl [simp, intro]: "balanced s s"
  by (simp add: balanced_def)

lemma balanced_trans [trans]: "balanced s t \<Longrightarrow> balanced t u \<Longrightarrow> balanced s u"
  by (simp add: balanced_def)

lemma audited_refl [simp, intro]: "audited s s"
  by (simp add: audited_def)

lemma audited_trans [trans]: "audited s t \<Longrightarrow> audited t u \<Longrightarrow> audited s u"
  by (auto simp: audited_def balanced_def)

lemma balanced_rfold:
  assumes "rfold f xs s = Inr s'" and "\<And>x s s'. f x s = Inr s' \<Longrightarrow> balanced (p s) (p s')"
  shows "balanced (p s) (p s')"
  by (rule rfold_invariant [OF assms(1), where P = "\<lambda>t. balanced (p s) (p t)"])
    (auto intro: balanced_trans assms(2))

lemma audited_rfold:
  assumes "rfold f xs s = Inr s'" and "\<And>x s s'. f x s = Inr s' \<Longrightarrow> audited (p s) (p s')"
  shows "audited (p s) (p s')"
  by (rule rfold_invariant [OF assms(1), where P = "\<lambda>t. audited (p s) (p t)"])
    (auto intro: audited_trans assms(2))

lemma filed_only:
  assumes "only_buckets other_buckets ns ns'" and "filed (a, ns)"
    and "a_spendable a' = a_spendable a" and "a_unconfirmed a' = a_unconfirmed a"
  shows "filed (a', ns')"
  using assms(2-) only_bucketsD [OF assms(1)]
  by (simp add: filed_def only_buckets_get [OF assms(1)] bucket_amount_only [OF assms(1)])

text \<open>Steps that leave the two buckets and their balances alone.\<close>

lemma auditedI:
  assumes "only_buckets other_buckets ns ns'" and "acct_ok a \<Longrightarrow> acct_ok a'"
    and "a_spendable a' = a_spendable a" and "a_unconfirmed a' = a_unconfirmed a"
  shows "audited (a, ns) (a', ns')"
  using filed_only [OF assms(1) _ assms(3,4)] assms(2) by (auto simp: audited_def balanced_def)

lemma ledger_ok_filed:
  assumes "load_acct ns = Inr a"
  shows "ledger_ok ns \<longleftrightarrow> filed (a, ns)"
  using assms by (auto simp: load_acct_def rbind_Inr_iff balance_defs ledger_ok_def filed_def)

lemma ledger_ok_save: "filed (a, ns) \<Longrightarrow> ledger_ok (save_acct a ns)"
  by (simp add: ledger_ok_filed [OF load_save_acct] filed_def buckets_ok_iff nested_get_def
      nested_def bucket_amount_def)

section \<open>Table operations as only-other-buckets steps\<close>

lemma putRawCTAUTCoin_only: "putRawCTAUTCoin h i c ns = Inr ns' \<Longrightarrow> only_buckets other_buckets ns ns'"
  by (auto simp: putRawCTAUTCoin_def intro: only_buckets_put)

lemma spendCTAUTCoin_only:
  "spendCTAUTCoin h i ns = Inr (r, ns') \<Longrightarrow> only_buckets other_buckets ns ns'"
  by (auto simp: spendCTAUTCoin_def Let_def rbind_Inr_iff dest: putRawCTAUTCoin_only)

lemma putConfirmedTXO_only: "putConfirmedTXO A t ns = Inr ns' \<Longrightarrow> only_buckets other_buckets ns ns'"
  by (auto simp: putConfirmedTXO_Inr_iff intro: only_buckets_put)

lemma putUTXORing_only: "putUTXORing A h u ns = Inr ns' \<Longrightarrow> only_buckets other_buckets ns ns'"
  using putUTXORing_frame(1) only_buckets_put by fastforce

lemma putRingDetails_only: "putRingDetails A h r ns = Inr ns' \<Longrightarrow> only_buckets other_buckets ns ns'"
  using putRingDetails_frame(1) only_buckets_put by fastforce

lemma ring_tables_only:
  "deleteUTXORing k ns = Inr ns' \<Longrightarrow> only_buckets other_buckets ns ns'"
  "updateDeletedHeightRingDetails A h height ns = Inr ns' \<Longrightarrow> only_buckets other_buckets ns ns'"
  by (auto simp: deleteUTXORing_def updateDeletedHeightRingDetails_def rbind_Inr_iff
      intro: only_buckets_delete dest: putRingDetails_only)

lemma raw_tx_only:
  "deleteRawUnconfirmedTx k ns = Inr ns' \<Longrightarrow> only_buckets other_buckets ns ns'"
  "deleteRawInvalidTx k ns = Inr ns' \<Longrightarrow> only_buckets other_buckets ns ns'"
  "putRawInvalidTx now k v ns = Inr ns' \<Longrightarrow> only_buckets other_buckets ns ns'"
  "putRawConfirmedTx k v ns = Inr ns' \<Longrightarrow> only_buckets other_buckets ns ns'"
  "putRawRelevantTxs k v ns = Inr ns' \<Longrightarrow> only_buckets other_buckets ns ns'"
  by (auto simp: raw_tx_defs rbind_Inr_iff intro: only_buckets_delete only_buckets_put)

section \<open>Tokens and members\<close>

lemma acct_ok_token:
  assumes "acct_ok a"
  shows "acct_ok (a\<lparr>a_rcNum := ct_sub i n (a_rcNum a), a_rcSpendable := ct_sub i n (a_rcSpendable a)\<rparr>)"
    "acct_ok (a\<lparr>a_rcNum := ct_sub i n (a_rcNum a), a_rcUnconfirmed := ct_sub i n (a_rcUnconfirmed a)\<rparr>)"
    "acct_ok (a\<lparr>a_ctBal := ct_sub i n (a_ctBal a), a_ctSpendable := ct_sub i n (a_ctSpendable a)\<rparr>)"
    "acct_ok (a\<lparr>a_ctBal := ct_sub i n (a_ctBal a), a_ctUnconfirmed := ct_sub i n (a_ctUnconfirmed a)\<rparr>)"
    "acct_ok (a\<lparr>a_rcNum := ct_add i n (a_rcNum a), a_rcImmature := ct_add i n (a_rcImmature a)\<rparr>)"
    "acct_ok (a\<lparr>a_ctBal := ct_add i n (a_ctBal a), a_ctImmature := ct_add i n (a_ctImmature a)\<rparr>)"
    "acct_ok (a\<lparr>a_rcSpendable := ct_add i n (a_rcSpendable a), a_rcImmature := ct_sub i n (a_rcImmature a)\<rparr>)"
    "acct_ok (a\<lparr>a_ctSpendable := ct_add i n (a_ctSpendable a), a_ctImmature := ct_sub i n (a_ctImmature a)\<rparr>)"
  using assms by (auto simp: acct_ok_def)

lemma acct_ok_coins:
  assumes "acct_ok a"
  shows "acct_ok (a\<lparr>a_balance := a_balance a - v, a_spendable := a_spendable a - v\<rparr>)"
    "acct_ok (a\<lparr>a_balance := a_balance a - v, a_unconfirmed := a_unconfirmed a - v\<rparr>)"
    "acct_ok (a\<lparr>a_immatureCB := a_immatureCB a + v, a_balance := a_balance a + v\<rparr>)"
    "acct_ok (a\<lparr>a_immatureTR := a_immatureTR a + v, a_balance := a_balance a + v\<rparr>)"
    "acct_ok (a\<lparr>a_spendable := a_spendable a + v, a_immatureCB := a_immatureCB a - v\<rparr>)"
    "acct_ok (a\<lparr>a_spendable := a_spendable a + v, a_immatureTR := a_immatureTR a - v\<rparr>)"
  using assms by (auto simp: acct_ok_def)

lemma consume_token_ok:
  assumes "consume_token A fromSpendable txo (a, ns) = Inr (a', ns')"
  shows "only_buckets other_buckets ns ns'" and "acct_ok a \<Longrightarrow> acct_ok a'"
    and "a_spendable a' = a_spendable a" and "a_unconfirmed a' = a_unconfirmed a"
proof -
  show "only_buckets other_buckets ns ns'"
    using assms by (auto simp: consume_token_def Let_def Inr_iffs dest: spendCTAUTCoin_only)
  show "acct_ok a \<Longrightarrow> acct_ok a'"
    using assms by (auto simp: consume_token_def Let_def Inr_iffs acct_ok_token)
  show "a_spendable a' = a_spendable a" and "a_unconfirmed a' = a_unconfirmed a"
    using assms by (auto simp: consume_token_def Let_def Inr_iffs)
qed

text \<open>
  A spent member found among the spendable outputs, among the unconfirmed ones, or in neither
  bucket.
\<close>

lemma spend_member_cases:
  assumes "spend_member A block txhash u t (a, ns) = Inr (a', ns')"
  obtains "a' = a" "ns' = ns"
  | op v txo ns1 ns2 where
      "existsSpendableTXO ns (op_key op) = Inr (Some v)"
      "SpendableTXO_Deserialize op (Some v) = Inr txo"
      "deleteSpendableTXO (op_key op) ns = Inr ns1"
      "consume_token A True txo (a\<lparr>a_balance := a_balance a - txo_Amount txo,
          a_spendable := a_spendable a - txo_Amount txo\<rparr>, ns1) = Inr (a', ns2)"
      "putConfirmedTXO A \<lparr>ctx_unconfirmed = \<lparr>utx_txo = txo, utx_SpentByHash = txhash,
          utx_SpentTime = blk_RecvTime block\<rparr>, ctx_ConfirmedByBlockHash = blk_Hash block,
          ctx_ConfirmTime = blk_RecvTime block\<rparr> ns2 = Inr ns'"
  | op v txo ns1 ns2 where
      "existsSpendableTXO ns (op_key op) = Inr None"
      "existsUnconfirmedTXO ns (op_key op) = Inr (Some v)"
      "UnconfirmedTXO_Deserialize op (Some v) = Inr txo"
      "deleteUnconfirmedTXO (op_key op) ns = Inr ns1"
      "consume_token A False (utx_txo txo) (a\<lparr>a_balance := a_balance a - txo_Amount (utx_txo txo),
          a_unconfirmed := a_unconfirmed a - txo_Amount (utx_txo txo)\<rparr>, ns1) = Inr (a', ns2)"
      "putConfirmedTXO A \<lparr>ctx_unconfirmed = txo, ctx_ConfirmedByBlockHash = blk_Hash block,
          ctx_ConfirmTime = blk_RecvTime block\<rparr> ns2 = Inr ns'"
proof -
  consider "a' = a \<and> ns' = ns"
    | h i v where "existsSpendableTXO ns (canonicalOutPointAbe h i) = Inr (Some v)"
      "\<exists>txo ns1 ns2. SpendableTXO_Deserialize (OutPointAbe h i) (Some v) = Inr txo \<and>
        deleteSpendableTXO (canonicalOutPointAbe h i) ns = Inr ns1 \<and>
        consume_token A True txo (a\<lparr>a_balance := a_balance a - txo_Amount txo,
          a_spendable := a_spendable a - txo_Amount txo\<rparr>, ns1) = Inr (a', ns2) \<and>
        putConfirmedTXO A \<lparr>ctx_unconfirmed = \<lparr>utx_txo = txo, utx_SpentByHash = txhash,
          utx_SpentTime = blk_RecvTime block\<rparr>, ctx_ConfirmedByBlockHash = blk_Hash block,
          ctx_ConfirmTime = blk_RecvTime block\<rparr> ns2 = Inr ns'"
    | h i v where "existsSpendableTXO ns (canonicalOutPointAbe h i) = Inr None"
      "existsUnconfirmedTXO ns (canonicalOutPointAbe h i) = Inr (Some v)"
      "\<exists>txo ns1 ns2. UnconfirmedTXO_Deserialize (OutPointAbe h i) (Some v) = Inr txo \<and>
        deleteUnconfirmedTXO (canonicalOutPointAbe h i) ns = Inr ns1 \<and>
        consume_token A False (utx_txo txo) (a\<lparr>a_balance := a_balance a - txo_Amount (utx_txo txo),
          a_unconfirmed := a_unconfirmed a - txo_Amount (utx_txo txo)\<rparr>, ns1) = Inr (a', ns2) \<and>
        putConfirmedTXO A \<lparr>ctx_unconfirmed = txo, ctx_ConfirmedByBlockHash = blk_Hash block,
          ctx_ConfirmTime = blk_RecvTime block\<rparr> ns2 = Inr ns'"
    using assms unfolding spend_member_def Inr_iffs
    by (auto simp: Let_def Inr_iffs)
  then show thesis
  proof cases
    case 1 then show ?thesis using that(1) by blast
  next
    case (2 h i v)
    then show ?thesis using that(2) [of "OutPointAbe h i" v] by auto
  next
    case (3 h i v)
    then show ?thesis using that(3) [of "OutPointAbe h i" v] by auto
  qed
qed

lemma filed_take_spendable:
  assumes "filed (a, ns)" and "existsSpendableTXO ns (op_key op) = Inr (Some v)"
    and "SpendableTXO_Deserialize op (Some v) = Inr txo"
    and "deleteSpendableTXO (op_key op) ns = Inr ns1"
    and "a_spendable a1 = a_spendable a - txo_Amount txo" and "a_unconfirmed a1 = a_unconfirmed a"
  shows "filed (a1, ns1)"
proof -
  note d = assms(4) [unfolded deleteSpendableTXO_def]
  have o: "only_buckets {bucketMaturedOutput} ns ns1" by (rule only_buckets_delete [OF d]) simp
  have g: "nested_get bucketMaturedOutput (op_key op) ns = Inr (Some v)"
    using assms(2) by (simp add: existsSpendableTXO_def)
  have "bucket_amount bucketMaturedOutput ns = txo_Amount txo + bucket_amount bucketMaturedOutput ns1"
    using bucket_amount_delete [OF d g] assms(1) SpendableTXO_Deserialize_facts [OF assms(3)]
    by (simp add: filed_def)
  moreover have "bucket_amount bucketSpentButUnmined ns1 = bucket_amount bucketSpentButUnmined ns"
    by (rule bucket_amount_only [OF o]) simp
  moreover have "nested_get bucketMaturedOutput k ns1 = Inr None
      \<or> nested_get bucketSpentButUnmined k ns1 = Inr None" for k
    using assms(1) by (auto simp: filed_def nested_get_delete [OF d])
  ultimately show ?thesis
    using assms(1,5,6) only_bucketsD(4,5) [OF o] by (simp add: filed_def del: not_None_eq)
qed

lemma filed_take_unconfirmed:
  assumes "filed (a, ns)" and "existsUnconfirmedTXO ns (op_key op) = Inr (Some v)"
    and "UnconfirmedTXO_Deserialize op (Some v) = Inr txo"
    and "deleteUnconfirmedTXO (op_key op) ns = Inr ns1"
    and "a_unconfirmed a1 = a_unconfirmed a - txo_Amount (utx_txo txo)"
    and "a_spendable a1 = a_spendable a"
  shows "filed (a1, ns1)"
proof -
  note d = assms(4) [unfolded deleteUnconfirmedTXO_def]
  have o: "only_buckets {bucketSpentButUnmined} ns ns1" by (rule only_buckets_delete [OF d]) simp
  have g: "nested_get bucketSpentButUnmined (op_key op) ns = Inr (Some v)"
    using assms(2) by (simp add: existsUnconfirmedTXO_def)
  have "bucket_amount bucketSpentButUnmined ns
      = txo_Amount (utx_txo txo) + bucket_amount bucketSpentButUnmined ns1"
    using bucket_amount_delete [OF d g] assms(1) UnconfirmedTXO_Deserialize_facts [OF assms(3)]
    by (simp add: filed_def)
  moreover have "bucket_amount bucketMaturedOutput ns1 = bucket_amount bucketMaturedOutput ns"
    by (rule bucket_amount_only [OF o]) simp
  moreover have "nested_get bucketMaturedOutput k ns1 = Inr None
      \<or> nested_get bucketSpentButUnmined k ns1 = Inr None" for k
    using assms(1) by (auto simp: filed_def nested_get_delete [OF d])
  ultimately show ?thesis
    using assms(1,5,6) only_bucketsD(4,5) [OF o] by (simp add: filed_def del: not_None_eq)
qed

lemma spend_member_audited:
  assumes "spend_member A block txhash u t s = Inr s'"
  shows "audited s s'"
proof -
  obtain a ns a' ns' where s: "s = (a, ns)" "s' = (a', ns')" by (cases s; cases s')
  from assms have "spend_member A block txhash u t (a, ns) = Inr (a', ns')" by (simp add: s)
  then have "audited (a, ns) (a', ns')"
  proof (cases rule: spend_member_cases)
    case (2 op v txo ns1 ns2)
    let ?a = "a\<lparr>a_balance := a_balance a - txo_Amount txo,
        a_spendable := a_spendable a - txo_Amount txo\<rparr>"
    note c = consume_token_ok [OF 2(4)]
    have "audited (a, ns) (?a, ns1)"
      using filed_take_spendable [OF _ 2(1-3), of a ?a]
      by (auto simp: audited_def balanced_def acct_ok_coins)
    moreover have "audited (?a, ns1) (a', ns2)" by (rule auditedI) (use c in auto)
    moreover have "audited (a', ns2) (a', ns')" by (rule auditedI [OF putConfirmedTXO_only [OF 2(5)]]) auto
    ultimately show ?thesis by (blast intro: audited_trans)
  next
    case (3 op v txo ns1 ns2)
    let ?a = "a\<lparr>a_balance := a_balance a - txo_Amount (utx_txo txo),
        a_unconfirmed := a_unconfirmed a - txo_Amount (utx_txo txo)\<rparr>"
    note c = consume_token_ok [OF 3(5)]
    have "audited (a, ns) (?a, ns1)"
      using filed_take_unconfirmed [OF _ 3(2-4), of a ?a]
      by (auto simp: audited_def balanced_def acct_ok_coins)
    moreover have "audited (?a, ns1) (a', ns2)" by (rule auditedI) (use c in auto)
    moreover have "audited (a', ns2) (a', ns')" by (rule auditedI [OF putConfirmedTXO_only [OF 3(6)]]) auto
    ultimately show ?thesis by (blast intro: audited_trans)
  qed simp
  then show ?thesis by (simp add: s)
qed

lemma flush_ring_audited:
  assumes "flush_ring A block txhash hu s = Inr s'"
  shows "audited s s'"
proof -
  obtain h u where hu: "hu = (h, u)" by (cases hu)
  obtain a ns ns' where r: "rfold (spend_member A block txhash u) [0..<length (ur_IsMy u)] s
      = Inr (a, ns)" and s': "s' = (a, ns')" and o: "only_buckets other_buckets ns ns'"
    using assms
    by (auto simp: flush_ring_def hu Inr_iffs dest!: putUTXORing_only ring_tables_only)
      (metis only_buckets_trans)
  have "audited s (a, ns)"
    using audited_rfold [OF r, where p = "\<lambda>x. x"] spend_member_audited by simp
  moreover have "audited (a, ns) s'" unfolding s' by (rule auditedI [OF o]) auto
  ultimately show ?thesis by (rule audited_trans)
qed

text \<open>What a spent member found spendable leaves behind.\<close>

lemma consume_token_frame:
  assumes "consume_token A fromSpendable txo (a, ns) = Inr (a', ns')"
  shows "only_buckets {bucketCTAUTPoint} ns ns'" and "a_balance a' = a_balance a"
proof -
  have "spendCTAUTCoin h i n = Inr (r, n') \<Longrightarrow> only_buckets {bucketCTAUTPoint} n n'" for h i n r n'
    by (auto simp: spendCTAUTCoin_def putRawCTAUTCoin_def Let_def rbind_Inr_iff
        intro: only_buckets_put)
  then show "only_buckets {bucketCTAUTPoint} ns ns'"
    using assms by (auto simp: consume_token_def Let_def Inr_iffs)
  show "a_balance a' = a_balance a"
    using assms by (auto simp: consume_token_def Let_def Inr_iffs)
qed

lemma spend_member_files:
  assumes "spend_member A block txhash u t (a, ns) = Inr (a', ns')"
    and "t < length (ur_IsMy u)" "t < length (ur_Spent u)" "ur_IsMy u ! t" "ur_Spent u ! t"
    and "op = OutPointAbe (ur_TxHashes u ! t) (ur_OutputIndexes u ! t)"
    and "fetchSpendableTXO ns (TxHash op) (OutIndex op) = Inr (Some txo)"
  shows "fetchSpendableTXO ns' (TxHash op') (OutIndex op')
      = (if op' = op then Inr None else fetchSpendableTXO ns (TxHash op') (OutIndex op'))
    \<and> (\<exists>c. fetchConfirmedTXO ns' (TxHash op) (OutIndex op) = Inr (Some c) \<and>
        utx_SpentByHash (ctx_unconfirmed c) = txhash \<and> ctx_ConfirmedByBlockHash c = blk_Hash block)
    \<and> a_balance a' = a_balance a - txo_Amount txo \<and> a_spendable a' = a_spendable a - txo_Amount txo"
proof -
  obtain v where v: "existsSpendableTXO ns (op_key op) = Inr (Some v)"
    "SpendableTXO_Deserialize op (Some v) = Inr txo"
    using fetchSpendableTXO_entry [OF assms(7)] by (auto simp: existsSpendableTXO_def)
  let ?c = "\<lparr>ctx_unconfirmed = \<lparr>utx_txo = txo, utx_SpentByHash = txhash,
      utx_SpentTime = blk_RecvTime block\<rparr>, ctx_ConfirmedByBlockHash = blk_Hash block,
      ctx_ConfirmTime = blk_RecvTime block\<rparr>"
  obtain ns1 ns2 where s: "deleteSpendableTXO (op_key op) ns = Inr ns1"
    "consume_token A True txo (a\<lparr>a_balance := a_balance a - txo_Amount txo,
          a_spendable := a_spendable a - txo_Amount txo\<rparr>, ns1) = Inr (a', ns2)"
    "putConfirmedTXO A ?c ns2 = Inr ns'"
    using assms(1-6) v by (auto simp: spend_member_def Let_def rbind_Inr_iff)
  note k = consume_token_frame [OF s(2)] consume_token_ok(3) [OF s(2)]
  have c: "txo_TxOutput txo = op" using SpendableTXO_Deserialize_facts(2) [OF v(2)] .
  have "fetchSpendableTXO ns' (TxHash op') (OutIndex op')
      = fetchSpendableTXO ns2 (TxHash op') (OutIndex op')"
    using s(3) by (auto simp: putConfirmedTXO_Inr_iff fetchSpendableTXO_def nested_get_put)
  also have "\<dots> = fetchSpendableTXO ns1 (TxHash op') (OutIndex op')"
    by (rule fetch_only(1) [OF k(1)]) simp
  also have "\<dots> = (if op' = op then Inr None else fetchSpendableTXO ns (TxHash op') (OutIndex op'))"
    by (rule matured.fetch_del [OF s(1)])
  finally show ?thesis
    using confirmed.fetch_put_same [OF s(3)] k(2,3) c
    by (auto simp: stored_confirmed_def stored_unconfirmed_def)
qed

section \<open>Scanning a block\<close>

definition books :: "bstate \<Rightarrow> acct \<times> namespace" where
  "books st = (bs_acct st, bs_ns st)"

lemma receive_coinbase_audited:
  assumes "receive_coinbase A K M block cb iout st = Inr st'"
  shows "audited (books st) (books st')"
  using assms
  by (cases iout)
    (auto simp: receive_coinbase_def Let_def Inr_iffs books_def acct_ok_coins intro: auditedI)

lemma block_conflict_only:
  assumes "block_conflict now height h c s = Inr s'"
  shows "only_buckets other_buckets (snd s) (snd s')"
  using assms
  by (cases s) (auto simp: block_conflict_def Inr_iffs dest!: raw_tx_only intro: only_buckets_trans)

lemma block_relevant_only:
  assumes "block_relevant now height h k ns = Inr ns'"
  shows "only_buckets other_buckets ns ns'"
proof -
  obtain cs flag ns1 where r: "rfold (block_conflict now height h) cs (False, ns) = Inr (flag, ns1)"
    and l: "ns' = ns1 \<or> (\<exists>v. putRawRelevantTxs k v ns1 = Inr ns')"
    using assms by (auto simp: block_relevant_def Let_def rbind_Inr_iff split: if_splits)
  have "only_buckets other_buckets ns ns1"
    using only_buckets_rfold [OF r, where p = snd, OF block_conflict_only] by simp
  with l show ?thesis by (auto dest: raw_tx_only(5) intro: only_buckets_trans)
qed

lemma load_ring_books: "load_ring A h sn st = Inr (Some (u, st')) \<Longrightarrow> books st' = books st"
  by (auto simp: load_ring_def Let_def Inr_iffs books_def)

lemma block_input_audited:
  assumes "block_input A now block txi txin s = Inr s'"
  shows "audited (books (snd s)) (books (snd s'))"
proof -
  obtain consume st where s: "s = (consume, st)" by (cases s)
  let ?h = "OutPointRing_Hash A (in_PreviousOutPointRing txin)"
  consider "s' = s" | u st1 where "load_ring A ?h (in_SerialNumber txin) st = Inr (Some (u, st1))"
      "bs_acct (snd s') = bs_acct st1" "only_buckets other_buckets (bs_ns st1) (bs_ns (snd s'))"
    using assms
    by (auto simp: block_input_def s Let_def Inr_iffs dest!: block_relevant_only)
  then show ?thesis
  proof cases
    case 2
    have "audited (books st1) (books (snd s'))"
      unfolding books_def by (rule auditedI [OF 2(3)]) (simp_all add: 2(2))
    then show ?thesis by (simp add: s load_ring_books [OF 2(1)])
  qed simp
qed

lemma confirm_tx_only:
  assumes "confirm_tx A block txi ns = Inr ns'"
  shows "only_buckets other_buckets ns ns'"
  using assms
  by (auto simp: confirm_tx_def Let_def Inr_iffs dest!: raw_tx_only) (metis only_buckets_trans)+

lemma receive_token_audited:
  assumes "receive_token A K M block sc out k addrKey publicRand vs s = Inr s'"
  shows "audited s s'"
  using assms
  by (cases s) (auto simp: receive_token_def Let_def Inr_iffs acct_ok_token
      dest!: putRawCTAUTCoin_only intro!: auditedI)

lemma receive_output_audited:
  assumes "receive_output A K M block txi script jout st = Inr st'"
  shows "audited (books st) (books st')"
proof -
  consider "st' = st" | v where "audited (bs_acct st\<lparr>a_immatureTR := a_immatureTR (bs_acct st) + v,
      a_balance := a_balance (bs_acct st) + v\<rparr>, bs_ns st) (books st')"
    using assms
    by (cases jout)
      (auto simp: receive_output_def Let_def Inr_iffs books_def dest!: receive_token_audited,
        blast)
  then show ?thesis
  proof cases
    case (2 v)
    have "audited (books st) (bs_acct st\<lparr>a_immatureTR := a_immatureTR (bs_acct st) + v,
      a_balance := a_balance (bs_acct st) + v\<rparr>, bs_ns st)"
      unfolding books_def by (rule auditedI) (simp_all add: acct_ok_coins)
    then show ?thesis using 2 by (rule audited_trans)
  qed simp
qed

lemma disable_root_coin_audited:
  assumes "disable_root_coin A txhash coin st = Inr st'"
  shows "audited (books st) (books st')"
  using assms
  by (auto simp: disable_root_coin_def Let_def Inr_iffs books_def acct_ok_token
      dest!: spendCTAUTCoin_only intro!: auditedI)

lemma reregister_audited:
  assumes "reregister A txhash script st = Inr st'"
  shows "audited (books st) (books st')"
  using assms
  by (auto simp: reregister_def Inr_iffs dest!: audited_rfold [where p = books]
      disable_root_coin_audited)

lemma block_tx_audited:
  assumes "block_tx A K M now block rec st = Inr st'"
  shows "audited (books st) (books st')"
proof -
  let ?txi = "rec_MsgTx rec" and ?h = "MsgTx_TxHash A (rec_MsgTx rec)"
  obtain consume st1 ns2 a3 ns3 st4 where
    1: "rfold (block_input A now block ?txi) (msg_TxIns ?txi) (False, st) = Inr (consume, st1)" and
    2: "(if consume then confirm_tx A block ?txi (bs_ns st1) else Inr (bs_ns st1)) = Inr ns2" and
    3: "rfold (flush_ring A block ?h) (bs_rings st1) (bs_acct st1, ns2) = Inr (a3, ns3)" and
    4: "rfold (receive_output A K M block ?txi (DetectAndAssemble K ?txi))
          (List.enumerate 0 (msg_TxOuts ?txi)) (st1\<lparr>bs_acct := a3, bs_ns := ns3\<rparr>) = Inr st4" and
    5: "reregister A ?h (DetectAndAssemble K ?txi) st4 = Inr st'"
    using assms by (auto simp: block_tx_def Let_def rbind_Inr_iff split: prod.splits)
  have "audited (books st) (books st1)"
    using audited_rfold [OF 1, where p = "books \<circ> snd"] block_input_audited by fastforce
  also have "audited (books st1) (bs_acct st1, ns2)"
    unfolding books_def using 2 by (intro auditedI) (auto dest: confirm_tx_only split: if_splits)
  also have "audited (bs_acct st1, ns2) (a3, ns3)"
    using audited_rfold [OF 3, where p = "\<lambda>x. x"] flush_ring_audited by simp
  also have "audited (a3, ns3) (books st4)"
    using audited_rfold [OF 4, where p = books] receive_output_audited by (simp add: books_def)
  also have "audited (books st4) (books st')" by (rule reregister_audited [OF 5])
  finally show ?thesis .
qed

lemma putBlockRecord_only: "putBlockRecord B r ns = Inr ns' \<Longrightarrow> only_buckets other_buckets ns ns'"
  by (auto simp: putBlockRecord_def Inr_iffs intro: only_buckets_put)

lemma deleteRawBlockWithBlockHeight_only:
  assumes "deleteRawBlockWithBlockHeight height ns = Inr ns'"
  shows "only_buckets other_buckets ns ns'"
proof -
  obtain m :: kv where r: "rfold (\<lambda>(k, v) ns. rbind (get_be 4 k) (\<lambda>(h, _).
      if height = h then deleteRawBlock k ns else Inr ns)) m ns = Inr ns'"
    using assms unfolding deleteRawBlockWithBlockHeight_def rbind_Inr_iff by blast
  show ?thesis
    by (rule only_buckets_rfold [OF r, where p = "\<lambda>x. x"])
      (auto simp: Inr_iffs deleteRawBlock_def elim!: only_buckets_delete)
qed

lemma scan_block_audited:
  assumes "scan_block A B K M now block a ns = Inr st"
  shows "audited (a, ns) (books st)"
proof -
  obtain ns1 ns2 st1 and rec :: TxRecord where
    1: "putBlockRecord B (Some block) ns = Inr ns1" and
    2: "(if sint NUMBERBLOCK < sint (blk_Height block)
            then deleteRawBlockWithBlockHeight (blk_Height block - NUMBERBLOCK) ns1
            else Inr ns1) = Inr ns2" and
    3: "rfold (receive_coinbase A K M block (rec_MsgTx rec))
          (List.enumerate 0 (msg_TxOuts (rec_MsgTx rec))) (start_block a ns2) = Inr st1" and
    4: "rfold (block_tx A K M now block) (tl (blk_TxRecords block)) st1 = Inr st"
    using assms unfolding scan_block_def Let_def rbind_Inr_iff by blast
  have "only_buckets other_buckets ns ns2"
    using 2 putBlockRecord_only [OF 1]
    by (auto dest!: deleteRawBlockWithBlockHeight_only intro: only_buckets_trans split: if_splits)
  then have "audited (a, ns) (books (start_block a ns2))"
    unfolding books_def start_block_def by (intro auditedI) auto
  also have "audited (books (start_block a ns2)) (books st1)"
    using audited_rfold [OF 3, where p = books] receive_coinbase_audited by simp
  also have "audited (books st1) (books st)"
    using audited_rfold [OF 4, where p = books] block_tx_audited by simp
  finally show ?thesis .
qed

lemma block_index_only:
  "putBlockInputs A height h b ns = Inr ns' \<Longrightarrow> only_buckets other_buckets ns ns'"
  "putBlockDisabledCTAUTRootCoins height h ops ns = Inr ns' \<Longrightarrow> only_buckets other_buckets ns ns'"
  "putBlockOutputs height h ops ns = Inr ns' \<Longrightarrow> only_buckets other_buckets ns ns'"
  "putImmatureCoinbaseOutput height h m ns = Inr ns' \<Longrightarrow> only_buckets other_buckets ns ns'"
  "putImmatureOutput height h m ns = Inr ns' \<Longrightarrow> only_buckets other_buckets ns ns'"
  by (auto simp: putBlockInputs_def putBlockDisabledCTAUTRootCoins_def putBlockOutputs_def
      putImmatureCoinbaseOutput_def putImmatureOutput_def Let_def Inr_iffs
      intro: only_buckets_put)

lemma index_block_audited:
  assumes "index_block A block st = Inr st'"
  shows "audited (books st) (books st')"
    and "bs_coinbase st' = bs_coinbase st" "bs_transfer st' = bs_transfer st"
proof -
  obtain ns1 ns2 ns3 where
    1: "(case bs_inputs st of None \<Rightarrow> Inr (bs_ns st)
         | Some b \<Rightarrow> putBlockInputs A (blk_Height block) (blk_Hash block) b (bs_ns st)) = Inr ns1" and
    2: "(if bs_disabled st = [] then Inr ns1 else putBlockDisabledCTAUTRootCoins
           (blk_Height block) (blk_Hash block) (bs_disabled st) ns1) = Inr ns2" and
    3: "(if bs_outputs st = [] then Inr ns2 else putBlockOutputs
           (blk_Height block) (blk_Hash block) (bs_outputs st) ns2) = Inr ns3" and
    st: "st' = st\<lparr>bs_ns := ns3\<rparr>"
    using assms by (auto simp: index_block_def Let_def rbind_Inr_iff)
  have "only_buckets other_buckets (bs_ns st) ns1"
    using 1 by (auto dest: block_index_only split: option.splits)
  moreover have "only_buckets other_buckets ns1 ns2"
    using 2 by (auto dest: block_index_only split: if_splits)
  moreover have "only_buckets other_buckets ns2 ns3"
    using 3 by (auto dest: block_index_only split: if_splits)
  ultimately have o: "only_buckets other_buckets (bs_ns st) ns3"
    by (blast intro: only_buckets_trans)
  show "audited (books st) (books st')"
    unfolding books_def st by (rule auditedI) (use o in auto)
  show "bs_coinbase st' = bs_coinbase st" "bs_transfer st' = bs_transfer st" by (simp_all add: st)
qed

section \<open>Maturity and rings\<close>

lemma mature_coinbase_output_balanced:
  "mature_coinbase_output A out s = Inr s' \<Longrightarrow> balanced s s'"
  by (cases s) (auto simp: mature_coinbase_output_def Let_def rbind_Inr_iff balanced_def acct_ok_coins)

lemma mature_coinbase_block_balanced:
  assumes "mature_coinbase_block A base ih s = Inr s'"
  shows "balanced s s'"
proof -
  obtain m a ns ns' where r: "rfold (mature_coinbase_output A) m s = Inr (a, ns)" "s' = (a, ns')"
    using assms
    by (cases s; cases ih) (auto simp: mature_coinbase_block_def Let_def rbind_Inr_iff)
  have "balanced s (a, ns)"
    using balanced_rfold [OF r(1), where p = "\<lambda>x. x"] mature_coinbase_output_balanced by simp
  then show ?thesis by (simp add: r(2) balanced_def)
qed

lemma mature_coinbase_balanced:
  assumes "mature_coinbase A K block hs s = Inr s'"
  shows "balanced s s'"
  using assms
  by (auto simp: mature_coinbase_def Let_def Inr_iffs mature_coinbase_block_balanced
      dest!: balanced_rfold [where p = "\<lambda>x. x"])

lemma mature_token_acct:
  "mature_token A key utxo a ns = Inr a' \<Longrightarrow> acct_ok a \<Longrightarrow> acct_ok a'"
  by (auto simp: mature_token_def Let_def Inr_iffs acct_ok_token)

lemma mature_transfer_balanced: "mature_transfer A out s = Inr s' \<Longrightarrow> balanced s s'"
  by (cases s; cases out)
    (auto simp: mature_transfer_def Let_def rbind_Inr_iff balanced_def
      dest!: mature_token_acct intro: acct_ok_coins)

lemma mature_transfers_balanced:
  "rfold (mature_transfer A) m s = Inr s' \<Longrightarrow> balanced s s'"
  by (drule balanced_rfold [where p = "\<lambda>x. x"]) (auto intro: mature_transfer_balanced)

lemma mature_group_balanced:
  assumes "mature_group A height p1 p0 s = Inr s'"
  shows "balanced s s'"
proof -
  obtain h1 v1 c1 t1 h0 v0 c0 t0 a ns where p: "p1 = (h1, v1, c1, t1)" "p0 = (h0, v0, c0, t0)"
    "s = (a, ns)" by (cases p1; cases p0; cases s)
  from assms obtain ns1 a2 ns2 ns3 a4 ns4 ns5 where
    "rfold (mature_transfer A) (by_outpoint t1) (a, ns1) = Inr (a2, ns2)"
    "rfold (mature_transfer A) t0 (a2, ns3) = Inr (a4, ns4)" "s' = (a4, ns5)"
    by (auto simp: mature_group_def p Let_def rbind_Inr_iff)
  then show ?thesis
    by (auto simp: p balanced_def dest!: mature_transfers_balanced)
qed

lemma close_group_balanced:
  assumes "close_group A B K M block extra st = Inr (done, st')"
  shows "balanced (books st) (books st')"
  using assms
  by (auto simp: close_group_def Let_def Inr_iffs books_def balanced_def split: prod.splits
      dest!: mature_group_balanced)

lemma finish_block_balanced:
  assumes "finish_block A block closing st = Inr s'"
  shows "balanced (books st) s'"
  using assms
  by (auto simp: finish_block_def Let_def Inr_iffs books_def balanced_def
      dest!: mature_transfers_balanced)

section \<open>InsertBlock as a whole\<close>

lemma InsertBlock_phases:
  assumes "InsertBlock A B K M now block extra hs ns = Inr ns'"
  obtains a st1 st2 a3 ns3 closing dne st4 a5 ns5 where
    "load_acct ns = Inr a" "scan_block A B K M now block a ns = Inr st1"
    "index_block A block st1 = Inr st2"
    "mature_coinbase A K block hs (books st2) = Inr (a3, ns3)"
    "closes_group K (blk_Height block) = Inr closing"
    "(if closing then close_group A B K M block extra (st2\<lparr>bs_acct := a3, bs_ns := ns3\<rparr>)
      else Inr (False, st2\<lparr>bs_acct := a3, bs_ns := ns3\<rparr>)) = Inr (dne, st4)"
    "(if dne then Inr (books st4) else finish_block A block closing st4) = Inr (a5, ns5)"
    "ns' = save_acct a5 ns5"
proof -
  have "\<exists>a st1 st2 a3 ns3 closing done st4 a5 ns5. load_acct ns = Inr a \<and>
    scan_block A B K M now block a ns = Inr st1 \<and> index_block A block st1 = Inr st2 \<and>
    mature_coinbase A K block hs (books st2) = Inr (a3, ns3) \<and>
    closes_group K (blk_Height block) = Inr closing \<and>
    (if closing then close_group A B K M block extra (st2\<lparr>bs_acct := a3, bs_ns := ns3\<rparr>)
      else Inr (False, st2\<lparr>bs_acct := a3, bs_ns := ns3\<rparr>)) = Inr (done, st4) \<and>
    (if done then Inr (books st4) else finish_block A block closing st4) = Inr (a5, ns5) \<and>
    ns' = save_acct a5 ns5"
    using assms by (fastforce simp: InsertBlock_def books_def rbind_Inr_iff split: if_splits)
  then show thesis using that by blast
qed

lemma InsertBlock_keeps_books:
  assumes "InsertBlock A B K M now block extra hs ns = Inr ns'" and "books_ok ns"
  shows "books_ok ns'"
proof -
  obtain a st1 st2 a3 ns3 closing dne st4 a5 ns5 where p:
    "load_acct ns = Inr a" "scan_block A B K M now block a ns = Inr st1"
    "index_block A block st1 = Inr st2"
    "mature_coinbase A K block hs (books st2) = Inr (a3, ns3)"
    "closes_group K (blk_Height block) = Inr closing"
    "(if closing then close_group A B K M block extra (st2\<lparr>bs_acct := a3, bs_ns := ns3\<rparr>)
      else Inr (False, st2\<lparr>bs_acct := a3, bs_ns := ns3\<rparr>)) = Inr (dne, st4)"
    "(if dne then Inr (books st4) else finish_block A block closing st4) = Inr (a5, ns5)"
    "ns' = save_acct a5 ns5"
    using assms(1) by (rule InsertBlock_phases)
  have "balanced (a, ns) (books st1)" using scan_block_audited [OF p(2)] by (simp add: audited_def)
  also have "balanced (books st1) (books st2)"
    using index_block_audited(1) [OF p(3)] by (simp add: audited_def)
  also have "balanced (books st2) (a3, ns3)" by (rule mature_coinbase_balanced [OF p(4)])
  also have "balanced (a3, ns3) (books st4)"
    using p(6) by (auto simp: books_def split: if_splits dest!: close_group_balanced)
  also have "balanced (books st4) (a5, ns5)"
    using p(7) by (auto split: if_splits dest!: finish_block_balanced)
  finally have "balanced (a, ns) (a5, ns5)" .
  then show ?thesis
    using assms(2) p(1) by (auto simp: p(8) books_ok_def balanced_def)
qed

text \<open>
  A block that closes no ring group and matures no coinbase output leaves nothing spendable that
  was not, so the books and the buckets stay in agreement.
\<close>

definition quiet_block :: "crypto \<Rightarrow> i32 \<Rightarrow> bool" where
  "quiet_block K height \<longleftrightarrow>
     closes_group K height = Inr False \<and>
     (sint height < sint (CoinbaseMaturity K) \<or>
      i32_rem (height - CoinbaseMaturity K + 1) (GetBlockNumPerRingGroup K height) \<noteq> Inr 0)"

lemma InsertBlock_quiet_ledger:
  assumes "InsertBlock A B K M now block extra hs ns = Inr ns'" and "ledger_ok ns"
    and "quiet_block K (blk_Height block)"
  shows "ledger_ok ns'"
proof -
  obtain a st1 st2 a3 ns3 closing dne st4 a5 ns5 where p:
    "load_acct ns = Inr a" "scan_block A B K M now block a ns = Inr st1"
    "index_block A block st1 = Inr st2"
    "mature_coinbase A K block hs (books st2) = Inr (a3, ns3)"
    "closes_group K (blk_Height block) = Inr closing"
    "(if closing then close_group A B K M block extra (st2\<lparr>bs_acct := a3, bs_ns := ns3\<rparr>)
      else Inr (False, st2\<lparr>bs_acct := a3, bs_ns := ns3\<rparr>)) = Inr (dne, st4)"
    "(if dne then Inr (books st4) else finish_block A block closing st4) = Inr (a5, ns5)"
    "ns' = save_acct a5 ns5"
    using assms(1) by (rule InsertBlock_phases)
  have c: "\<not> closing" using p(5) assms(3) by (simp add: quiet_block_def)
  have m: "(a3, ns3) = books st2"
    using p(4) assms(3) by (auto simp: mature_coinbase_def Let_def Inr_iffs quiet_block_def)
  have f: "finish_block A block False (st2\<lparr>bs_acct := a3, bs_ns := ns3\<rparr>) = Inr (a5, ns5)"
    using p(6,7) c by auto
  have "audited (a, ns) (books st1)" by (rule scan_block_audited [OF p(2)])
  also have "audited (books st1) (books st2)" by (rule index_block_audited(1) [OF p(3)])
  also have "audited (books st2) (a5, ns5)"
  proof -
    have "a5 = a3 \<and> only_buckets other_buckets ns3 ns5"
      using f
      by (auto simp: finish_block_def put_coinbase_maps_def Let_def Inr_iffs
          dest!: block_index_only intro: only_buckets_trans)
    then show ?thesis unfolding m [symmetric] by (intro auditedI) auto
  qed
  finally show ?thesis
    using assms(2) ledger_ok_filed [OF p(1)] by (auto simp: p(8) audited_def intro: ledger_ok_save)
qed

section \<open>The genesis block\<close>

lemma genesis_output_balance:
  assumes "genesis_output A K M block cb iout (icb, bal, m, ops) = Inr (icb', bal', m', ops')"
  shows "bal' - icb' = bal - icb"
  using assms by (cases iout) (auto simp: genesis_output_def Let_def Inr_iffs)

lemma InsertGenesisBlock_phases:
  assumes "InsertGenesisBlock A B K M block ns = Inr ns'"
  obtains bal sp icb itr un icb' bal' m ops ns1 where
    "fetchMinedBalance ns = Inr bal" "fetchSpendableBalance ns = Inr sp"
    "fetchImmatureCoinbaseBalance ns = Inr icb" "fetchImmatureTransferBalance ns = Inr itr"
    "fetchUnconfirmedBalance ns = Inr un" "blk_TxRecords block \<noteq> []"
    "rfold (genesis_output A K M block (rec_MsgTx (hd (blk_TxRecords block))))
       (List.enumerate 0 (msg_TxOuts (rec_MsgTx (hd (blk_TxRecords block))))) (icb, bal, [], [])
     = Inr (icb', bal', m, ops)"
    "only_buckets other_buckets ns ns1"
    "ns' = putMinedBalance bal' (putUnconfirmedBalance un (putImmatureTransferBalance itr
       (putImmatureCoinbaseBalance icb' (putSpendableBalance sp ns1))))"
proof -
  obtain bal sp icb itr un icb' bal' m ops n1 n2 n3 where p:
    "fetchMinedBalance ns = Inr bal" "fetchSpendableBalance ns = Inr sp"
    "fetchImmatureCoinbaseBalance ns = Inr icb" "fetchImmatureTransferBalance ns = Inr itr"
    "fetchUnconfirmedBalance ns = Inr un" "blk_TxRecords block \<noteq> []"
    "putBlockRecord B (Some block) ns = Inr n1"
    "rfold (genesis_output A K M block (rec_MsgTx (hd (blk_TxRecords block))))
       (List.enumerate 0 (msg_TxOuts (rec_MsgTx (hd (blk_TxRecords block))))) (icb, bal, [], [])
     = Inr (icb', bal', m, ops)"
    "(if ops = [] then Inr n1
      else putImmatureCoinbaseOutput (blk_Height block) (blk_Hash block) m n1) = Inr n2"
    "(if ops = [] then Inr n2
      else putBlockOutputs (blk_Height block) (blk_Hash block) ops n2) = Inr n3"
    "ns' = putMinedBalance bal' (putUnconfirmedBalance un (putImmatureTransferBalance itr
       (putImmatureCoinbaseBalance icb' (putSpendableBalance sp n3))))"
    using assms
    by (auto simp: InsertGenesisBlock_def Let_def rbind_Inr_iff hd_conv_nth split: prod.splits)
  have "only_buckets other_buckets n1 n2" "only_buckets other_buckets n2 n3"
    using p(9,10) by (auto dest: block_index_only split: if_splits)
  then have "only_buckets other_buckets ns n3"
    using putBlockRecord_only [OF p(7)] by (blast intro: only_buckets_trans)
  then show thesis using that p(1-6,8,11) by blast
qed

lemma InsertGenesisBlock_keeps:
  assumes "InsertGenesisBlock A B K M block ns = Inr ns'"
  shows "books_ok ns \<Longrightarrow> books_ok ns'" and "ledger_ok ns \<Longrightarrow> ledger_ok ns'"
proof -
  obtain bal sp icb itr un icb' bal' m ops ns1 where p:
    "fetchMinedBalance ns = Inr bal" "fetchSpendableBalance ns = Inr sp"
    "fetchImmatureCoinbaseBalance ns = Inr icb" "fetchImmatureTransferBalance ns = Inr itr"
    "fetchUnconfirmedBalance ns = Inr un" "blk_TxRecords block \<noteq> []"
    "rfold (genesis_output A K M block (rec_MsgTx (hd (blk_TxRecords block))))
       (List.enumerate 0 (msg_TxOuts (rec_MsgTx (hd (blk_TxRecords block))))) (icb, bal, [], [])
     = Inr (icb', bal', m, ops)"
    "only_buckets other_buckets ns ns1"
    "ns' = putMinedBalance bal' (putUnconfirmedBalance un (putImmatureTransferBalance itr
       (putImmatureCoinbaseBalance icb' (putSpendableBalance sp ns1))))"
    using assms by (rule InsertGenesisBlock_phases)
  note q = p(1-5) [unfolded balance_defs]
  have "bal' - icb' = bal - icb"
    using rfold_frame [OF p(7), where g = "\<lambda>s. fst (snd s) - fst s"] genesis_output_balance
    by fastforce
  then have d: "bal' = bal - icb + icb'" by (simp add: algebra_simps)
  show "books_ok ns \<Longrightarrow> books_ok ns'"
    using q by (auto simp: books_ok_def load_acct_def p(9) acct_ok_def d balance_defs
        only_bucketsD [OF p(8)] ctaut_defs algebra_simps)
  show "ledger_ok ns \<Longrightarrow> ledger_ok ns'"
  proof -
    assume l: "ledger_ok ns"
    then have "ledger_ok ns1" using ledger_ok_only [OF p(8)] by simp
    then show "ledger_ok ns'"
      using q only_bucketsD(1) [OF p(8)]
      by (simp add: p(9) balance_defs ledger_ok_def buckets_ok_iff nested_get_def nested_def
          bucket_amount_def)
  qed
qed

section \<open>A new store\<close>

lemma createStore_books:
  assumes "createStore now ns = Inr ns'"
  shows "books_ok ns'"
proof -
  have e: "namespace_empty ns" using assms by (auto simp: createStore_def split: if_splits)
  have f: "fresh_store ns'" using createStore_fresh [OF e, of now] assms by auto
  have "ns_ctaut n' = ns_ctaut n"
    if "rfold (\<lambda>(b, msg). CreateBucket msg b) created_buckets n = Inr n'" for n n'
    by (rule rfold_frame [OF that, where g = ns_ctaut])
      (auto simp: CreateBucket_def split: option.splits)
  then have "ns_ctaut ns' = ns_ctaut ns"
    using assms by (auto simp: createStore_def e createBuckets_def putVersion_def Let_def)
  then have "fetch_ctaut k ns' = Map.empty" for k
    using e by (simp add: fetch_ctaut_def namespace_empty_iff)
  then show ?thesis
    using f by (simp add: books_ok_def load_acct_def balance_defs ctaut_defs fresh_store_def
        acct_ok_def ct_get_def)
qed

section \<open>Heights\<close>

lemma smod_i32:
  assumes "0 \<le> sint (h :: i32)" and "0 < sint (n :: i32)"
  shows "sint (word_of_int (sint h smod sint n) :: i32) = sint h mod sint n"
proof -
  have m: "sint h smod sint n = sint h mod sint n"
    using assms by (cases "sint h = 0") (auto simp: signed_modulo_int_def)
  have "sint n < 2 ^ 31" using sint_less [of n] by simp
  moreover have "sint h mod sint n < sint n" "0 \<le> sint h mod sint n"
    using assms(2) by simp_all
  ultimately have "sint h mod sint n < 2 ^ 31" "0 \<le> sint h mod sint n" by linarith+
  then show ?thesis by (simp add: m sint_sbintrunc' signed_take_bit_int_eq_self)
qed

lemma closes_group_mod:
  assumes "0 \<le> sint height" and "0 < sint (GetBlockNumPerRingGroup K height)"
  shows "closes_group K height =
    Inr ((sint height + 1) mod sint (GetBlockNumPerRingGroup K height) = 0)"
proof -
  let ?n = "GetBlockNumPerRingGroup K height"
  have "?n \<noteq> 0" using assms(2) by auto
  have d: "sint (?n - 1) = sint ?n - 1"
  proof -
    have "sint ?n < 2 ^ 31" using sint_less [of ?n] by simp
    then show ?thesis
      using assms(2) by (simp add: sint_word_ariths(2) signed_take_bit_int_eq_self)
  qed
  have "(word_of_int (sint height smod sint ?n) :: i32) = ?n - 1
      \<longleftrightarrow> sint height mod sint ?n = sint ?n - 1"
    by (metis d smod_i32 [OF assms] signed_word_eqI)
  also have "\<dots> \<longleftrightarrow> (sint height + 1) mod sint ?n = 0"
  proof -
    let ?q = "sint height div sint ?n" and ?r = "sint height mod sint ?n"
    have r: "0 \<le> ?r" "?r < sint ?n" using assms by simp_all
    have "(sint height + 1) mod sint ?n = (?r + 1) mod sint ?n" by (simp add: mod_add_left_eq)
    then show ?thesis
      using r by (cases "?r + 1 = sint ?n") (auto simp: mod_pos_pos_trivial)
  qed
  finally show ?thesis using \<open>?n \<noteq> 0\<close> by (simp add: closes_group_def i32_rem_def Let_def)
qed

end
