(* ===== verification/RollbackBooks.thy ===== *)
theory RollbackBooks
  imports Rollback Books
begin

text \<open>
  What \<open>rollback\<close> keeps: the books stay balanced through every step; the ring group that is
  reopened and the outputs that are dropped also leave the spendable and unconfirmed balances in
  agreement with their buckets. Spending a member in a block and undoing it gives the balances
  and the buckets back.
\<close>

section \<open>Frames\<close>

lemma found_iff: "found r = Inr x \<longleftrightarrow> r = Inr x \<or> (x = None \<and> (\<exists>e. r = Inl e \<and> (\<forall>p. e \<noteq> GoPanic p)))"
  by (auto simp: found_def split: sum.splits go_error.splits)

lemma move_tx_only:
  assumes "move_tx A assertion ex del put note c ns = Inr ns'"
    and "\<And>n n'. del c n = Inr n' \<Longrightarrow> only_buckets B n n'"
    and "\<And>v n n'. put c v n = Inr n' \<Longrightarrow> only_buckets B n n'"
  shows "only_buckets B ns ns'"
  using assms(1)
  by (auto simp: move_tx_def Inr_iffs dest!: assms(2,3) intro: only_buckets_trans)

lemma each_relevant_only:
  assumes "each_relevant step k ns = Inr ns'"
    and "\<And>c n n'. step c n = Inr n' \<Longrightarrow> only_buckets B n n'"
  shows "only_buckets B ns ns'"
  using assms(1)
  by (auto simp: each_relevant_def rbind_Inr_iff
      dest!: only_buckets_rfold [where p = "\<lambda>x. x" and B = B] assms(2))

abbreviation three_tx :: "bucket set" where
  "three_tx \<equiv> {bucketUnconfirmedTx, bucketInvalidTx, bucketConfirmedTx}"

lemma raw_tx_three:
  "deleteRawUnconfirmedTx k ns = Inr ns' \<Longrightarrow> only_buckets three_tx ns ns'"
  "deleteRawInvalidTx k ns = Inr ns' \<Longrightarrow> only_buckets three_tx ns ns'"
  "deleteRawConfirmedTx k ns = Inr ns' \<Longrightarrow> only_buckets three_tx ns ns'"
  "putRawInvalidTx now k v ns = Inr ns' \<Longrightarrow> only_buckets three_tx ns ns'"
  "putRawUnconfirmedTx now k v ns = Inr ns' \<Longrightarrow> only_buckets three_tx ns ns'"
  by (auto simp: raw_tx_defs rbind_Inr_iff intro: only_buckets_delete only_buckets_put)

lemma move_txs_only:
  "move_tx A b existsRawUnconfirmedTx deleteRawUnconfirmedTx (putRawInvalidTx now) note c ns = Inr ns'
   \<Longrightarrow> only_buckets three_tx ns ns'"
  "move_tx A b existsRawConfirmedTx deleteRawConfirmedTx (putRawInvalidTx now) note c ns = Inr ns'
   \<Longrightarrow> only_buckets three_tx ns ns'"
  "move_tx A b existsRawConfirmedTx deleteRawConfirmedTx (putRawUnconfirmedTx now) note c ns = Inr ns'
   \<Longrightarrow> only_buckets three_tx ns ns'"
  "move_tx A b existsRawInvalidTx deleteRawInvalidTx (putRawUnconfirmedTx now) note c ns = Inr ns'
   \<Longrightarrow> only_buckets three_tx ns ns'"
  by (erule move_tx_only; erule raw_tx_three)+

lemma invalidate_relevant_only:
  assumes "invalidate_relevant A now i confirmed k ns = Inr ns'"
  shows "only_buckets three_tx ns ns'"
  using assms unfolding invalidate_relevant_def
  by (elim each_relevant_only)
    (auto simp: rbind_Inr_iff split: if_splits dest!: move_txs_only intro: only_buckets_trans)

lemma reinstate_relevant_only:
  assumes "reinstate_relevant A now i assertion k ns = Inr ns'"
  shows "only_buckets three_tx ns ns'"
  using assms unfolding reinstate_relevant_def
  by (elim each_relevant_only)
    (auto simp: rbind_Inr_iff dest!: move_txs_only intro: only_buckets_trans)

lemma three_tx_other: "only_buckets three_tx ns ns' \<Longrightarrow> only_buckets other_buckets ns ns'"
  by (erule only_buckets_mono) auto


section \<open>The accounts through each step\<close>

lemma acct_ok_token_back:
  assumes "acct_ok a"
  shows "acct_ok (a\<lparr>a_rcSpendable := ct_sub i n (a_rcSpendable a), a_rcImmature := ct_add i n (a_rcImmature a)\<rparr>)"
    "acct_ok (a\<lparr>a_rcUnconfirmed := ct_sub i n (a_rcUnconfirmed a), a_rcImmature := ct_add i n (a_rcImmature a)\<rparr>)"
    "acct_ok (a\<lparr>a_ctSpendable := ct_sub i n (a_ctSpendable a), a_ctImmature := ct_add i n (a_ctImmature a)\<rparr>)"
    "acct_ok (a\<lparr>a_ctUnconfirmed := ct_sub i n (a_ctUnconfirmed a), a_ctImmature := ct_add i n (a_ctImmature a)\<rparr>)"
    "acct_ok (a\<lparr>a_rcImmature := ct_sub i n (a_rcImmature a), a_rcNum := ct_sub i n (a_rcNum a)\<rparr>)"
    "acct_ok (a\<lparr>a_ctImmature := ct_sub i n (a_ctImmature a), a_ctBal := ct_sub i n (a_ctBal a)\<rparr>)"
    "acct_ok (a\<lparr>a_rcSpendable := ct_add i n (a_rcSpendable a), a_rcNum := ct_add i n (a_rcNum a)\<rparr>)"
    "acct_ok (a\<lparr>a_ctSpendable := ct_add i n (a_ctSpendable a), a_ctBal := ct_add i n (a_ctBal a)\<rparr>)"
    "acct_ok (a\<lparr>a_rcNum := ct_add i n (a_rcNum a), a_rcSpendable := ct_add i n (a_rcSpendable a)\<rparr>)"
  using assms by (auto simp: acct_ok_def)

lemma acct_ok_coins_back:
  assumes "acct_ok a"
  shows "acct_ok (a\<lparr>a_spendable := a_spendable a - v, a_immatureTR := a_immatureTR a + v\<rparr>)"
    "acct_ok (a\<lparr>a_unconfirmed := a_unconfirmed a - v, a_immatureTR := a_immatureTR a + v\<rparr>)"
    "acct_ok (a\<lparr>a_immatureTR := a_immatureTR a + v, a_balance := a_balance a + v\<rparr>)"
    "acct_ok (a\<lparr>a_immatureCB := a_immatureCB a - v, a_balance := a_balance a - v\<rparr>)"
    "acct_ok (a\<lparr>a_immatureTR := a_immatureTR a - v, a_balance := a_balance a - v\<rparr>)"
    "acct_ok (a\<lparr>a_spendable := a_spendable a + v, a_balance := a_balance a + v\<rparr>)"
    "acct_ok (a\<lparr>a_spendable := a_spendable a - v, a_immatureCB := a_immatureCB a + v\<rparr>)"
    "acct_ok (a\<lparr>a_unconfirmed := a_unconfirmed a - v, a_immatureCB := a_immatureCB a + v\<rparr>)"
    "acct_ok (a\<lparr>a_unconfirmed := a_unconfirmed a + v, a_balance := a_balance a + v\<rparr>)"
  using assms by (auto simp: acct_ok_def)

lemma demote_token_ok:
  assumes "demote_token A fromSpendable t op (a, ns) = Inr (a', ns')"
  shows "only_buckets other_buckets ns ns'" and "acct_ok a \<Longrightarrow> acct_ok a'"
    and "a_spendable a' = a_spendable a" and "a_unconfirmed a' = a_unconfirmed a"
proof -
  have "only_buckets other_buckets ns ns' \<and> (acct_ok a \<longrightarrow> acct_ok a') \<and>
      a_spendable a' = a_spendable a \<and> a_unconfirmed a' = a_unconfirmed a"
  proof (cases fromSpendable)
    case True
    then show ?thesis
      using assms by (auto simp: demote_token_def Let_def Inr_iffs acct_ok_token_back)
  next
    case False
    then show ?thesis
      using assms
      by (auto simp: demote_token_def Let_def Inr_iffs acct_ok_token_back
          dest!: putRawCTAUTCoin_only)
  qed
  then show "only_buckets other_buckets ns ns'" and "acct_ok a \<Longrightarrow> acct_ok a'"
    and "a_spendable a' = a_spendable a" and "a_unconfirmed a' = a_unconfirmed a"
    by simp_all
qed

lemma restore_token_ok:
  assumes "restore_token A t op (a, ns) = Inr (a', ns')"
  shows "only_buckets other_buckets ns ns'" and "acct_ok a \<Longrightarrow> acct_ok a'"
    and "a_spendable a' = a_spendable a" and "a_unconfirmed a' = a_unconfirmed a"
proof -
  have "only_buckets other_buckets ns ns' \<and> (acct_ok a \<longrightarrow> acct_ok a') \<and>
      a_spendable a' = a_spendable a \<and> a_unconfirmed a' = a_unconfirmed a"
    using assms
    by (auto simp: restore_token_def Let_def Inr_iffs acct_ok_token_back
        dest!: putRawCTAUTCoin_only)
  then show "only_buckets other_buckets ns ns'" and "acct_ok a \<Longrightarrow> acct_ok a'"
    and "a_spendable a' = a_spendable a" and "a_unconfirmed a' = a_unconfirmed a"
    by simp_all
qed

definition gbooks :: "group_state \<Rightarrow> acct \<times> namespace" where
  "gbooks g = (gs_acct g, gs_ns g)"

text \<open>An output taken from a bucket after steps that only touched other buckets.\<close>

lemma filed_take_spendable_later:
  assumes "only_buckets other_buckets ns ns1" and "filed (a, ns)"
    and "fetchSpendableTXO ns (TxHash op) (OutIndex op) = Inr (Some t)"
    and "deleteSpendableTXO (op_key op) ns1 = Inr ns2"
    and "a_spendable a' = a_spendable a - txo_Amount t" "a_unconfirmed a' = a_unconfirmed a"
  shows "filed (a', ns2)"
proof -
  obtain v where "existsSpendableTXO ns (op_key op) = Inr (Some v)"
    "SpendableTXO_Deserialize op (Some v) = Inr t"
    using fetchSpendableTXO_entry [OF assms(3)] by (auto simp: existsSpendableTXO_def)
  moreover have "existsSpendableTXO ns1 (op_key op) = existsSpendableTXO ns (op_key op)"
    unfolding existsSpendableTXO_def by (rule only_buckets_get [OF assms(1)]) simp
  moreover have "filed (a, ns1)" by (rule filed_only [OF assms(1,2)]) simp_all
  ultimately show ?thesis using filed_take_spendable [OF _ _ _ assms(4-6)] by simp
qed

lemma filed_take_unconfirmed_later:
  assumes "only_buckets other_buckets ns ns1" and "filed (a, ns)"
    and "fetchUnconfirmedTXO ns (TxHash op) (OutIndex op) = Inr (Some u)"
    and "deleteUnconfirmedTXO (op_key op) ns1 = Inr ns2"
    and "a_unconfirmed a' = a_unconfirmed a - txo_Amount (utx_txo u)" "a_spendable a' = a_spendable a"
  shows "filed (a', ns2)"
proof -
  obtain v where "existsUnconfirmedTXO ns (op_key op) = Inr (Some v)"
    "UnconfirmedTXO_Deserialize op (Some v) = Inr u"
    using assms(3)
    by (auto simp: existsUnconfirmedTXO_def fetchUnconfirmedTXO_def nonempty_def Inr_iffs
        split: option.splits if_splits)
  moreover have "existsUnconfirmedTXO ns1 (op_key op) = existsUnconfirmedTXO ns (op_key op)"
    unfolding existsUnconfirmedTXO_def by (rule only_buckets_get [OF assms(1)]) simp
  moreover have "filed (a, ns1)" by (rule filed_only [OF assms(1,2)]) simp_all
  ultimately show ?thesis using filed_take_unconfirmed [OF _ _ _ assms(4-6)] by simp
qed

lemma demote_output_cases:
  assumes "demote_output A now i op s = Inr s'"
  obtains "gs_acct s' = gs_acct s" "gs_ns s' = gs_ns s"
  | t ns1 ns2 where
      "fetchSpendableTXO (gs_ns s) (TxHash op) (OutIndex op) = Inr (Some t)"
      "demote_token A True t (txo_TxOutput t) (gs_acct s
        \<lparr>a_spendable := a_spendable (gs_acct s) - txo_Amount t,
         a_immatureTR := a_immatureTR (gs_acct s) + txo_Amount t\<rparr>, gs_ns s)
        = Inr (gs_acct s', ns1)"
      "invalidate_relevant A now i False (op_key op) ns1 = Inr ns2"
      "deleteSpendableTXO (op_key op) ns2 = Inr (gs_ns s')"
  | u ns1 ns2 where
      "fetchUnconfirmedTXO (gs_ns s) (TxHash op) (OutIndex op) = Inr (Some u)"
      "demote_token A False (utx_txo u) op (gs_acct s
        \<lparr>a_unconfirmed := a_unconfirmed (gs_acct s) - txo_Amount (utx_txo u),
         a_immatureTR := a_immatureTR (gs_acct s) + txo_Amount (utx_txo u)\<rparr>, gs_ns s)
        = Inr (gs_acct s', ns1)"
      "invalidate_relevant A now i False (op_key op) ns1 = Inr ns2"
      "deleteUnconfirmedTXO (op_key op) ns2 = Inr (gs_ns s')"
  | c ns1 ns2 where
      "fetchConfirmedTXO (gs_ns s) (TxHash op) (OutIndex op) = Inr (Some c)"
      "demote_token A False (utx_txo (ctx_unconfirmed c)) op (gs_acct s
        \<lparr>a_immatureTR := a_immatureTR (gs_acct s) + txo_Amount (utx_txo (ctx_unconfirmed c)),
         a_balance := a_balance (gs_acct s) + txo_Amount (utx_txo (ctx_unconfirmed c))\<rparr>, gs_ns s)
        = Inr (gs_acct s', ns1)"
      "invalidate_relevant A now i True (op_key op) ns1 = Inr ns2"
      "deleteConfirmedTXO (op_key op) ns2 = Inr (gs_ns s')"
  using assms unfolding demote_output_def
  by (cases "map_of (gs_coinbase s) op") (auto simp: Let_def Inr_iffs found_iff)

lemma demote_output_audited:
  assumes "demote_output A now i op s = Inr s'"
  shows "audited (gbooks s) (gbooks s')"
  using assms
proof (cases rule: demote_output_cases)
  case (2 t ns1 ns2)
  note d = demote_token_ok [OF 2(2)]
  have o: "only_buckets other_buckets (gs_ns s) ns2"
    using d(1) three_tx_other [OF invalidate_relevant_only [OF 2(3)]] by (rule only_buckets_trans)
  show ?thesis
    using filed_take_spendable_later [OF o _ 2(1,4)] d(2-)
    by (auto simp: gbooks_def audited_def balanced_def acct_ok_coins_back)
next
  case (3 u ns1 ns2)
  note d = demote_token_ok [OF 3(2)]
  have o: "only_buckets other_buckets (gs_ns s) ns2"
    using d(1) three_tx_other [OF invalidate_relevant_only [OF 3(3)]] by (rule only_buckets_trans)
  show ?thesis
    using filed_take_unconfirmed_later [OF o _ 3(1,4)] d(2-)
    by (auto simp: gbooks_def audited_def balanced_def acct_ok_coins_back)
next
  case (4 c ns1 ns2)
  note d = demote_token_ok [OF 4(2)]
  have "only_buckets other_buckets ns2 (gs_ns s')"
    using 4(4) unfolding deleteConfirmedTXO_def by (rule only_buckets_delete) simp
  then have o: "only_buckets other_buckets (gs_ns s) (gs_ns s')"
    using d(1) three_tx_other [OF invalidate_relevant_only [OF 4(3)]]
    by (blast intro: only_buckets_trans)
  show ?thesis
    unfolding gbooks_def by (rule auditedI [OF o]) (use d(2-) in \<open>auto simp: acct_ok_coins_back\<close>)
qed (simp add: gbooks_def)

lemma demote_block_audited:
  assumes "demote_block A now BH keys i j s = Inr s'"
  shows "audited (snd s) (snd s')"
proof -
  obtain rings a ns where s: "s = (rings, a, ns)" by (cases s)
  consider "s' = s" | ops cb g h ns1 ns2 where
      "rfold (demote_output A now i) ops \<lparr>gs_acct = a, gs_ns = ns, gs_rings = rings,
         gs_coinbase = cb, gs_transfer = []\<rparr> = Inr g"
      "putImmatureCoinbaseOutput (i - of_nat j) h (gs_coinbase g) (gs_ns g) = Inr ns1"
      "putImmatureOutput (i - of_nat j) h (gs_transfer g) ns1 = Inr ns2"
      "s' = (gs_rings g, gs_acct g, ns2)"
    using assms unfolding demote_block_def
    by (auto simp: s Let_def Inr_iffs)
  then show ?thesis
  proof cases
    case (2 ops cb g h ns1 ns2)
    have "audited (a, ns) (gbooks g)"
      using audited_rfold [OF 2(1), where p = gbooks, OF demote_output_audited]
      by (simp add: gbooks_def)
    also have "audited (gbooks g) (snd s')"
      using block_index_only(4) [OF 2(2)] block_index_only(5) [OF 2(3)]
      by (auto simp: gbooks_def 2(4) intro: auditedI only_buckets_trans)
    finally show ?thesis by (simp add: s)
  qed simp
qed

lemma drop_ring_only: "drop_ring h ns = Inr ns' \<Longrightarrow> only_buckets other_buckets ns ns'"
  by (auto simp: drop_ring_def deleteUTXORing_def deleteRingDetails_def rbind_Inr_iff
      dest!: only_buckets_delete [where B = other_buckets] intro: only_buckets_trans)

lemma reopen_group_audited:
  assumes "reopen_group A K now BH keys i s = Inr s'"
  shows "audited s s'"
proof -
  consider "s' = s" | rings a ns js ns1 where
      "rfold (demote_block A now BH keys i) js ([], s) = Inr (rings, a, ns)"
      "rfold drop_ring rings ns = Inr ns1" "s' = (a, ns1)"
    using assms unfolding reopen_group_def Let_def Inr_iffs by (auto simp: Inr_iffs)
  then show ?thesis
  proof cases
    case (2 rings a ns js ns1)
    have "audited s (a, ns)"
      using audited_rfold [OF 2(1), where p = snd, OF demote_block_audited] by simp
    also have "only_buckets other_buckets ns ns1"
      using only_buckets_rfold [OF 2(2), where p = "\<lambda>x. x"] drop_ring_only by fastforce
    then have "audited (a, ns) (a, ns1)" by (intro auditedI) auto
    finally show ?thesis by (simp add: 2(3))
  qed simp
qed

lemma fold_drop_coinbase:
  "acct_ok a \<Longrightarrow> acct_ok (fold drop_coinbase_output m a)"
  "a_spendable (fold drop_coinbase_output m a) = a_spendable a"
  "a_unconfirmed (fold drop_coinbase_output m a) = a_unconfirmed a"
  by (induction m arbitrary: a) (simp_all add: drop_coinbase_output_def Let_def acct_ok_coins_back)

lemma drop_coinbase_audited:
  assumes "drop_coinbase keys i h s = Inr s'"
  shows "audited s s'"
  using assms
  by (cases s)
    (auto simp: drop_coinbase_def Inr_iffs deleteImmatureCoinbaseOutput_def fold_drop_coinbase
      dest!: only_buckets_delete [where B = other_buckets] intro: auditedI)

lemma drop_transfer_output_audited:
  assumes "drop_transfer_output A out s = Inr s'"
  shows "audited s s'"
proof -
  obtain op t a ns where s: "out = (op, t)" "s = (a, ns)" by (cases out; cases s)
  let ?a = "a\<lparr>a_immatureTR := a_immatureTR a - txo_Amount t, a_balance := a_balance a - txo_Amount t\<rparr>"
  obtain a' ns' where s': "s' = (a', ns')" by (cases s')
  have "only_buckets other_buckets ns ns' \<and> (acct_ok ?a \<longrightarrow> acct_ok a') \<and>
      a_spendable a' = a_spendable a \<and> a_unconfirmed a' = a_unconfirmed a"
    using assms
    by (auto simp: drop_transfer_output_def s s' Let_def Inr_iffs deleteRawCTAUTCoin_def
        acct_ok_token_back(5,6) [of ?a, simplified]
        dest!: only_buckets_delete [where B = other_buckets])
  then show ?thesis unfolding s s' by (intro auditedI) (auto simp: acct_ok_coins_back)
qed

lemma drop_transfer_audited:
  assumes "drop_transfer A keys i h s = Inr s'"
  shows "audited s s'"
proof -
  consider "s' = s" | m a ns ns' where "rfold (drop_transfer_output A) m s = Inr (a, ns)"
      "only_buckets other_buckets ns ns'" "s' = (a, ns')"
    using assms
    by (cases s) (auto simp: drop_transfer_def Inr_iffs deleteImmatureOutput_def
      dest!: only_buckets_delete [where B = other_buckets])
  then show ?thesis
  proof cases
    case (2 m a ns ns')
    have "audited s (a, ns)"
      using audited_rfold [OF 2(1), where p = "\<lambda>x. x"] drop_transfer_output_audited by simp
    also have "audited (a, ns) (a, ns')" by (rule auditedI [OF 2(2)]) auto
    finally show ?thesis by (simp add: 2(3))
  qed simp
qed

section \<open>The books through the inputs\<close>

lemma restore_output_balanced:
  assumes "restore_output A now i b op c s = Inr s'"
  shows "balanced s s'"
  using assms
  by (cases s)
    (auto simp: restore_output_def Let_def Inr_iffs balanced_def acct_ok_coins_back
      dest!: restore_token_ok(2))

lemma restore_member_balanced:
  "restore_member A now i u k s = Inr s' \<Longrightarrow> balanced s s'"
  by (auto simp: restore_member_def Inr_iffs restore_output_balanced)

lemma restore_serial_balanced:
  "restore_serial A now i old u sn s = Inr s' \<Longrightarrow> balanced s s'"
  by (auto simp: restore_serial_def Inr_iffs restore_output_balanced)

lemma restore_ring_balanced:
  assumes "restore_ring A now i us s = Inr s'"
  shows "balanced s s'"
proof -
  obtain old sns where us: "us = (old, sns)" by (cases us)
  from assms obtain u' a ns ns' where
    r: "(case u' of None \<Rightarrow> rfold (restore_member A now i old) [0..<length (ur_IsMy old)] s
         | Some u \<Rightarrow> rfold (restore_serial A now i old u) sns s) = Inr (a, ns)"
    and s': "s' = (a, ns')"
    by (auto simp: restore_ring_def us rbind_Inr_iff)
  have "balanced s (a, ns)"
    using r
    by (auto split: option.splits
        dest!: balanced_rfold [where p = "\<lambda>x. x"] restore_member_balanced restore_serial_balanced)
  then show ?thesis by (simp add: s' balanced_def)
qed

lemma restore_inputs_balanced:
  assumes "restore_inputs A now keys i s = Inr s'"
  shows "balanced s s'"
  using assms
  by (auto simp: restore_inputs_def split: sum.splits go_error.splits
      dest!: balanced_rfold [where p = "\<lambda>x. x"] restore_ring_balanced)

lemma restore_root_coin_audited:
  assumes "restore_root_coin A point s = Inr s'"
  shows "audited s s'"
  using assms
  by (cases s)
    (auto simp: restore_root_coin_def restoreCTAUTCoin_def Let_def Inr_iffs acct_ok_token_back
      dest!: putRawCTAUTCoin_only intro!: auditedI)

lemma restore_root_coins_audited:
  assumes "restore_root_coins A keys i s = Inr s'"
  shows "audited s s'"
proof -
  obtain m a ns ns' where r: "rfold (restore_root_coin A) m s = Inr (a, ns)"
    "only_buckets other_buckets ns ns'" "s' = (a, ns')"
    using assms
    by (auto simp: restore_root_coins_def Let_def rbind_Inr_iff
      deleteBlockDisabledCTAUTRootCoins_def dest!: only_buckets_delete [where B = other_buckets])
  have "audited s (a, ns)"
    using audited_rfold [OF r(1), where p = "\<lambda>x. x"] restore_root_coin_audited by simp
  also have "audited (a, ns) (a, ns')" by (rule auditedI [OF r(2)]) auto
  finally show ?thesis by (simp add: r(3))
qed

lemma unmature_output_balanced:
  assumes "unmature_output A now i op s = Inr s'"
  shows "balanced (snd s) (snd s')"
  using assms
  by (cases s)
    (auto simp: unmature_output_def Let_def Inr_iffs balanced_def acct_ok_coins_back)

lemma unmature_block_balanced:
  assumes "unmature_block A now i h m ii s = Inr s'"
  shows "balanced s s'"
proof -
  consider "s' = s" | ops cb a ns ns' where
      "rfold (unmature_output A now i) ops ([], s) = Inr (cb, a, ns)" "s' = (a, ns')"
    using assms by (cases s) (auto simp: unmature_block_def Inr_iffs)
  then show ?thesis
  proof cases
    case (2 ops cb a ns ns')
    then show ?thesis
      using balanced_rfold [OF 2(1), where p = snd, OF unmature_output_balanced]
      by (simp add: balanced_def)
  qed simp
qed

lemma unmature_coinbase_balanced:
  "unmature_coinbase A K now n i h s = Inr s' \<Longrightarrow> balanced s s'"
  by (auto simp: unmature_coinbase_def Let_def Inr_iffs
      dest!: balanced_rfold [where p = "\<lambda>x. x"] unmature_block_balanced)

section \<open>One block, and rollback as a whole\<close>

lemma undo_block_phases:
  assumes "undo_block A K now BH keys n i s = Inr s'"
  obtains s1 h s2 s3 a4 ns4 ns5 s6 where
    "reopen_group A K now BH keys i s = Inr s1" "height_hash BH keys i = Inr h"
    "drop_coinbase keys i h s1 = Inr s2" "drop_transfer A keys i h s2 = Inr s3"
    "restore_inputs A now keys i s3 = Inr (a4, ns4)"
    "deleteRawBlockWithBlockHeight i ns4 = Inr ns5"
    "restore_root_coins A keys i (a4, ns5) = Inr s6"
    "unmature_coinbase A K now n i h s6 = Inr s'"
  using assms by (auto simp: undo_block_def rbind_Inr_iff)

lemma undo_block_balanced:
  assumes "undo_block A K now BH keys n i s = Inr s'"
  shows "balanced s s'"
proof -
  obtain s1 h s2 s3 a4 ns4 ns5 s6 where p:
    "reopen_group A K now BH keys i s = Inr s1" "height_hash BH keys i = Inr h"
    "drop_coinbase keys i h s1 = Inr s2" "drop_transfer A keys i h s2 = Inr s3"
    "restore_inputs A now keys i s3 = Inr (a4, ns4)"
    "deleteRawBlockWithBlockHeight i ns4 = Inr ns5"
    "restore_root_coins A keys i (a4, ns5) = Inr s6"
    "unmature_coinbase A K now n i h s6 = Inr s'"
    using assms by (rule undo_block_phases)
  have "audited s s3"
    using reopen_group_audited [OF p(1)] drop_coinbase_audited [OF p(3)]
      drop_transfer_audited [OF p(4)] by (blast intro: audited_trans)
  then have "balanced s s3" by (simp add: audited_def)
  also have "balanced s3 (a4, ns4)" by (rule restore_inputs_balanced [OF p(5)])
  also have "balanced (a4, ns4) (a4, ns5)" by (simp add: balanced_def)
  also have "balanced (a4, ns5) s6"
    using restore_root_coins_audited [OF p(7)] by (simp add: audited_def)
  also have "balanced s6 s'" by (rule unmature_coinbase_balanced [OF p(8)])
  finally show ?thesis .
qed

lemma rollback_keeps_books:
  assumes "rollback A K now BH height ns = Inr ns'" and "books_ok ns"
  shows "books_ok ns'"
proof -
  obtain a keys m b ns1 where r: "load_acct ns = Inr a"
    "rfold (undo_block A K now BH keys (GetBlockNumPerRingGroup K height))
       (heights_down m height) (a, ns) = Inr (b, ns1)" "ns' = save_acct b ns1"
    using assms(1) by (auto simp: rollback_def Let_def rbind_Inr_iff)
  have "balanced (a, ns) (b, ns1)"
    using balanced_rfold [OF r(2), where p = "\<lambda>x. x"] undo_block_balanced by simp
  then show ?thesis
    using assms(2) r(1) by (auto simp: r(3) books_ok_def balanced_def)
qed

section \<open>Spending a member and undoing it\<close>

lemma fetch_confirmed_only:
  "only_buckets B ns ns' \<Longrightarrow> bucketSpentConfirmed \<notin> B \<Longrightarrow>
   fetchConfirmedTXO ns' h i = fetchConfirmedTXO ns h i"
  by (simp add: fetchConfirmedTXO_def only_buckets_get)

lemma memo_stored [simp]: "storable_txo t \<Longrightarrow> memo_hash A (stored_txo A t) = memo_hash A t"
  by (auto simp: stored_txo_def memo_hash_def SpendableTXO_Hash_def storable_txo_def
      whole_second_def copy_fixed_def)

text \<open>
  Restoring an output files it as spendable with its amount, for an output without a token;
  nothing else becomes spendable.
\<close>

lemma restore_output_files:
  assumes "restore_output A now i b op (Some c) (a, ns) = Inr (a', ns')"
    and "t = utx_txo (ctx_unconfirmed c)" and "txo_TxOutput t = op" and "\<not> IsCTAUTCoin t"
  shows "a' = a\<lparr>a_spendable := a_spendable a + txo_Amount t,
        a_balance := a_balance a + txo_Amount t\<rparr>"
    and "fetchSpendableTXO ns' (TxHash op') (OutIndex op') = (if op' = op
      then Inr (Some (memo_hash A t)) else fetchSpendableTXO ns (TxHash op') (OutIndex op'))"
    and "fetchConfirmedTXO ns' (TxHash op) (OutIndex op) = Inr None"
proof -
  obtain ns1 ns2 where s: "putSpendableTXO A t ns = Inr ns1"
    "reinstate_relevant A now i b (op_key op) ns1 = Inr ns2"
    "deleteConfirmedTXO (op_key op) ns2 = Inr ns'"
    and a': "a' = a\<lparr>a_spendable := a_spendable a + txo_Amount t,
        a_balance := a_balance a + txo_Amount t\<rparr>"
    using assms by (auto simp: restore_output_def restore_token_def Let_def Inr_iffs)
  show "a' = a\<lparr>a_spendable := a_spendable a + txo_Amount t,
        a_balance := a_balance a + txo_Amount t\<rparr>" by (rule a')
  note o1 = reinstate_relevant_only [OF s(2)]
  have o2: "only_buckets {bucketSpentConfirmed} ns2 ns'"
    using s(3) unfolding deleteConfirmedTXO_def by (rule only_buckets_delete) simp
  have "fetchSpendableTXO ns' (TxHash op') (OutIndex op')
      = fetchSpendableTXO ns1 (TxHash op') (OutIndex op')"
    using fetch_only(1) [OF o1] fetch_only(1) [OF o2] by simp
  then show "fetchSpendableTXO ns' (TxHash op') (OutIndex op') = (if op' = op
      then Inr (Some (memo_hash A t)) else fetchSpendableTXO ns (TxHash op') (OutIndex op'))"
    using matured.fetch_put [OF s(1)] assms(3) by simp
  show "fetchConfirmedTXO ns' (TxHash op) (OutIndex op) = Inr None"
    using s(3) by (simp add: fetchConfirmedTXO_def deleteConfirmedTXO_def nested_get_delete)
qed

lemma spend_then_restore:
  assumes "spend_member A block txhash u t (a, ns) = Inr (a1, ns1)"
    and "t < length (ur_IsMy u)" "t < length (ur_Spent u)" "ur_IsMy u ! t" "ur_Spent u ! t"
    and "op = OutPointAbe (ur_TxHashes u ! t) (ur_OutputIndexes u ! t)"
    and "fetchSpendableTXO ns (TxHash op) (OutIndex op) = Inr (Some txo)" and "\<not> IsCTAUTCoin txo"
    and "fetchConfirmedTXO ns1 (TxHash op) (OutIndex op) = Inr c"
    and "restore_output A now i b op c (a1, ns1) = Inr (a2, ns2)"
  shows "a2 = a \<and> fetchConfirmedTXO ns2 (TxHash op) (OutIndex op) = Inr None \<and>
    (\<forall>op'. fetchSpendableTXO ns2 (TxHash op') (OutIndex op') =
      (if op' = op then Inr (Some (memo_hash A txo))
       else fetchSpendableTXO ns (TxHash op') (OutIndex op')))"
proof -
  obtain v where v: "existsSpendableTXO ns (op_key op) = Inr (Some v)"
    "SpendableTXO_Deserialize op (Some v) = Inr txo"
    using fetchSpendableTXO_entry [OF assms(7)] by (auto simp: existsSpendableTXO_def)
  note f = SpendableTXO_Deserialize_facts(2,3) [OF v(2)]
  let ?c = "\<lparr>ctx_unconfirmed = \<lparr>utx_txo = txo, utx_SpentByHash = txhash,
      utx_SpentTime = blk_RecvTime block\<rparr>, ctx_ConfirmedByBlockHash = blk_Hash block,
      ctx_ConfirmTime = blk_RecvTime block\<rparr>"
  obtain n1 where s: "deleteSpendableTXO (op_key op) ns = Inr n1"
    "putConfirmedTXO A ?c n1 = Inr ns1"
    "a1 = a\<lparr>a_balance := a_balance a - txo_Amount txo,
          a_spendable := a_spendable a - txo_Amount txo\<rparr>"
    using assms(1-6,8) v by (auto simp: spend_member_def consume_token_def Let_def rbind_Inr_iff)
  have c: "c = Some (stored_confirmed A ?c)"
    using confirmed.fetch_put_same [OF s(2)] assms(9) f(1) by simp
  let ?t = "stored_txo A txo"
  have t: "utx_txo (ctx_unconfirmed (stored_confirmed A ?c)) = ?t" "txo_TxOutput ?t = op"
    "IsCTAUTCoin ?t = IsCTAUTCoin txo" "txo_Amount ?t = txo_Amount txo"
    using f(1) by (simp_all add: stored_confirmed_def stored_txo_def memo_hash_def IsCTAUTCoin_def)
  note r = restore_output_files [OF assms(10) [unfolded c] t(1) [symmetric] t(2), unfolded t(3)]
  have "fetchSpendableTXO ns1 (TxHash op') (OutIndex op') =
      (if op' = op then Inr None else fetchSpendableTXO ns (TxHash op') (OutIndex op'))" for op'
    using matured.fetch_del [OF s(1), of op'] s(2)
    by (auto simp: putConfirmedTXO_Inr_iff fetchSpendableTXO_def nested_get_put)
  then show ?thesis
    using r [OF assms(8)] f(2) by (simp add: s(3) t(4))
qed

section \<open>Where undone coinbase outputs go\<close>

text \<open>
  A coinbase output already spent in a block, whose maturity is undone, adds to the unconfirmed
  balance although it is filed as immature.
\<close>

lemma unmature_confirmed_gap:
  assumes "unmature_output A now i op (cb, a, ns) = Inr (cb', a', ns')" and "filed (a, ns)"
    and "fetchSpendableTXO ns (TxHash op) (OutIndex op) = Inr None"
    and "fetchUnconfirmedTXO ns (TxHash op) (OutIndex op) = Inr None"
    and "fetchConfirmedTXO ns (TxHash op) (OutIndex op) = Inr (Some c)"
    and "t = utx_txo (ctx_unconfirmed c)" and "IsCoinbase t"
  shows "a_unconfirmed a' = bucket_amount bucketSpentButUnmined ns' + txo_Amount t"
    and "a_immatureCB a' = a_immatureCB a" and "map_of cb' op = Some (rebuilt t)"
proof -
  obtain ns1 where s: "invalidate_relevant A now i True (op_key (txo_TxOutput t)) ns = Inr ns1"
    "deleteConfirmedTXO (op_key op) ns1 = Inr ns'" "cb' = AList.update op (rebuilt t) cb"
    and a': "a' = a\<lparr>a_unconfirmed := a_unconfirmed a + txo_Amount t,
      a_balance := a_balance a + txo_Amount t\<rparr>"
    using assms(1,3-7) by (auto simp: unmature_output_def found_def coinbase_only_def Let_def Inr_iffs)
  have "only_buckets other_buckets ns1 ns'"
    using s(2) unfolding deleteConfirmedTXO_def by (rule only_buckets_delete) simp
  then have o: "only_buckets other_buckets ns ns'"
    using three_tx_other [OF invalidate_relevant_only [OF s(1)]] by (blast intro: only_buckets_trans)
  show "a_unconfirmed a' = bucket_amount bucketSpentButUnmined ns' + txo_Amount t"
    using assms(2) bucket_amount_only [OF o, of bucketSpentButUnmined] by (simp add: a' filed_def)
  show "a_immatureCB a' = a_immatureCB a" by (simp add: a')
  show "map_of cb' op = Some (rebuilt t)" by (simp add: s(3) update_conv)
qed

lemma unmature_output_only:
  assumes "unmature_output A now i op s = Inr s'"
  shows "only_buckets (- {bucketImmaturedCoinbaseOutput}) (snd (snd s)) (snd (snd s'))"
proof -
  have d: "deleteSpendableTXO k n = Inr n' \<Longrightarrow> only_buckets (- {bucketImmaturedCoinbaseOutput}) n n'"
    "deleteUnconfirmedTXO k n = Inr n' \<Longrightarrow> only_buckets (- {bucketImmaturedCoinbaseOutput}) n n'"
    "deleteConfirmedTXO k n = Inr n' \<Longrightarrow> only_buckets (- {bucketImmaturedCoinbaseOutput}) n n'"
    "invalidate_relevant A now i True k n = Inr n' \<Longrightarrow>
      only_buckets (- {bucketImmaturedCoinbaseOutput}) n n'" for k n n'
    by (auto simp: deleteSpendableTXO_def deleteUnconfirmedTXO_def deleteConfirmedTXO_def
        dest: invalidate_relevant_only intro: only_buckets_delete only_buckets_mono)
  show ?thesis
    using assms
    by (cases s) (auto simp: unmature_output_def Let_def Inr_iffs dest!: d intro: only_buckets_trans)
qed

text \<open>The outputs of the older block come back under the height and hash of the undone one.\<close>

lemma unmature_block_key:
  assumes "unmature_block A now i blockHash maturity ii (a, ns) = Inr (a', ns')"
    and "(height, h) \<noteq> (i, blockHash)"
  shows "fetchImmatureCoinbaseOutput ns' height h = fetchImmatureCoinbaseOutput ns height h"
proof -
  consider "ns' = ns" | ops cb a1 ns1 where
      "rfold (unmature_output A now i) ops ([], a, ns) = Inr (cb, a1, ns1)"
      "putImmatureCoinbaseOutput i blockHash cb ns1 = Inr ns'"
    using assms(1) by (auto simp: unmature_block_def Inr_iffs)
  then show ?thesis
  proof cases
    case (2 ops cb a1 ns1)
    have "only_buckets (- {bucketImmaturedCoinbaseOutput}) ns ns1"
      using only_buckets_rfold [OF 2(1), where p = "\<lambda>s. snd (snd s)", OF unmature_output_only]
      by simp
    then have "nested_get bucketImmaturedCoinbaseOutput k ns1
        = nested_get bucketImmaturedCoinbaseOutput k ns" for k
      by (rule only_buckets_get) simp
    then show ?thesis
      using 2(2) assms(2)
      by (auto simp: putImmatureCoinbaseOutput_def fetchImmatureCoinbaseOutput_def nested_get_put)
  qed simp
qed

end
