(* ===== verification/Frames.thy ===== *)
theory Frames
  imports RollbackBooks Unmined
begin

text \<open>
  What every operation of the store leaves as it is: which buckets there are, the well-formedness
  of their keys, the version and the creation date. The lemmas follow the code, one per step of
  \<open>InsertTx\<close>, \<open>InsertBlock\<close> and \<open>rollback\<close>.
\<close>

section \<open>The shape of a namespace\<close>

definition fixed_root :: "namespace \<Rightarrow> bytes option \<times> bytes option" where
  "fixed_root ns = (ns_root ns rootVersion, ns_root ns rootCreateDate)"

definition kept :: "namespace \<Rightarrow> namespace \<Rightarrow> bool" where
  "kept ns ns' \<longleftrightarrow>
     {b. ns_bucket ns' b = None} = {b. ns_bucket ns b = None} \<and>
     fixed_root ns' = fixed_root ns \<and> (buckets_ok ns \<longrightarrow> buckets_ok ns')"

text \<open>The facts collected here take a step of the code to what it keeps.\<close>

named_theorems kept_steps "what a step of the store keeps"

lemma kept_refl [simp, intro]: "kept ns ns"
  by (simp add: kept_def)

lemma kept_trans [trans]: "kept a b \<Longrightarrow> kept b c \<Longrightarrow> kept a c"
  by (simp add: kept_def)

lemma kept_only: "only_buckets B ns ns' \<Longrightarrow> kept ns ns'"
  by (auto simp: only_buckets_def kept_def fixed_root_def)

lemma kept_rfold:
  assumes "rfold f xs s = Inr s'" and "\<And>x s s'. f x s = Inr s' \<Longrightarrow> kept (p s) (p s')"
  shows "kept (p s) (p s')"
  by (rule rfold_invariant [OF assms(1), where P = "\<lambda>t. kept (p s) (p t)"])
    (auto intro: kept_trans assms(2))

lemma kept_put_amount [simp]:
  assumes "k \<noteq> rootVersion" "k \<noteq> rootCreateDate"
  shows "kept ns (put_amount k a ns') = kept ns ns'"
  using assms by (auto simp: kept_def fixed_root_def put_amount_def buckets_ok_iff)

lemma kept_put_ctaut [simp]: "kept ns (put_ctaut c m ns') = kept ns ns'"
  by (auto simp: kept_def fixed_root_def buckets_ok_iff)

lemma kept_notify [simp]: "kept ns (notify n ns') = kept ns ns'"
  by (auto simp: kept_def fixed_root_def buckets_ok_iff)

lemma kept_save [simp]: "kept ns (save_acct a ns') = kept ns ns'"
  by (simp add: save_acct_def Let_def balance_defs ctaut_defs)

section \<open>Tables\<close>

lemma kept_put [kept_steps]: "nested_put msg b k v ns = Inr ns' \<Longrightarrow> kept ns ns'"
  by (rule kept_only [OF only_buckets_put]) auto

lemma kept_delete [kept_steps]: "nested_delete b k ns = Inr ns' \<Longrightarrow> kept ns ns'"
  by (rule kept_only [OF only_buckets_delete]) auto

lemma kept_outputs [kept_steps]:
  "putSpendableTXO A t ns = Inr ns' \<Longrightarrow> kept ns ns'"
  "putUnconfirmedTXO A u ns = Inr ns' \<Longrightarrow> kept ns ns'"
  "deleteSpendableTXO k ns = Inr ns' \<Longrightarrow> kept ns ns'"
  "deleteUnconfirmedTXO k ns = Inr ns' \<Longrightarrow> kept ns ns'"
  "deleteConfirmedTXO k ns = Inr ns' \<Longrightarrow> kept ns ns'"
  by (auto simp: putSpendableTXO_Inr_iff putUnconfirmedTXO_Inr_iff deleteSpendableTXO_def
      deleteUnconfirmedTXO_def deleteConfirmedTXO_def intro: kept_put kept_delete)

lemmas kept_tables [kept_steps] =
  putRawCTAUTCoin_only [THEN kept_only] spendCTAUTCoin_only [THEN kept_only]
  putConfirmedTXO_only [THEN kept_only] putUTXORing_only [THEN kept_only]
  putRingDetails_only [THEN kept_only] ring_tables_only [THEN kept_only]
  raw_tx_only [THEN kept_only] putBlockRecord_only [THEN kept_only]
  deleteRawBlockWithBlockHeight_only [THEN kept_only] block_index_only [THEN kept_only]
  block_relevant_only [THEN kept_only] confirm_tx_only [THEN kept_only]
  drop_ring_only [THEN kept_only] insert_relevant_only [THEN kept_only]
  put_raw_only [THEN kept_only] invalidate_relevant_only [THEN kept_only]
  reinstate_relevant_only [THEN kept_only]

section \<open>InsertTx\<close>

lemma insert_move_kept [kept_steps]:
  assumes "insert_move A now h op ns = Inr (utxo, ns')"
  shows "kept ns ns'"
proof -
  from assms obtain v sp un ns1 ns2 where s:
    "nested_get bucketMaturedOutput (op_key op) ns = Inr (Some v)"
    "fetch_amount rootSpendableBalance ns = Inr sp"
    "fetch_amount rootUnconfirmedBalance ns = Inr un"
    "SpendableTXO_Deserialize op (Some v) = Inr utxo"
    "ns1 = put_amount rootUnconfirmedBalance (un + txo_Amount utxo)
       (put_amount rootSpendableBalance (sp - txo_Amount utxo) ns)"
    "nested_delete bucketMaturedOutput (op_key op) ns1 = Inr ns2"
    "putUnconfirmedTXO A \<lparr>utx_txo = utxo, utx_SpentByHash = h, utx_SpentTime = now\<rparr> ns2 = Inr ns'"
    by (rule insert_move_facts)
  have "kept ns ns1" by (simp add: s(5))
  also have "kept ns1 ns2" by (rule kept_delete [OF s(6)])
  also have "kept ns2 ns'" by (rule kept_outputs(2) [OF s(7)])
  finally show ?thesis .
qed

lemma insert_ct_move_kept [kept_steps]: "insert_ct_move A utxo ns = Inr ns' \<Longrightarrow> kept ns ns'"
  by (auto simp: insert_ct_move_def Let_def Inr_iffs ctaut_defs)

lemma insert_input_kept: "insert_input A now height h txin ns = Inr ns' \<Longrightarrow> kept ns ns'"
  by (auto simp: insert_input_def Inr_iffs dest!: kept_steps intro: kept_trans)

lemma InsertTx_kept:
  assumes "InsertTx A now height rec hasBlock ns = Inr ns'"
  shows "kept ns ns'"
  using assms
proof (cases rule: InsertTx_cases)
  case (new ns1 ns2 v)
  have "kept ns ns1" using kept_rfold [OF new(3), where p = "\<lambda>x. x"] insert_input_kept by simp
  then show ?thesis using put_raw_only(1) [OF new(5)] by (auto simp: new(6) intro: kept_trans kept_only)
qed simp

section \<open>InsertBlock\<close>

lemma consume_token_kept: "consume_token A f txo s = Inr s' \<Longrightarrow> kept (snd s) (snd s')"
  by (cases s; cases s') (auto dest!: consume_token_ok(1) intro: kept_only)

lemma spend_member_kept: "spend_member A block txhash u t s = Inr s' \<Longrightarrow> kept (snd s) (snd s')"
  by (cases s; cases s'; clarsimp; erule spend_member_cases)
    (auto dest!: kept_steps consume_token_kept simp: kept_def)

lemma flush_ring_kept:
  assumes "flush_ring A block txhash hu s = Inr s'"
  shows "kept (snd s) (snd s')"
proof -
  obtain h u where hu: "hu = (h, u)" by (cases hu)
  obtain a ns where r: "rfold (spend_member A block txhash u) [0..<length (ur_IsMy u)] s
      = Inr (a, ns)" and "kept ns (snd s')"
    using assms
    by (auto simp: flush_ring_def hu Inr_iffs dest!: kept_steps) (metis kept_trans)
  moreover have "kept (snd s) ns" using kept_rfold [OF r, where p = snd] spend_member_kept by simp
  ultimately show ?thesis by (blast intro: kept_trans)
qed

lemma block_input_kept:
  assumes "block_input A now block txi txin s = Inr s'"
  shows "kept (bs_ns (snd s)) (bs_ns (snd s'))"
  using assms
  by (cases s) (auto simp: block_input_def load_ring_def Let_def Inr_iffs dest!: kept_steps)

lemma receive_output_kept:
  assumes "receive_output A K M block txi script jout st = Inr st'"
  shows "kept (bs_ns st) (bs_ns st')"
  using assms
  by (cases jout)
    (auto simp: receive_output_def receive_token_def Let_def Inr_iffs dest!: kept_steps)

lemma reregister_kept:
  assumes "reregister A txhash script st = Inr st'"
  shows "kept (bs_ns st) (bs_ns st')"
  using assms
  by (auto simp: reregister_def disable_root_coin_def Let_def Inr_iffs
      dest!: kept_rfold [where p = bs_ns] kept_steps)

lemma block_tx_kept:
  assumes "block_tx A K M now block rec st = Inr st'"
  shows "kept (bs_ns st) (bs_ns st')"
proof -
  let ?txi = "rec_MsgTx rec" and ?h = "MsgTx_TxHash A (rec_MsgTx rec)"
  obtain consume st1 ns2 a3 ns3 st4 where
    1: "rfold (block_input A now block ?txi) (msg_TxIns ?txi) (False, st) = Inr (consume, st1)" and
    2: "(if consume then confirm_tx A block ?txi (bs_ns st1) else Inr (bs_ns st1)) = Inr ns2" and
    3: "rfold (flush_ring A block ?h) (bs_rings st1) (bs_acct st1, ns2) = Inr (a3, ns3)" and
    4: "rfold (receive_output A K M block ?txi (DetectAndAssemble K ?txi))
          (List.enumerate 0 (msg_TxOuts ?txi)) (st1\<lparr>bs_acct := a3, bs_ns := ns3\<rparr>) = Inr st4" and
    5: "reregister A ?h (DetectAndAssemble K ?txi) st4 = Inr st'"
    using assms by (auto simp: block_tx_def Let_def rbind_Inr_iff split: prod.splits)
  have "kept (bs_ns st) (bs_ns st1)"
    using kept_rfold [OF 1, where p = "bs_ns \<circ> snd"] block_input_kept by fastforce
  also have "kept (bs_ns st1) ns2"
    using 2 by (auto split: if_splits dest!: kept_steps)
  also have "kept ns2 ns3" using kept_rfold [OF 3, where p = snd] flush_ring_kept by simp
  also have "kept ns3 (bs_ns st4)" using kept_rfold [OF 4, where p = bs_ns] receive_output_kept by simp
  also have "kept (bs_ns st4) (bs_ns st')" by (rule reregister_kept [OF 5])
  finally show ?thesis .
qed

lemma scan_block_kept:
  assumes "scan_block A B K M now block a ns = Inr st"
  shows "kept ns (bs_ns st)"
proof -
  obtain ns1 ns2 st1 and rec :: TxRecord where
    1: "putBlockRecord B (Some block) ns = Inr ns1" and
    2: "(if sint NUMBERBLOCK < sint (blk_Height block)
            then deleteRawBlockWithBlockHeight (blk_Height block - NUMBERBLOCK) ns1
            else Inr ns1) = Inr ns2" and
    3: "rfold (receive_coinbase A K M block (rec_MsgTx rec))
          (List.enumerate 0 (msg_TxOuts (rec_MsgTx rec))) (start_block a ns2) = Inr st1" and
    4: "rfold (block_tx A K M now block) (tl (blk_TxRecords block)) st1 = Inr st"
    using assms unfolding scan_block_def Let_def rbind_Inr_iff by blast
  have "kept ns ns1" using 1 by (rule kept_steps)
  also have "kept ns1 ns2" using 2 by (auto split: if_splits dest!: kept_steps)
  also have "bs_ns st1 = bs_ns (start_block a ns2)"
    by (rule rfold_frame [OF 3]) (auto simp: receive_coinbase_def Let_def Inr_iffs)
  then have "bs_ns st1 = ns2" by (simp add: start_block_def)
  then have "kept ns2 (bs_ns st)"
    using kept_rfold [OF 4, where p = bs_ns] block_tx_kept by simp
  finally show ?thesis .
qed

lemma index_block_kept: "index_block A block st = Inr st' \<Longrightarrow> kept (bs_ns st) (bs_ns st')"
  by (auto simp: index_block_def Let_def Inr_iffs dest!: kept_steps simp: kept_def)

lemma mature_coinbase_output_kept:
  "mature_coinbase_output A out s = Inr s' \<Longrightarrow> kept (snd s) (snd s')"
  by (cases s) (auto simp: mature_coinbase_output_def Let_def rbind_Inr_iff dest!: kept_steps)

lemma mature_coinbase_block_kept:
  assumes "mature_coinbase_block A base ih s = Inr s'"
  shows "kept (snd s) (snd s')"
proof -
  obtain m a ns where r: "rfold (mature_coinbase_output A) m s = Inr (a, ns)" "kept ns (snd s')"
    using assms
    by (cases s; cases ih)
      (auto simp: mature_coinbase_block_def deleteImmatureCoinbaseOutput_def Let_def rbind_Inr_iff
        dest!: kept_steps)
  have "kept (snd s) ns"
    using kept_rfold [OF r(1), where p = snd] mature_coinbase_output_kept by simp
  then show ?thesis using r(2) by (rule kept_trans)
qed

lemma mature_coinbase_kept:
  assumes "mature_coinbase A K block hs s = Inr s'"
  shows "kept (snd s) (snd s')"
proof -
  consider "s' = s" | base where "rfold (mature_coinbase_block A base) (List.enumerate 0 hs) s = Inr s'"
    using assms by (auto simp: mature_coinbase_def Let_def Inr_iffs simp del: split_paired_All)
  then show ?thesis
    by cases (simp, erule kept_rfold, erule mature_coinbase_block_kept)
qed

lemma mature_transfers_kept:
  "rfold (mature_transfer A) m s = Inr s' \<Longrightarrow> kept (snd s) (snd s')"
  by (drule kept_rfold [where p = snd])
    (auto simp: mature_transfer_def Let_def rbind_Inr_iff dest!: kept_steps)

lemma group_block_kept: "group_block A B extra height h ns = Inr (m, ns') \<Longrightarrow> kept ns ns'"
  by (auto simp: group_block_def Let_def Inr_iffs dest!: kept_steps
      split: sum.splits go_error.splits option.splits)

lemma mature_group_kept:
  assumes "mature_group A height p1 p0 s = Inr s'"
  shows "kept (snd s) (snd s')"
proof -
  obtain h1 v1 c1 t1 h0 v0 c0 t0 a ns where p: "p1 = (h1, v1, c1, t1)" "p0 = (h0, v0, c0, t0)"
    "s = (a, ns)" by (cases p1; cases p0; cases s)
  from assms obtain n1 n2 a3 n3 n4 a5 n5 where q:
    "put_coinbase_maps (height - 1) h1 c1 ns = Inr n1"
    "put_coinbase_maps (height - 2) h0 c0 n1 = Inr n2"
    "rfold (mature_transfer A) (by_outpoint t1) (a, n2) = Inr (a3, n3)"
    "deleteImmatureOutput (canonicalBlock (height - 1) v1) n3 = Inr n4"
    "rfold (mature_transfer A) t0 (a3, n4) = Inr (a5, n5)"
    "deleteImmatureOutput (canonicalBlock (height - 2) v0) n5 = Inr (snd s')"
    by (auto simp: mature_group_def p Let_def rbind_Inr_iff)
  have "kept ns n1" "kept n1 n2"
    using q(1,2) by (auto simp: put_coinbase_maps_def split: if_splits dest!: kept_steps)
  moreover have "kept n2 n3" "kept n4 n5"
    using mature_transfers_kept [OF q(3)] mature_transfers_kept [OF q(5)] by simp_all
  moreover have "kept n3 n4" "kept n5 (snd s')"
    using q(4,6) by (auto simp: deleteImmatureOutput_def dest!: kept_steps)
  ultimately show ?thesis by (auto simp: p kept_def)
qed

lemma store_ring_kept: "store_ring A hru ns = Inr ns' \<Longrightarrow> kept ns ns'"
  by (cases hru) (auto simp: store_ring_def rbind_Inr_iff dest!: kept_steps intro: kept_trans)

lemma close_group_kept:
  assumes "close_group A B K M block extra st = Inr (dne, st')"
  shows "kept (bs_ns st) (bs_ns st')"
proof -
  note k = kept_rfold [where p = "\<lambda>x. x", OF _ store_ring_kept]
  show ?thesis
    using assms
    by (auto simp: close_group_def Let_def Inr_iffs split: prod.splits
        dest!: group_block_kept mature_group_kept k simp: kept_def)
qed

lemma finish_block_kept:
  assumes "finish_block A block closing st = Inr s'"
  shows "kept (bs_ns st) (snd s')"
  using assms
  by (auto simp: finish_block_def put_coinbase_maps_def Let_def Inr_iffs
      dest!: mature_transfers_kept kept_steps simp: kept_def)

lemma InsertBlock_kept:
  assumes "InsertBlock A B K M now block extra hs ns = Inr ns'"
  shows "kept ns ns'"
proof -
  obtain a st1 st2 a3 ns3 closing dne st4 a5 ns5 where p:
    "load_acct ns = Inr a" "scan_block A B K M now block a ns = Inr st1"
    "index_block A block st1 = Inr st2"
    "mature_coinbase A K block hs (books st2) = Inr (a3, ns3)"
    "closes_group K (blk_Height block) = Inr closing"
    "(if closing then close_group A B K M block extra (st2\<lparr>bs_acct := a3, bs_ns := ns3\<rparr>)
      else Inr (False, st2\<lparr>bs_acct := a3, bs_ns := ns3\<rparr>)) = Inr (dne, st4)"
    "(if dne then Inr (books st4) else finish_block A block closing st4) = Inr (a5, ns5)"
    "ns' = save_acct a5 ns5"
    using assms(1) by (rule InsertBlock_phases)
  have "kept ns (bs_ns st1)" by (rule scan_block_kept [OF p(2)])
  also have "kept (bs_ns st1) (bs_ns st2)" by (rule index_block_kept [OF p(3)])
  also have "kept (bs_ns st2) ns3" using mature_coinbase_kept [OF p(4)] by (simp add: books_def)
  also have "kept ns3 (bs_ns st4)"
    using p(6) by (auto split: if_splits dest!: close_group_kept)
  also have "kept (bs_ns st4) ns5"
    using p(7) by (auto simp: books_def split: if_splits dest!: finish_block_kept)
  finally show ?thesis by (simp add: p(8))
qed

lemma InsertGenesisBlock_kept:
  assumes "InsertGenesisBlock A B K M block ns = Inr ns'"
  shows "kept ns ns'"
  using assms
proof (rule InsertGenesisBlock_phases)
qed (auto simp: balance_defs intro: kept_only)

section \<open>Rollback\<close>

lemma demote_output_kept:
  assumes "demote_output A now i op s = Inr s'"
  shows "kept (gs_ns s) (gs_ns s')"
  using assms
  by (cases rule: demote_output_cases)
    (auto dest!: kept_steps demote_token_ok(1) [THEN kept_only] simp: kept_def)

lemma demote_block_kept:
  assumes "demote_block A now BH keys i j s = Inr s'"
  shows "kept (snd (snd s)) (snd (snd s'))"
  using assms kept_rfold [where p = gs_ns, OF _ demote_output_kept]
  by (cases s) (fastforce simp: demote_block_def Let_def Inr_iffs dest!: kept_steps simp: kept_def)

lemma reopen_group_kept:
  assumes "reopen_group A K now BH keys i s = Inr s'"
  shows "kept (snd s) (snd s')"
  using assms
  by (auto simp: reopen_group_def Let_def Inr_iffs
      dest!: kept_rfold [where p = "snd \<circ> snd"] kept_rfold [where p = "\<lambda>x. x"] kept_steps
        demote_block_kept simp: kept_def)

lemma drop_coinbase_kept: "drop_coinbase keys i h s = Inr s' \<Longrightarrow> kept (snd s) (snd s')"
  by (cases s)
    (auto simp: drop_coinbase_def Inr_iffs deleteImmatureCoinbaseOutput_def dest!: kept_steps)

lemma drop_transfer_output_kept: "drop_transfer_output A out s = Inr s' \<Longrightarrow> kept (snd s) (snd s')"
  by (cases s; cases out)
    (auto simp: drop_transfer_output_def Let_def Inr_iffs deleteRawCTAUTCoin_def dest!: kept_steps)

lemma drop_transfer_kept: "drop_transfer A keys i h s = Inr s' \<Longrightarrow> kept (snd s) (snd s')"
  by (cases s)
    (auto simp: drop_transfer_def Inr_iffs deleteImmatureOutput_def simp: kept_def
      dest!: kept_steps kept_rfold [where p = snd, OF _ drop_transfer_output_kept])

lemma restore_output_kept: "restore_output A now i b op c s = Inr s' \<Longrightarrow> kept (snd s) (snd s')"
  by (cases s)
    (auto simp: restore_output_def restore_token_def Let_def Inr_iffs simp: kept_def
      dest!: kept_steps)

lemma restore_member_kept: "restore_member A now i u k s = Inr s' \<Longrightarrow> kept (snd s) (snd s')"
  by (auto simp: restore_member_def Inr_iffs restore_output_kept)

lemma restore_serial_kept: "restore_serial A now i old u sn s = Inr s' \<Longrightarrow> kept (snd s) (snd s')"
  by (auto simp: restore_serial_def Inr_iffs restore_output_kept)

lemma restore_ring_kept:
  assumes "restore_ring A now i us s = Inr s'"
  shows "kept (snd s) (snd s')"
proof -
  obtain old sns where us: "us = (old, sns)" by (cases us)
  from assms obtain u' a ns where
    r: "(case u' of None \<Rightarrow> rfold (restore_member A now i old) [0..<length (ur_IsMy old)] s
         | Some u \<Rightarrow> rfold (restore_serial A now i old u) sns s) = Inr (a, ns)"
    and k: "kept ns (snd s')"
    by (auto simp: restore_ring_def us rbind_Inr_iff dest!: kept_steps)
  have "kept (snd s) (snd (a, ns))"
  proof (cases u')
    case None
    then have "rfold (restore_member A now i old) [0..<length (ur_IsMy old)] s = Inr (a, ns)"
      using r by simp
    then show ?thesis by (rule kept_rfold) (erule restore_member_kept)
  next
    case (Some u)
    then have "rfold (restore_serial A now i old u) sns s = Inr (a, ns)" using r by simp
    then show ?thesis by (rule kept_rfold) (erule restore_serial_kept)
  qed
  then have "kept (snd s) ns" by simp
  then show ?thesis using k by (rule kept_trans)
qed

lemma restore_inputs_kept: "restore_inputs A now keys i s = Inr s' \<Longrightarrow> kept (snd s) (snd s')"
  by (auto simp: restore_inputs_def split: sum.splits go_error.splits
      dest!: kept_rfold [where p = snd, OF _ restore_ring_kept])

lemma restore_root_coin_kept: "restore_root_coin A point s = Inr s' \<Longrightarrow> kept (snd s) (snd s')"
  by (cases s)
    (auto simp: restore_root_coin_def restoreCTAUTCoin_def Let_def Inr_iffs dest!: kept_steps)

lemma restore_root_coins_kept: "restore_root_coins A keys i s = Inr s' \<Longrightarrow> kept (snd s) (snd s')"
  by (auto simp: restore_root_coins_def Let_def Inr_iffs deleteBlockDisabledCTAUTRootCoins_def
      simp: kept_def dest!: kept_steps kept_rfold [where p = snd, OF _ restore_root_coin_kept])

lemma unmature_output_kept:
  "unmature_output A now i op s = Inr s' \<Longrightarrow> kept (snd (snd s)) (snd (snd s'))"
  by (cases s)
    (auto simp: unmature_output_def Let_def Inr_iffs simp: kept_def dest!: kept_steps)

lemma unmature_block_kept: "unmature_block A now i h m ii s = Inr s' \<Longrightarrow> kept (snd s) (snd s')"
  by (cases s)
    (auto simp: unmature_block_def Inr_iffs simp: kept_def
      dest!: kept_steps kept_rfold [where p = "snd \<circ> snd"] unmature_output_kept)

lemma unmature_coinbase_kept:
  assumes "unmature_coinbase A K now n i h s = Inr s'"
  shows "kept (snd s) (snd s')"
proof -
  consider "s' = s" | m xs where "rfold (unmature_block A now i h m) xs s = Inr s'"
    using assms by (auto simp: unmature_coinbase_def Let_def Inr_iffs)
  then show ?thesis
    by cases (simp, erule kept_rfold, erule unmature_block_kept)
qed

lemma undo_block_kept:
  assumes "undo_block A K now BH keys n i s = Inr s'"
  shows "kept (snd s) (snd s')"
proof -
  obtain s1 h s2 s3 a4 ns4 ns5 s6 where p:
    "reopen_group A K now BH keys i s = Inr s1" "height_hash BH keys i = Inr h"
    "drop_coinbase keys i h s1 = Inr s2" "drop_transfer A keys i h s2 = Inr s3"
    "restore_inputs A now keys i s3 = Inr (a4, ns4)"
    "deleteRawBlockWithBlockHeight i ns4 = Inr ns5"
    "restore_root_coins A keys i (a4, ns5) = Inr s6"
    "unmature_coinbase A K now n i h s6 = Inr s'"
    using assms by (rule undo_block_phases)
  have "kept ns4 ns5" using p(6) by (rule kept_steps)
  then show ?thesis
    using reopen_group_kept [OF p(1)] drop_coinbase_kept [OF p(3)] drop_transfer_kept [OF p(4)]
      restore_inputs_kept [OF p(5)] restore_root_coins_kept [OF p(7)] unmature_coinbase_kept [OF p(8)]
    by (simp add: kept_def)
qed

lemma rollback_kept: "rollback A K now BH height ns = Inr ns' \<Longrightarrow> kept ns ns'"
  by (auto simp: rollback_def Let_def rbind_Inr_iff
      dest!: kept_rfold [where p = snd, OF _ undo_block_kept])

end
