(* ===== verification/Fixtures.thy ===== *)
theory Fixtures
  imports Books
begin

text \<open>
  A small wallet for the witnesses: parameter records that can be evaluated, three blocks and a
  spending transaction, and the store after each step. Transaction and block hashes are the
  bytes carried in \<open>msg_rest\<close> and \<open>mb_rest\<close>; an output script is a value and a mark that says
  whether the output is the wallet's.
\<close>

section \<open>Evaluating the byte codecs\<close>

text \<open>
  The big-endian codecs by arithmetic on one integer, as code equations: the witnesses below
  are evaluated with them.
\<close>

definition be_num :: "bytes \<Rightarrow> int" where
  "be_num bs = foldl (\<lambda>a b. a * 256 + uint b) 0 bs"

lemma be_num_snoc: "be_num (bs @ [b]) = be_num bs * 256 + uint b"
  by (simp add: be_num_def)

lemma push_or_byte:
  "push_bit 8 (a :: 'a::len word) OR ucast (b :: u8) = a * 256 + ucast b"
proof -
  have "push_bit 8 a AND ucast b = 0"
  proof (rule bit_word_eqI)
    fix n
    show "bit (push_bit 8 a AND ucast b) n = bit (0 :: 'a word) n"
      using bit_imp_le_length [of b n] by (auto simp: bit_and_iff bit_push_bit_iff bit_ucast_iff)
  qed
  then show ?thesis
    using word_plus_and_or [of "push_bit 8 a" "ucast b"] by (simp add: push_bit_eq_mult)
qed

lemma be_word_num: "be_word bs = word_of_int (be_num bs)"
proof (induction bs rule: rev_induct)
  case (snoc b bs)
  then show ?case by (simp add: be_word_snoc push_or_byte be_num_snoc)
qed (simp add: be_num_def)

fun num_bytes :: "nat \<Rightarrow> int \<Rightarrow> bytes \<Rightarrow> bytes" where
  "num_bytes 0 i acc = acc"
| "num_bytes (Suc n) i acc = num_bytes n (i div 256) (word_of_int (i mod 256) # acc)"

lemma num_bytes_be: "num_bytes n (uint w) acc = be_bytes n w @ acc"
proof (induction n arbitrary: w acc)
  case (Suc n)
  have "uint w div 256 = uint (drop_bit 8 w)"
  proof -
    have "drop_bit 8 (uint w) = uint (drop_bit 8 w)"
      by (rule bit_eqI) (simp add: bit_simps)
    moreover have "drop_bit 8 (uint w) = uint w div 256"
      by (simp add: drop_bit_eq_div [where 'a = int])
    ultimately show ?thesis by simp
  qed
  moreover have "(word_of_int (uint w mod 256) :: u8) = ucast w"
  proof -
    have "(word_of_int (uint w mod 256) :: u8) = word_of_int (uint w)"
      by (simp only: word_of_int_eq_iff take_bit_eq_mod) simp
    then show ?thesis by simp
  qed
  ultimately show ?case by (simp add: Suc)
qed simp

lemma be_bytes_num: "be_bytes n w = num_bytes n (uint w) []"
  by (simp add: num_bytes_be)

declare be_word_num [code] be_bytes_num [code]

text \<open>
  The functions of the namespace as tables, so that an update replaces the entry it is for.
\<close>

definition tab :: "('a \<times> 'b) list \<Rightarrow> 'a \<Rightarrow> 'b" where
  "tab xs k = the (map_of xs k)"

fun upd_list :: "('a \<Rightarrow> 'b) \<Rightarrow> 'a \<Rightarrow> 'b \<Rightarrow> 'a list \<Rightarrow> ('a \<times> 'b) list" where
  "upd_list f k v [] = []"
| "upd_list f k v (x # xs) = (x, if x = k then v else f x) # upd_list f k v xs"

lemma map_of_upd_list:
  "map_of (upd_list f k v ks) j = (if j \<in> set ks then Some (if j = k then v else f j) else None)"
  by (induction ks) auto

lemma tab_update: "(\<And>k. k \<in> set ks) \<Longrightarrow> tab (upd_list f k v ks) = f(k := v)"
  by (auto simp: tab_def map_of_upd_list)

lemma set_bucket_tab:
  "set_bucket b m ns = ns\<lparr>ns_bucket := tab (upd_list (ns_bucket ns) b m all_buckets)\<rparr>"
  by (simp add: set_bucket_def tab_update [OF set_all_buckets])

lemma root_put_tab:
  "root_put k v ns = ns\<lparr>ns_root := tab (upd_list (ns_root ns) k (Some v) all_rootkeys)\<rparr>"
  by (simp add: root_put_def tab_update [OF set_all_rootkeys])

lemma put_ctaut_tab:
  "put_ctaut k m ns = ns\<lparr>ns_ctaut := tab (upd_list (ns_ctaut ns) k (Some m) all_ctautkeys)\<rparr>"
  by (simp add: put_ctaut_def tab_update [OF set_all_ctautkeys])

declare set_bucket_tab [code] root_put_tab [code] put_ctaut_tab [code] rbind_def [code_unfold] case_prod_unfold [code_unfold]

section \<open>Parameters\<close>

definition ex_hash :: "bytes \<Rightarrow> hash" where "ex_hash b = of_nat (length b)"
definition ex_txid :: "MsgTxAbe \<Rightarrow> hash" where "ex_txid m = be_word (msg_rest m)"
definition ex_ser :: "MsgTxAbe \<Rightarrow> bytes result" where "ex_ser m = Inr (msg_rest m)"
definition ex_deser :: "bytes \<Rightarrow> MsgTxAbe result" where
  "ex_deser b = Inr \<lparr>msg_Version = 0, msg_TxIns = [], msg_TxOuts = [], msg_rest = b\<rparr>"
definition ex_ringhash :: "OutPointRing \<Rightarrow> hash" where
  "ex_ringhash r = (case opr_OutPoints r of [] \<Rightarrow> 0 | op # _ \<Rightarrow> TxHash op + 1000)"
definition ex_const :: "'b \<Rightarrow> 'a \<Rightarrow> 'b" where "ex_const b a = b"

definition exA :: abec where
  "exA = \<lparr>DoubleHashH = ex_hash, GetSerialNumberSerializeSize = ex_const 4,
     PrivacyLevelRINGCTPre = 0, PrivacyLevelPSEUDONYM = 2, PrivacyLevelPSEUDONYMCT = 3,
     OutPointRing_Hash = ex_ringhash, BlockNumPerRingGroup = 3, MsgTx_TxHash = ex_txid,
     MsgTx_SerializeFull = ex_ser, MsgTx_Serialize = ex_ser, MsgTx_Deserialize = ex_deser,
     AutId_String = ex_const ''T'', NewHashFromStr = ex_const (Inr 0)\<rparr>"

definition ex_out :: "u8 \<Rightarrow> bool \<Rightarrow> TxOutAbe" where
  "ex_out v mine = \<lparr>out_Version = 0, out_TxoScript = [v, if mine then 1 else 0]\<rparr>"

definition ex_ring :: "hash list \<Rightarrow> OutPointAbe list \<Rightarrow> OutPointRing" where
  "ex_ring hs ops = \<lparr>opr_Version = 0, opr_BlockHashs = hs, opr_OutPoints = ops\<rparr>"

definition ex_coinbase :: "nat \<Rightarrow> MsgTxAbe" where
  "ex_coinbase h =
     \<lparr>msg_Version = 0,
      msg_TxIns = [\<lparr>in_SerialNumber = [],
        in_PreviousOutPointRing = ex_ring [0] []\<rparr>],
      msg_TxOuts = [ex_out 5 True], msg_rest = be_bytes 32 (of_nat (10 + h) :: hash)\<rparr>"

text \<open>A payment to the wallet from outside, and the wallet's payment of that output.\<close>

definition ex_pay :: MsgTxAbe where
  "ex_pay = \<lparr>msg_Version = 0,
     msg_TxIns = [\<lparr>in_SerialNumber = [9, 9, 9, 9],
       in_PreviousOutPointRing = ex_ring [] [OutPointAbe 999 0]\<rparr>],
     msg_TxOuts = [ex_out 20 True, ex_out 7 False], msg_rest = be_bytes 32 (30 :: hash)\<rparr>"

definition ex_sn :: bytes where
  "ex_sn = be_bytes 4 (1030 :: u32)"

definition ex_spend :: MsgTxAbe where
  "ex_spend = \<lparr>msg_Version = 0,
     msg_TxIns = [\<lparr>in_SerialNumber = ex_sn,
       in_PreviousOutPointRing = ex_ring [] [OutPointAbe 30 0, OutPointAbe 30 1]\<rparr>],
     msg_TxOuts = [ex_out 19 True], msg_rest = be_bytes 32 (31 :: hash)\<rparr>"

definition ex_time :: gotime where "ex_time = GoTime 100 0"

definition ex_msgblock :: "nat \<Rightarrow> MsgTxAbe list \<Rightarrow> MsgBlockAbe" where
  "ex_msgblock h txs =
     \<lparr>mb_PrevBlock = of_nat (99 + h), mb_Timestamp = ex_time, mb_Transactions = ex_coinbase h # txs,
      mb_rest = be_bytes 32 (of_nat (100 + h) :: hash)\<rparr>"

definition ex_blocks :: "MsgBlockAbe list" where
  "ex_blocks = [ex_msgblock 0 [], ex_msgblock 1 [ex_pay], ex_msgblock 2 [], ex_msgblock 3 [ex_spend]]"

definition ex_block_ser :: "MsgBlockAbe \<Rightarrow> bytes result" where "ex_block_ser b = Inr (mb_rest b)"
definition ex_block_deser :: "bytes \<Rightarrow> MsgBlockAbe result" where
  "ex_block_deser v = (case List.find (\<lambda>b. mb_rest b = v) ex_blocks of
     None \<Rightarrow> Inl (GoError ''block'') | Some b \<Rightarrow> Inr b)"
definition ex_block_hash :: "MsgBlockAbe \<Rightarrow> hash" where "ex_block_hash b = be_word (mb_rest b)"

definition exB :: abecblk where
  "exB = \<lparr>MsgBlock_SerializeNoWitness = ex_block_ser,
     MsgBlock_DeserializeNoWitness = ex_block_deser, MsgBlock_Serialize = ex_block_ser,
     MsgBlock_Deserialize = ex_block_deser, MsgBlock_BlockHash = ex_block_hash\<rparr>"

text \<open>One ring of the coinbase outputs of the group, one of its transfer outputs.\<close>

definition ex_outputs :: "MsgTxAbe list \<Rightarrow> (OutPointAbe \<times> TxOutAbe) list" where
  "ex_outputs txs = concat (map (\<lambda>tx. map (\<lambda>(i, out). (OutPointAbe (be_word (msg_rest tx)) (of_nat i), out))
     (List.enumerate 0 (msg_TxOuts tx))) txs)"

definition ex_entry :: "hash list \<Rightarrow> bool \<Rightarrow> (OutPointAbe \<times> TxOutAbe) list \<Rightarrow> (hash \<times> RingEntry) list" where
  "ex_entry hs cb os =
     (case os of [] \<Rightarrow> []
      | (op, _) # _ \<Rightarrow> [(TxHash op + 1000, \<lparr>re_Version = 0, re_IsCoinBase = cb, re_BlockHashs = hs,
          re_OutPoints = map fst os, re_TxOuts = map snd os\<rparr>)])"

definition ex_detect :: "TxOutAbe \<Rightarrow> bytes \<Rightarrow> bool result" where
  "ex_detect out k = Inr (last (out_TxoScript out) = 1)"
definition ex_receive :: "TxOutAbe \<Rightarrow> bytes \<Rightarrow> bytes \<Rightarrow> (bool \<times> u64) result" where
  "ex_receive out k l = Inr (True, ucast (hd (out_TxoScript out)))"
definition ex_address :: "TxOutAbe \<Rightarrow> bytes result" where "ex_address out = Inr (out_TxoScript out)"
definition ex_gen :: "TxOutAbe \<Rightarrow> hash \<Rightarrow> u8 \<Rightarrow> bytes \<Rightarrow> bytes result" where
  "ex_gen out h i k = Inr (be_bytes 4 (ucast h + ucast i :: u32))"
definition ex_keys :: "bytes \<Rightarrow> bytes \<Rightarrow> (bytes \<times> bytes) \<times> go_error option" where
  "ex_keys a b = (([], []), None)"
definition ex_autvalue :: "bytes \<Rightarrow> bytes \<Rightarrow> bytes \<Rightarrow> u64 result" where "ex_autvalue a b c = Inr 0"
definition ex_build :: "i32 \<Rightarrow> nat \<Rightarrow> (i32 \<times> MsgBlockAbe) list \<Rightarrow> (hash \<times> RingEntry) list result" where
  "ex_build n m bs =
     (let hs = map (\<lambda>(_, b). be_word (mb_rest b)) bs
      in Inr (ex_entry hs True (ex_outputs (map (\<lambda>(_, b). hd (mb_Transactions b)) bs)) @
              ex_entry hs False (ex_outputs (concat (map (\<lambda>(_, b). tl (mb_Transactions b)) bs)))))"

definition exK :: crypto where
  "exK = \<lparr>GetTxoPrivacyLevel = ex_const (Inr 1),
     TxoCoinDetectByCoinDetectorRootKey = ex_detect, TxoCoinReceiveByRootSeeds = ex_receive,
     ExtractCoinAddressFromTxo = ex_address,
     ExtractPublicRandFromTxo = ex_const (Inr (replicate 64 0)),
     TxoCoinSerialNumberGenByKey = ex_gen, TxoCoinSerialNumberGenByRootSeed = ex_gen,
     CryptoValueKeyReGen = ex_keys, ExtractAutTxoValue = ex_autvalue, AutTxo_Deserialize = Inr,
     GetAutTxoType = ex_const (Inr 0), DetectAndAssemble = ex_const None,
     GetBlockNumPerRingGroup = ex_const 3, GetTxoRingSize = ex_const 7, NewBlockAbe = Inr,
     BuildTxoRings = ex_build, CoinbaseMaturity = 3\<rparr>"

definition exM :: manager where
  "exM = \<lparr>FetchProtectedRootSeeds = Inr \<lparr>rs_coinSpend = [], rs_snKey = [], rs_coinValue = [],
       rs_detectorRootKey = [], rs_coinValueAut = []\<rparr>,
     CryptoSchemeIsRingCT = True, AddressSnKey = ex_const (Inr [])\<rparr>"

section \<open>The run\<close>

definition ex_none :: "'a \<Rightarrow> 'b option" where "ex_none a = None"

definition ex_empty :: namespace where
  "ex_empty = \<lparr>ns_root = ex_none, ns_ctaut = ex_none, ns_bucket = ex_none, ns_notes = []\<rparr>"

definition ex_record :: "nat \<Rightarrow> BlockRecord" where
  "ex_record h =
     (let b = ex_blocks ! h
      in \<lparr>blk_MsgBlock = b, blk_Height = of_nat h, blk_Hash = be_word (mb_rest b),
          blk_RecvTime = mb_Timestamp b,
          blk_TxRecords = map (\<lambda>tx. \<lparr>rec_MsgTx = tx, rec_Hash = be_word (msg_rest tx),
            rec_Received = ex_time, rec_SerializedTx = Some (msg_rest tx)\<rparr>) (mb_Transactions b),
          blk_SerializedBlock = mb_rest b\<rparr>)"

definition ex_spend_rec :: TxRecord where
  "ex_spend_rec = \<lparr>rec_MsgTx = ex_spend, rec_Hash = 31, rec_Received = ex_time,
     rec_SerializedTx = Some (msg_rest ex_spend)\<rparr>"

abbreviation ex_insert :: "nat \<Rightarrow> namespace \<Rightarrow> namespace result" where
  "ex_insert h \<equiv> InsertBlock exA exB exK exM ex_time (ex_record h) [] []"

definition ex0 where "ex0 = createStore ex_time ex_empty"
definition ex1 where "ex1 = rbind ex0 (InsertGenesisBlock exA exB exK exM (ex_record 0))"
definition ex2 where "ex2 = rbind ex1 (ex_insert 1)"
definition ex3 where "ex3 = rbind ex2 (ex_insert 2)"
definition ex4 where "ex4 = rbind ex3 (InsertTx exA ex_time 2 ex_spend_rec False)"
definition ex5 where "ex5 = rbind ex4 (ex_insert 3)"

section \<open>The run, evaluated\<close>

definition ledger_check :: "namespace \<Rightarrow> bool" where
  "ledger_check ns \<longleftrightarrow> buckets_ok ns \<and>
     (case ns_bucket ns bucketMaturedOutput of None \<Rightarrow> False
      | Some m \<Rightarrow>
        (case ns_bucket ns bucketSpentButUnmined of None \<Rightarrow> False
         | Some u \<Rightarrow> list_all (\<lambda>e. kv_get u (fst e) = None) m)) \<and>
     fetch_amount rootSpendableBalance ns = Inr (bucket_amount bucketMaturedOutput ns) \<and>
     fetch_amount rootUnconfirmedBalance ns = Inr (bucket_amount bucketSpentButUnmined ns)"

lemma ledger_ok_check: "ledger_check ns \<Longrightarrow> ledger_ok ns"
  by (fastforce simp: ledger_check_def ledger_ok_def nested_get_def nested_def kv_get_def list_all_iff
      map_of_eq_None_iff split: option.splits dest: map_of_SomeD)

definition ex_balances :: "namespace \<Rightarrow> u64 result list" where
  "ex_balances ns = [fetchMinedBalance ns, fetchSpendableBalance ns,
     fetchImmatureCoinbaseBalance ns, fetchImmatureTransferBalance ns, fetchUnconfirmedBalance ns]"

lemma ex3_ok: "case ex3 of Inl e \<Rightarrow> False | Inr ns \<Rightarrow> ledger_check ns \<and>
    ex_balances ns = [Inr 35, Inr 20, Inr 15, Inr 0, Inr 0] \<and>
    existsRawUnconfirmedTx ns (be_bytes 32 (31 :: hash)) = Inr None \<and>
    List.map_filter (owned_input exA ns) (msg_TxIns ex_spend) = [OutPointAbe 30 0]"
  by code_simp

lemma ex5_ok: "case ex5 of Inl e \<Rightarrow> False | Inr ns \<Rightarrow>
    ex_balances ns = [Inr 39, Inr 0, Inr 20, Inr 19, Inr 0]"
  by code_simp

lemma ex4_ok: "case ex4 of Inl e \<Rightarrow> False | Inr ns \<Rightarrow>
    ex_balances ns = [Inr 35, Inr 0, Inr 15, Inr 0, Inr 20]"
  by code_simp

lemma ex_states:
  obtains ns0 ns1 ns2 ns3 ns4 ns5 where
    "createStore ex_time ex_empty = Inr ns0"
    "InsertGenesisBlock exA exB exK exM (ex_record 0) ns0 = Inr ns1"
    "ex_insert 1 ns1 = Inr ns2" "ex_insert 2 ns2 = Inr ns3"
    "InsertTx exA ex_time 2 ex_spend_rec False ns3 = Inr ns4" "ex_insert 3 ns4 = Inr ns5"
    "ex3 = Inr ns3" "ex4 = Inr ns4" "ex5 = Inr ns5"
proof -
  obtain ns5 where 5: "ex5 = Inr ns5" using ex5_ok by (auto split: sum.splits)
  then obtain ns4 where 4: "ex4 = Inr ns4" "ex_insert 3 ns4 = Inr ns5"
    unfolding ex5_def rbind_Inr_iff by blast
  then obtain ns3 where 3: "ex3 = Inr ns3" "InsertTx exA ex_time 2 ex_spend_rec False ns3 = Inr ns4"
    unfolding ex4_def rbind_Inr_iff by blast
  then obtain ns2 where 2: "ex2 = Inr ns2" "ex_insert 2 ns2 = Inr ns3"
    unfolding ex3_def rbind_Inr_iff by blast
  then obtain ns1 where 1: "ex1 = Inr ns1" "ex_insert 1 ns1 = Inr ns2"
    unfolding ex2_def rbind_Inr_iff by blast
  then obtain ns0 where 0: "ex0 = Inr ns0"
    "InsertGenesisBlock exA exB exK exM (ex_record 0) ns0 = Inr ns1"
    unfolding ex1_def rbind_Inr_iff by blast
  show thesis using that 0 1 2 3 4 5 by (simp add: ex0_def)
qed

text \<open>The books and the ledger along the run.\<close>

lemma ex_books: "\<exists>ns2 ns3. ex_insert 2 ns2 = Inr ns3 \<and> ex3 = Inr ns3 \<and> books_ok ns2 \<and> books_ok ns3"
proof -
  obtain ns0 ns1 ns2 ns3 ns4 ns5 where s: "createStore ex_time ex_empty = Inr ns0"
    "InsertGenesisBlock exA exB exK exM (ex_record 0) ns0 = Inr ns1"
    "ex_insert 1 ns1 = Inr ns2" "ex_insert 2 ns2 = Inr ns3"
    "InsertTx exA ex_time 2 ex_spend_rec False ns3 = Inr ns4" "ex_insert 3 ns4 = Inr ns5"
    "ex3 = Inr ns3" "ex4 = Inr ns4" "ex5 = Inr ns5"
    by (rule ex_states)
  have "books_ok ns0" by (rule createStore_books [OF s(1)])
  then have "books_ok ns1" by (rule InsertGenesisBlock_keeps(1) [OF s(2)])
  then have "books_ok ns2" by (rule InsertBlock_keeps_books [OF s(3)])
  moreover from this have "books_ok ns3" by (rule InsertBlock_keeps_books [OF s(4)])
  ultimately show ?thesis using s by blast
qed

lemma ex_spend_state:
  "\<exists>ns3 ns4 ns5. InsertTx exA ex_time 2 ex_spend_rec False ns3 = Inr ns4 \<and> ex_insert 3 ns4 = Inr ns5
     \<and> ex3 = Inr ns3 \<and> ex4 = Inr ns4 \<and> ex5 = Inr ns5 \<and> ledger_ok ns3 \<and> ledger_ok ns4 \<and> books_ok ns3
     \<and> existsRawUnconfirmedTx ns3 (be_bytes 32 (rec_Hash ex_spend_rec)) = Inr None
     \<and> List.map_filter (owned_input exA ns3) (msg_TxIns (rec_MsgTx ex_spend_rec)) = [OutPointAbe 30 0]"
proof -
  obtain ns0 ns1 ns2 ns3 ns4 ns5 where s: "createStore ex_time ex_empty = Inr ns0"
    "InsertGenesisBlock exA exB exK exM (ex_record 0) ns0 = Inr ns1"
    "ex_insert 1 ns1 = Inr ns2" "ex_insert 2 ns2 = Inr ns3"
    "InsertTx exA ex_time 2 ex_spend_rec False ns3 = Inr ns4" "ex_insert 3 ns4 = Inr ns5"
    "ex3 = Inr ns3" "ex4 = Inr ns4" "ex5 = Inr ns5"
    by (rule ex_states)
  have 3: "ledger_ok ns3" "existsRawUnconfirmedTx ns3 (be_bytes 32 (31 :: hash)) = Inr None"
    "List.map_filter (owned_input exA ns3) (msg_TxIns ex_spend) = [OutPointAbe 30 0]"
    using ex3_ok by (simp_all add: s(7) ledger_ok_check)
  have "books_ok ns3" using ex_books s(7) by (metis sum.inject(2))
  moreover have "rec_Hash ex_spend_rec = 31" "rec_MsgTx ex_spend_rec = ex_spend"
    by (simp_all add: ex_spend_rec_def)
  ultimately show ?thesis
    using s(5-9) 3 InsertTx_ledger [OF s(5) 3(1)] by metis
qed

section \<open>A small store\<close>

text \<open>
  One spendable output with its ring, and a transaction 77 on record as another spender of it.
\<close>

definition ex_utxo :: SpendableTXO where
  "ex_utxo = \<lparr>txo_Version = 0, txo_Height = 1, txo_TxOutput = OutPointAbe 30 0, txo_PackedFlag = 0,
     txo_Amount = 20, txo_PublicRand = replicate 64 0, txo_GenerationTime = ex_time,
     txo_RingHash = 1030, txo_RingSize = 2, txo_RingIndex = 0, txo_UTXOHash = 0\<rparr>"

definition ex_uring :: UTXORing where
  "ex_uring = \<lparr>ur_Version = 0, ur_AllSpent = False, ur_Refreshed = False, ur_RingHash = 1030,
     ur_TxHashes = [30, 30], ur_OutputIndexes = [0, 1], ur_OriginSerialNumberes = Some [(0, ex_sn)],
     ur_IsMy = [True, False], ur_Spent = [False, False], ur_GotSerialNumberes = [],
     ur_PackedFlag = 0\<rparr>"

definition ex_small where
  "ex_small = rbind ex0 (\<lambda>ns.
     rbind (putSpendableTXO exA ex_utxo (putSpendableBalance 20 (putMinedBalance 20 ns))) (\<lambda>ns.
     rbind (putUTXORing exA 1030 ex_uring ns) (\<lambda>ns.
     rbind (putRawUnconfirmedTx ex_time (be_bytes 32 (77 :: hash))
              (replicate 8 0 @ be_bytes 32 (77 :: hash)) ns) (\<lambda>ns.
       putRawRelevantTxs (op_key (OutPointAbe 30 0)) (be_bytes 32 (77 :: hash)) ns))))"

lemma ex_small_ok: "case ex_small of Inl e \<Rightarrow> False | Inr ns \<Rightarrow> ledger_check ns \<and>
    \<not> isl (InsertTx exA ex_time 2 ex_spend_rec False ns) \<and>
    existsRawUnconfirmedTx ns (be_bytes 32 (31 :: hash)) = Inr None \<and>
    List.map_filter (owned_input exA ns) (msg_TxIns ex_spend) = [OutPointAbe 30 0] \<and>
    chunks32 (relevant_list ns (op_key (OutPointAbe 30 0))) = [be_bytes 32 (77 :: hash)]"
  by code_simp

lemma ex_small_state:
  "\<exists>ns ns'. ex_small = Inr ns \<and> InsertTx exA ex_time 2 ex_spend_rec False ns = Inr ns' \<and>
     ledger_ok ns \<and> existsRawUnconfirmedTx ns (be_bytes 32 (rec_Hash ex_spend_rec)) = Inr None \<and>
     OutPointAbe 30 0 \<in> set (List.map_filter (owned_input exA ns) (msg_TxIns (rec_MsgTx ex_spend_rec))) \<and>
     be_bytes 32 (77 :: hash) \<in> set (chunks32 (relevant_list ns (op_key (OutPointAbe 30 0))))"
proof -
  obtain ns where ns: "ex_small = Inr ns" using ex_small_ok by (auto split: sum.splits)
  note e = ex_small_ok [unfolded ns sum.case]
  obtain ns' where "InsertTx exA ex_time 2 ex_spend_rec False ns = Inr ns'"
    using e by (auto simp: isl_def split: sum.splits) (metis sum.exhaust)
  with e show ?thesis by (auto simp: ns ex_spend_rec_def ledger_ok_check)
qed

definition ex_spent_uring :: UTXORing where
  "ex_spent_uring = ex_uring\<lparr>ur_Spent := [True, False], ur_GotSerialNumberes := [ex_sn]\<rparr>"

definition ex_acct :: acct where
  "ex_acct = \<lparr>a_balance = 20, a_spendable = 20, a_immatureCB = 0, a_immatureTR = 0, a_unconfirmed = 0,
     a_ctBal = ex_none, a_ctSpendable = ex_none, a_ctImmature = ex_none, a_ctUnconfirmed = ex_none,
     a_rcNum = ex_none, a_rcImmature = ex_none, a_rcSpendable = ex_none, a_rcUnconfirmed = ex_none\<rparr>"

definition ex_one :: "namespace result" where
  "ex_one = rbind ex0 (putSpendableTXO exA ex_utxo)"

lemma ex_one_fetch: "case ex_one of Inl e \<Rightarrow> False | Inr ns \<Rightarrow>
    (case fetchSpendableTXO ns 30 0 of Inr (Some t) \<Rightarrow> txo_Amount t = 20 | _ \<Rightarrow> False)"
  by code_simp

lemma ex_one_spend: "case ex_one of Inl e \<Rightarrow> False | Inr ns \<Rightarrow>
    \<not> isl (spend_member exA (ex_record 1) 31 ex_spent_uring 0 (ex_acct, ns))"
  by code_simp

lemma not_isl_Inr: "\<not> isl r \<Longrightarrow> \<exists>x. r = Inr x"
  by (cases r) simp_all

lemma result_case: "(case r of Inl e \<Rightarrow> False | Inr x \<Rightarrow> P x) \<longleftrightarrow> (\<exists>x. r = Inr x \<and> P x)"
  by (cases r) simp_all

lemma ex_spend_member:
  "\<exists>ns a ns' txo. ex_one = Inr ns \<and>
     spend_member exA (ex_record 1) 31 ex_spent_uring 0 (ex_acct, ns) = Inr (a, ns') \<and>
     fetchSpendableTXO ns 30 0 = Inr (Some txo) \<and> txo_Amount txo = 20"
proof -
  obtain ns where ns: "ex_one = Inr ns"
    "case fetchSpendableTXO ns 30 0 of Inr (Some t) \<Rightarrow> txo_Amount t = 20 | _ \<Rightarrow> False"
    using ex_one_fetch unfolding result_case by blast
  obtain txo where t: "fetchSpendableTXO ns 30 0 = Inr (Some txo)" "txo_Amount txo = 20"
    using ns(2) by (cases "fetchSpendableTXO ns 30 0") (auto split: option.splits)
  have "\<not> isl (spend_member exA (ex_record 1) 31 ex_spent_uring 0 (ex_acct, ns))"
    using ex_one_spend unfolding result_case ns(1) by blast
  then obtain a ns' where
    "spend_member exA (ex_record 1) 31 ex_spent_uring 0 (ex_acct, ns) = Inr (a, ns')"
    using not_isl_Inr by (metis surj_pair)
  then show ?thesis using ns(1) t by blast
qed

definition ex_small_spent where
  "ex_small_spent = rbind ex_small (InsertTx exA ex_time 2 ex_spend_rec False)"

lemma ex_unmined:
  "\<exists>ns ns'. ex_small_spent = Inr ns \<and> DeleteRawUnmined exA ex_spend ns = Inr ns' \<and>
     fetchSpendableBalance ns = Inr 0 \<and> bucket_amount bucketMaturedOutput ns' = 20"
proof -
  have e: "case ex_small_spent of Inl e \<Rightarrow> False | Inr ns \<Rightarrow> fetchSpendableBalance ns = Inr 0 \<and>
      (case DeleteRawUnmined exA ex_spend ns of Inl e \<Rightarrow> False
       | Inr ns' \<Rightarrow> bucket_amount bucketMaturedOutput ns' = 20)"
    by code_simp
  then obtain ns where ns: "ex_small_spent = Inr ns" by (auto split: sum.splits)
  from e [unfolded ns sum.case] show ?thesis using ns by (auto split: sum.splits)
qed

section \<open>The empty store\<close>

lemma ex0_empty: "\<exists>ns. ex0 = Inr ns \<and>
    existsRawUnconfirmedTx ns (be_bytes 32 (rec_Hash ex_spend_rec)) = Inr None \<and>
    fetchUTXORing exA ns (be_bytes 32 (OutPointRing_Hash exA
      (in_PreviousOutPointRing (hd (msg_TxIns ex_spend))))) = Inr None \<and>
    fetchMinedBalance ns = Inr 0 \<and> fetchSpendableBalance ns = Inr 0 \<and>
    fetchSpendableTXO ns 30 0 = Inr None"
proof -
  have e: "case ex0 of Inl e \<Rightarrow> False | Inr ns \<Rightarrow>
      existsRawUnconfirmedTx ns (be_bytes 32 (rec_Hash ex_spend_rec)) = Inr None \<and>
      fetchUTXORing exA ns (be_bytes 32 (OutPointRing_Hash exA
        (in_PreviousOutPointRing (hd (msg_TxIns ex_spend))))) = Inr None \<and>
      fetchMinedBalance ns = Inr 0 \<and> fetchSpendableBalance ns = Inr 0 \<and>
      fetchSpendableTXO ns 30 0 = Inr None"
    by code_simp
  then obtain ns where ns: "ex0 = Inr ns" by (auto split: sum.splits)
  from e [unfolded ns sum.case] show ?thesis using ns by blast
qed

lemma ex0_lock: "\<exists>ns ns'. ex0 = Inr ns \<and> lockOutput 5 (OutPointAbe 30 0) (GoTime 200 7) ns = Inr ns'"
proof -
  have e: "case ex0 of Inl e \<Rightarrow> False
      | Inr ns \<Rightarrow> \<not> isl (lockOutput 5 (OutPointAbe 30 0) (GoTime 200 7) ns)"
    by code_simp
  then obtain ns where ns: "ex0 = Inr ns" by (auto split: sum.splits)
  from e [unfolded ns sum.case] show ?thesis using ns by (auto simp: isl_def) (metis sum.exhaust)
qed

lemma ex0_label: "\<exists>ns ns'. PutTxLabel 5 [1] ns = Inr ns' \<and> FetchTxLabel ns 6 = Inr [2]"
proof -
  have e: "case rbind ex0 (PutTxLabel 6 [2]) of Inl e \<Rightarrow> False
      | Inr ns \<Rightarrow> \<not> isl (PutTxLabel 5 [1] ns) \<and> FetchTxLabel ns 6 = Inr [2]"
    by code_simp
  then obtain ns where ns: "rbind ex0 (PutTxLabel 6 [2]) = Inr ns" by (auto split: sum.splits)
  from e [unfolded ns sum.case] show ?thesis by (auto simp: isl_def) (metis sum.exhaust)
qed

end
