(* ===== verification/RollbackRun.thy ===== *)
theory RollbackRun
  imports Fixtures RollbackBooks
begin

text \<open>
  The run of \<open>Fixtures\<close> undone, evaluated: the block that closed a ring group, a member spent
  in a block, a ring group with one spendable output, a coinbase output spent in a block.
\<close>

definition ex_bh :: "i32 \<Rightarrow> hash result" where
  "ex_bh h = Inr (100 + ucast h)"

lemma ex_rollback_ok:
  "case rbind ex3 (rollback exA exK ex_time ex_bh 1) of Inl e \<Rightarrow> False
   | Inr ns \<Rightarrow> ex_balances ns = [Inr 30, Inr 0, Inr 10, Inr 20, Inr 0]"
  by code_simp

lemma ex_rollback:
  "\<exists>ns ns'. ex3 = Inr ns \<and> books_ok ns \<and> rollback exA exK ex_time ex_bh 1 ns = Inr ns' \<and>
     ex_balances ns' = [Inr 30, Inr 0, Inr 10, Inr 20, Inr 0]"
proof -
  obtain ns ns' where r: "ex3 = Inr ns" "rollback exA exK ex_time ex_bh 1 ns = Inr ns'"
    "ex_balances ns' = [Inr 30, Inr 0, Inr 10, Inr 20, Inr 0]"
    using ex_rollback_ok unfolding result_case rbind_Inr_iff by blast
  obtain n where n: "ex3 = Inr n" "books_ok n" using ex_books by blast
  from n(1) r(1) have "n = ns" by (metis sum.inject(2))
  then show ?thesis using r n(2) by blast
qed

section \<open>A member spent and restored\<close>

lemma ex_restore_ok: "case ex_one of Inl e \<Rightarrow> False | Inr ns \<Rightarrow>
    (case spend_member exA (ex_record 1) 31 ex_spent_uring 0 (ex_acct, ns) of Inl e \<Rightarrow> False
     | Inr s \<Rightarrow> (case fetchConfirmedTXO (snd s) 30 0 of Inl e \<Rightarrow> False
       | Inr c \<Rightarrow> \<not> isl (restore_output exA ex_time 1 False (OutPointAbe 30 0) c s)))"
  by code_simp

lemma ex_restore: "\<exists>ns a1 ns1 c a2 ns2 txo. ex_one = Inr ns \<and>
    spend_member exA (ex_record 1) 31 ex_spent_uring 0 (ex_acct, ns) = Inr (a1, ns1) \<and>
    fetchSpendableTXO ns 30 0 = Inr (Some txo) \<and> \<not> IsCTAUTCoin txo \<and>
    fetchConfirmedTXO ns1 30 0 = Inr c \<and>
    restore_output exA ex_time 1 False (OutPointAbe 30 0) c (a1, ns1) = Inr (a2, ns2)"
proof -
  obtain ns s c where s: "ex_one = Inr ns"
    "spend_member exA (ex_record 1) 31 ex_spent_uring 0 (ex_acct, ns) = Inr s"
    "fetchConfirmedTXO (snd s) 30 0 = Inr c"
    "\<not> isl (restore_output exA ex_time 1 False (OutPointAbe 30 0) c s)"
    using ex_restore_ok unfolding result_case by blast
  obtain r where r: "restore_output exA ex_time 1 False (OutPointAbe 30 0) c s = Inr r"
    using not_isl_Inr [OF s(4)] by blast
  obtain n where "putSpendableTXO exA ex_utxo n = Inr ns"
    using s(1) unfolding ex_one_def rbind_Inr_iff by blast
  then have "fetchSpendableTXO ns 30 0 = Inr (Some (memo_hash exA ex_utxo))"
    using matured.fetch_put [of exA ex_utxo n ns "OutPointAbe 30 0"] by (simp add: ex_utxo_def)
  moreover have "\<not> IsCTAUTCoin (memo_hash exA ex_utxo)"
    by (simp add: IsCTAUTCoin_def memo_hash_def ex_utxo_def txoFlagCTAUTCoin_def)
  ultimately show ?thesis using s r by (metis surj_pair snd_conv)
qed

section \<open>A group of one output reopened\<close>

definition ex_group :: "namespace result" where
  "ex_group = rbind ex_one (\<lambda>ns. putBlockOutputs 1 101 [OutPointAbe 30 0]
     (putSpendableBalance 20 (putMinedBalance 20 ns)))"

lemma ex_group_ok: "case ex_group of Inl e \<Rightarrow> False | Inr ns \<Rightarrow> ledger_check ns \<and>
    (case load_acct ns of Inl e \<Rightarrow> False
     | Inr a \<Rightarrow> (case reopen_group exA exK ex_time ex_bh [] 2 (a, ns) of Inl e \<Rightarrow> False
       | Inr s \<Rightarrow> a_immatureTR (fst s) = 20 \<and> a_spendable (fst s) = 0))"
  by code_simp

lemma ex_group_run: "\<exists>ns a s. ex_group = Inr ns \<and> filed (a, ns) \<and>
    reopen_group exA exK ex_time ex_bh [] 2 (a, ns) = Inr s \<and> a_immatureTR (fst s) = 20"
proof -
  obtain ns a s where s: "ex_group = Inr ns" "ledger_check ns" "load_acct ns = Inr a"
    "reopen_group exA exK ex_time ex_bh [] 2 (a, ns) = Inr s" "a_immatureTR (fst s) = 20"
    using ex_group_ok unfolding result_case by blast
  have "filed (a, ns)" using ledger_ok_filed [OF s(3)] ledger_ok_check [OF s(2)] by simp
  then show ?thesis using s by blast
qed

section \<open>A coinbase output spent in a block\<close>

definition ex_conf :: "namespace result" where
  "ex_conf = rbind ex0 (\<lambda>ns. rbind (putConfirmedTXO exA
     \<lparr>ctx_unconfirmed = \<lparr>utx_txo = ex_utxo\<lparr>txo_PackedFlag := txoFlagCoinbase\<rparr>,
        utx_SpentByHash = 31, utx_SpentTime = ex_time\<rparr>,
      ctx_ConfirmedByBlockHash = 103, ctx_ConfirmTime = ex_time\<rparr> ns)
     (putBlockOutputs 1 101 [OutPointAbe 30 0]))"

lemma ex_conf_ok: "case ex_conf of Inl e \<Rightarrow> False | Inr ns \<Rightarrow> ledger_check ns \<and>
    fetchSpendableTXO ns 30 0 = Inr None \<and> fetchUnconfirmedTXO ns 30 0 = Inr None \<and>
    fetchImmatureCoinbaseOutput ns 1 101 = Inr None \<and>
    (case load_acct ns of Inl e \<Rightarrow> False
     | Inr a \<Rightarrow> a_unconfirmed a = 0 \<and>
       \<not> isl (unmature_output exA ex_time 6 (OutPointAbe 30 0) ([], a, ns)) \<and>
       \<not> isl (unmature_block exA ex_time 6 106 5 0 (a, ns))) \<and>
    (case fetchConfirmedTXO ns 30 0 of Inr (Some c) \<Rightarrow>
       IsCoinbase (utx_txo (ctx_unconfirmed c)) \<and> txo_Amount (utx_txo (ctx_unconfirmed c)) = 20
     | _ \<Rightarrow> False)"
  by code_simp

lemma ex_conf_run: "\<exists>ns a cb' a' ns' a2 ns2 c. ex_conf = Inr ns \<and> filed (a, ns) \<and>
    fetchSpendableTXO ns 30 0 = Inr None \<and> fetchUnconfirmedTXO ns 30 0 = Inr None \<and>
    fetchConfirmedTXO ns 30 0 = Inr (Some c) \<and> IsCoinbase (utx_txo (ctx_unconfirmed c)) \<and>
    txo_Amount (utx_txo (ctx_unconfirmed c)) = 20 \<and>
    unmature_output exA ex_time 6 (OutPointAbe 30 0) ([], a, ns) = Inr (cb', a', ns') \<and>
    unmature_block exA ex_time 6 106 5 0 (a, ns) = Inr (a2, ns2) \<and>
    fetchImmatureCoinbaseOutput ns 1 101 = Inr None"
proof -
  obtain ns a where s: "ex_conf = Inr ns" "ledger_check ns" "load_acct ns = Inr a"
    "fetchSpendableTXO ns 30 0 = Inr None" "fetchUnconfirmedTXO ns 30 0 = Inr None"
    "fetchImmatureCoinbaseOutput ns 1 101 = Inr None"
    "\<not> isl (unmature_output exA ex_time 6 (OutPointAbe 30 0) ([], a, ns))"
    "\<not> isl (unmature_block exA ex_time 6 106 5 0 (a, ns))"
    and c: "case fetchConfirmedTXO ns 30 0 of Inr (Some c) \<Rightarrow>
       IsCoinbase (utx_txo (ctx_unconfirmed c)) \<and> txo_Amount (utx_txo (ctx_unconfirmed c)) = 20
     | _ \<Rightarrow> False"
    using ex_conf_ok unfolding result_case by blast
  obtain c where c: "fetchConfirmedTXO ns 30 0 = Inr (Some c)"
    "IsCoinbase (utx_txo (ctx_unconfirmed c))" "txo_Amount (utx_txo (ctx_unconfirmed c)) = 20"
    using c by (cases "fetchConfirmedTXO ns 30 0") (auto split: option.splits)
  have "filed (a, ns)" using ledger_ok_filed [OF s(3)] ledger_ok_check [OF s(2)] by simp
  moreover obtain x y where "unmature_output exA ex_time 6 (OutPointAbe 30 0) ([], a, ns) = Inr x"
    "unmature_block exA ex_time 6 106 5 0 (a, ns) = Inr y"
    using not_isl_Inr [OF s(7)] not_isl_Inr [OF s(8)] by blast
  ultimately show ?thesis using s(1,4-6) c by (metis surj_pair)
qed

end
