(* ===== verification/Machine.thy ===== *)
theory Machine
  imports Frames RollbackRun
begin

text \<open>
  The store as a machine: the operations the wallet calls on it, in any order, from the store
  that \<open>createStore\<close> makes. What every operation keeps holds of every store the wallet can
  reach.
\<close>

section \<open>InsertTx and the balances\<close>

text \<open>\<open>InsertTx\<close> only rewrites balances it has read, so those on record stay readable.\<close>

definition readable :: "namespace \<Rightarrow> namespace \<Rightarrow> bool" where
  "readable ns ns' \<longleftrightarrow> (\<forall>k. isl (fetch_amount k ns') \<longrightarrow> isl (fetch_amount k ns))"

lemma readable_refl [simp]: "readable ns ns"
  by (simp add: readable_def)

lemma readable_trans: "readable a b \<Longrightarrow> readable b c \<Longrightarrow> readable a c"
  by (simp add: readable_def)

lemma readable_only: "only_buckets B ns ns' \<Longrightarrow> readable ns ns'"
  by (simp add: readable_def only_bucketsD)

lemma insert_move_readable:
  assumes "insert_move A now h op ns = Inr (utxo, ns')"
  shows "readable ns ns'"
proof -
  from assms obtain v sp un ns1 ns2 where s:
    "nested_get bucketMaturedOutput (op_key op) ns = Inr (Some v)"
    "fetch_amount rootSpendableBalance ns = Inr sp"
    "fetch_amount rootUnconfirmedBalance ns = Inr un"
    "SpendableTXO_Deserialize op (Some v) = Inr utxo"
    "ns1 = put_amount rootUnconfirmedBalance (un + txo_Amount utxo)
       (put_amount rootSpendableBalance (sp - txo_Amount utxo) ns)"
    "nested_delete bucketMaturedOutput (op_key op) ns1 = Inr ns2"
    "putUnconfirmedTXO A \<lparr>utx_txo = utxo, utx_SpentByHash = h, utx_SpentTime = now\<rparr> ns2 = Inr ns'"
    by (rule insert_move_facts)
  have "readable ns ns1" by (simp add: readable_def s(5))
  moreover have "readable ns1 ns2"
    by (rule readable_only [OF only_buckets_delete [OF s(6), of UNIV]]) simp
  moreover have "readable ns2 ns'"
    using s(7) by (auto simp: putUnconfirmedTXO_Inr_iff intro: readable_only only_buckets_put)
  ultimately show ?thesis by (blast intro: readable_trans)
qed

lemma insert_ct_move_readable: "insert_ct_move A utxo ns = Inr ns' \<Longrightarrow> readable ns ns'"
  by (auto simp: insert_ct_move_def Let_def Inr_iffs readable_def ctaut_defs)

lemma InsertTx_readable:
  assumes "InsertTx A now height rec hasBlock ns = Inr ns'"
  shows "readable ns ns'"
  using assms
proof (cases rule: InsertTx_cases)
  case (new ns1 ns2 v)
  have step: "readable a b" if "insert_input A now height h txin a = Inr b" for h txin a b
    using that
    by (auto simp: insert_input_def Inr_iffs;
        blast intro: readable_trans insert_move_readable insert_ct_move_readable
          readable_only insert_relevant_only)
  have "readable ns ns1"
    by (rule rfold_invariant [where P = "readable ns", OF new(3)])
      (auto intro: readable_trans step)
  moreover have "readable ns1 ns2" by (rule readable_only [OF put_raw_only(1) [OF new(5)]])
  moreover have "readable ns2 ns'"
    unfolding new(6) by (rule readable_only [OF only_buckets_notify])
  ultimately show ?thesis by (blast intro: readable_trans)
qed simp

lemma InsertTx_books:
  assumes "InsertTx A now height rec hasBlock ns = Inr ns'" and "books_ok ns"
  shows "books_ok ns'"
proof -
  obtain a where a: "load_acct ns = Inr a" using assms(2) by (auto simp: books_ok_def)
  have "\<not> isl (fetchSpendableBalance ns)" "\<not> isl (fetchUnconfirmedBalance ns)"
    using a by (auto simp: load_acct_def rbind_Inr_iff)
  then have "\<not> isl (fetchSpendableBalance ns')" "\<not> isl (fetchUnconfirmedBalance ns')"
    using InsertTx_readable [OF assms(1)] by (auto simp: readable_def balance_defs)
  then obtain sp un where "fetchSpendableBalance ns' = Inr sp" "fetchUnconfirmedBalance ns' = Inr un"
    using not_isl_Inr by blast
  then show ?thesis by (rule books_ok_conserved [OF InsertTx_conserved [OF assms(1)] assms(2)])
qed

section \<open>Locks, labels and request records\<close>

text \<open>The buckets of locks, labels and request records are made when they are first used.\<close>

definition grown :: "namespace \<Rightarrow> namespace \<Rightarrow> bool" where
  "grown ns ns' \<longleftrightarrow>
     ns_root ns' = ns_root ns \<and> ns_ctaut ns' = ns_ctaut ns \<and>
     (\<forall>b. ns_bucket ns b \<noteq> None \<longrightarrow> ns_bucket ns' b \<noteq> None) \<and>
     (buckets_ok ns \<longrightarrow> buckets_ok ns')"

lemma grown_only: "only_buckets B ns ns' \<Longrightarrow> grown ns ns'"
  by (auto simp: only_buckets_def grown_def)

lemma grown_trans: "grown a b \<Longrightarrow> grown b c \<Longrightarrow> grown a c"
  by (simp add: grown_def)

lemma grown_create: "grown ns (CreateBucketIfNotExists b ns)"
  by (auto simp: grown_def CreateBucketIfNotExists_def buckets_ok_iff kv.ok_empty split: option.splits)

lemma grown_put: "nested_put msg b k v (CreateBucketIfNotExists b ns) = Inr ns' \<Longrightarrow> grown ns ns'"
  using grown_trans [OF grown_create grown_only [OF only_buckets_put [where B = UNIV]]] by auto

lemma unlockOutput_only: "unlockOutput op ns = Inr ns' \<Longrightarrow> only_buckets {bucketLockedOutputs} ns ns'"
  by (auto simp: unlockOutput_def split: option.splits intro: only_buckets_delete)

lemma side_operations_grown:
  "lockOutput i op expiry ns = Inr ns' \<Longrightarrow> grown ns ns'"
  "unlockOutput op ns = Inr ns' \<Longrightarrow> grown ns ns'"
  "DeleteExpiredLockedOutputs now ns = Inr ns' \<Longrightarrow> grown ns ns'"
  "PutTxLabel txid label ns = Inr ns' \<Longrightarrow> grown ns ns'"
  "PutRequestHashAndTxHash r t ns = Inr ns' \<Longrightarrow> grown ns ns'"
  by (auto simp: lockOutput_def DeleteExpiredLockedOutputs_def PutTxLabel_def rbind_Inr_iff
      PutRequestHashAndTxHash_def split: if_splits
      dest!: grown_put only_buckets_rfold [where p = "\<lambda>x. x", OF _ unlockOutput_only]
      intro: grown_only unlockOutput_only)

section \<open>The machine\<close>

inductive store_step ::
  "abec \<Rightarrow> abecblk \<Rightarrow> crypto \<Rightarrow> manager \<Rightarrow> namespace \<Rightarrow> namespace \<Rightarrow> bool"
  for A :: abec and B :: abecblk and K :: crypto and M :: manager where
  genesis: "InsertGenesisBlock A B K M block ns = Inr ns' \<Longrightarrow> store_step A B K M ns ns'"
| connect: "InsertBlock A B K M now block extra hs ns = Inr ns' \<Longrightarrow> store_step A B K M ns ns'"
| unmined: "InsertTx A now height rec hasBlock ns = Inr ns' \<Longrightarrow> store_step A B K M ns ns'"
| disconnect: "Rollback A K now BH height ns = Inr ns' \<Longrightarrow> store_step A B K M ns ns'"
| forget: "DeleteRawUnmined A tx ns = Inr ns' \<Longrightarrow> store_step A B K M ns ns'"
| lock: "lockOutput i op expiry ns = Inr ns' \<Longrightarrow> store_step A B K M ns ns'"
| unlock: "unlockOutput op ns = Inr ns' \<Longrightarrow> store_step A B K M ns ns'"
| expire: "DeleteExpiredLockedOutputs now ns = Inr ns' \<Longrightarrow> store_step A B K M ns ns'"
| label: "PutTxLabel txid lbl ns = Inr ns' \<Longrightarrow> store_step A B K M ns ns'"
| request: "PutRequestHashAndTxHash r t ns = Inr ns' \<Longrightarrow> store_step A B K M ns ns'"

inductive_cases store_stepE: "store_step A B K M ns ns'"

inductive reachable :: "abec \<Rightarrow> abecblk \<Rightarrow> crypto \<Rightarrow> manager \<Rightarrow> namespace \<Rightarrow> bool"
  for A :: abec and B :: abecblk and K :: crypto and M :: manager where
  created: "createStore now ns0 = Inr ns \<Longrightarrow> reachable A B K M ns"
| step: "reachable A B K M ns \<Longrightarrow> store_step A B K M ns ns' \<Longrightarrow> reachable A B K M ns'"

text \<open>A store in good order: balanced books, every bucket there, sorted keys, the version known.\<close>

definition sound_store :: "namespace \<Rightarrow> bool" where
  "sound_store ns \<longleftrightarrow>
     books_ok ns \<and> openStore ns = Inr () \<and> buckets_ok ns \<and>
     (\<forall>b \<in> store_buckets. ns_bucket ns b \<noteq> None)"

lemma openStore_version: "ns_root ns' rootVersion = ns_root ns rootVersion \<Longrightarrow> openStore ns' = openStore ns"
  by (simp add: openStore_def fetchVersion_def)

lemma sound_store_kept:
  assumes "kept ns ns'" and "sound_store ns" and "books_ok ns'"
  shows "sound_store ns'"
proof -
  have "ns_bucket ns' b = None \<longleftrightarrow> ns_bucket ns b = None" for b
    using assms(1) by (auto simp: kept_def)
  moreover have "openStore ns' = openStore ns"
    using assms(1) by (intro openStore_version) (simp add: kept_def fixed_root_def)
  ultimately show ?thesis using assms by (simp add: sound_store_def kept_def del: not_None_eq)
qed

lemma books_ok_same:
  assumes "ns_root ns' = ns_root ns" and "ns_ctaut ns' = ns_ctaut ns"
  shows "books_ok ns' = books_ok ns"
proof -
  have "load_acct ns' = load_acct ns"
    using assms by (simp add: load_acct_def balance_defs ctaut_defs fetch_amount_def fetch_ctaut_def)
  then show ?thesis by (simp add: books_ok_def)
qed

lemma sound_store_grown:
  assumes "grown ns ns'" and "sound_store ns"
  shows "sound_store ns'"
proof -
  have "books_ok ns' = books_ok ns" "openStore ns' = openStore ns"
    using assms(1) by (auto simp: grown_def intro!: books_ok_same openStore_version)
  then show ?thesis using assms by (simp add: sound_store_def grown_def del: not_None_eq)
qed

lemma store_step_sound:
  assumes "store_step A B K M ns ns'" and "sound_store ns"
  shows "sound_store ns'"
  using assms(1)
proof (cases rule: store_step.cases)
  case (genesis block)
  then show ?thesis
    using sound_store_kept InsertGenesisBlock_kept InsertGenesisBlock_keeps(1) assms(2)
    by (metis sound_store_def)
next
  case (connect now block extra hs)
  then show ?thesis
    using sound_store_kept InsertBlock_kept InsertBlock_keeps_books assms(2)
    by (metis sound_store_def)
next
  case (unmined now height rec hasBlock)
  then show ?thesis
    using sound_store_kept InsertTx_kept InsertTx_books assms(2) by (metis sound_store_def)
next
  case (disconnect now BH height)
  then show ?thesis
    using sound_store_kept rollback_kept rollback_keeps_books assms(2)
    by (metis sound_store_def Rollback_def)
next
  case (forget tx)
  then show ?thesis
    using sound_store_grown [OF grown_only [OF DeleteRawUnmined_only]] assms(2) by blast
qed (erule side_operations_grown [THEN sound_store_grown], rule assms(2))+

lemma createStore_sound:
  assumes "createStore now ns0 = Inr ns"
  shows "sound_store ns"
proof -
  have "namespace_empty ns0" using assms by (auto simp: createStore_def split: if_splits)
  then have "fresh_store ns" using createStore_fresh [of ns0 now] assms by auto
  then have "openStore ns = Inr ()" "\<forall>b \<in> store_buckets. ns_bucket ns b \<noteq> None"
    by (auto simp: fresh_store_open fresh_store_def store_buckets_def list_all_iff)
  moreover have "buckets_ok ns" using createStore_ledger_ok [OF assms] by (simp add: ledger_ok_def)
  ultimately show ?thesis using createStore_books [OF assms] by (simp add: sound_store_def)
qed

lemma reachable_sound: "reachable A B K M ns \<Longrightarrow> sound_store ns"
  by (induction rule: reachable.induct) (auto intro: createStore_sound store_step_sound)

text \<open>The run of \<open>Fixtures\<close> is one of this machine.\<close>

lemma ex5_reachable: "\<exists>ns. ex5 = Inr ns \<and> reachable exA exB exK exM ns"
proof -
  obtain ns0 ns1 ns2 ns3 ns4 ns5 where s: "createStore ex_time ex_empty = Inr ns0"
    "InsertGenesisBlock exA exB exK exM (ex_record 0) ns0 = Inr ns1"
    "ex_insert 1 ns1 = Inr ns2" "ex_insert 2 ns2 = Inr ns3"
    "InsertTx exA ex_time 2 ex_spend_rec False ns3 = Inr ns4" "ex_insert 3 ns4 = Inr ns5"
    "ex3 = Inr ns3" "ex4 = Inr ns4" "ex5 = Inr ns5"
    by (rule ex_states)
  note i = s(3,4,6)
  have "reachable exA exB exK exM ns2"
    using created [OF s(1)] genesis [OF s(2)] connect [OF i(1)] by (blast intro: reachable.step)
  then have "reachable exA exB exK exM ns5"
    using connect [OF i(2)] unmined [OF s(5)] connect [OF i(3)] by (blast intro: reachable.step)
  then show ?thesis using s(9) by blast
qed

end
