(* ===== verification/CoinSelect.thy ===== *)
theory CoinSelect
  imports Receive
begin

text \<open>
  Choosing the coins of a payment, \<open>wallet/createtx.go\<close>: which outputs are eligible, which of
  them are taken, the fee and the change. \<open>txPqringCTToOutputsMLP\<close> is modelled up to the call
  of the cryptographic transaction generation, which gets the plan built here.

  Amounts are \<open>abeutil.Amount\<close>, 64-bit integers the code compares as signed (it tests for
  negative ones). The order \<open>sort.Sort\<close> leaves among outputs of the same version and amount is
  that of the list. \<open>Hash\<close> memoises its result in the output it is called on; only log lines
  read that field afterwards, and it is left as it was.
\<close>

section \<open>Confirmations\<close>

definition confirms :: "i32 \<Rightarrow> i32 \<Rightarrow> i32" where
  "confirms txHeight curHeight =
     (if txHeight = -1 \<or> sint curHeight < sint txHeight then 0 else curHeight - txHeight + 1)"

definition confirmed :: "i32 \<Rightarrow> i32 \<Rightarrow> i32 \<Rightarrow> bool" where
  "confirmed minconf txHeight curHeight \<longleftrightarrow> sint minconf \<le> sint (confirms txHeight curHeight)"

definition meetsRequiredConfs :: "i32 \<Rightarrow> i32 \<Rightarrow> i32 \<Rightarrow> bool" where
  "meetsRequiredConfs required txHeight curHeight \<longleftrightarrow> confirmed required txHeight curHeight"

section \<open>Eligible outputs\<close>

definition eligible :: "crypto \<Rightarrow> i32 \<Rightarrow> i32 \<Rightarrow> SpendableTXO \<Rightarrow> bool" where
  "eligible K minconf curHeight t \<longleftrightarrow>
     confirmed minconf (txo_Height t) curHeight \<and>
     (IsCoinbase t \<longrightarrow> confirmed (CoinbaseMaturity K) (txo_Height t) curHeight)"

definition findEligibleTxosAbe ::
  "crypto \<Rightarrow> i32 \<Rightarrow> i32 \<Rightarrow> namespace \<Rightarrow> SpendableTXO list result" where
  "findEligibleTxosAbe K minconf curHeight ns =
     rbind (UnspentOutputs ns) (\<lambda>unspent. Inr (filter (eligible K minconf curHeight) unspent))"

text \<open>
  \<open>findEligibleOutputsAbe\<close> also fetches the ring of every eligible output. It compares the error
  of \<open>FetchRingDetails\<close> with a freshly made one, which never is equal, so a missing ring is an
  error here.
\<close>

definition add_ring ::
  "abec \<Rightarrow> namespace \<Rightarrow> SpendableTXO \<Rightarrow> (hash \<times> Ring) list \<Rightarrow> (hash \<times> Ring) list result" where
  "add_ring A ns t rings =
     (if map_of rings (txo_RingHash t) \<noteq> None then Inr rings
      else rbind (FetchRingDetails A ns (be_bytes 32 (txo_RingHash t))) (\<lambda>ring.
             Inr (rings @ [(txo_RingHash t, ring)])))"

definition rings_of :: "abec \<Rightarrow> namespace \<Rightarrow> SpendableTXO list \<Rightarrow> (hash \<times> Ring) list result" where
  "rings_of A ns ts = rfold (add_ring A ns) ts []"

definition findEligibleOutputsAbe ::
  "abec \<Rightarrow> crypto \<Rightarrow> i32 \<Rightarrow> i32 \<Rightarrow> namespace
   \<Rightarrow> (SpendableTXO list \<times> (hash \<times> Ring) list) result" where
  "findEligibleOutputsAbe A K minconf curHeight ns =
     rbind (findEligibleTxosAbe K minconf curHeight ns) (\<lambda>ts.
     rbind (rings_of A ns ts) (\<lambda>rings. Inr (ts, rings)))"

text \<open>\<open>sort.Sort(sort.Reverse(byAmount(...)))\<close>: the highest version first, then the largest amount.\<close>

definition byAmount_key :: "SpendableTXO \<Rightarrow> int" where
  "byAmount_key t = - (uint (txo_Version t) * 2 ^ 64 + uint (txo_Amount t))"

definition sort_byAmount :: "SpendableTXO list \<Rightarrow> SpendableTXO list" where
  "sort_byAmount = sort_key byAmount_key"

section \<open>What the other packages decide\<close>

text \<open>
  Addresses, limits and sizes come from packages outside the repository. \<open>FeeAmount n f\<close> is
  \<open>NewAmountAbe(float64(n) * f.ToUnit(AmountNeutrino) / 1000.0)\<close>. An output description is its
  address and its value.
\<close>

type_synonym out_desc = "bytes \<times> u64"

record txparams =
  CryptoAddressParse :: "bytes \<Rightarrow> (u8 \<times> bytes) result"
  PrivacyLevelRINGCT :: u8
  TxVersion :: u32
  GetTxOutputMaxNum :: "nat result"
  GetTxOutputMaxNumForRing :: "nat result"
  GetTxOutputMaxNumForSingle :: "nat result"
  GetTxInputMaxNum :: "nat result"
  GetTxInputMaxNumForRing :: "nat result"
  GetTxInputMaxNumForSingle :: "nat result"
  PrecomputeTrTxConSizeMLP :: "u32 list \<Rightarrow> u8 list \<Rightarrow> bytes list \<Rightarrow> u32 result"
  GetTrTxWitnessSerializeSizeApprox :: "u8 \<Rightarrow> u8 \<Rightarrow> u8 list \<Rightarrow> u8 \<Rightarrow> u64 \<Rightarrow> u32 result"
  FeeAmount :: "u32 \<Rightarrow> u64 \<Rightarrow> u64 result"
  MaxNeutrino :: u64
  Hash_String :: "hash \<Rightarrow> string"

definition ChangeThreshold :: u64 where "ChangeThreshold = 1000"
definition WitnessScaleFactor :: u32 where "WitnessScaleFactor = 10"

definition CalculateFee :: "txparams \<Rightarrow> u32 \<Rightarrow> u32 \<Rightarrow> u64 \<Rightarrow> u64 result" where
  "CalculateFee P txConSize witnessSize feePerKb =
     FeeAmount P (txConSize + witnessSize div WitnessScaleFactor) feePerKb"

text \<open>
  What the address manager answers: whether it is locked, whether its scheme is
  \<open>CryptoSchemePQRingCTX\<close>, the root seeds (only whether there is an error matters here), the keys
  of the output at an address (fetched and decrypted), and the address \<open>NewAddressKey\<close> makes for
  the change, at the privacy level the caller chose.
\<close>

record payer =
  IsLocked :: bool
  SchemeIsPQRingCTX :: bool
  RootSeeds :: "unit result"
  AddressKeys :: "bytes \<Rightarrow> unit result"
  NewAddressKey :: "bytes result"

section \<open>The outputs asked for\<close>

record targets =
  tg_value :: u64
  tg_forRing :: nat
  tg_public :: u64
  tg_addresses :: "bytes list"

definition add_target :: "abec \<Rightarrow> txparams \<Rightarrow> out_desc \<Rightarrow> targets \<Rightarrow> targets result" where
  "add_target A P d tg =
     rbind (CryptoAddressParse P (fst d)) (\<lambda>(privacyLevel, coinAddress).
     rbind (if privacyLevel = PrivacyLevelPSEUDONYM A \<or> privacyLevel = PrivacyLevelPSEUDONYMCT A
            then Inr (tg\<lparr>tg_public := tg_public tg + snd d\<rparr>)
            else if privacyLevel = PrivacyLevelRINGCTPre A \<or> privacyLevel = PrivacyLevelRINGCT P
            then Inr (tg\<lparr>tg_forRing := tg_forRing tg + 1\<rparr>)
            else Inl (GoError ''un-supported address'')) (\<lambda>tg.
       Inr (tg\<lparr>tg_addresses := tg_addresses tg @ [coinAddress], tg_value := tg_value tg + snd d\<rparr>)))"

definition check_outputs :: "abec \<Rightarrow> txparams \<Rightarrow> out_desc list \<Rightarrow> targets result" where
  "check_outputs A P ds =
     rbind (rfold (add_target A P) ds
             \<lparr>tg_value = 0, tg_forRing = 0, tg_public = 0, tg_addresses = []\<rparr>) (\<lambda>tg.
     if sint (tg_value tg) < 0 \<or> sint (MaxNeutrino P) < sint (tg_value tg)
     then Inl (GoError ''target output value exceeds the maximum allowd value'')
     else rbind (GetTxOutputMaxNum P) (\<lambda>maxOutputNum.
     if maxOutputNum \<le> length ds then Inl (GoError ''transfer too many utxo'')
     else rbind (GetTxOutputMaxNumForRing P) (\<lambda>maxForRing.
     if maxForRing < tg_forRing tg then Inl (GoError ''transfer too many utxo for ring'')
     else rbind (GetTxOutputMaxNumForSingle P) (\<lambda>maxForSingle.
     if maxForSingle < length ds - tg_forRing tg
     then Inl (GoError ''transfer too many utxo for single'')
     else Inr tg))))"

section \<open>The inputs taken\<close>

record selection =
  sel_txos :: "SpendableTXO list"
  sel_versions :: "u32 list"
  sel_sizes :: "u8 list"
  sel_ringVersions :: "u32 list"
  sel_ringSizes :: "u8 list"
  sel_public :: u64
  sel_forRing :: u8
  sel_forSingle :: u8
  sel_total :: u64

definition no_selection :: selection where
  "no_selection =
     \<lparr>sel_txos = [], sel_versions = [], sel_sizes = [], sel_ringVersions = [], sel_ringSizes = [],
      sel_public = 0, sel_forRing = 0, sel_forSingle = 0, sel_total = 0\<rparr>"

text \<open>The single inputs are counted only when the fee is computed from the size.\<close>

definition add_input :: "bool \<Rightarrow> SpendableTXO \<Rightarrow> selection \<Rightarrow> selection" where
  "add_input countSingle t s =
     (let s = (if \<not> IsPseudonymous t
               then s\<lparr>sel_forRing := sel_forRing s + 1,
                      sel_ringVersions := sel_ringVersions s @ [txo_Version t],
                      sel_ringSizes := sel_ringSizes s @ [txo_RingSize t]\<rparr>
               else s\<lparr>sel_public := sel_public s + txo_Amount t,
                      sel_forSingle := sel_forSingle s + (if countSingle then 1 else 0)\<rparr>)
      in s\<lparr>sel_versions := sel_versions s @ [txo_Version t],
           sel_sizes := sel_sizes s @ [txo_RingSize t],
           sel_txos := sel_txos s @ [t], sel_total := sel_total s + txo_Amount t\<rparr>)"

definition level_matches :: "abec \<Rightarrow> u8 option \<Rightarrow> SpendableTXO \<Rightarrow> bool" where
  "level_matches A level t =
     (case level of None \<Rightarrow> True
      | Some l \<Rightarrow> if l = PrivacyLevelPSEUDONYM A then IsPseudonymous t else \<not> IsPseudonymous t)"

text \<open>With the fee given: outputs are taken until they cover the target and the fee.\<close>

fun pick_fixed ::
  "abec \<Rightarrow> u8 option \<Rightarrow> u64 \<Rightarrow> u64 \<Rightarrow> SpendableTXO list \<Rightarrow> selection \<Rightarrow> selection" where
  "pick_fixed A level target fee [] s = s"
| "pick_fixed A level target fee (t # ts) s =
     (if \<not> level_matches A level t then pick_fixed A level target fee ts s
      else let s = add_input False t s
           in if sint (target + fee) \<le> sint (sel_total s) then s
              else pick_fixed A level target fee ts s)"

text \<open>
  With the fee computed from the size: after every output taken, once the target is covered. The
  fee and whether there is change, or \<open>None\<close> when the outputs are used up.
\<close>

fun pick_rate ::
  "abec \<Rightarrow> u8 option \<Rightarrow> u64 \<Rightarrow> (selection \<Rightarrow> u64 result) \<Rightarrow> SpendableTXO list \<Rightarrow> selection
   \<Rightarrow> (selection \<times> (u64 \<times> bool) option) result" where
  "pick_rate A level target computeFee [] s = Inr (s, None)"
| "pick_rate A level target computeFee (t # ts) s =
     (if \<not> level_matches A level t then pick_rate A level target computeFee ts s
      else let s = add_input True t s
           in if sint (sel_total s) < sint target then pick_rate A level target computeFee ts s
              else rbind (computeFee s) (\<lambda>fee.
                if sint (sel_total s) < sint (target + fee)
                then pick_rate A level target computeFee ts s
                else if sint (target + fee + ChangeThreshold) \<le> sint (sel_total s)
                then Inr (s, Some (fee, True))
                else Inr (s, Some (sel_total s - target, False))))"

text \<open>
  The outputs named by a prefix of their hash. Nothing keeps two names from choosing the same
  output.
\<close>

fun fetchSpecifiedUTXO ::
  "abec \<Rightarrow> txparams \<Rightarrow> SpendableTXO list \<Rightarrow> string list \<Rightarrow> SpendableTXO list result" where
  "fetchSpecifiedUTXO A P ts [] = Inr []"
| "fetchSpecifiedUTXO A P ts (name # names) =
     (case List.find (\<lambda>t. take (length name) (Hash_String P (SpendableTXO_Hash A t)) = name) ts of
        None \<Rightarrow> Inl (GoError ''cannot find specified utxo'')
      | Some t \<Rightarrow> rbind (fetchSpecifiedUTXO A P ts names) (\<lambda>sel. Inr (t # sel)))"

definition take_specified ::
  "abec \<Rightarrow> bool \<Rightarrow> u8 option \<Rightarrow> SpendableTXO list \<Rightarrow> selection result" where
  "take_specified A countSingle level ts =
     rfold (\<lambda>t s. if \<not> level_matches A level t
                  then Inl (GoError ''specified txo is not match specified privacy level'')
                  else Inr (add_input countSingle t s)) ts no_selection"

section \<open>Fee and change\<close>

definition fixed_fee :: "u64 \<Rightarrow> u64 \<Rightarrow> u64 \<Rightarrow> u64 \<times> bool" where
  "fixed_fee target fee amount =
     (if sint (target + fee) < sint amount
      then if sint (amount - target - fee) < sint ChangeThreshold then (amount - target, False)
           else (fee, True)
      else (fee, False))"

definition compute_fee :: "txparams \<Rightarrow> targets \<Rightarrow> u64 \<Rightarrow> selection \<Rightarrow> u64 result" where
  "compute_fee P tg feePerKb s =
     rbind (PrecomputeTrTxConSizeMLP P (sel_versions s) (sel_sizes s) (tg_addresses tg)) (\<lambda>conSize.
     let vPublic = (if sel_forRing s = 0 \<and> tg_forRing tg = 0 then 0 else tg_public tg - sel_public s)
     in rbind (GetTrTxWitnessSerializeSizeApprox P (sel_forRing s) (sel_forSingle s)
                 (sel_ringSizes s) (of_nat (tg_forRing tg)) vPublic) (\<lambda>witnessSize.
        CalculateFee P conSize witnessSize feePerKb))"

definition check_inputs :: "txparams \<Rightarrow> selection \<Rightarrow> unit result" where
  "check_inputs P s =
     rbind (GetTxInputMaxNum P) (\<lambda>maxInputNum.
     if maxInputNum \<le> length (sel_txos s)
     then Inl (GoError ''select too many utxo to transfer, basically it means: input + fee < output '')
     else rbind (GetTxInputMaxNumForRing P) (\<lambda>maxForRing.
     if maxForRing < unat (sel_forRing s)
     then Inl (GoError ''select too many utxo for ring, basically it means: input + fee < output '')
     else rbind (GetTxInputMaxNumForSingle P) (\<lambda>maxForSingle.
     if int maxForSingle < int (length (sel_txos s)) - uint (sel_forRing s)
     then Inl (GoError ''select too many utxo for single, basically it means: input + fee < output '')
     else Inr ())))"

definition not_enough :: "'a result" where
  "not_enough = Inl (GoError ''not enough amount to transfer'')"

text \<open>
  The four ways of choosing: fee or fee rate, outputs named or not. \<open>None\<close> names no outputs at
  all. When neither is positive nothing is chosen.
\<close>

definition choose_inputs ::
  "abec \<Rightarrow> txparams \<Rightarrow> targets \<Rightarrow> u64 \<Rightarrow> u64 \<Rightarrow> string list option \<Rightarrow> u8 option
   \<Rightarrow> SpendableTXO list \<Rightarrow> (selection \<times> u64 \<times> bool) result" where
  "choose_inputs A P tg feePerKb fee utxoSpecified level ts =
     (let target = tg_value tg
      in if 0 < sint fee
         then rbind (case utxoSpecified of
                  None \<Rightarrow> Inr (pick_fixed A level target fee ts no_selection)
                | Some names \<Rightarrow>
                    rbind (fetchSpecifiedUTXO A P ts names) (\<lambda>sel.
                    rbind (take_specified A False level sel) (\<lambda>s.
                    if sint (sel_total s) < sint (target + fee)
                    then Inl (GoError ''specified utxos do not have enough amount'')
                    else Inr s))) (\<lambda>s.
                Inr (s, fixed_fee target fee (sel_total s)))
         else if fee = 0 \<and> 0 < sint feePerKb
         then (case utxoSpecified of
                 None \<Rightarrow>
                   rbind (pick_rate A level target (compute_fee P tg feePerKb) ts no_selection)
                     (\<lambda>(s, r). Inr (s, case r of None \<Rightarrow> (0, False) | Some r \<Rightarrow> r))
               | Some names \<Rightarrow>
                   rbind (fetchSpecifiedUTXO A P ts names) (\<lambda>sel.
                   rbind (take_specified A True level sel) (\<lambda>s.
                   if sint (sel_total s) < sint target then not_enough
                   else rbind (check_inputs P s) (\<lambda>_.
                   rbind (compute_fee P tg feePerKb s) (\<lambda>fee.
                   if sint (sel_total s) < sint (target + fee) then not_enough
                   else if sint (target + fee + ChangeThreshold) \<le> sint (sel_total s)
                   then Inr (s, fee, True)
                   else Inr (s, sel_total s - target, False))))))
         else Inr (no_selection, 0, False))"

section \<open>The transaction planned\<close>

text \<open>
  An input of the plan: the output spent, the input of the message it becomes, and the members
  of its ring. \<open>wire.TxInAbe\<close> has no serial number yet.
\<close>

record plan_input =
  pi_txo :: SpendableTXO
  pi_txin :: TxInAbe
  pi_members :: "TxOutAbe list"

record tx_plan =
  tp_inputs :: "plan_input list"
  tp_outputs :: "out_desc list"
  tp_fee :: u64

definition ring_input :: "SpendableTXO \<Rightarrow> Ring \<Rightarrow> plan_input result" where
  "ring_input t ring =
     (if length (rg_Index ring) < length (rg_TxHashes ring)
         \<or> length (rg_TxoScripts ring) < length (rg_Index ring)
      then Inl out_of_range
      else Inr \<lparr>pi_txo = t,
            pi_txin = \<lparr>in_SerialNumber = [],
               in_PreviousOutPointRing = \<lparr>opr_Version = rg_Version ring,
                 opr_BlockHashs = rg_BlockHashes ring,
                 opr_OutPoints = map2 OutPointAbe (rg_TxHashes ring) (rg_Index ring)\<rparr>\<rparr>,
            pi_members = map (\<lambda>sc. \<lparr>out_Version = rg_Version ring, out_TxoScript = sc\<rparr>)
              (take (length (rg_Index ring)) (rg_TxoScripts ring))\<rparr>)"

definition plan_inputs ::
  "(hash \<times> Ring) list \<Rightarrow> SpendableTXO list \<Rightarrow> plan_input list result" where
  "plan_inputs rings ts =
     rfold (\<lambda>t acc. case map_of rings (txo_RingHash t) of None \<Rightarrow> Inl nil_bucket
                    | Some ring \<Rightarrow> rbind (ring_input t ring) (\<lambda>i. Inr (acc @ [i]))) ts []"

text \<open>Ring inputs come first, then pseudonymous ones with hidden amounts, then pseudonymous ones.\<close>

definition input_class :: "SpendableTXO \<Rightarrow> nat" where
  "input_class t = (if IsPseudonymousCT t then 1 else if IsPseudonymous t then 2 else 0)"

definition output_class :: "abec \<Rightarrow> txparams \<Rightarrow> out_desc \<Rightarrow> nat" where
  "output_class A P d =
     (case CryptoAddressParse P (fst d) of
        Inl _ \<Rightarrow> 0
      | Inr (l, _) \<Rightarrow> if l = PrivacyLevelPSEUDONYMCT A then 1
                     else if l = PrivacyLevelPSEUDONYM A then 2 else 0)"

definition swap_last :: "nat \<Rightarrow> 'a list \<Rightarrow> 'a list" where
  "swap_last r xs = xs[length xs - 1 := xs ! r, r := xs ! (length xs - 1)]"

text \<open>
  The end both ways of building a transaction share, but for the error for too small an amount:
  \<open>rnd n\<close> is what \<open>rand.Int\<close> draws below \<open>n\<close>.
\<close>

definition settle_outputs ::
  "abec \<Rightarrow> txparams \<Rightarrow> payer \<Rightarrow> (nat \<Rightarrow> nat result) \<Rightarrow> go_error \<Rightarrow> plan_input list \<Rightarrow> u64
   \<Rightarrow> out_desc list \<Rightarrow> u64 \<Rightarrow> bool \<Rightarrow> bool \<Rightarrow> tx_plan result" where
  "settle_outputs A P W rnd short ins currentTotal outs txFee needChange randomOutput =
     (let targetValue = sum_list (map snd outs)
      in if sint currentTotal < sint (targetValue + txFee) then Inl short
         else rbind (if needChange
                     then rbind (NewAddressKey W) (\<lambda>addrBytes.
                            Inr (outs @ [(addrBytes, currentTotal - txFee - targetValue)]))
                     else Inr outs) (\<lambda>outs.
         rbind (if needChange \<and> randomOutput
                then rbind (rnd (length outs)) (\<lambda>r. Inr (swap_last r outs))
                else Inr outs) (\<lambda>outs.
         Inr \<lparr>tp_inputs = ins, tp_outputs = sort_key (output_class A P) outs, tp_fee = txFee\<rparr>)))"

text \<open>
  \<open>createTransactionMLPByRootSeeds\<close>: the inputs are put in the order of their privacy.
\<close>

definition createTransactionMLPByRootSeeds ::
  "abec \<Rightarrow> txparams \<Rightarrow> payer \<Rightarrow> (nat \<Rightarrow> nat result) \<Rightarrow> namespace \<Rightarrow> SpendableTXO list
    \<Rightarrow> out_desc list \<Rightarrow> u64 \<Rightarrow> bool \<Rightarrow> bool \<Rightarrow> tx_plan result" where
  "createTransactionMLPByRootSeeds A P W rnd ns ts outs txFee needChange randomOutput =
     rbind (rings_of A ns ts) (\<lambda>rings.
     rbind (if IsLocked W then Inl (GoError ''wallet is locked'') else RootSeeds W) (\<lambda>_.
       let ts = sort_key input_class ts
       in rbind (plan_inputs rings ts) (\<lambda>ins.
            settle_outputs A P W rnd (GoError ''not enough amount to transfer'') ins
              (sum_list (map txo_Amount ts)) outs txFee needChange randomOutput)))"

text \<open>
  \<open>createTransactionMLPByKeys\<close>: the keys of every input are asked for by the address of its
  output; the inputs stay in their order.
\<close>

definition input_keys ::
  "crypto \<Rightarrow> payer \<Rightarrow> (hash \<times> Ring) list \<Rightarrow> SpendableTXO \<Rightarrow> unit result" where
  "input_keys K W rings t =
     (case map_of rings (txo_RingHash t) of None \<Rightarrow> Inl nil_bucket
      | Some ring \<Rightarrow>
          if length (rg_TxoScripts ring) \<le> unat (txo_RingIndex t) then Inl out_of_range
          else rbind (ExtractCoinAddressFromTxo K \<lparr>out_Version = txo_Version t,
                        out_TxoScript = rg_TxoScripts ring ! unat (txo_RingIndex t)\<rparr>) (AddressKeys W))"

definition createTransactionMLPByKeys ::
  "abec \<Rightarrow> crypto \<Rightarrow> txparams \<Rightarrow> payer \<Rightarrow> (nat \<Rightarrow> nat result) \<Rightarrow> namespace
   \<Rightarrow> SpendableTXO list \<Rightarrow> out_desc list \<Rightarrow> u64 \<Rightarrow> bool \<Rightarrow> bool \<Rightarrow> tx_plan result" where
  "createTransactionMLPByKeys A K P W rnd ns ts outs txFee needChange randomOutput =
     rbind (rings_of A ns ts) (\<lambda>rings.
     rbind (rfold (\<lambda>t _. input_keys K W rings t) ts ()) (\<lambda>_.
     rbind (plan_inputs rings ts) (\<lambda>ins.
       settle_outputs A P W rnd
         (GoError ''please specify enough amount to transfer: input + fee < output '') ins
         (sum_list (map txo_Amount ts)) outs txFee needChange randomOutput)))"

definition txPqringCTToOutputsMLP ::
  "abec \<Rightarrow> crypto \<Rightarrow> txparams \<Rightarrow> payer \<Rightarrow> (nat \<Rightarrow> nat result) \<Rightarrow> i32 \<Rightarrow> namespace
   \<Rightarrow> out_desc list \<Rightarrow> i32 \<Rightarrow> u64 \<Rightarrow> u64 \<Rightarrow> string list option \<Rightarrow> u8 option \<Rightarrow> tx_plan result" where
  "txPqringCTToOutputsMLP A K P W rnd curHeight ns outs minconf feePerKb fee
     utxoSpecified level =
     rbind (check_outputs A P outs) (\<lambda>tg.
     rbind (findEligibleTxosAbe K minconf curHeight ns) (\<lambda>ts.
     if ts = [] then Inl (GoError ''not Enough'')
     else
       let ts = sort_byAmount (filter (\<lambda>t. \<not> IsCTAUTCoin t) ts)
       in rbind (choose_inputs A P tg feePerKb fee utxoSpecified level ts) (\<lambda>(s, txFee, needChange).
          if sint (sel_total s) < sint (tg_value tg + txFee) then not_enough
          else rbind (rings_of A ns (sel_txos s)) (\<lambda>_.
            if \<not> SchemeIsPQRingCTX W then Inl (GoError ''unsupported crypto scheme'')
            else createTransactionMLPByRootSeeds A P W rnd ns (sel_txos s) outs txFee
              needChange True))))"

end
