(* ===== verification/Payments.thy ===== *)
theory Payments
  imports CoinSelect Fixtures "HOL-Library.Multiset"
begin

text \<open>
  The plans of \<open>CoinSelect\<close>: what goes in comes out as outputs, change and fee; every input is an
  eligible output of the store that carries no token; with the fee given, no input is taken that
  is not needed. One way of choosing leaves the fee unpaid, and one chooses an output twice.
\<close>

section \<open>The selection as a run of inputs\<close>

lemma add_input_simps [simp]:
  "sel_txos (add_input c t s) = sel_txos s @ [t]"
  "sel_total (add_input c t s) = sel_total s + txo_Amount t"
  by (simp_all add: add_input_def Let_def)

lemma no_selection_simps [simp]: "sel_txos no_selection = []" "sel_total no_selection = 0"
  by (simp_all add: no_selection_def)

text \<open>The total is the sum of the inputs taken.\<close>

definition summed :: "selection \<Rightarrow> bool" where
  "summed s \<longleftrightarrow> sel_total s = sum_list (map txo_Amount (sel_txos s))"

lemma summed_simps [simp]: "summed no_selection" "summed s \<Longrightarrow> summed (add_input c t s)"
  by (simp_all add: summed_def)

lemma pick_fixed_summed: "summed s \<Longrightarrow> summed (pick_fixed A level target fee ts s)"
  by (induction ts arbitrary: s) (simp_all add: Let_def)

lemma pick_rate_summed:
  "pick_rate A level target f ts s = Inr (s', r) \<Longrightarrow> summed s \<Longrightarrow> summed s'"
  by (induction ts arbitrary: s) (auto simp: Let_def Inr_iffs)

lemma take_specified_spec:
  assumes "take_specified A c level ts = Inr s"
  shows "sel_txos s = ts" and "summed s" and "list_all (level_matches A level) ts"
proof -
  have r: "rfold (\<lambda>t s. if \<not> level_matches A level t
        then Inl (GoError ''specified txo is not match specified privacy level'')
        else Inr (add_input c t s)) ts s0 = Inr s \<Longrightarrow>
      sel_txos s = sel_txos s0 @ ts \<and> (summed s0 \<longrightarrow> summed s) \<and> list_all (level_matches A level) ts"
    for s0
    by (induction ts arbitrary: s0) (auto simp: rbind_Inr_iff split: if_splits)
  from r [of no_selection] assms
  show "sel_txos s = ts" "summed s" "list_all (level_matches A level) ts"
    by (simp_all add: take_specified_def)
qed

section \<open>Where the inputs come from\<close>

lemma pick_fixed_prefix:
  "\<exists>n. sel_txos (pick_fixed A level target fee ts s)
      = sel_txos s @ take n (filter (level_matches A level) ts)"
proof (induction ts arbitrary: s)
  case (Cons t ts)
  show ?case
  proof (cases "level_matches A level t \<and>
      sint (target + fee) \<le> sint (sel_total (add_input False t s))")
    case True
    then show ?thesis by (intro exI [of _ 1]) (simp add: Let_def)
  next
    case False
    obtain n where n: "sel_txos (pick_fixed A level target fee ts (add_input False t s))
        = sel_txos (add_input False t s) @ take n (filter (level_matches A level) ts)"
      using Cons.IH by blast
    from False show ?thesis
      using Cons.IH [of s] n by (auto simp: Let_def intro: exI [of _ "Suc n"])
  qed
qed simp

lemma pick_rate_prefix:
  "pick_rate A level target f ts s = Inr (s', r) \<Longrightarrow>
   \<exists>n. sel_txos s' = sel_txos s @ take n (filter (level_matches A level) ts)"
proof (induction ts arbitrary: s)
  case (Cons t ts)
  show ?case
  proof (cases "level_matches A level t")
    case False
    then show ?thesis using Cons by auto
  next
    case True
    then consider "pick_rate A level target f ts (add_input True t s) = Inr (s', r)"
      | "s' = add_input True t s"
      using Cons.prems by (auto simp: Let_def Inr_iffs)
    then show ?thesis
    proof cases
      case 1
      from Cons.IH [OF 1] show ?thesis using True by (auto intro: exI [of _ "Suc n" for n])
    next
      case 2
      then show ?thesis using True by (auto intro: exI [of _ 1])
    qed
  qed
qed simp

lemma fetchSpecifiedUTXO_set:
  "fetchSpecifiedUTXO A P ts names = Inr sel \<Longrightarrow> set sel \<subseteq> set ts \<and> length sel = length names"
  by (induction names arbitrary: sel) (auto simp: Inr_iffs find_Some_iff split: option.splits)

lemma in_take_filter: "x \<in> set (take n (filter Q ts)) \<Longrightarrow> x \<in> set ts \<and> Q x"
  by (drule in_set_takeD) simp

text \<open>What holds of every selection made.\<close>

definition drawn :: "abec \<Rightarrow> u8 option \<Rightarrow> SpendableTXO list \<Rightarrow> selection \<Rightarrow> bool" where
  "drawn A level ts s \<longleftrightarrow>
     summed s \<and> set (sel_txos s) \<subseteq> set ts \<and> list_all (level_matches A level) (sel_txos s)"

lemma pick_fixed_drawn: "drawn A level ts (pick_fixed A level target fee ts no_selection)"
  using pick_fixed_prefix [of A level target fee ts no_selection]
    pick_fixed_summed [of no_selection A level target fee ts]
  by (auto simp: drawn_def list_all_iff dest: in_take_filter)

lemma pick_rate_drawn:
  "pick_rate A level target f ts no_selection = Inr (s, r) \<Longrightarrow> drawn A level ts s"
  using pick_rate_prefix [of A level target f ts no_selection s r]
    pick_rate_summed [of A level target f ts no_selection s r]
  by (auto simp: drawn_def list_all_iff dest: in_take_filter)

lemma take_specified_drawn:
  "fetchSpecifiedUTXO A P ts names = Inr sel \<Longrightarrow> take_specified A c level sel = Inr s \<Longrightarrow>
   drawn A level ts s"
  using take_specified_spec [of A c level sel s] fetchSpecifiedUTXO_set [of A P ts names sel]
  by (simp add: drawn_def)

text \<open>The ways of choosing: with the fee given, by the fee rate, named by the fee rate, nothing.\<close>

lemma choose_inputs_cases:
  assumes "choose_inputs A P tg feePerKb fee names level ts = Inr (s, txFee, change)"
  obtains (given) "0 < sint fee" "(txFee, change) = fixed_fee (tg_value tg) fee (sel_total s)"
      "drawn A level ts s"
  | (rate) r where "fee = 0" "0 < sint feePerKb" "names = None"
      "pick_rate A level (tg_value tg) (compute_fee P tg feePerKb) ts no_selection = Inr (s, r)"
      "(txFee, change) = (case r of None \<Rightarrow> (0, False) | Some r \<Rightarrow> r)"
  | (named) f where "fee = 0" "0 < sint feePerKb" "names \<noteq> None" "compute_fee P tg feePerKb s = Inr f"
      "sint (tg_value tg + f) \<le> sint (sel_total s)"
      "(txFee, change) = (if sint (tg_value tg + f + ChangeThreshold) \<le> sint (sel_total s)
         then (f, True) else (sel_total s - tg_value tg, False))" "drawn A level ts s"
  | (none) "\<not> 0 < sint fee" "fee \<noteq> 0 \<or> \<not> 0 < sint feePerKb" "s = no_selection" "txFee = 0" "\<not> change"
proof -
  consider "0 < sint fee" | "\<not> 0 < sint fee" "fee = 0" "0 < sint feePerKb"
    | "\<not> 0 < sint fee" "fee \<noteq> 0 \<or> \<not> 0 < sint feePerKb" by blast
  then show thesis
  proof cases
    case 1
    then show ?thesis
      using assms given
      by (auto simp: choose_inputs_def Let_def rbind_Inr_iff pick_fixed_drawn
          split: option.splits if_splits intro: take_specified_drawn)
  next
    case 2
    then show ?thesis
    proof (cases names)
      case None
      then show ?thesis
        using assms 2 rate by (auto simp: choose_inputs_def Let_def rbind_Inr_iff)
    next
      case (Some ns)
      then obtain sel f where
        "fetchSpecifiedUTXO A P ts ns = Inr sel" "take_specified A True level sel = Inr s"
        "compute_fee P tg feePerKb s = Inr f" "sint (tg_value tg + f) \<le> sint (sel_total s)"
        "(txFee, change) = (if sint (tg_value tg + f + ChangeThreshold) \<le> sint (sel_total s)
           then (f, True) else (sel_total s - tg_value tg, False))"
        using assms 2
        by (auto simp: choose_inputs_def Let_def rbind_Inr_iff not_enough_def split: if_splits)
      then show ?thesis using named 2 Some take_specified_drawn by blast
    qed
  next
    case 3
    then show ?thesis using assms none by (auto simp: choose_inputs_def Let_def)
  qed
qed

lemma choose_inputs_drawn:
  assumes "choose_inputs A P tg feePerKb fee names level ts = Inr (s, txFee, change)"
  shows "drawn A level ts s"
  using assms
proof (cases rule: choose_inputs_cases)
  case (rate r)
  then show ?thesis using pick_rate_drawn by blast
qed (simp_all add: drawn_def)

section \<open>Fee and change\<close>

text \<open>Without change, the fee is all the outputs leave over, when the fee was paid at all.\<close>

lemma pick_rate_fee:
  "pick_rate A level target f ts s = Inr (s', Some (fee, change)) \<Longrightarrow>
   \<not> change \<longrightarrow> fee = sel_total s' - target"
  by (induction ts arbitrary: s) (auto simp: Let_def Inr_iffs)

lemma fixed_fee_rest:
  assumes "(txFee, change) = fixed_fee target fee amount"
    and "sint (target + txFee) \<le> sint amount" and "\<not> change"
  shows "txFee = amount - target"
proof -
  have "txFee = amount - target \<or> sint (target + fee) = sint amount \<and> txFee = fee"
    using assms by (auto simp: fixed_fee_def split: if_splits)
  then have "txFee = amount - target \<or> target + fee = amount \<and> txFee = fee"
    by (auto intro: signed_word_eqI)
  then show ?thesis by auto
qed

lemma choose_inputs_fee:
  assumes "choose_inputs A P tg feePerKb fee names level ts = Inr (s, txFee, change)"
    and "sint (tg_value tg + txFee) \<le> sint (sel_total s)" and "\<not> change"
    and "0 < sint fee \<or> fee = 0 \<and> 0 < sint feePerKb \<and> (names \<noteq> None \<or> txFee \<noteq> 0)"
  shows "txFee = sel_total s - tg_value tg"
  using assms(1)
proof (cases rule: choose_inputs_cases)
  case given
  then show ?thesis using fixed_fee_rest assms(2,3) by blast
next
  case (rate r)
  then show ?thesis using assms(3,4) pick_rate_fee by (cases r) auto
qed (use assms(3,4) in \<open>auto split: if_splits\<close>)

section \<open>The plan\<close>

lemma plan_inputs_txos:
  "plan_inputs rings ts = Inr ins \<Longrightarrow> map pi_txo ins = ts"
proof -
  have "rfold (\<lambda>t acc. case map_of rings (txo_RingHash t) of None \<Rightarrow> Inl nil_bucket
          | Some ring \<Rightarrow> rbind (ring_input t ring) (\<lambda>i. Inr (acc @ [i]))) ts acc = Inr ins \<Longrightarrow>
      map pi_txo ins = map pi_txo acc @ ts" for acc
    by (induction ts arbitrary: acc)
      (auto simp: rbind_Inr_iff ring_input_def split: option.splits if_splits)
  then show "plan_inputs rings ts = Inr ins \<Longrightarrow> map pi_txo ins = ts"
    unfolding plan_inputs_def by fastforce
qed

lemma result_if_Inr: "(if b then Inl e else r) = Inr x \<longleftrightarrow> \<not> b \<and> r = Inr x"
  by simp

lemma sum_sort_key [simp]:
  "sum_list (map g (sort_key f xs)) = (sum_list (map g xs) :: 'a::comm_monoid_add)"
  by (metis mset_map mset_sort sum_mset_sum_list)

lemma mset_swap_last: "r < length xs \<Longrightarrow> mset (swap_last r xs) = mset xs"
  unfolding swap_last_def by (rule mset_swap) auto

lemma sum_swap_last:
  "r < length xs \<Longrightarrow> sum_list (map g (swap_last r xs)) = (sum_list (map g xs) :: 'a::comm_monoid_add)"
  by (metis mset_swap_last mset_map sum_mset_sum_list)

definition paid_in :: "tx_plan \<Rightarrow> u64" where
  "paid_in p = sum_list (map (\<lambda>i. txo_Amount (pi_txo i)) (tp_inputs p))"

definition paid_out :: "tx_plan \<Rightarrow> u64" where
  "paid_out p = sum_list (map snd (tp_outputs p)) + tp_fee p"

lemma settle_outputs_plan:
  assumes "settle_outputs A P W rnd short ins inn outs txFee change ro = Inr plan"
    and "\<And>n r. rnd n = Inr r \<Longrightarrow> r < n"
  shows "tp_inputs plan = ins" and "tp_fee plan = txFee"
    and "paid_out plan = (if change then inn else sum_list (map snd outs) + txFee)"
    and "\<not> change \<Longrightarrow> tp_outputs plan = sort_key (output_class A P) outs"
    and "mset outs \<subseteq># mset (tp_outputs plan)"
proof -
  let ?out = "sum_list (map snd outs)"
  obtain os1 os2 where p:
    "(if change then rbind (NewAddressKey W) (\<lambda>a. Inr (outs @ [(a, inn - txFee - ?out)])) else Inr outs) = Inr os1"
    "(if change \<and> ro then rbind (rnd (length os1)) (\<lambda>r. Inr (swap_last r os1)) else Inr os1) = Inr os2"
    "plan = \<lparr>tp_inputs = ins, tp_outputs = sort_key (output_class A P) os2, tp_fee = txFee\<rparr>"
    using assms(1)
    unfolding settle_outputs_def Let_def rbind_Inr_iff result_if_Inr
    by (elim conjE exE) (auto simp: rbind_Inr_iff)
  show "tp_inputs plan = ins" "tp_fee plan = txFee" by (simp_all add: p(3))
  have "sum_list (map snd os2) = sum_list (map snd os1)"
    using p(2) assms(2) by (auto simp: rbind_Inr_iff sum_swap_last split: if_splits)
  moreover have "sum_list (map snd os1) = (if change then inn - txFee else ?out)"
    using p(1) by (auto simp: rbind_Inr_iff)
  ultimately show "paid_out plan = (if change then inn else ?out + txFee)"
    by (simp add: paid_out_def p(3))
  show "\<not> change \<Longrightarrow> tp_outputs plan = sort_key (output_class A P) outs"
    using p(1,2) by (simp add: p(3))
  have "mset os2 = mset os1"
    using p(2) assms(2) by (auto simp: rbind_Inr_iff mset_swap_last split: if_splits)
  moreover have "mset outs \<subseteq># mset os1"
    using p(1) by (auto simp: rbind_Inr_iff split: if_splits)
  ultimately show "mset outs \<subseteq># mset (tp_outputs plan)" by (simp add: p(3))
qed

lemma paid_in_txos: "paid_in p = sum_list (map txo_Amount (map pi_txo (tp_inputs p)))"
  by (simp add: paid_in_def comp_def)

lemma create_plan:
  assumes "createTransactionMLPByRootSeeds A P W rnd ns ts outs txFee change ro = Inr plan"
    and "\<And>n r. rnd n = Inr r \<Longrightarrow> r < n"
  shows "map pi_txo (tp_inputs plan) = sort_key input_class ts"
    and "paid_in plan = sum_list (map txo_Amount ts)" and "tp_fee plan = txFee"
    and "paid_out plan = (if change then paid_in plan else sum_list (map snd outs) + txFee)"
    and "\<not> change \<Longrightarrow> tp_outputs plan = sort_key (output_class A P) outs"
    and "mset outs \<subseteq># mset (tp_outputs plan)"
proof -
  obtain rings ins short where p: "plan_inputs rings (sort_key input_class ts) = Inr ins"
    and q: "settle_outputs A P W rnd short ins (sum_list (map txo_Amount ts)) outs txFee change ro = Inr plan"
    using assms(1)
    unfolding createTransactionMLPByRootSeeds_def Let_def rbind_Inr_iff sum_sort_key by blast
  note r = settle_outputs_plan [OF q assms(2)]
  show m: "map pi_txo (tp_inputs plan) = sort_key input_class ts"
    using plan_inputs_txos [OF p] r(1) by simp
  then show "paid_in plan = sum_list (map txo_Amount ts)" by (simp only: paid_in_txos sum_sort_key)
  then show "paid_out plan = (if change then paid_in plan else sum_list (map snd outs) + txFee)"
    using r(3) by simp
  show "tp_fee plan = txFee" by (rule r(2))
  show "\<not> change \<Longrightarrow> tp_outputs plan = sort_key (output_class A P) outs" by (rule r(4))
  show "mset outs \<subseteq># mset (tp_outputs plan)" by (rule r(5))
qed

lemma create_by_keys_plan:
  assumes "createTransactionMLPByKeys A K P W rnd ns ts outs txFee change ro = Inr plan"
    and "\<And>n r. rnd n = Inr r \<Longrightarrow> r < n"
  shows "map pi_txo (tp_inputs plan) = ts" and "tp_fee plan = txFee"
    and "paid_out plan = (if change then paid_in plan else sum_list (map snd outs) + txFee)"
proof -
  obtain rings ins short where p: "plan_inputs rings ts = Inr ins"
    and q: "settle_outputs A P W rnd short ins (sum_list (map txo_Amount ts)) outs txFee change ro = Inr plan"
    using assms(1) unfolding createTransactionMLPByKeys_def rbind_Inr_iff by blast
  note r = settle_outputs_plan [OF q assms(2)]
  show m: "map pi_txo (tp_inputs plan) = ts" using plan_inputs_txos [OF p] r(1) by simp
  show "tp_fee plan = txFee" by (rule r(2))
  show "paid_out plan = (if change then paid_in plan else sum_list (map snd outs) + txFee)"
    using r(3) by (simp add: paid_in_txos m)
qed

section \<open>Plans of the payment as a whole\<close>

lemma check_outputs_sum:
  assumes "check_outputs A P ds = Inr tg"
  shows "tg_value tg = sum_list (map snd ds)"
proof -
  have step: "add_target A P d t = Inr t' \<Longrightarrow> tg_value t' = tg_value t + snd d" for d t t'
    by (auto simp: add_target_def rbind_Inr_iff split: if_splits)
  have "rfold (add_target A P) ds t = Inr t' \<Longrightarrow> tg_value t' = tg_value t + sum_list (map snd ds)"
    for t t'
    by (induction ds arbitrary: t) (auto simp: rbind_Inr_iff add.assoc dest: step)
  then show ?thesis
    using assms by (fastforce simp: check_outputs_def rbind_Inr_iff split: if_splits)
qed

lemma payment_parts:
  assumes "txPqringCTToOutputsMLP A K P W rnd cur ns outs minconf feePerKb fee names level
    = Inr plan"
  obtains tg ts s txFee change where "check_outputs A P outs = Inr tg"
    "findEligibleTxosAbe K minconf cur ns = Inr ts"
    "choose_inputs A P tg feePerKb fee names level
       (sort_byAmount (filter (\<lambda>t. \<not> IsCTAUTCoin t) ts)) = Inr (s, txFee, change)"
    "sint (tg_value tg + txFee) \<le> sint (sel_total s)"
    "createTransactionMLPByRootSeeds A P W rnd ns (sel_txos s) outs txFee change True
       = Inr plan"
  using assms
  unfolding txPqringCTToOutputsMLP_def Let_def rbind_Inr_iff result_if_Inr not_enough_def not_less
  by (auto simp: split_def rbind_Inr_iff result_if_Inr not_less)

text \<open>An output the wallet may pay with.\<close>

definition payable :: "crypto \<Rightarrow> i32 \<Rightarrow> i32 \<Rightarrow> namespace \<Rightarrow> SpendableTXO \<Rightarrow> bool" where
  "payable K minconf cur ns t \<longleftrightarrow>
     (\<exists>unspent. UnspentOutputs ns = Inr unspent \<and> t \<in> set unspent) \<and>
     eligible K minconf cur t \<and> \<not> IsCTAUTCoin t"

lemma payable_candidates:
  assumes "findEligibleTxosAbe K minconf cur ns = Inr ts"
    and "t \<in> set (sort_byAmount (filter (\<lambda>t. \<not> IsCTAUTCoin t) ts))"
  shows "payable K minconf cur ns t"
  using assms by (auto simp: findEligibleTxosAbe_def rbind_Inr_iff payable_def sort_byAmount_def)

section \<open>The outputs taken are needed\<close>

text \<open>Every proper, non-empty part of the run of outputs taken falls short of the target and the fee.\<close>

lemma pick_fixed_short:
  assumes "n < length (sel_txos (pick_fixed A level target fee ts s))" "length (sel_txos s) < n"
    "summed s"
  shows "sint (sum_list (map txo_Amount (take n (sel_txos (pick_fixed A level target fee ts s)))))
    < sint (target + fee)"
  using assms
proof (induction ts arbitrary: s)
  case (Cons t ts)
  let ?s = "add_input False t s"
  show ?case
  proof (cases "level_matches A level t \<and> \<not> sint (target + fee) \<le> sint (sel_total ?s)")
    case True
    then have eq: "pick_fixed A level target fee (t # ts) s = pick_fixed A level target fee ts ?s"
      by (simp add: Let_def)
    have sm: "summed ?s" using Cons.prems by simp
    show ?thesis
    proof (cases "n = Suc (length (sel_txos s))")
      case n: True
      obtain k where "sel_txos (pick_fixed A level target fee ts ?s)
          = sel_txos ?s @ take k (filter (level_matches A level) ts)"
        using pick_fixed_prefix by blast
      then have "take n (sel_txos (pick_fixed A level target fee ts ?s)) = sel_txos ?s"
        using n by simp
      then show ?thesis using True sm by (simp only: eq) (simp add: summed_def not_le)
    next
      case False
      then show ?thesis using Cons.IH [of ?s] Cons.prems sm unfolding eq by simp
    qed
  qed (use Cons in \<open>auto simp: Let_def\<close>)
qed simp

section \<open>What a payment is\<close>

lemma payment_inputs:
  assumes "txPqringCTToOutputsMLP A K P W rnd cur ns outs minconf feePerKb fee names level
      = Inr plan"
    and "\<And>n r. rnd n = Inr r \<Longrightarrow> r < n" and "i \<in> set (tp_inputs plan)"
  shows "payable K minconf cur ns (pi_txo i) \<and> level_matches A level (pi_txo i)"
  using assms(1)
proof (rule payment_parts)
  fix tg ts s txFee change
  assume e: "findEligibleTxosAbe K minconf cur ns = Inr ts"
    and c: "choose_inputs A P tg feePerKb fee names level
       (sort_byAmount (filter (\<lambda>t. \<not> IsCTAUTCoin t) ts)) = Inr (s, txFee, change)"
    and p: "createTransactionMLPByRootSeeds A P W rnd ns (sel_txos s) outs txFee change True
       = Inr plan"
  have "pi_txo i \<in> set (map pi_txo (tp_inputs plan))" using assms(3) by simp
  then have "pi_txo i \<in> set (sel_txos s)" by (simp only: create_plan(1) [OF p assms(2)] set_sort)
  with choose_inputs_drawn [OF c] show ?thesis
    by (auto simp: drawn_def list_all_iff intro: payable_candidates [OF e])
qed

lemma payment_balance:
  assumes "txPqringCTToOutputsMLP A K P W rnd cur ns outs minconf feePerKb fee names level
      = Inr plan"
    and "\<And>n r. rnd n = Inr r \<Longrightarrow> r < n"
    and "0 < sint fee \<or> fee = 0 \<and> 0 < sint feePerKb \<and> (names \<noteq> None \<or> tp_fee plan \<noteq> 0)"
  shows "paid_in plan = paid_out plan"
  using assms(1)
proof (rule payment_parts)
  fix tg ts s txFee change
  assume o: "check_outputs A P outs = Inr tg"
    and c: "choose_inputs A P tg feePerKb fee names level
       (sort_byAmount (filter (\<lambda>t. \<not> IsCTAUTCoin t) ts)) = Inr (s, txFee, change)"
    and le: "sint (tg_value tg + txFee) \<le> sint (sel_total s)"
    and p: "createTransactionMLPByRootSeeds A P W rnd ns (sel_txos s) outs txFee change True
       = Inr plan"
  note pl = create_plan [OF p assms(2)]
  have "\<not> change \<longrightarrow> txFee = sel_total s - tg_value tg"
    using choose_inputs_fee [OF c le] assms(3) pl(3) by auto
  moreover have "sel_total s = paid_in plan"
    using choose_inputs_drawn [OF c] by (simp add: drawn_def summed_def pl(2))
  ultimately show ?thesis
    using pl(4) by (simp add: check_outputs_sum [OF o])
qed

lemma payment_outputs:
  assumes "txPqringCTToOutputsMLP A K P W rnd cur ns outs minconf feePerKb fee names level
      = Inr plan"
    and "\<And>n r. rnd n = Inr r \<Longrightarrow> r < n"
  shows "mset outs \<subseteq># mset (tp_outputs plan)"
  using assms(1) by (rule payment_parts) (rule create_plan(6) [OF _ assms(2)])

text \<open>
  The fee asked for is the least that is paid, and what is paid above it is not worth an output,
  as long as target and fee do not overflow together.
\<close>

lemma sint_u64: "- (2 ^ 63) \<le> sint (x :: u64)" "sint (x :: u64) < 2 ^ 63"
  using sint_ge [of x] sint_lt [of x] by simp_all

lemma sint_add_u64:
  "- (2 ^ 63) \<le> sint a + sint b \<Longrightarrow> sint a + sint b < 2 ^ 63 \<Longrightarrow> sint (a + b :: u64) = sint a + sint b"
  by (simp add: sint_word_ariths signed_take_bit_int_eq_self)

lemma sint_diff_u64:
  "- (2 ^ 63) \<le> sint a - sint b \<Longrightarrow> sint a - sint b < 2 ^ 63 \<Longrightarrow> sint (a - b :: u64) = sint a - sint b"
  by (simp add: sint_word_ariths signed_take_bit_int_eq_self)

lemma fixed_fee_bounds:
  assumes "(txFee, change) = fixed_fee target fee amount" and "0 \<le> sint target" and "0 < sint fee"
    and "sint target + sint fee < 2 ^ 63"
  shows "sint fee \<le> sint txFee \<and> sint txFee < sint fee + sint ChangeThreshold"
proof (cases "sint (target + fee) < sint amount")
  case True
  have t: "sint (target + fee) = sint target + sint fee" using assms(2-4) by (simp add: sint_add_u64)
  have a: "sint (amount - target) = sint amount - sint target"
    using True t assms(2,3) sint_u64(2) [of amount] by (simp add: sint_diff_u64)
  have "sint (amount - target - fee) = sint amount - sint target - sint fee"
    using True t a assms(2,3) sint_u64(2) [of amount] by (simp add: sint_diff_u64)
  then show ?thesis using True t a assms(1) by (auto simp: fixed_fee_def ChangeThreshold_def split: if_splits)
qed (use assms(1) in \<open>simp add: fixed_fee_def ChangeThreshold_def\<close>)

lemma check_outputs_range:
  "check_outputs A P ds = Inr tg \<Longrightarrow> 0 \<le> sint (tg_value tg) \<and> sint (tg_value tg) \<le> sint (MaxNeutrino P)"
  by (auto simp: check_outputs_def rbind_Inr_iff split: if_splits)

lemma payment_fee:
  assumes "txPqringCTToOutputsMLP A K P W rnd cur ns outs minconf feePerKb fee names level
      = Inr plan"
    and "\<And>n r. rnd n = Inr r \<Longrightarrow> r < n" and "0 < sint fee" and "sint (MaxNeutrino P) + sint fee < 2 ^ 63"
  shows "sint fee \<le> sint (tp_fee plan) \<and> sint (tp_fee plan) < sint fee + sint ChangeThreshold"
  using assms(1)
proof (rule payment_parts)
  fix tg ts s txFee change
  assume o: "check_outputs A P outs = Inr tg"
    and c: "choose_inputs A P tg feePerKb fee names level
       (sort_byAmount (filter (\<lambda>t. \<not> IsCTAUTCoin t) ts)) = Inr (s, txFee, change)"
    and p: "createTransactionMLPByRootSeeds A P W rnd ns (sel_txos s) outs txFee change True
       = Inr plan"
  have "(txFee, change) = fixed_fee (tg_value tg) fee (sel_total s)"
    using c assms(3) by (cases rule: choose_inputs_cases) auto
  then have "sint fee \<le> sint txFee \<and> sint txFee < sint fee + sint ChangeThreshold"
    by (rule fixed_fee_bounds) (use check_outputs_range [OF o] assms(3,4) in auto)
  then show ?thesis by (simp add: create_plan(3) [OF p assms(2)])
qed

text \<open>
  The loop over the fee rate that runs out of outputs leaves fee 0 and no change: when what was
  taken covers the target the payment is made with it.
\<close>

lemma payment_exhausted:
  assumes "check_outputs A P outs = Inr tg" and "findEligibleTxosAbe K minconf cur ns = Inr ts"
    and "ts \<noteq> []" and "0 < sint feePerKb"
    and "pick_rate A level (tg_value tg) (compute_fee P tg feePerKb)
      (sort_byAmount (filter (\<lambda>t. \<not> IsCTAUTCoin t) ts)) no_selection = Inr (s, None)"
    and "sint (tg_value tg) < sint (sel_total s)"
    and "rings_of A ns (sel_txos s) = Inr rings"
    and "plan_inputs rings (sort_key input_class (sel_txos s)) = Inr ins"
    and "SchemeIsPQRingCTX W" and "\<not> IsLocked W" and "RootSeeds W = Inr seeds"
  shows "\<exists>plan. txPqringCTToOutputsMLP A K P W rnd cur ns outs minconf feePerKb 0 None level = Inr plan \<and>
    tp_fee plan = 0 \<and> mset (tp_outputs plan) = mset outs \<and> sint (paid_out plan) < sint (paid_in plan)"
proof -
  let ?plan = "\<lparr>tp_inputs = ins, tp_outputs = sort_key (output_class A P) outs, tp_fee = 0\<rparr>"
  have c: "choose_inputs A P tg feePerKb 0 None level
      (sort_byAmount (filter (\<lambda>t. \<not> IsCTAUTCoin t) ts)) = Inr (s, 0, False)"
    using assms(4,5) by (simp add: choose_inputs_def Let_def)
  have t: "sel_total s = sum_list (map txo_Amount (sel_txos s))"
    using choose_inputs_drawn [OF c] by (simp add: drawn_def summed_def)
  have o: "tg_value tg = sum_list (map snd outs)" by (rule check_outputs_sum [OF assms(1)])
  have "\<not> sint (sel_total s) < sint (tg_value tg)" using assms(6) by simp
  then have "txPqringCTToOutputsMLP A K P W rnd cur ns outs minconf feePerKb 0 None level = Inr ?plan"
    using assms(1-3,7-11) c
    by (simp add: txPqringCTToOutputsMLP_def Let_def createTransactionMLPByRootSeeds_def settle_outputs_def
        flip: t o)
  moreover have "paid_out ?plan = tg_value tg" by (simp add: paid_out_def o)
  moreover have "paid_in ?plan = sel_total s"
    by (simp add: paid_in_txos plan_inputs_txos [OF assms(8)] t)
  ultimately show ?thesis using assms(6) by (intro exI [of _ ?plan]) simp
qed

text \<open>Two names that choose the same output.\<close>

abbreviation named_by :: "abec \<Rightarrow> txparams \<Rightarrow> string \<Rightarrow> SpendableTXO \<Rightarrow> bool" where
  "named_by A P name t \<equiv> take (length name) (Hash_String P (SpendableTXO_Hash A t)) = name"

lemma choose_named_twice:
  assumes "choose_inputs A P tg feePerKb fee (Some [n1, n2]) level ts = Inr (s, txFee, change)"
    and "0 < sint fee \<or> fee = 0 \<and> 0 < sint feePerKb"
    and "\<forall>name \<in> {n1, n2}. List.find (named_by A P name) ts = Some t"
  shows "sel_txos s = [t, t]"
proof -
  have f: "fetchSpecifiedUTXO A P ts [n1, n2] = Inr [t, t]" using assms(3) by simp
  have "take_specified A b level [t, t] = Inr s \<Longrightarrow> sel_txos s = [t, t]" for b
    by (auto simp: take_specified_def no_selection_def split: if_splits)
  then show ?thesis
    using assms(1,2) unfolding choose_inputs_def Let_def option.case f
    by (auto simp: rbind_Inr_iff not_enough_def split: if_splits)
qed

lemma payment_named_twice:
  assumes "txPqringCTToOutputsMLP A K P W rnd cur ns outs minconf feePerKb fee (Some [n1, n2]) level
      = Inr plan"
    and "\<And>n r. rnd n = Inr r \<Longrightarrow> r < n" and "0 < sint fee \<or> fee = 0 \<and> 0 < sint feePerKb"
    and "findEligibleTxosAbe K minconf cur ns = Inr ts"
    and "\<forall>name \<in> {n1, n2}.
      List.find (named_by A P name) (sort_byAmount (filter (\<lambda>t. \<not> IsCTAUTCoin t) ts)) = Some t"
  shows "map pi_txo (tp_inputs plan) = [t, t] \<and> paid_in plan = 2 * txo_Amount t"
  using assms(1)
proof (rule payment_parts)
  fix tg ts' s txFee change
  assume e: "findEligibleTxosAbe K minconf cur ns = Inr ts'"
    and c: "choose_inputs A P tg feePerKb fee (Some [n1, n2]) level
       (sort_byAmount (filter (\<lambda>t. \<not> IsCTAUTCoin t) ts')) = Inr (s, txFee, change)"
    and p: "createTransactionMLPByRootSeeds A P W rnd ns (sel_txos s) outs txFee change True
       = Inr plan"
  have "sel_txos s = [t, t]" using choose_named_twice [OF c assms(3)] e assms(4,5) by simp
  then show ?thesis using create_plan(1,2) [OF p assms(2)] by simp
qed

section \<open>A small wallet pays\<close>

definition ex_parse :: "bytes \<Rightarrow> (u8 \<times> bytes) result" where
  "ex_parse a = (case a of [] \<Rightarrow> Inl (GoError ''address'') | l # rest \<Rightarrow> Inr (l, rest))"
definition ex_consize :: "u32 list \<Rightarrow> u8 list \<Rightarrow> bytes list \<Rightarrow> u32 result" where
  "ex_consize vs ss as = Inr 3000"
definition ex_witsize :: "u8 \<Rightarrow> u8 \<Rightarrow> u8 list \<Rightarrow> u8 \<Rightarrow> u64 \<Rightarrow> u32 result" where
  "ex_witsize a b c d e = Inr 0"
definition ex_feeAmount :: "u32 \<Rightarrow> u64 \<Rightarrow> u64 result" where
  "ex_feeAmount n f = Inr ((ucast n * f) div 1000)"

definition exP :: txparams where
  "exP = \<lparr>CryptoAddressParse = ex_parse, PrivacyLevelRINGCT = 1, TxVersion = 0,
     GetTxOutputMaxNum = Inr 5, GetTxOutputMaxNumForRing = Inr 5, GetTxOutputMaxNumForSingle = Inr 5,
     GetTxInputMaxNum = Inr 5, GetTxInputMaxNumForRing = Inr 5, GetTxInputMaxNumForSingle = Inr 5,
     PrecomputeTrTxConSizeMLP = ex_consize, GetTrTxWitnessSerializeSizeApprox = ex_witsize,
     FeeAmount = ex_feeAmount, MaxNeutrino = 1000000, Hash_String = ex_const ''abcd''\<rparr>"

definition exW :: payer where
  "exW = \<lparr>IsLocked = False, SchemeIsPQRingCTX = True, RootSeeds = Inr (),
     AddressKeys = ex_const (Inr ()), NewAddressKey = Inr [1, 9]\<rparr>"

definition ex_draw :: "nat \<Rightarrow> nat result" where
  "ex_draw n = (case n of 0 \<Rightarrow> Inl (GoPanic ''crypto/rand: argument to Int is <= 0'') | Suc m \<Rightarrow> Inr m)"

lemma ex_draw_below: "ex_draw n = Inr r \<Longrightarrow> r < n"
  by (cases n) (auto simp: ex_draw_def)

definition ex_payment ::
  "u64 \<Rightarrow> u64 \<Rightarrow> u64 \<Rightarrow> string list option \<Rightarrow> namespace \<Rightarrow> tx_plan result" where
  "ex_payment amount feePerKb fee names ns =
     txPqringCTToOutputsMLP exA exK exP exW ex_draw 6 ns [([1, 7], amount)] 1
       feePerKb fee names None"

text \<open>Two outputs of one ring, and payments out of them.\<close>

definition ex_shop :: "namespace result" where
  "ex_shop = rbind ex0 (\<lambda>ns.
     rbind (putSpendableTXO exA ex_utxo ns) (\<lambda>ns.
     rbind (putSpendableTXO exA (ex_utxo\<lparr>txo_TxOutput := OutPointAbe 30 1, txo_Amount := 3000\<rparr>) ns) (\<lambda>ns.
     putRingDetails exA 1030 \<lparr>rg_Version = 0, rg_BlockHashes = [100, 101, 102],
       rg_TxHashes = [30, 30], rg_Index = [0, 1], rg_PackedFlag = 0,
       rg_TxoScripts = [[20, 1], [7, 1]], rg_BlockHeight = 0\<rparr> ns)))"

lemma ex_payment_fixed: "case ex_shop of Inl e \<Rightarrow> False | Inr ns \<Rightarrow>
    (case ex_payment 5 0 3 None ns of Inl e \<Rightarrow> False | Inr p \<Rightarrow>
       paid_in p = 3000 \<and> tp_fee p = 3 \<and> length (tp_outputs p) = 2)"
  by code_simp

lemma ex_payment_unpaid: "case ex_shop of Inl e \<Rightarrow> False | Inr ns \<Rightarrow>
    (case ex_payment 3018 1 0 None ns of Inl e \<Rightarrow> False | Inr p \<Rightarrow>
       paid_in p = 3020 \<and> paid_out p = 3018 \<and> tp_fee p = 0)"
  by code_simp

lemma ex_payment_twice: "case ex_shop of Inl e \<Rightarrow> False | Inr ns \<Rightarrow>
    (case ex_payment 5000 0 3 (Some [''a'', ''ab'']) ns of Inl e \<Rightarrow> False | Inr p \<Rightarrow>
       \<not> distinct (map (\<lambda>i. txo_TxOutput (pi_txo i)) (tp_inputs p)) \<and> paid_in p = 6000)"
  by code_simp

lemma ex_exhausted_ok: "case ex_shop of Inl e \<Rightarrow> False | Inr ns \<Rightarrow>
    (case check_outputs exA exP [([1, 7], 3018)] of Inl e \<Rightarrow> False | Inr tg \<Rightarrow>
    (case findEligibleTxosAbe exK 1 6 ns of Inl e \<Rightarrow> False | Inr ts \<Rightarrow> ts \<noteq> [] \<and>
    (case pick_rate exA None (tg_value tg) (compute_fee exP tg 1)
        (sort_byAmount (filter (\<lambda>t. \<not> IsCTAUTCoin t) ts)) no_selection of Inl e \<Rightarrow> False | Inr (s, r) \<Rightarrow>
      r = None \<and> sint (tg_value tg) < sint (sel_total s) \<and>
    (case rings_of exA ns (sel_txos s) of Inl e \<Rightarrow> False | Inr rings \<Rightarrow>
      \<not> isl (plan_inputs rings (sort_key input_class (sel_txos s)))))))"
  by code_simp

lemma ex_exhausted:
  obtains ns tg ts s rings ins where "ex_shop = Inr ns" "check_outputs exA exP [([1, 7], 3018)] = Inr tg"
    "findEligibleTxosAbe exK 1 6 ns = Inr ts" "ts \<noteq> []"
    "pick_rate exA None (tg_value tg) (compute_fee exP tg 1)
       (sort_byAmount (filter (\<lambda>t. \<not> IsCTAUTCoin t) ts)) no_selection = Inr (s, None)"
    "sint (tg_value tg) < sint (sel_total s)" "rings_of exA ns (sel_txos s) = Inr rings"
    "plan_inputs rings (sort_key input_class (sel_txos s)) = Inr ins"
  using ex_exhausted_ok that unfolding result_case by (auto dest!: not_isl_Inr split: prod.splits)

lemma ex_named_ok: "case ex_shop of Inl e \<Rightarrow> False | Inr ns \<Rightarrow>
    (case findEligibleTxosAbe exK 1 6 ns of Inl e \<Rightarrow> False | Inr ts \<Rightarrow>
      map_option txo_Amount (List.find (named_by exA exP ''a'') (sort_byAmount (filter (\<lambda>t. \<not> IsCTAUTCoin t) ts)))
        = Some 3000 \<and>
      List.find (named_by exA exP ''ab'') (sort_byAmount (filter (\<lambda>t. \<not> IsCTAUTCoin t) ts)) =
      List.find (named_by exA exP ''a'') (sort_byAmount (filter (\<lambda>t. \<not> IsCTAUTCoin t) ts)))"
  by code_simp

lemma ex_named:
  assumes "ex_shop = Inr ns"
  obtains ts t where "findEligibleTxosAbe exK 1 6 ns = Inr ts" "txo_Amount t = 3000"
    "\<forall>name \<in> {''a'', ''ab''}.
      List.find (named_by exA exP name) (sort_byAmount (filter (\<lambda>t. \<not> IsCTAUTCoin t) ts)) = Some t"
  using ex_named_ok [unfolded assms sum.case] that by (auto split: sum.splits)

lemma ex_payments:
  "\<exists>ns p. ex_shop = Inr ns \<and> ex_payment 5 0 3 None ns = Inr p \<and> paid_in p = 3000 \<and> tp_fee p = 3 \<and>
     length (tp_outputs p) = 2"
  "\<exists>ns p. ex_shop = Inr ns \<and> ex_payment 3018 1 0 None ns = Inr p \<and> paid_in p = 3020 \<and>
     paid_out p = 3018 \<and> tp_fee p = 0"
  "\<exists>ns p. ex_shop = Inr ns \<and> ex_payment 5000 0 3 (Some [''a'', ''ab'']) ns = Inr p \<and>
     \<not> distinct (map (\<lambda>i. txo_TxOutput (pi_txo i)) (tp_inputs p)) \<and> paid_in p = 6000"
  using ex_payment_fixed ex_payment_unpaid ex_payment_twice unfolding result_case by blast+

definition ex_coins :: "SpendableTXO list" where
  "ex_coins = map (\<lambda>v. ex_utxo\<lparr>txo_Amount := v\<rparr>) [50, 20, 10]"

lemma ex_pick_ok: "map txo_Amount (sel_txos (pick_fixed exA None 55 4 ex_coins no_selection)) = [50, 20]"
  by code_simp

end
