(* ===== verification/Exact.thy ===== *)
theory Exact
  imports RollbackBooks RollbackRun
begin

text \<open>
  Exactly what three operations of the store move: the genesis block, \<open>DeleteRawUnmined\<close>, which moves
  outputs and leaves the balances, and the coinbase outputs that become immature again when a block
  is undone, with the key they are filed under.
\<close>

section \<open>The genesis block\<close>

text \<open>The amounts the wallet receives of a list of outputs.\<close>

definition received :: "abec \<Rightarrow> crypto \<Rightarrow> manager \<Rightarrow> TxOutAbe list \<Rightarrow> u64" where
  "received A K M outs = (\<Sum>out\<leftarrow>outs. case ReceiveTxo A K M out of
     Inl _ \<Rightarrow> 0 | Inr (success, v, _) \<Rightarrow> if success then v else 0)"

lemma received_Cons:
  "received A K M (out # outs) = (case ReceiveTxo A K M out of
     Inl _ \<Rightarrow> 0 | Inr (success, v, _) \<Rightarrow> if success then v else 0) + received A K M outs"
  by (simp add: received_def)

lemma genesis_outputs_received:
  "rfold (genesis_output A K M block cb) (List.enumerate n outs) (icb, bal, m, ops) = Inr (icb', bal', m', ops') \<Longrightarrow>
   icb' = icb + received A K M outs \<and> bal' = bal + received A K M outs"
proof (induction outs arbitrary: n icb bal m ops)
  case (Cons out outs)
  obtain icb1 bal1 m1 ops1 where s: "genesis_output A K M block cb (n, out) (icb, bal, m, ops) = Inr (icb1, bal1, m1, ops1)"
    "rfold (genesis_output A K M block cb) (List.enumerate (Suc n) outs) (icb1, bal1, m1, ops1)
      = Inr (icb', bal', m', ops')"
    using Cons.prems by (auto simp: rbind_Inr_iff)
  show ?case
    using Cons.IH [OF s(2)] s(1)
    by (auto simp: genesis_output_def received_Cons Let_def rbind_Inr_iff split: if_splits)
qed (simp add: received_def)

lemma InsertGenesisBlock_balances:
  assumes "InsertGenesisBlock A B K M block ns = Inr ns'"
    and "outs = msg_TxOuts (rec_MsgTx (hd (blk_TxRecords block)))"
  shows "\<exists>bal icb. fetchMinedBalance ns = Inr bal \<and> fetchImmatureCoinbaseBalance ns = Inr icb \<and>
    fetchMinedBalance ns' = Inr (bal + received A K M outs) \<and>
    fetchImmatureCoinbaseBalance ns' = Inr (icb + received A K M outs) \<and>
    fetchSpendableBalance ns' = fetchSpendableBalance ns \<and>
    fetchImmatureTransferBalance ns' = fetchImmatureTransferBalance ns \<and>
    fetchUnconfirmedBalance ns' = fetchUnconfirmedBalance ns \<and> ns_ctaut ns' = ns_ctaut ns"
  using assms(1)
proof (rule InsertGenesisBlock_phases)
  fix bal sp icb itr un icb' bal' m ops ns1
  assume f: "fetchMinedBalance ns = Inr bal" "fetchSpendableBalance ns = Inr sp"
    "fetchImmatureCoinbaseBalance ns = Inr icb" "fetchImmatureTransferBalance ns = Inr itr"
    "fetchUnconfirmedBalance ns = Inr un"
    and r: "rfold (genesis_output A K M block (rec_MsgTx (hd (blk_TxRecords block))))
       (List.enumerate 0 (msg_TxOuts (rec_MsgTx (hd (blk_TxRecords block))))) (icb, bal, [], [])
     = Inr (icb', bal', m, ops)"
    and o: "only_buckets other_buckets ns ns1"
    and ns': "ns' = putMinedBalance bal' (putUnconfirmedBalance un (putImmatureTransferBalance itr
       (putImmatureCoinbaseBalance icb' (putSpendableBalance sp ns1))))"
  have "icb' = icb + received A K M outs \<and> bal' = bal + received A K M outs"
    using genesis_outputs_received [OF r] assms(2) by simp
  then show ?thesis
    using f o unfolding ns' by (simp add: balance_defs only_buckets_def)
qed

section \<open>Outputs moved back by DeleteRawUnmined\<close>

interpretation return_move: txo_move "putUnconfirmedTXO A"
    "\<lambda>ns op. fetchUnconfirmedTXO ns (TxHash op) (OutIndex op)"
    "\<lambda>op. deleteUnconfirmedTXO (op_key op)" "\<lambda>t. txo_TxOutput (utx_txo t)" "stored_unconfirmed A"
    "putSpendableTXO A" "\<lambda>ns op. fetchSpendableTXO ns (TxHash op) (OutIndex op)"
    "\<lambda>op. deleteSpendableTXO (op_key op)" txo_TxOutput "memo_hash A" for A
  by unfold_locales
    (auto simp: putSpendableTXO_Inr_iff deleteUnconfirmedTXO_def fetchSpendableTXO_def
      fetchUnconfirmedTXO_def nested_get_put nested_get_delete)

text \<open>The output an input gives back, by the ring on record.\<close>

definition returned_input :: "abec \<Rightarrow> namespace \<Rightarrow> TxInAbe \<Rightarrow> OutPointAbe option" where
  "returned_input A ns input =
     (case fetchUTXORing A ns (be_bytes 32 (OutPointRing_Hash A (in_PreviousOutPointRing input))) of
        Inr (Some u) \<Rightarrow>
          (case find_origin u (in_SerialNumber input) of
             Some i \<Rightarrow> if i < length (ur_TxHashes u) \<and> i < length (ur_OutputIndexes u)
                       then Some (OutPointAbe (ur_TxHashes u ! i) (ur_OutputIndexes u ! i)) else None
           | None \<Rightarrow> None)
      | _ \<Rightarrow> None)"

lemma kv_delete_absent: "kv_get m k = None \<Longrightarrow> kv_delete k m = m"
  unfolding kv_delete_def kv_get_def by (rule filter_True) (force simp: map_of_eq_None_iff image_iff)

text \<open>The two buckets together hold what they held, and no outpoint is in both.\<close>

definition apart :: "namespace \<Rightarrow> bool" where
  "apart ns \<longleftrightarrow> buckets_ok ns \<and>
     (\<forall>k. nested_get bucketMaturedOutput k ns = Inr None \<or> nested_get bucketSpentButUnmined k ns = Inr None)"

definition both_amounts :: "namespace \<Rightarrow> u64" where
  "both_amounts ns = bucket_amount bucketMaturedOutput ns + bucket_amount bucketSpentButUnmined ns"

definition given_back :: "abec \<Rightarrow> namespace \<Rightarrow> OutPointAbe set \<Rightarrow> namespace \<Rightarrow> bool" where
  "given_back A ns R ns' \<longleftrightarrow>
     (\<forall>op. unmined_at ns' op = (if op \<in> R then Inr None else unmined_at ns op)) \<and>
     (\<forall>op t. op \<in> R \<longrightarrow> unmined_at ns op = Inr (Some t) \<longrightarrow> spendable_at ns' op = Inr (Some (memo_hash A (utx_txo t)))) \<and>
     (\<forall>op. op \<notin> R \<or> unmined_at ns op = Inr None \<longrightarrow> spendable_at ns' op = spendable_at ns op) \<and>
     (\<forall>op \<in> R. \<exists>t. unmined_at ns op = Inr t)"

lemma given_back_empty: "given_back A ns {} ns"
  by (simp add: given_back_def)

lemma given_back_trans:
  assumes "given_back A ns R ns1" and "given_back A ns1 {op} ns2"
  shows "given_back A ns (insert op R) ns2"
  using assms by (auto simp: given_back_def split: if_splits) (metis option.distinct(1) sum.inject(2))

lemma unmined_input_back:
  assumes "unmined_input A input ns = Inr ns'"
  shows "given_back A ns (case returned_input A ns input of None \<Rightarrow> {} | Some op \<Rightarrow> {op}) ns'"
    and "returned_input A ns' = returned_input A ns"
    and "apart ns \<Longrightarrow> apart ns' \<and> both_amounts ns' = both_amounts ns"
proof -
  let ?M = bucketMaturedOutput and ?U = bucketSpentButUnmined
  note o = unmined_input_only [OF assms]
  show "returned_input A ns' = returned_input A ns"
    using fetch_only(3) [OF o] by (auto simp: returned_input_def fun_eq_iff)
  consider "ns' = ns" "returned_input A ns input = None" | op t' ns1 where
    "returned_input A ns input = Some op" "unmined_at ns op = Inr t'"
    "deleteUnconfirmedTXO (op_key op) ns = Inr ns1"
    "(case t' of None \<Rightarrow> Inr ns1 | Some t \<Rightarrow> putSpendableTXO A (utx_txo t) ns1) = Inr ns'"
    using assms
    by (fastforce simp: unmined_input_def returned_input_def rbind_Inr_iff go_nth_Inr_iff
        split: sum.splits option.splits go_error.splits)
  then have "given_back A ns (case returned_input A ns input of None \<Rightarrow> {} | Some op \<Rightarrow> {op}) ns' \<and>
    (apart ns \<longrightarrow> apart ns' \<and> both_amounts ns' = both_amounts ns)"
  proof cases
    case 1
    then show ?thesis by (simp add: given_back_empty)
  next
    case (2 op t' ns1)
    have d: "nested_delete ?U (op_key op) ns = Inr ns1" using 2(3) by (simp add: deleteUnconfirmedTXO_def)
    have o1: "only_buckets {?U} ns ns1" by (rule only_buckets_delete [OF d]) simp
    obtain v where v: "nested_get ?U (op_key op) ns = Inr v"
      using 2(2) by (auto simp: fetchUnconfirmedTXO_def rbind_Inr_iff)
    show ?thesis
    proof (cases t')
      case None
      have "given_back A ns {op} ns1"
        using 2(2) None unmined.fetch_del [OF 2(3)] fetch_only(1) [OF o1] by (auto simp: given_back_def)
      moreover have "both_amounts ns1 = both_amounts ns" if "apart ns"
      proof (cases v)
        case None
        have "bucket_amount ?U ns1 = bucket_amount ?U ns"
          using d v None that by (auto simp: nested_iffs bucket_amount_def apart_def kv_delete_absent dest: buckets_okD)
        then show ?thesis using bucket_amount_only [OF o1, of ?M] by (simp add: both_amounts_def)
      next
        case (Some b)
        then have "b = []" using 2(2) v \<open>t' = None\<close>
          by (auto simp: fetchUnconfirmedTXO_def nonempty_def rbind_Inr_iff split: if_splits option.splits)
        then have "bucket_amount ?U ns = bucket_amount ?U ns1"
          using bucket_amount_delete [OF d] v Some that by (simp add: apart_def value_amount_def)
        then show ?thesis using bucket_amount_only [OF o1, of ?M] by (simp add: both_amounts_def)
      qed
      moreover have "apart ns1" if "apart ns"
        using that only_bucketsD(4) [OF o1] only_buckets_get [OF o1] nested_get_delete [OF d]
        by (auto simp: apart_def)
      ultimately show ?thesis using 2(1,4) None by auto
    next
      case (Some t)
      obtain b where b: "v = Some b" "UnconfirmedTXO_Deserialize op (Some b) = Inr t"
        using 2(2) v Some
        by (auto simp: fetchUnconfirmedTXO_def nonempty_def rbind_Inr_iff split: if_splits option.splits)
      note t = UnconfirmedTXO_Deserialize_facts [OF b(2)]
      have put: "putSpendableTXO A (utx_txo t) ns1 = Inr ns'" using 2(4) Some by simp
      have g: "given_back A ns {op} ns'"
        using return_move.move_src [of "utx_txo t" ns ns1 A ns'] return_move.move_dst [of "utx_txo t" ns ns1 A ns']
          2(2,3) put t(2) Some
        by (auto simp: given_back_def)
      obtain msg where p: "nested_put msg ?M (op_key op) (SpendableTXO_Serialize A (utx_txo t)) ns1 = Inr ns'"
        using put t(2) by (auto simp: putSpendableTXO_Inr_iff)
      have o2: "only_buckets {?M} ns1 ns'" by (rule only_buckets_put [OF p]) simp
      have "apart ns' \<and> both_amounts ns' = both_amounts ns" if a: "apart ns"
      proof
        have ok1: "buckets_ok ns1" using a only_bucketsD(4) [OF o1] by (simp add: apart_def)
        have m: "nested_get ?M (op_key op) ns1 = Inr None"
          using a v b(1) only_buckets_get [OF o1, of ?M] unfolding apart_def by force
        show "apart ns'"
          using a ok1 only_bucketsD(4) [OF o2] only_buckets_get [OF o1, of ?M] only_buckets_get [OF o2, of ?U]
            nested_get_delete [OF d] nested_get_put [OF p]
          by (auto simp: apart_def)
        have "bucket_amount ?U ns = value_amount b + bucket_amount ?U ns1"
          using bucket_amount_delete [OF d] v b(1) a by (simp add: apart_def)
        moreover have "bucket_amount ?M ns' = value_amount b + bucket_amount ?M ns1"
          using bucket_amount_put_fresh [OF p m ok1] t(1) by simp
        ultimately show "both_amounts ns' = both_amounts ns"
          using bucket_amount_only [OF o1, of ?M] bucket_amount_only [OF o2, of ?U]
          by (simp add: both_amounts_def)
      qed
      then show ?thesis using g 2(1) by simp
    qed
  qed
  then show "given_back A ns (case returned_input A ns input of None \<Rightarrow> {} | Some op \<Rightarrow> {op}) ns'"
    "apart ns \<Longrightarrow> apart ns' \<and> both_amounts ns' = both_amounts ns" by blast+
qed

lemma map_filter_snoc:
  "set (List.map_filter f (xs @ [x])) = (case f x of None \<Rightarrow> {} | Some y \<Rightarrow> {y}) \<union> set (List.map_filter f xs)"
  by (simp add: List.map_filter_def split: option.splits)

lemma unmined_inputs_back:
  "rfold (unmined_input A) inputs ns = Inr ns' \<Longrightarrow>
   given_back A ns (set (List.map_filter (returned_input A ns) inputs)) ns' \<and>
   (apart ns \<longrightarrow> apart ns' \<and> both_amounts ns' = both_amounts ns)"
proof (induction inputs arbitrary: ns' rule: rev_induct)
  case Nil
  then show ?case by (simp add: given_back_empty map_filter_simps)
next
  case (snoc input inputs)
  obtain ns1 where s: "rfold (unmined_input A) inputs ns = Inr ns1" "unmined_input A input ns1 = Inr ns'"
    using snoc.prems by (auto simp: rfold_append rbind_Inr_iff)
  have r: "returned_input A ns1 = returned_input A ns"
    by (rule rfold_frame [OF s(1), where g = "returned_input A"]) (rule unmined_input_back(2))
  note b = unmined_input_back [OF s(2), unfolded r]
  have g: "given_back A ns (set (List.map_filter (returned_input A ns) inputs)) ns1" using snoc.IH [OF s(1)] by simp
  have "given_back A ns (set (List.map_filter (returned_input A ns) (inputs @ [input]))) ns'"
  proof (cases "returned_input A ns input")
    case None
    then show ?thesis using g b(1) unfolding map_filter_snoc by (simp add: given_back_def)
  next
    case (Some op)
    then show ?thesis using given_back_trans [OF g] b(1) unfolding map_filter_snoc by simp
  qed
  then show ?case using snoc.IH [OF s(1)] b(3) by auto
qed

lemma DeleteRawUnmined_back:
  assumes "DeleteRawUnmined A tx ns = Inr ns'"
  shows "given_back A ns (set (List.map_filter (returned_input A ns) (msg_TxIns tx))) ns'"
    and "ledger_ok ns \<Longrightarrow> both_amounts ns' = both_amounts ns"
proof -
  obtain ns1 where s: "rfold (unmined_input A) (msg_TxIns tx) ns = Inr ns1"
    "nested_delete bucketUnconfirmedTx (be_bytes 32 (MsgTx_TxHash A tx)) ns1 = Inr ns'"
    using assms by (auto simp: DeleteRawUnmined_def deleteRawUnconfirmedTx_def rbind_Inr_iff)
  have o: "only_buckets {bucketUnconfirmedTx} ns1 ns'" by (rule only_buckets_delete [OF s(2)]) simp
  note b = unmined_inputs_back [OF s(1)]
  show "given_back A ns (set (List.map_filter (returned_input A ns) (msg_TxIns tx))) ns'"
    using b fetch_only(1,2) [OF o] by (simp add: given_back_def)
  show "both_amounts ns' = both_amounts ns" if "ledger_ok ns"
    using b that bucket_amount_only [OF o] by (simp add: both_amounts_def ledger_ok_def apart_def)
qed

section \<open>Coinbase outputs filed under another block\<close>

definition read_or_none :: "'a option result \<Rightarrow> 'a option" where
  "read_or_none r = (case r of Inl _ \<Rightarrow> None | Inr x \<Rightarrow> x)"

lemma found_Inr: "found r = Inr x \<Longrightarrow> x = read_or_none r"
  by (auto simp: found_def read_or_none_def split: sum.splits go_error.splits)

text \<open>The coinbase output on record at an outpoint, spendable, spent by a transaction or in a block.\<close>

definition coinbase_filed :: "namespace \<Rightarrow> OutPointAbe \<Rightarrow> SpendableTXO option" where
  "coinbase_filed ns op =
     (case coinbase_only (\<lambda>t. t) (read_or_none (spendable_at ns op)) of Some t \<Rightarrow> Some t
      | None \<Rightarrow> (case coinbase_only utx_txo (read_or_none (unmined_at ns op)) of
          Some u \<Rightarrow> Some (rebuilt (utx_txo u))
        | None \<Rightarrow> map_option (\<lambda>c. rebuilt (utx_txo (ctx_unconfirmed c)))
            (coinbase_only (\<lambda>c. utx_txo (ctx_unconfirmed c))
              (read_or_none (fetchConfirmedTXO ns (TxHash op) (OutIndex op))))))"

lemma coinbase_only_Some: "coinbase_only p x = Some t \<longleftrightarrow> x = Some t \<and> IsCoinbase (p t)"
  by (auto simp: coinbase_only_def split: option.splits)

lemma ConfirmedTXO_Deserialize_outpoint:
  "ConfirmedTXO_Deserialize op v = Inr c \<Longrightarrow> txo_TxOutput (utx_txo (ctx_unconfirmed c)) = op"
  by (auto simp: ConfirmedTXO_Deserialize_def rbind_Inr_iff UnconfirmedTXO_Deserialize_facts(2)
      split: option.splits if_splits)

lemma read_outpoints:
  "read_or_none (spendable_at ns op) = Some t \<Longrightarrow> txo_TxOutput t = op"
  "read_or_none (unmined_at ns op) = Some u \<Longrightarrow> txo_TxOutput (utx_txo u) = op"
  "read_or_none (fetchConfirmedTXO ns (TxHash op) (OutIndex op)) = Some c \<Longrightarrow>
    txo_TxOutput (utx_txo (ctx_unconfirmed c)) = op"
  by (auto simp: read_or_none_def fetchSpendableTXO_def fetchUnconfirmedTXO_def fetchConfirmedTXO_def
      rbind_Inr_iff SpendableTXO_Deserialize_facts(2) UnconfirmedTXO_Deserialize_facts(2)
      ConfirmedTXO_Deserialize_outpoint split: sum.splits option.splits)

lemma coinbase_filed_outpoint: "coinbase_filed ns op = Some t \<Longrightarrow> txo_TxOutput t = op"
  by (auto simp: coinbase_filed_def coinbase_only_Some rebuilt_def read_outpoints split: option.splits)

lemma coinbase_filed_cong:
  assumes "\<And>b. b \<in> {bucketMaturedOutput, bucketSpentButUnmined, bucketSpentConfirmed} \<Longrightarrow>
    nested_get b (op_key op) ns' = nested_get b (op_key op) ns"
  shows "coinbase_filed ns' op = coinbase_filed ns op"
proof -
  have "spendable_at ns' op = spendable_at ns op" "unmined_at ns' op = unmined_at ns op"
    "fetchConfirmedTXO ns' (TxHash op) (OutIndex op) = fetchConfirmedTXO ns (TxHash op) (OutIndex op)"
    using assms by (simp_all add: fetchSpendableTXO_def fetchUnconfirmedTXO_def fetchConfirmedTXO_def)
  then show ?thesis unfolding coinbase_filed_def by (simp only:)
qed

lemma coinbase_filed_only:
  "only_buckets three_tx ns ns' \<Longrightarrow> coinbase_filed ns' op = coinbase_filed ns op"
  by (rule coinbase_filed_cong, erule only_buckets_get) auto

lemma coinbase_filed_delete:
  assumes "op' \<noteq> op"
  shows "deleteSpendableTXO (op_key op) ns = Inr ns' \<Longrightarrow> coinbase_filed ns' op' = coinbase_filed ns op'"
    and "deleteUnconfirmedTXO (op_key op) ns = Inr ns' \<Longrightarrow> coinbase_filed ns' op' = coinbase_filed ns op'"
    and "deleteConfirmedTXO (op_key op) ns = Inr ns' \<Longrightarrow> coinbase_filed ns' op' = coinbase_filed ns op'"
  using assms
  by (auto simp: deleteSpendableTXO_def deleteUnconfirmedTXO_def deleteConfirmedTXO_def nested_get_delete
      intro!: coinbase_filed_cong)

lemma unmature_output_files:
  assumes "unmature_output A now i op (cb, a, ns) = Inr (cb', a', ns')"
  shows "cb' = (case coinbase_filed ns op of None \<Rightarrow> cb | Some t \<Rightarrow> AList.update op t cb)"
    and "op' \<noteq> op \<Longrightarrow> coinbase_filed ns' op' = coinbase_filed ns op'"
proof -
  have f: "invalidate_relevant A now i True k ns = Inr ns1 \<Longrightarrow> coinbase_filed ns1 op' = coinbase_filed ns op'"
    for k ns1 by (rule coinbase_filed_only [OF invalidate_relevant_only])
  show "cb' = (case coinbase_filed ns op of None \<Rightarrow> cb | Some t \<Rightarrow> AList.update op t cb)"
    using assms
    by (auto simp: unmature_output_def coinbase_filed_def Let_def rbind_Inr_iff split: option.splits
        dest!: found_Inr)
  show "op' \<noteq> op \<Longrightarrow> coinbase_filed ns' op' = coinbase_filed ns op'"
    using assms
    by (auto simp: unmature_output_def Let_def rbind_Inr_iff coinbase_filed_delete f split: option.splits)
qed

lemma set_alist_update: "set (AList.update k v m) \<subseteq> insert (k, v) (set m)"
  by (induction m) auto

lemma txo_map_ok_update: "txo_map_ok m \<Longrightarrow> txo_TxOutput t = op \<Longrightarrow> txo_map_ok (AList.update op t m)"
  using set_alist_update [of op t m] by (fastforce simp: txo_map_ok_def list_all_iff distinct_update)

lemma unmature_outputs_files:
  "rfold (unmature_output A now i) ops (cb, a, ns) = Inr (cb', a', ns') \<Longrightarrow> distinct ops \<Longrightarrow> txo_map_ok cb \<Longrightarrow>
   txo_map_ok cb' \<and> (\<forall>op. map_of cb' op =
     (if op \<in> set ops \<and> coinbase_filed ns op \<noteq> None then coinbase_filed ns op else map_of cb op))"
proof (induction ops arbitrary: cb a ns)
  case (Cons op ops)
  obtain cb1 a1 ns1 where s: "unmature_output A now i op (cb, a, ns) = Inr (cb1, a1, ns1)"
    "rfold (unmature_output A now i) ops (cb1, a1, ns1) = Inr (cb', a', ns')"
    using Cons.prems(1) by (auto simp: rbind_Inr_iff)
  note u = unmature_output_files [OF s(1)]
  have ok: "txo_map_ok cb1"
    using u(1) Cons.prems(3) by (auto intro: txo_map_ok_update coinbase_filed_outpoint split: option.splits)
  have same: "op' \<in> set ops \<Longrightarrow> coinbase_filed ns1 op' = coinbase_filed ns op'" for op'
    using Cons.prems(2) u(2) by (cases "op' = op") auto
  have cb1: "map_of cb1 op' =
      (if op' = op \<and> coinbase_filed ns op \<noteq> None then coinbase_filed ns op else map_of cb op')" for op'
    by (simp add: u(1) update_conv' split: option.splits)
  show ?case
    using Cons.IH [OF s(2) _ ok] Cons.prems(2) by (auto simp add: same cb1 cong: conj_cong)
qed auto

text \<open>
  What was on record of the older block's coinbase outputs is afterwards the entry of the undone
  block's height and hash, in the stored form, and nothing else is.
\<close>

lemma unmature_block_files:
  assumes "unmature_block A now i blockHash maturity ii (a, ns) = Inr (a', ns')"
    and "fetchBlockOutputWithHeight ns (i - maturity - of_nat ii) = Inr (Some (k, ops))"
    and "ops \<noteq> []" and "distinct ops"
  shows "\<exists>r. fetchImmatureCoinbaseOutput ns' i blockHash = Inr r \<and>
    (\<forall>op. Option.bind r (\<lambda>m. map_of m op) =
      (if op \<in> set ops then map_option immature_stored (coinbase_filed ns op) else None))"
proof -
  obtain cb a1 ns1 where s: "rfold (unmature_output A now i) ops ([], a, ns) = Inr (cb, a1, ns1)"
    "putImmatureCoinbaseOutput i blockHash cb ns1 = Inr ns'"
    using assms(1-3) by (auto simp: unmature_block_def rbind_Inr_iff)
  have m: "txo_map_ok cb" "map_of cb op = (if op \<in> set ops then coinbase_filed ns op else None)" for op
    using unmature_outputs_files [OF s(1) assms(4)] by (auto simp: txo_map_ok_def)
  have "valueImmatureCoinbaseOutput cb = [] \<longleftrightarrow> cb = []"
    by (cases cb) (auto simp: valueImmatureCoinbaseOutput_def immature_unit_def be_bytes_def)
  then have "fetchImmatureCoinbaseOutput ns' i blockHash
      = Inr (if cb = [] then None else Some (map (\<lambda>(k, t). (k, immature_stored t)) cb))"
    using s(2) deserializedImmatureCoinbaseOutput_value [OF m(1)]
    by (auto simp: putImmatureCoinbaseOutput_def fetchImmatureCoinbaseOutput_def nested_get_put)
  moreover have "Option.bind (if cb = [] then None else Some (map (\<lambda>(k, t). (k, immature_stored t)) cb))
      (\<lambda>m. map_of m op) = map_option immature_stored (map_of cb op)" for op
    by (simp add: map_of_immature_stored)
  moreover have "map_option immature_stored (map_of cb op) =
      (if op \<in> set ops then map_option immature_stored (coinbase_filed ns op) else None)" for op
    by (simp add: m(2))
  ultimately show ?thesis
    by (intro exI [of _ "if cb = [] then None else Some (map (\<lambda>(k, t). (k, immature_stored t)) cb)"]) simp
qed

section \<open>Examples\<close>

lemma ex_created_balances: "case ex0 of Inl e \<Rightarrow> False | Inr ns \<Rightarrow>
    ex_balances ns = [Inr 0, Inr 0, Inr 0, Inr 0, Inr 0]"
  by code_simp

lemma ex_genesis_received:
  "received exA exK exM (msg_TxOuts (rec_MsgTx (hd (blk_TxRecords (ex_record 0))))) = 5"
  by code_simp

lemma ex_give_back_ok: "case ex_small_spent of Inl e \<Rightarrow> False | Inr ns \<Rightarrow> ledger_check ns \<and>
    bucket_amount bucketMaturedOutput ns + bucket_amount bucketSpentButUnmined ns = 20 \<and>
    List.map_filter (returned_input exA ns) (msg_TxIns ex_spend) = [OutPointAbe 30 0]"
  by code_simp

lemma ex_give_back:
  obtains ns ns' where "ex_small_spent = Inr ns" "DeleteRawUnmined exA ex_spend ns = Inr ns'" "ledger_ok ns"
    "fetchSpendableBalance ns = Inr 0" "bucket_amount bucketMaturedOutput ns' = 20"
    "bucket_amount bucketMaturedOutput ns + bucket_amount bucketSpentButUnmined ns = 20"
    "List.map_filter (returned_input exA ns) (msg_TxIns ex_spend) = [OutPointAbe 30 0]"
proof -
  obtain ns ns' where s: "ex_small_spent = Inr ns" "DeleteRawUnmined exA ex_spend ns = Inr ns'"
    "fetchSpendableBalance ns = Inr 0" "bucket_amount bucketMaturedOutput ns' = 20"
    using ex_unmined by blast
  show ?thesis
    using ex_give_back_ok [unfolded s(1) sum.case] by (intro that [OF s(1,2) _ s(3,4)]) (simp_all add: ledger_ok_check)
qed

lemma ex_conf_filed: "case ex_conf of Inl e \<Rightarrow> False | Inr ns \<Rightarrow>
    fetchBlockOutputWithHeight ns (6 - 5 - of_nat 0) = Inr (Some (canonicalBlock 1 101, [OutPointAbe 30 0])) \<and>
    map_option txo_Amount (coinbase_filed ns (OutPointAbe 30 0)) = Some 20"
  by code_simp

lemma ex_unmatured:
  obtains ns a a' ns' t k where "ex_conf = Inr ns" "unmature_block exA ex_time 6 106 5 0 (a, ns) = Inr (a', ns')"
    "fetchImmatureCoinbaseOutput ns 1 101 = Inr None"
    "fetchBlockOutputWithHeight ns (6 - 5 - of_nat 0) = Inr (Some (k, [OutPointAbe 30 0]))"
    "coinbase_filed ns (OutPointAbe 30 0) = Some t" "txo_Amount t = 20"
proof -
  obtain ns a a' ns' where s: "ex_conf = Inr ns" "unmature_block exA ex_time 6 106 5 0 (a, ns) = Inr (a', ns')"
    "fetchImmatureCoinbaseOutput ns 1 101 = Inr None"
    using ex_conf_run by blast
  note f = ex_conf_filed [unfolded s(1) sum.case]
  then obtain t where "coinbase_filed ns (OutPointAbe 30 0) = Some t" "txo_Amount t = 20" by auto
  then show ?thesis using that [OF s] f by blast
qed

end
