(* ===== verification/MgrDB.thy ===== *)
theory MgrDB
  imports Namespace
begin

text \<open>
  The namespace of the address manager, \<open>waddrmgr/db.go\<close>: its main bucket (a value per name, and
  the nested buckets of address keys) and its sync bucket, where the hashes of recent blocks are
  filed by height next to five named values. Every function that reads or writes them.
\<close>

section \<open>The namespace\<close>

datatype mainkey = mgrVersionName | mgrCreateDateName | masterPrivKeyName | masterPubKeyName
  | cryptoSeedKeyName | cryptoPrivKeyName | cryptoPubKeyName | cryptoScriptKeyName
  | watchingOnlyName | cryptoSchemeName | netIDName | seedKeyName | snKeyRootSeedKeyName
  | valueRootSeedKeyName | detectorRootKeyName | valueRootSeedAutKeyName

datatype addrbucket = addrBucketName | addrIdxBucketName | idxAddrBucketName | askspBucketName
  | asksnBucketName | vskBucketName | detectorBucketName

record mgr_ns =
  mn_main :: "(mainkey \<Rightarrow> bytes option) option"
  mn_addr :: "addrbucket \<Rightarrow> kv option"
  mn_sync :: "kv option"

definition main_bucket :: "mgr_ns \<Rightarrow> (mainkey \<Rightarrow> bytes option) result" where
  "main_bucket ns = (case mn_main ns of None \<Rightarrow> Inl nil_bucket | Some m \<Rightarrow> Inr m)"

definition main_get :: "mainkey \<Rightarrow> mgr_ns \<Rightarrow> bytes option result" where
  "main_get k ns = rbind (main_bucket ns) (\<lambda>m. Inr (m k))"

definition main_set :: "mainkey \<Rightarrow> bytes option \<Rightarrow> mgr_ns \<Rightarrow> mgr_ns result" where
  "main_set k v ns = rbind (main_bucket ns) (\<lambda>m. Inr (ns\<lparr>mn_main := Some (m(k := v))\<rparr>))"

text \<open>A value that may be nil is written only when it is not.\<close>

definition main_put_some :: "mainkey \<Rightarrow> bytes option \<Rightarrow> mgr_ns \<Rightarrow> mgr_ns result" where
  "main_put_some k v ns =
     rbind (main_bucket ns) (\<lambda>_. case v of None \<Rightarrow> Inr ns | Some b \<Rightarrow> main_set k (Some b) ns)"

definition addr_bucket :: "addrbucket \<Rightarrow> mgr_ns \<Rightarrow> kv result" where
  "addr_bucket b ns =
     rbind (main_bucket ns) (\<lambda>_. case mn_addr ns b of None \<Rightarrow> Inl nil_bucket | Some m \<Rightarrow> Inr m)"

definition addr_get :: "addrbucket \<Rightarrow> bytes \<Rightarrow> mgr_ns \<Rightarrow> bytes option result" where
  "addr_get b k ns = rbind (addr_bucket b ns) (\<lambda>m. Inr (kv_get m k))"

definition addr_put :: "string \<Rightarrow> addrbucket \<Rightarrow> bytes \<Rightarrow> bytes \<Rightarrow> mgr_ns \<Rightarrow> mgr_ns result" where
  "addr_put msg b k v ns =
     rbind (addr_bucket b ns) (\<lambda>m.
     if k = [] then Inl (ManagerError MgrDatabase msg)
     else Inr (ns\<lparr>mn_addr := (mn_addr ns)(b := Some (kv_put k v m))\<rparr>))"

definition sync_bucket :: "mgr_ns \<Rightarrow> kv result" where
  "sync_bucket ns = (case mn_sync ns of None \<Rightarrow> Inl nil_bucket | Some m \<Rightarrow> Inr m)"

definition sync_get :: "bytes \<Rightarrow> mgr_ns \<Rightarrow> bytes option result" where
  "sync_get k ns = rbind (sync_bucket ns) (\<lambda>m. Inr (kv_get m k))"

definition sync_put :: "bytes \<Rightarrow> bytes \<Rightarrow> mgr_ns \<Rightarrow> mgr_ns result" where
  "sync_put k v ns = rbind (sync_bucket ns) (\<lambda>m. Inr (ns\<lparr>mn_sync := Some (kv_put k v m)\<rparr>))"

definition sync_delete :: "bytes \<Rightarrow> mgr_ns \<Rightarrow> mgr_ns result" where
  "sync_delete k ns = rbind (sync_bucket ns) (\<lambda>m. Inr (ns\<lparr>mn_sync := Some (kv_delete k m)\<rparr>))"

text \<open>The keys of the sync bucket are byte strings: the names in ASCII, a height in four bytes.\<close>

definition ascii :: "string \<Rightarrow> bytes" where "ascii s = map of_char s"

definition syncedToName :: bytes where "syncedToName = ascii ''syncedto''"
definition startBlockName :: bytes where "startBlockName = ascii ''startblock''"
definition birthdayName :: bytes where "birthdayName = ascii ''birthday''"
definition birthdayBlockName :: bytes where "birthdayBlockName = ascii ''birthdayblock''"
definition birthdayBlockVerifiedName :: bytes where
  "birthdayBlockVerifiedName = ascii ''birthdayblockverified''"

lemma length_ascii [simp]: "length (ascii s) = length s"
  by (simp add: ascii_def)

lemmas sync_names = syncedToName_def startBlockName_def birthdayName_def birthdayBlockName_def
  birthdayBlockVerifiedName_def

lemma sync_names_distinct:
  "distinct [syncedToName, startBlockName, birthdayName, birthdayBlockName, birthdayBlockVerifiedName]"
  by (simp add: sync_names ascii_def)

lemma sync_names_neq [simp]:
  "syncedToName \<noteq> startBlockName" "startBlockName \<noteq> syncedToName"
  "syncedToName \<noteq> birthdayName" "birthdayName \<noteq> syncedToName"
  "syncedToName \<noteq> birthdayBlockName" "birthdayBlockName \<noteq> syncedToName"
  "syncedToName \<noteq> birthdayBlockVerifiedName" "birthdayBlockVerifiedName \<noteq> syncedToName"
  "startBlockName \<noteq> birthdayName" "birthdayName \<noteq> startBlockName"
  "startBlockName \<noteq> birthdayBlockName" "birthdayBlockName \<noteq> startBlockName"
  "startBlockName \<noteq> birthdayBlockVerifiedName" "birthdayBlockVerifiedName \<noteq> startBlockName"
  "birthdayName \<noteq> birthdayBlockName" "birthdayBlockName \<noteq> birthdayName"
  "birthdayName \<noteq> birthdayBlockVerifiedName" "birthdayBlockVerifiedName \<noteq> birthdayName"
  "birthdayBlockName \<noteq> birthdayBlockVerifiedName" "birthdayBlockVerifiedName \<noteq> birthdayBlockName"
  using sync_names_distinct by auto

text \<open>No name has four bytes, so no height is filed under the key of a name.\<close>

definition height_key :: "i32 \<Rightarrow> bytes" where "height_key h = be_bytes 4 h"

lemma height_key_name [simp]:
  "length s \<noteq> 4 \<Longrightarrow> height_key h \<noteq> ascii s" "length s \<noteq> 4 \<Longrightarrow> ascii s \<noteq> height_key h"
  by (metis height_key_def length_ascii length_be_bytes)+

lemma height_key_neq [simp]:
  "height_key h \<noteq> syncedToName" "height_key h \<noteq> startBlockName" "height_key h \<noteq> birthdayName"
  "height_key h \<noteq> birthdayBlockName" "height_key h \<noteq> birthdayBlockVerifiedName"
  "syncedToName \<noteq> height_key h" "startBlockName \<noteq> height_key h" "birthdayName \<noteq> height_key h"
  "birthdayBlockName \<noteq> height_key h" "birthdayBlockVerifiedName \<noteq> height_key h"
  by (simp_all add: sync_names)

lemma height_key_inj [simp]: "height_key h = height_key h' \<longleftrightarrow> h = h'"
  by (simp add: height_key_def)

section \<open>Little-endian integers\<close>

definition le_bytes :: "nat \<Rightarrow> 'a::len word \<Rightarrow> bytes" where "le_bytes n w = rev (be_bytes n w)"
definition le_word :: "bytes \<Rightarrow> 'a::len word" where "le_word bs = be_word (rev bs)"

lemma length_le_bytes [simp]: "length (le_bytes n w) = n"
  by (simp add: le_bytes_def)

lemma le_word_bytes [simp]:
  "le_word (le_bytes 4 x) = (x :: u32)" "le_word (le_bytes 8 y) = (y :: u64)"
  by (simp_all add: le_word_def le_bytes_def)

definition uint32ToBytes :: "u32 \<Rightarrow> bytes" where "uint32ToBytes = le_bytes 4"

section \<open>The main bucket\<close>

definition fetchManagerVersion :: "mgr_ns \<Rightarrow> u32 result" where
  "fetchManagerVersion ns =
     rbind (main_get mgrVersionName ns) (\<lambda>v. case v of
       None \<Rightarrow> Inl (ManagerError MgrDatabase ''required version number not stored in database'')
     | Some b \<Rightarrow> if length b < 4 then Inl out_of_range else Inr (le_word (take 4 b)))"

definition putManagerVersion :: "u32 \<Rightarrow> mgr_ns \<Rightarrow> mgr_ns result" where
  "putManagerVersion version = main_set mgrVersionName (Some (uint32ToBytes version))"

definition fetchMasterKeyParams :: "mgr_ns \<Rightarrow> (bytes \<times> bytes option) result" where
  "fetchMasterKeyParams ns =
     rbind (main_get masterPubKeyName ns) (\<lambda>pub. case pub of
       None \<Rightarrow> Inl (ManagerError MgrDatabase ''required master public key parameters not stored'')
     | Some pubParams \<Rightarrow>
         rbind (main_get masterPrivKeyName ns) (\<lambda>privParams. Inr (pubParams, privParams)))"

definition putMasterKeyParams :: "bytes option \<Rightarrow> bytes option \<Rightarrow> mgr_ns \<Rightarrow> mgr_ns result" where
  "putMasterKeyParams pubParams privParams ns =
     rbind (main_put_some masterPrivKeyName privParams ns) (main_put_some masterPubKeyName pubParams)"

text \<open>In the order of the code: public, seed, private and script key.\<close>

definition fetchCryptoKeys ::
  "mgr_ns \<Rightarrow> (bytes \<times> bytes option \<times> bytes option \<times> bytes option) result" where
  "fetchCryptoKeys ns =
     rbind (main_get cryptoPubKeyName ns) (\<lambda>pub. case pub of
       None \<Rightarrow> Inl (ManagerError MgrDatabase ''required encrypted crypto public not stored in database'')
     | Some pubKey \<Rightarrow>
         rbind (main_get cryptoSeedKeyName ns) (\<lambda>seedKey.
         rbind (main_get cryptoPrivKeyName ns) (\<lambda>privKey.
         rbind (main_get cryptoScriptKeyName ns) (\<lambda>scriptKey.
         Inr (pubKey, seedKey, privKey, scriptKey)))))"

definition putCryptoKeys ::
  "bytes option \<Rightarrow> bytes option \<Rightarrow> bytes option \<Rightarrow> bytes option \<Rightarrow> mgr_ns \<Rightarrow> mgr_ns result" where
  "putCryptoKeys pub priv script seed ns =
     rbind (main_put_some cryptoPubKeyName pub ns) (\<lambda>ns.
     rbind (main_put_some cryptoPrivKeyName priv ns) (\<lambda>ns.
     rbind (main_put_some cryptoScriptKeyName script ns) (main_put_some cryptoSeedKeyName seed)))"

definition putNetID :: "bytes \<Rightarrow> mgr_ns \<Rightarrow> mgr_ns result" where
  "putNetID netID = main_set netIDName (Some netID)"

definition fetchNetID :: "mgr_ns \<Rightarrow> bytes option result" where
  "fetchNetID = main_get netIDName"

definition putSeedEnc :: "bytes option \<Rightarrow> mgr_ns \<Rightarrow> mgr_ns result" where
  "putSeedEnc = main_put_some seedKeyName"

definition putSNKeyRootSeedEnc :: "bytes option \<Rightarrow> mgr_ns \<Rightarrow> mgr_ns result" where
  "putSNKeyRootSeedEnc = main_put_some snKeyRootSeedKeyName"

definition putValueRootSeedEnc :: "bytes option \<Rightarrow> mgr_ns \<Rightarrow> mgr_ns result" where
  "putValueRootSeedEnc = main_put_some valueRootSeedKeyName"

definition putDetectorRootKeyEnc :: "bytes option \<Rightarrow> mgr_ns \<Rightarrow> mgr_ns result" where
  "putDetectorRootKeyEnc = main_put_some detectorRootKeyName"

definition putValueRootSeedAutEnc :: "bytes option \<Rightarrow> mgr_ns \<Rightarrow> mgr_ns result" where
  "putValueRootSeedAutEnc = main_put_some valueRootSeedAutKeyName"

definition fetchSpKeyRootSeedEnc :: "mgr_ns \<Rightarrow> bytes option result" where
  "fetchSpKeyRootSeedEnc = main_get seedKeyName"

definition fetchSNKeyRootSeedEnc :: "mgr_ns \<Rightarrow> bytes option result" where
  "fetchSNKeyRootSeedEnc = main_get snKeyRootSeedKeyName"

definition fetchValueRootSeedEnc :: "mgr_ns \<Rightarrow> bytes option result" where
  "fetchValueRootSeedEnc = main_get valueRootSeedKeyName"

definition fetchDetectorRootKeyEnc :: "mgr_ns \<Rightarrow> bytes option result" where
  "fetchDetectorRootKeyEnc = main_get detectorRootKeyName"

definition fetchValueRootSeedAutEnc :: "mgr_ns \<Rightarrow> bytes option result" where
  "fetchValueRootSeedAutEnc = main_get valueRootSeedAutKeyName"

text \<open>A flag of one byte; a value that is missing has length 0.\<close>

definition fetch_flag :: "string \<Rightarrow> mainkey \<Rightarrow> mgr_ns \<Rightarrow> u8 result" where
  "fetch_flag msg k ns =
     rbind (main_get k ns) (\<lambda>v. case v of Some [b] \<Rightarrow> Inr b | _ \<Rightarrow> Inl (ManagerError MgrDatabase msg))"

definition fetchWatchingOnly :: "mgr_ns \<Rightarrow> bool result" where
  "fetchWatchingOnly ns =
     rbind (fetch_flag ''malformed watching-only flag stored in database'' watchingOnlyName ns)
       (\<lambda>b. Inr (b \<noteq> 0))"

definition putWatchingOnly :: "bool \<Rightarrow> mgr_ns \<Rightarrow> mgr_ns result" where
  "putWatchingOnly watchingOnly = main_set watchingOnlyName (Some [if watchingOnly then 1 else 0])"

definition putCryptoScheme :: "u8 \<Rightarrow> mgr_ns \<Rightarrow> mgr_ns result" where
  "putCryptoScheme scheme = main_set cryptoSchemeName (Some [scheme])"

definition fetchCryptoScheme :: "mgr_ns \<Rightarrow> u8 result" where
  "fetchCryptoScheme = fetch_flag ''malformed crypto scheme flag stored in database'' cryptoSchemeName"

definition deletePrivateKeys :: "mgr_ns \<Rightarrow> mgr_ns result" where
  "deletePrivateKeys ns =
     rbind (main_set masterPrivKeyName None ns) (\<lambda>ns.
     rbind (main_set cryptoPrivKeyName None ns) (\<lambda>ns.
     rbind (main_set cryptoSeedKeyName None ns) (main_set cryptoScriptKeyName None)))"

section \<open>Address keys\<close>

record addr_keys =
  ak_address :: "bytes option"
  ak_spend :: "bytes option"
  ak_serial :: "bytes option"
  ak_value :: "bytes option"
  ak_detector :: "bytes option"

definition addr_put_some :: "string \<Rightarrow> addrbucket \<Rightarrow> bytes \<Rightarrow> bytes option \<Rightarrow> mgr_ns \<Rightarrow> mgr_ns result" where
  "addr_put_some msg b k v ns = (case v of None \<Rightarrow> Inr ns | Some x \<Rightarrow> addr_put msg b k x ns)"

text \<open>The detector key is passed over when its bucket does not exist.\<close>

definition putAddressKeysEnc :: "bytes \<Rightarrow> addr_keys \<Rightarrow> bytes \<Rightarrow> mgr_ns \<Rightarrow> mgr_ns result" where
  "putAddressKeysEnc addrKey keys publicRand ns =
     rbind (addr_put ''failed to store address index'' addrIdxBucketName publicRand addrKey ns) (\<lambda>ns.
     rbind (addr_put ''failed to store index address'' idxAddrBucketName addrKey publicRand ns) (\<lambda>ns.
     rbind (addr_put_some ''failed to store encrypted master public key'' addrBucketName addrKey
              (ak_address keys) ns) (\<lambda>ns.
     rbind (addr_put_some ''failed to store encrypted master private signing key'' askspBucketName
              addrKey (ak_spend keys) ns) (\<lambda>ns.
     rbind (addr_put_some ''failed to store encrypted master public key'' asksnBucketName addrKey
              (ak_serial keys) ns) (\<lambda>ns.
     rbind (addr_put_some ''failed to store encrypted master private signing key'' vskBucketName
              addrKey (ak_value keys) ns) (\<lambda>ns.
     if mn_addr ns detectorBucketName = None then Inr ns
     else addr_put_some ''failed to store encrypted master public key'' detectorBucketName addrKey
            (ak_detector keys) ns))))))"

definition fetch_keys :: "bytes \<Rightarrow> mgr_ns \<Rightarrow> addr_keys result" where
  "fetch_keys addrKey ns =
     rbind (addr_get addrBucketName addrKey ns) (\<lambda>addrEnc.
     rbind (addr_get askspBucketName addrKey ns) (\<lambda>askspEnc.
     rbind (addr_get asksnBucketName addrKey ns) (\<lambda>asksnEnc.
     rbind (addr_get vskBucketName addrKey ns) (\<lambda>vskEnc.
     rbind (addr_get detectorBucketName addrKey ns) (\<lambda>detectorKeyEnc.
     Inr \<lparr>ak_address = addrEnc, ak_spend = askspEnc, ak_serial = asksnEnc, ak_value = vskEnc,
          ak_detector = detectorKeyEnc\<rparr>)))))"

text \<open>
  \<open>fetchAddressKeyEncByPublicRand\<close> looks the public randomness up in \<open>idxAddrBucketName\<close>, whose
  keys are address keys; \<open>Get\<close> of the nil it then has is nil.
\<close>

definition fetchAddressKeyEncByPublicRand ::
  "mgr_ns \<Rightarrow> bytes \<Rightarrow> (addr_keys \<times> bytes option) result" where
  "fetchAddressKeyEncByPublicRand ns publicRand =
     rbind (addr_get idxAddrBucketName publicRand ns) (\<lambda>addrKey.
     rbind (fetch_keys (case addrKey of None \<Rightarrow> [] | Some k \<Rightarrow> k) ns) (\<lambda>keys. Inr (keys, addrKey)))"

definition fetchAddressKeyEncByAddrKey ::
  "mgr_ns \<Rightarrow> bytes \<Rightarrow> (addr_keys \<times> bytes option) result" where
  "fetchAddressKeyEncByAddrKey ns addrKey =
     rbind (fetch_keys addrKey ns) (\<lambda>keys.
     rbind (addr_get idxAddrBucketName addrKey ns) (\<lambda>publicRand. Inr (keys, publicRand)))"

section \<open>Block stamps\<close>

record BlockStamp =
  bs_Height :: i32
  bs_Hash :: hash
  bs_Timestamp :: gotime

text \<open>The zero value of \<open>time.Time\<close>, the first instant of the year 1.\<close>

definition zero_time :: gotime where "zero_time = GoTime (- 62135596800) 0"

definition MaxReorgDepth :: i32 where "MaxReorgDepth = 10000"

definition staleHeight :: "i32 \<Rightarrow> i32" where
  "staleHeight height = height - MaxReorgDepth"

definition fetchSyncedTo :: "mgr_ns \<Rightarrow> BlockStamp result" where
  "fetchSyncedTo ns =
     rbind (sync_get syncedToName ns) (\<lambda>v. let buf = (case v of None \<Rightarrow> [] | Some b \<Rightarrow> b)
     in if length buf < 36
        then Inl (ManagerError MgrDatabase ''malformed sync information stored in database'')
        else Inr \<lparr>bs_Height = le_word (take 4 buf), bs_Hash = be_word (take 32 (drop 4 buf)),
          bs_Timestamp = (if length buf = 40 then time_Unix (ucast (le_word (drop 36 buf) :: u32))
                          else zero_time)\<rparr>)"

definition fetchBlockHash :: "mgr_ns \<Rightarrow> i32 \<Rightarrow> hash result" where
  "fetchBlockHash ns height =
     rbind (sync_get (height_key height) ns) (\<lambda>v. case v of
       None \<Rightarrow> Inl (ManagerError ErrBlockNotFound ''failed to fetch block hash'')
     | Some b \<Rightarrow> if length b \<noteq> 32 then Inl (ManagerError MgrDatabase ''failed to fetch block hash'')
                 else Inr (be_word b))"

definition addBlockHash :: "i32 \<Rightarrow> hash \<Rightarrow> mgr_ns \<Rightarrow> mgr_ns result" where
  "addBlockHash height h = sync_put (height_key height) (be_bytes 32 h)"

definition deleteBlockHash :: "i32 \<Rightarrow> mgr_ns \<Rightarrow> mgr_ns result" where
  "deleteBlockHash height = sync_delete (height_key height)"

definition updateSyncedTo :: "BlockStamp \<Rightarrow> mgr_ns \<Rightarrow> mgr_ns result" where
  "updateSyncedTo bs = sync_put syncedToName
     (le_bytes 4 (bs_Height bs) @ be_bytes 32 (bs_Hash bs)
      @ le_bytes 4 (ucast (unix (bs_Timestamp bs)) :: u32))"

definition FetchBirthdayBlock :: "mgr_ns \<Rightarrow> BlockStamp result" where
  "FetchBirthdayBlock ns =
     rbind (sync_get birthdayBlockName ns) (\<lambda>v. case v of
       None \<Rightarrow> Inl (ManagerError ErrBirthdayBlockNotSet ''birthday block not set'')
     | Some b \<Rightarrow>
         if length b \<noteq> 44
         then Inl (ManagerError MgrDatabase ''malformed birthday block stored in database'')
         else Inr \<lparr>bs_Height = be_word (take 4 b), bs_Hash = be_word (take 32 (drop 4 b)),
                    bs_Timestamp = time_Unix (be_word (drop 36 b))\<rparr>)"

text \<open>
  \<open>PutSyncedTo\<close>: with a birthday block on record the block before must be on record too; the hash
  \<open>MaxReorgDepth\<close> below is dropped. The error of an inner step is wrapped, a panic is not.
\<close>

definition wrap :: "manager_code \<Rightarrow> string \<Rightarrow> 'a result \<Rightarrow> 'a result" where
  "wrap c msg r = (case r of Inr x \<Rightarrow> Inr x | Inl (GoPanic s) \<Rightarrow> Inl (GoPanic s)
                   | Inl _ \<Rightarrow> Inl (ManagerError c msg))"

definition previous_known :: "BlockStamp \<Rightarrow> mgr_ns \<Rightarrow> unit result" where
  "previous_known bs ns =
     (if 0 < sint (bs_Height bs)
      then case FetchBirthdayBlock ns of
             Inr _ \<Rightarrow> wrap ErrBlockNotFound ''failed to store sync information''
                       (rbind (fetchBlockHash ns (bs_Height bs - 1)) (\<lambda>_. Inr ()))
           | Inl (GoPanic s) \<Rightarrow> Inl (GoPanic s)
           | Inl _ \<Rightarrow> Inr ()
      else Inr ())"

definition PutSyncedTo :: "BlockStamp \<Rightarrow> mgr_ns \<Rightarrow> mgr_ns result" where
  "PutSyncedTo bs ns =
     rbind (previous_known bs ns) (\<lambda>_.
     rbind (addBlockHash (bs_Height bs) (bs_Hash bs) ns) (\<lambda>ns.
     rbind (if 0 < sint (staleHeight (bs_Height bs))
            then deleteBlockHash (staleHeight (bs_Height bs)) ns else Inr ns)
       (updateSyncedTo bs)))"

definition FetchStartBlock :: "mgr_ns \<Rightarrow> BlockStamp result" where
  "FetchStartBlock ns =
     rbind (sync_get startBlockName ns) (\<lambda>v. let buf = (case v of None \<Rightarrow> [] | Some b \<Rightarrow> b)
     in if length buf \<noteq> 36
        then Inl (ManagerError MgrDatabase ''malformed start block stored in database'')
        else Inr \<lparr>bs_Height = le_word (take 4 buf), bs_Hash = be_word (drop 4 buf),
                   bs_Timestamp = zero_time\<rparr>)"

definition putStartBlock :: "BlockStamp \<Rightarrow> mgr_ns \<Rightarrow> mgr_ns result" where
  "putStartBlock bs = sync_put startBlockName (le_bytes 4 (bs_Height bs) @ be_bytes 32 (bs_Hash bs))"

section \<open>The birthday\<close>

definition fetchBirthday :: "mgr_ns \<Rightarrow> gotime result" where
  "fetchBirthday ns =
     rbind (sync_get birthdayName ns) (\<lambda>v. let buf = (case v of None \<Rightarrow> [] | Some b \<Rightarrow> b)
     in if length buf \<noteq> 8
        then Inl (ManagerError MgrDatabase ''malformed birthday stored in database'')
        else Inr (time_Unix (be_word buf)))"

definition putBirthday :: "gotime \<Rightarrow> mgr_ns \<Rightarrow> mgr_ns result" where
  "putBirthday t = sync_put birthdayName (be_bytes 8 (unix t))"

definition DeleteBirthdayBlock :: "mgr_ns \<Rightarrow> mgr_ns result" where
  "DeleteBirthdayBlock = sync_delete birthdayBlockName"

definition PutBirthdayBlock :: "BlockStamp \<Rightarrow> mgr_ns \<Rightarrow> mgr_ns result" where
  "PutBirthdayBlock b = sync_put birthdayBlockName
     (be_bytes 4 (bs_Height b) @ be_bytes 32 (bs_Hash b) @ be_bytes 8 (unix (bs_Timestamp b)))"

definition fetchBirthdayBlockVerification :: "mgr_ns \<Rightarrow> bool result" where
  "fetchBirthdayBlockVerification ns =
     rbind (sync_get birthdayBlockVerifiedName ns) (\<lambda>v. case v of
       None \<Rightarrow> Inr False
     | Some b \<Rightarrow> if length b < 2 then Inl out_of_range else Inr ((be_word (take 2 b) :: u16) \<noteq> 0))"

definition putBirthdayBlockVerification :: "bool \<Rightarrow> mgr_ns \<Rightarrow> mgr_ns result" where
  "putBirthdayBlockVerification verified =
     sync_put birthdayBlockVerifiedName (be_bytes 2 (if verified then 1 else 0 :: u16))"

section \<open>Creating the namespace\<close>

definition managerExists :: "mgr_ns \<Rightarrow> bool" where
  "managerExists ns \<longleftrightarrow> (case mn_main ns of None \<Rightarrow> False | Some _ \<Rightarrow> True)"

definition latestMgrVersion :: u32 where "latestMgrVersion = 0"

text \<open>The main bucket that is made is empty, and so are the buckets nested in it.\<close>

definition empty_map :: "'k \<Rightarrow> 'v option" where [simp]: "empty_map k = None"
definition empty_buckets :: "addrbucket \<Rightarrow> kv option" where [simp]: "empty_buckets b = Some []"

definition createManagerNS :: "gotime \<Rightarrow> mgr_ns \<Rightarrow> mgr_ns result" where
  "createManagerNS now ns =
     (if managerExists ns then Inl (ManagerError MgrDatabase ''failed to create main bucket'')
      else let ns = ns\<lparr>mn_main := Some empty_map, mn_addr := empty_map\<rparr>
      in case mn_sync ns of
        Some _ \<Rightarrow> Inl (ManagerError MgrDatabase ''failed to create sync bucket'')
      | None \<Rightarrow>
          rbind (putManagerVersion latestMgrVersion (ns\<lparr>mn_sync := Some []\<rparr>)) (\<lambda>ns.
          rbind (main_set mgrCreateDateName (Some (le_bytes 8 (unix now))) ns) (\<lambda>ns.
          Inr (ns\<lparr>mn_addr := empty_buckets\<rparr>))))"

end
