(* ===== verification/Snacl.thy ===== *)
theory Snacl
  imports MgrDB
begin

text \<open>
  \<open>snacl/snacl.go\<close>: keys that encrypt, and keys derived from a passphrase. The primitives
  (scrypt, SHA-2, the secret box) are the parameter record \<open>nacl\<close>; what is relied on of them is
  \<open>sound_box\<close>. Keys, salts and digests are arrays of 32 bytes, carried as words like a hash;
  a nonce has 24 bytes. Reads of the random source are arguments.
\<close>

type_synonym key = "256 word"
type_synonym nonce = "192 word"

section \<open>The primitives\<close>

text \<open>\<open>scrypt.Key\<close> is called with the length of a key; \<open>secretbox.Open\<close> returns nothing for a forgery.\<close>

record nacl =
  scrypt_Key :: "bytes \<Rightarrow> key \<Rightarrow> u64 \<Rightarrow> u64 \<Rightarrow> u64 \<Rightarrow> key result"
  Sum256 :: "key \<Rightarrow> key"
  Sum512 :: "bytes \<Rightarrow> 512 word"
  box_Seal :: "bytes \<Rightarrow> nonce \<Rightarrow> key \<Rightarrow> bytes"
  box_Open :: "bytes \<Rightarrow> nonce \<Rightarrow> key \<Rightarrow> bytes option"

text \<open>What the secret box promises: opening undoes sealing, and a box is 16 bytes longer.\<close>

definition sound_box :: "nacl \<Rightarrow> bool" where
  "sound_box N \<longleftrightarrow>
     (\<forall>m n k. box_Open N (box_Seal N m n k) n k = Some m) \<and>
     (\<forall>m n k. length (box_Seal N m n k) = length m + 16)"

definition ErrMalformed :: go_error where "ErrMalformed = GoError ''malformed data''"
definition ErrDecryptFailed :: go_error where "ErrDecryptFailed = GoError ''unable to decrypt''"
definition ErrInvalidPassword :: go_error where "ErrInvalidPassword = GoError ''invalid password''"

section \<open>Crypto keys\<close>

text \<open>\<open>key_Encrypt\<close> gets the nonce it reads from the random source.\<close>

definition key_Encrypt :: "nacl \<Rightarrow> nonce result \<Rightarrow> key \<Rightarrow> bytes \<Rightarrow> bytes result" where
  "key_Encrypt N rnd ck m =
     rbind rnd (\<lambda>n. Inr (be_bytes 24 n @ box_Seal N m n ck))"

definition key_Decrypt :: "nacl \<Rightarrow> key \<Rightarrow> bytes \<Rightarrow> bytes result" where
  "key_Decrypt N ck c =
     (if length c < 24 then Inl ErrMalformed
      else case box_Open N (drop 24 c) (be_word (take 24 c)) ck of
             None \<Rightarrow> Inl ErrDecryptFailed | Some m \<Rightarrow> Inr m)"

lemma be_word_nonce [simp]: "be_word (be_bytes 24 n) = (n :: nonce)"
  by (simp add: be_word_bytes)

lemma key_Decrypt_Encrypt:
  "sound_box N \<Longrightarrow> key_Encrypt N rnd ck m = Inr c \<Longrightarrow> key_Decrypt N ck c = Inr m"
  by (auto simp: sound_box_def key_Encrypt_def key_Decrypt_def rbind_Inr_iff)

lemma key_Encrypt_length:
  "sound_box N \<Longrightarrow> key_Encrypt N rnd ck m = Inr c \<Longrightarrow> length c = length m + 40"
  by (auto simp: sound_box_def key_Encrypt_def rbind_Inr_iff)

section \<open>Keys from a passphrase\<close>

record Parameters =
  pm_Salt :: key
  pm_Digest :: key
  pm_N :: u64
  pm_R :: u64
  pm_P :: u64

record SecretKey =
  sk_Key :: "key option"
  sk_Parameters :: Parameters

definition zero_Parameters :: Parameters where
  "zero_Parameters = \<lparr>pm_Salt = 0, pm_Digest = 0, pm_N = 0, pm_R = 0, pm_P = 0\<rparr>"

definition zero_SecretKey :: SecretKey where
  "zero_SecretKey = \<lparr>sk_Key = None, sk_Parameters = zero_Parameters\<rparr>"

text \<open>The length asked of scrypt is that of the array behind the pointer, also when it is nil.\<close>

definition deriveKey :: "nacl \<Rightarrow> SecretKey \<Rightarrow> bytes \<Rightarrow> SecretKey result" where
  "deriveKey N sk password =
     rbind (scrypt_Key N password (pm_Salt (sk_Parameters sk)) (pm_N (sk_Parameters sk))
              (pm_R (sk_Parameters sk)) (pm_P (sk_Parameters sk))) (\<lambda>k.
     if sk_Key sk = None then Inl nil_bucket else Inr (sk\<lparr>sk_Key := Some k\<rparr>))"

definition SecretKey_Marshal :: "SecretKey \<Rightarrow> bytes" where
  "SecretKey_Marshal sk =
     be_bytes 32 (pm_Salt (sk_Parameters sk)) @ be_bytes 32 (pm_Digest (sk_Parameters sk))
     @ le_bytes 8 (pm_N (sk_Parameters sk)) @ le_bytes 8 (pm_R (sk_Parameters sk))
     @ le_bytes 8 (pm_P (sk_Parameters sk))"

definition SecretKey_Unmarshal :: "bytes \<Rightarrow> SecretKey \<Rightarrow> SecretKey result" where
  "SecretKey_Unmarshal m sk =
     (if length m \<noteq> 88 then Inl ErrMalformed
      else Inr \<lparr>sk_Key = (case sk_Key sk of None \<Rightarrow> Some 0 | Some k \<Rightarrow> Some k),
        sk_Parameters = \<lparr>pm_Salt = be_word (take 32 m), pm_Digest = be_word (take 32 (drop 32 m)),
          pm_N = le_word (take 8 (drop 64 m)), pm_R = le_word (take 8 (drop 72 m)),
          pm_P = le_word (drop 80 m)\<rparr>\<rparr>)"

definition SecretKey_Zero :: "SecretKey \<Rightarrow> SecretKey result" where
  "SecretKey_Zero sk = (if sk_Key sk = None then Inl nil_bucket else Inr (sk\<lparr>sk_Key := Some 0\<rparr>))"

text \<open>
  \<open>DeriveKey\<close> leaves the key it derived in place when the digest does not match: its result is
  the new key and the error.
\<close>

definition DeriveKey :: "nacl \<Rightarrow> SecretKey \<Rightarrow> bytes \<Rightarrow> (SecretKey \<times> bool) result" where
  "DeriveKey N sk password =
     rbind (deriveKey N sk password) (\<lambda>sk.
     Inr (sk, case sk_Key sk of None \<Rightarrow> False
                | Some k \<Rightarrow> Sum256 N k = pm_Digest (sk_Parameters sk)))"

definition NewSecretKey :: "nacl \<Rightarrow> key result \<Rightarrow> bytes \<Rightarrow> u64 \<Rightarrow> u64 \<Rightarrow> u64 \<Rightarrow> SecretKey result" where
  "NewSecretKey N rnd password n r p =
     rbind rnd (\<lambda>salt.
     rbind (deriveKey N \<lparr>sk_Key = Some 0, sk_Parameters =
              \<lparr>pm_Salt = salt, pm_Digest = 0, pm_N = n, pm_R = r, pm_P = p\<rparr>\<rparr> password) (\<lambda>sk.
     case sk_Key sk of None \<Rightarrow> Inl nil_bucket
     | Some k \<Rightarrow> Inr (sk\<lparr>sk_Parameters := (sk_Parameters sk)\<lparr>pm_Digest := Sum256 N k\<rparr>\<rparr>)))"

definition sk_Encrypt :: "nacl \<Rightarrow> nonce result \<Rightarrow> SecretKey \<Rightarrow> bytes \<Rightarrow> bytes result" where
  "sk_Encrypt N rnd sk m = (case sk_Key sk of None \<Rightarrow> Inl nil_bucket | Some k \<Rightarrow> key_Encrypt N rnd k m)"

definition sk_Decrypt :: "nacl \<Rightarrow> SecretKey \<Rightarrow> bytes \<Rightarrow> bytes result" where
  "sk_Decrypt N sk c = (case sk_Key sk of None \<Rightarrow> Inl nil_bucket | Some k \<Rightarrow> key_Decrypt N k c)"

section \<open>Deriving again\<close>

lemma length_Marshal [simp]: "length (SecretKey_Marshal sk) = 88"
  by (simp add: SecretKey_Marshal_def)

lemma Unmarshal_Marshal:
  "SecretKey_Unmarshal (SecretKey_Marshal sk) sk' =
     Inr \<lparr>sk_Key = (case sk_Key sk' of None \<Rightarrow> Some 0 | Some k \<Rightarrow> Some k),
          sk_Parameters = sk_Parameters sk\<rparr>"
  by (simp add: SecretKey_Unmarshal_def SecretKey_Marshal_def)

text \<open>A key made from a passphrase has the digest that lets the same passphrase derive it again.\<close>

definition opens :: "nacl \<Rightarrow> bytes \<Rightarrow> Parameters \<Rightarrow> key \<Rightarrow> bool" where
  "opens N password pm k \<longleftrightarrow>
     scrypt_Key N password (pm_Salt pm) (pm_N pm) (pm_R pm) (pm_P pm) = Inr k \<and> Sum256 N k = pm_Digest pm"

lemma NewSecretKey_opens:
  assumes "NewSecretKey N rnd password n r p = Inr sk"
  shows "\<exists>k. sk_Key sk = Some k \<and> opens N password (sk_Parameters sk) k"
  using assms by (auto simp: NewSecretKey_def deriveKey_def opens_def rbind_Inr_iff)

lemma DeriveKey_opens:
  "opens N password (sk_Parameters sk) k \<Longrightarrow> sk_Key sk \<noteq> None \<Longrightarrow>
   DeriveKey N sk password = Inr (sk\<lparr>sk_Key := Some k\<rparr>, True)"
  by (simp add: DeriveKey_def deriveKey_def opens_def)

lemma DeriveKey_refused:
  "scrypt_Key N password (pm_Salt (sk_Parameters sk)) (pm_N (sk_Parameters sk))
     (pm_R (sk_Parameters sk)) (pm_P (sk_Parameters sk)) = Inr k \<Longrightarrow>
   Sum256 N k \<noteq> pm_Digest (sk_Parameters sk) \<Longrightarrow> sk_Key sk \<noteq> None \<Longrightarrow>
   DeriveKey N sk password = Inr (sk\<lparr>sk_Key := Some k\<rparr>, False)"
  by (simp add: DeriveKey_def deriveKey_def)

end
