(* ===== verification/Manager.thy ===== *)
theory Manager
  imports Snacl Receive
begin

text \<open>
  The address manager, \<open>waddrmgr/manager.go\<close> and \<open>waddrmgr/sync.go\<close>: creating it, opening it,
  locking and unlocking, changing a passphrase, converting it to watching-only, the root seeds
  and the keys of addresses, and what it is synced to. Two keys derived from passphrases protect
  four random keys, which encrypt what is stored.

  \<open>RK i\<close> and \<open>RN i\<close> are the \<open>i\<close>-th 32-byte and 24-byte reads of the random source in a call.
\<close>

section \<open>The state\<close>

record syncState =
  ss_startBlock :: BlockStamp
  ss_syncedTo :: BlockStamp

record Mgr =
  mg_syncState :: syncState
  mg_watchingOnly :: bool
  mg_cryptoScheme :: u8
  mg_birthday :: gotime
  mg_locked :: bool
  mg_closed :: bool
  mg_masterKeyPub :: SecretKey
  mg_masterKeyPriv :: "SecretKey option"
  mg_cryptoKeyPub :: key
  mg_privEncrypted :: bytes
  mg_priv :: "key option"
  mg_seedEncrypted :: bytes
  mg_seed :: "key option"
  mg_scriptEncrypted :: bytes
  mg_script :: "key option"
  mg_salt :: key
  mg_hashed :: "512 word"

definition newSyncState :: "BlockStamp \<Rightarrow> BlockStamp \<Rightarrow> syncState" where
  "newSyncState startBlock syncedTo = \<lparr>ss_startBlock = startBlock, ss_syncedTo = syncedTo\<rparr>"

text \<open>\<open>Zero\<close> and \<open>CopyBytes\<close> on a key that may be nil.\<close>

definition zero_key :: "key option \<Rightarrow> key option result" where
  "zero_key k = (case k of None \<Rightarrow> Inl nil_bucket | Some _ \<Rightarrow> Inr (Some 0))"

definition copy_onto :: "bytes \<Rightarrow> bytes \<Rightarrow> bytes" where
  "copy_onto old new = take (length old) new @ drop (length new) old"

definition CopyBytes :: "bytes \<Rightarrow> key option \<Rightarrow> key option result" where
  "CopyBytes b k = (case k of None \<Rightarrow> Inl nil_bucket
                    | Some k \<Rightarrow> Inr (Some (be_word (copy_onto (be_bytes 32 k) b))))"

definition zero_master :: "SecretKey option \<Rightarrow> SecretKey option result" where
  "zero_master sk = (case sk of None \<Rightarrow> Inl nil_bucket
                     | Some sk \<Rightarrow> rbind (SecretKey_Zero sk) (\<lambda>sk. Inr (Some sk)))"

definition lock_keys :: "Mgr \<Rightarrow> Mgr result" where
  "lock_keys m =
     rbind (zero_key (mg_script m)) (\<lambda>script.
     rbind (zero_key (mg_priv m)) (\<lambda>priv.
     rbind (zero_key (mg_seed m)) (\<lambda>seed.
     rbind (zero_master (mg_masterKeyPriv m)) (\<lambda>master.
     Inr (m\<lparr>mg_script := script, mg_priv := priv, mg_seed := seed, mg_masterKeyPriv := master,
             mg_hashed := 0, mg_locked := True\<rparr>)))))"

definition Mgr_Close :: "Mgr \<Rightarrow> Mgr result" where
  "Mgr_Close m =
     (if mg_closed m then Inr m
      else rbind (if \<not> mg_watchingOnly m \<and> \<not> mg_locked m then lock_keys m else Inr m) (\<lambda>m.
           rbind (SecretKey_Zero (mg_masterKeyPub m)) (\<lambda>pub.
           Inr (m\<lparr>mg_cryptoKeyPub := 0, mg_masterKeyPub := pub, mg_closed := True\<rparr>))))"

section \<open>Locking and unlocking\<close>

definition Mgr_Lock :: "Mgr \<Rightarrow> Mgr result" where
  "Mgr_Lock m =
     (if mg_watchingOnly m then Inl (ManagerError ErrWatchingOnly ''address manager is watching-only'')
      else if mg_locked m then Inl (ManagerError ErrLocked ''address manager is locked'')
      else lock_keys m)"

text \<open>
  A failure of \<open>Unlock\<close> leaves the manager locked: the result is the manager after the call and
  the error. A panic has no state after it.
\<close>

definition fail_locked :: "manager_code \<Rightarrow> string \<Rightarrow> Mgr \<Rightarrow> (Mgr \<times> go_error option) result" where
  "fail_locked c msg m = rbind (lock_keys m) (\<lambda>m. Inr (m, Some (ManagerError c msg)))"

definition hash_passphrase :: "nacl \<Rightarrow> key \<Rightarrow> bytes \<Rightarrow> 512 word" where
  "hash_passphrase N salt passphrase = Sum512 N (be_bytes 32 salt @ passphrase)"

definition unlock_keys :: "nacl \<Rightarrow> bytes \<Rightarrow> SecretKey \<Rightarrow> Mgr \<Rightarrow> (Mgr \<times> go_error option) result" where
  "unlock_keys N passphrase master m =
     (let m = m\<lparr>mg_masterKeyPriv := Some master\<rparr>
      in case sk_Decrypt N master (mg_privEncrypted m) of
        Inl e \<Rightarrow> fail_locked ErrCrypto ''failed to decrypt crypto private key'' m
      | Inr dec \<Rightarrow>
          rbind (CopyBytes dec (mg_priv m)) (\<lambda>priv.
          let m = m\<lparr>mg_priv := priv\<rparr>
          in case sk_Decrypt N master (mg_seedEncrypted m) of
            Inl e \<Rightarrow> fail_locked ErrCrypto ''failed to decrypt crypto seed key'' m
          | Inr dec \<Rightarrow>
              rbind (CopyBytes dec (mg_seed m)) (\<lambda>seed.
              Inr (m\<lparr>mg_seed := seed, mg_locked := False,
                      mg_hashed := hash_passphrase N (mg_salt m) passphrase\<rparr>, None))))"

definition Mgr_Unlock :: "nacl \<Rightarrow> bytes \<Rightarrow> Mgr \<Rightarrow> (Mgr \<times> go_error option) result" where
  "Mgr_Unlock N passphrase m =
     (if mg_watchingOnly m
      then Inr (m, Some (ManagerError ErrWatchingOnly ''address manager is watching-only''))
      else if \<not> mg_locked m
      then if hash_passphrase N (mg_salt m) passphrase \<noteq> mg_hashed m
           then fail_locked ErrWrongPassphrase ''invalid passphrase for master private key'' m
           else Inr (m, None)
      else case mg_masterKeyPriv m of None \<Rightarrow> Inl nil_bucket
      | Some master \<Rightarrow>
          (case DeriveKey N master passphrase of
             Inl (GoPanic s) \<Rightarrow> Inl (GoPanic s)
           | Inl _ \<Rightarrow> fail_locked ErrCrypto ''failed to derive master private key'' m
           | Inr (master, matches) \<Rightarrow>
               if \<not> matches
               then fail_locked ErrWrongPassphrase ''invalid passphrase for master private key''
                      (m\<lparr>mg_masterKeyPriv := Some master\<rparr>)
               else unlock_keys N passphrase master m))"

section \<open>Encrypting with the keys\<close>

datatype CryptoKeyType = CKTPrivate | CKTSeed | CKTScript | CKTPublic | CKTOther u8

definition selectCryptoKey :: "CryptoKeyType \<Rightarrow> Mgr \<Rightarrow> key option result" where
  "selectCryptoKey t m =
     (if t \<in> {CKTPrivate, CKTSeed, CKTScript} \<and> (mg_locked m \<or> mg_watchingOnly m)
      then Inl (ManagerError ErrLocked ''address manager is locked'')
      else case t of
        CKTPrivate \<Rightarrow> Inr (mg_priv m) | CKTSeed \<Rightarrow> Inr (mg_seed m) | CKTScript \<Rightarrow> Inr (mg_script m)
      | CKTPublic \<Rightarrow> Inr (Some (mg_cryptoKeyPub m))
      | CKTOther _ \<Rightarrow> Inl (ManagerError ErrInvalidKeyType ''invalid key type''))"

definition with_key :: "CryptoKeyType \<Rightarrow> Mgr \<Rightarrow> (key \<Rightarrow> bytes result) \<Rightarrow> string \<Rightarrow> bytes result" where
  "with_key t m f msg =
     rbind (selectCryptoKey t m) (\<lambda>k. case k of None \<Rightarrow> Inl nil_bucket
     | Some k \<Rightarrow> (case f k of Inr c \<Rightarrow> Inr c | Inl _ \<Rightarrow> Inl (ManagerError ErrCrypto msg)))"

definition Mgr_Encrypt :: "nacl \<Rightarrow> nonce result \<Rightarrow> CryptoKeyType \<Rightarrow> bytes \<Rightarrow> Mgr \<Rightarrow> bytes result" where
  "Mgr_Encrypt N rnd t b m = with_key t m (\<lambda>k. key_Encrypt N rnd k b) ''failed to encrypt''"

definition Mgr_Decrypt :: "nacl \<Rightarrow> CryptoKeyType \<Rightarrow> bytes \<Rightarrow> Mgr \<Rightarrow> bytes result" where
  "Mgr_Decrypt N t b m = with_key t m (\<lambda>k. key_Decrypt N k b) ''failed to decrypt''"

text \<open>A slice that may be nil, as bytes.\<close>

definition of_nil :: "bytes option \<Rightarrow> bytes" where
  "of_nil b = (case b of None \<Rightarrow> [] | Some b \<Rightarrow> b)"

definition Mgr_FetchProtectedRootSeeds :: "nacl \<Rightarrow> mgr_ns \<Rightarrow> Mgr \<Rightarrow> root_seeds result" where
  "Mgr_FetchProtectedRootSeeds N ns m =
     rbind (if mg_locked m then Inr []
            else rbind (fetchSpKeyRootSeedEnc ns) (\<lambda>e. Mgr_Decrypt N CKTSeed (of_nil e) m)) (\<lambda>sp.
     rbind (fetchSNKeyRootSeedEnc ns) (\<lambda>e. rbind (Mgr_Decrypt N CKTPublic (of_nil e) m) (\<lambda>sn.
     rbind (fetchValueRootSeedEnc ns) (\<lambda>e. rbind (Mgr_Decrypt N CKTPublic (of_nil e) m) (\<lambda>val.
     rbind (fetchDetectorRootKeyEnc ns) (\<lambda>e. rbind (Mgr_Decrypt N CKTPublic (of_nil e) m) (\<lambda>det.
     rbind (fetchValueRootSeedAutEnc ns) (\<lambda>e.
     rbind (case e of None \<Rightarrow> Inr [] | Some b \<Rightarrow> Mgr_Decrypt N CKTPublic b m) (\<lambda>aut.
     Inr \<lparr>rs_coinSpend = sp, rs_snKey = sn, rs_coinValue = val, rs_detectorRootKey = det,
          rs_coinValueAut = aut\<rparr>)))))))))"

definition decrypt_some :: "nacl \<Rightarrow> CryptoKeyType \<Rightarrow> bytes option \<Rightarrow> Mgr \<Rightarrow> bytes option result" where
  "decrypt_some N t e m = (case e of None \<Rightarrow> Inr None
     | Some b \<Rightarrow> rbind (Mgr_Decrypt N t b m) (\<lambda>x. Inr (Some x)))"

definition nil_if_empty :: "bytes option \<Rightarrow> bytes option" where
  "nil_if_empty b = (if b = Some [] then None else b)"

definition DecryptAddressKey :: "nacl \<Rightarrow> addr_keys \<Rightarrow> Mgr \<Rightarrow> addr_keys result" where
  "DecryptAddressKey N enc m =
     rbind (decrypt_some N CKTPublic (ak_address enc) m) (\<lambda>address.
     rbind (decrypt_some N CKTPublic (ak_value enc) m) (\<lambda>val.
     rbind (decrypt_some N CKTPublic (ak_serial enc) m) (\<lambda>sn.
     rbind (decrypt_some N CKTPublic (ak_detector enc) m) (\<lambda>det.
     rbind (if mg_locked m then Inr None else decrypt_some N CKTPrivate (ak_spend enc) m) (\<lambda>sp.
     Inr \<lparr>ak_address = address, ak_spend = sp, ak_serial = nil_if_empty sn, ak_value = val,
          ak_detector = nil_if_empty det\<rparr>)))))"

section \<open>Key generation\<close>

text \<open>
  What the cryptography packages do: keys and addresses from root seeds, hashes, the account
  seeds of a master seed. \<open>kg_Kmac\<close> is the key derivation of \<open>waddrmgr/internal\<close>.
\<close>

record keygen =
  kg_PQRingCTX :: u8
  kg_RINGCT :: u8
  kg_PSEUDONYM :: u8
  kg_PSEUDONYMCT :: u8
  kg_PRFKeyBytesLen :: nat
  kg_KeyGen :: "u8 \<Rightarrow> u8 \<Rightarrow> bytes \<Rightarrow> bytes \<Rightarrow> bytes \<Rightarrow> bytes \<Rightarrow> (bytes \<times> bytes \<times> bytes \<times> bytes \<times> bytes) result"
  kg_PublicRand :: "bytes \<Rightarrow> bytes result"
  kg_CoinAddress :: "bytes \<Rightarrow> bytes result"
  kg_DoubleHashB :: "bytes \<Rightarrow> bytes"
  kg_Shake256 :: "nat \<Rightarrow> bytes \<Rightarrow> bytes"
  kg_Kmac :: "bytes \<Rightarrow> bytes \<Rightarrow> bytes"
  kg_MasterSeedToAccountRootSeeds :: "bytes \<Rightarrow> bytes list result"
  kg_Sha3_512 :: "bytes \<Rightarrow> bytes"

definition KDF :: "keygen \<Rightarrow> bytes \<Rightarrow> bytes \<Rightarrow> bytes result" where
  "KDF G k input = (if length k \<noteq> 64 then Inl (GoError ''KDF: the input key has an invalid length'')
                    else Inr (kg_Kmac G k input))"

definition deriveSeed :: "keygen \<Rightarrow> bytes \<Rightarrow> string \<Rightarrow> bytes result" where
  "deriveSeed G k input = KDF G k (ascii input)"

definition generateAccountRootSeedsForPQRingCTX ::
  "keygen \<Rightarrow> bytes \<Rightarrow> bool \<Rightarrow> string \<Rightarrow> root_seeds result" where
  "generateAccountRootSeedsForPQRingCTX G masterSeed fromCLIWallet version =
     (if fromCLIWallet \<and> version = ''1.0.0''
      then let shake = (\<lambda>s. kg_Shake256 G (kg_PRFKeyBytesLen G) (ascii s @ masterSeed))
           in Inr \<lparr>rs_coinSpend = shake ''spend'', rs_snKey = shake ''serial'',
                   rs_coinValue = shake ''value'', rs_detectorRootKey = shake ''detect'',
                   rs_coinValueAut = []\<rparr>
      else if fromCLIWallet \<and> version = ''1.0.1''
      then rbind (deriveSeed G masterSeed ''spendkey'') (\<lambda>sp.
           rbind (deriveSeed G masterSeed ''serialnumberkey'') (\<lambda>sn.
           rbind (deriveSeed G masterSeed ''valuekey'') (\<lambda>val.
           rbind (deriveSeed G masterSeed ''detectorkey'') (\<lambda>det.
           Inr \<lparr>rs_coinSpend = sp, rs_snKey = sn, rs_coinValue = val, rs_detectorRootKey = det,
                rs_coinValueAut = []\<rparr>))))
      else rbind (kg_MasterSeedToAccountRootSeeds G masterSeed) (\<lambda>seeds.
           if length seeds \<noteq> 5 then Inl (GoError ''fail to generate account seed'')
           else Inr \<lparr>rs_coinSpend = seeds ! 0, rs_snKey = seeds ! 1, rs_coinValue = seeds ! 3,
                     rs_detectorRootKey = seeds ! 2, rs_coinValueAut = seeds ! 4\<rparr>))"

text \<open>The keys of a new address, in plain text, and its public randomness.\<close>

definition generateAddressSKForPQRingCTX ::
  "keygen \<Rightarrow> u8 \<Rightarrow> u8 \<Rightarrow> root_seeds \<Rightarrow> (bytes \<times> addr_keys \<times> bytes) result" where
  "generateAddressSKForPQRingCTX G scheme level seeds =
     (if scheme \<noteq> kg_PQRingCTX G then Inl (GoError ''unsupported crypto scheme'')
      else rbind (kg_KeyGen G scheme level (rs_coinSpend seeds) (rs_snKey seeds)
                    (if level = kg_PSEUDONYMCT G then rs_coinValueAut seeds else rs_coinValue seeds)
                    (rs_detectorRootKey seeds)) (\<lambda>(address, sp, sn, v, det).
           rbind (kg_PublicRand G address) (\<lambda>publicRand.
           Inr (address, \<lparr>ak_address = Some address, ak_spend = Some sp, ak_serial = Some sn,
                          ak_value = Some v, ak_detector = Some det\<rparr>, publicRand))))"

definition encryptAndPutAddressKeys ::
  "nacl \<Rightarrow> keygen \<Rightarrow> (nat \<Rightarrow> nonce result) \<Rightarrow> bytes \<Rightarrow> addr_keys \<Rightarrow> bytes \<Rightarrow> Mgr \<Rightarrow> mgr_ns \<Rightarrow> mgr_ns result" where
  "encryptAndPutAddressKeys N G RN address keys publicRand m ns =
     rbind (kg_CoinAddress G address) (\<lambda>coinAddress.
     rbind (Mgr_Encrypt N (RN 0) CKTPrivate (of_nil (ak_spend keys)) m) (\<lambda>sp.
     rbind (Mgr_Encrypt N (RN 1) CKTPublic (of_nil (ak_serial keys)) m) (\<lambda>sn.
     rbind (Mgr_Encrypt N (RN 2) CKTPublic address m) (\<lambda>adr.
     rbind (Mgr_Encrypt N (RN 3) CKTPublic (of_nil (ak_value keys)) m) (\<lambda>v.
     rbind (Mgr_Encrypt N (RN 4) CKTPublic (of_nil (ak_detector keys)) m) (\<lambda>det.
     putAddressKeysEnc (kg_DoubleHashB G coinAddress)
       \<lparr>ak_address = Some adr, ak_spend = Some sp, ak_serial = Some sn, ak_value = Some v,
        ak_detector = Some det\<rparr> publicRand ns))))))"

definition GenerateAddressKeys ::
  "nacl \<Rightarrow> keygen \<Rightarrow> (nat \<Rightarrow> nonce result) \<Rightarrow> u8 \<Rightarrow> Mgr \<Rightarrow> mgr_ns
   \<Rightarrow> ((bytes \<times> addr_keys \<times> bytes) \<times> mgr_ns) result" where
  "GenerateAddressKeys N G RN level m ns =
     (if mg_cryptoScheme m \<noteq> kg_PQRingCTX G then Inl (GoError ''unsupported crypto scheme'')
      else if level \<noteq> kg_RINGCT G \<and> level \<noteq> kg_PSEUDONYM G \<and> level \<noteq> kg_PSEUDONYMCT G
      then Inl (GoError ''unsupported privacy level'')
      else if mg_locked m then Inl (GoError ''wallet is locked'')
      else rbind (Mgr_FetchProtectedRootSeeds N ns m) (\<lambda>seeds.
           if level = kg_PSEUDONYMCT G \<and> rs_coinValueAut seeds = []
           then Inl (GoError ''please re-import account for generating address with privacy level'')
           else rbind (case generateAddressSKForPQRingCTX G (mg_cryptoScheme m) level seeds of
                    Inl _ \<Rightarrow> Inl (GoError ''failed to generate address and key'')
                  | Inr r \<Rightarrow> Inr r) (\<lambda>(address, keys, publicRand).
                rbind (encryptAndPutAddressKeys N G RN address keys publicRand m ns) (\<lambda>ns.
                Inr ((address, keys, publicRand), ns)))))"

definition FetchAddressKeyEnc :: "keygen \<Rightarrow> mgr_ns \<Rightarrow> bytes \<Rightarrow> (addr_keys \<times> bytes option) result" where
  "FetchAddressKeyEnc G ns coinAddr = fetchAddressKeyEncByAddrKey ns (kg_DoubleHashB G coinAddr)"

text \<open>The older scheme: an address per sequence number, from two halves of a seed.\<close>

definition sequence_half :: "keygen \<Rightarrow> nat \<Rightarrow> bytes \<Rightarrow> u64 \<Rightarrow> bytes" where
  "sequence_half G halfLength half cnt =
     copy_fixed halfLength (kg_Sha3_512 G
       (half @ ascii ''No'' @ map (\<lambda>i. ucast (drop_bit i cnt)) [0, 1, 2, 3, 4, 5, 6, 7]))"

definition generateSeedWithSequenceNumber ::
  "keygen \<Rightarrow> nat \<Rightarrow> nat \<Rightarrow> bytes \<Rightarrow> nat \<Rightarrow> u64 \<Rightarrow> bytes result" where
  "generateSeedWithSequenceNumber G seedLength halfLength seed len cnt =
     (if length seed \<noteq> len \<or> len \<noteq> 2 * seedLength
      then Inl (GoError ''the length of given seed is not matched'')
      else Inr (sequence_half G halfLength (take (len div 2) seed) cnt
                @ sequence_half G halfLength (drop (len div 2) seed) cnt))"

end
