(* ===== verification/ManagerOps.thy ===== *)
theory ManagerOps
  imports Manager
begin

text \<open>
  The operations of the address manager that read and write its namespace as a whole:
  \<open>Create\<close>, \<open>Open\<close>, \<open>ChangePassphrase\<close>, \<open>ConvertToWatchingOnly\<close> of \<open>waddrmgr/manager.go\<close>, and what it
  is synced to, \<open>waddrmgr/sync.go\<close>.
\<close>

section \<open>Passphrases\<close>

record ScryptOptions =
  so_N :: u64
  so_R :: u64
  so_P :: u64

definition DefaultScryptOptions :: ScryptOptions where
  "DefaultScryptOptions = \<lparr>so_N = 262144, so_R = 8, so_P = 1\<rparr>"

text \<open>An error of a step replaced by the one the caller returns.\<close>

definition or_error :: "manager_code \<Rightarrow> string \<Rightarrow> 'a result \<Rightarrow> 'a result" where
  "or_error c msg r = (case r of Inr x \<Rightarrow> Inr x | Inl (GoPanic s) \<Rightarrow> Inl (GoPanic s)
                       | Inl _ \<Rightarrow> Inl (ManagerError c msg))"

definition new_secret ::
  "nacl \<Rightarrow> key result \<Rightarrow> bytes \<Rightarrow> ScryptOptions \<Rightarrow> string \<Rightarrow> SecretKey result" where
  "new_secret N rnd passphrase so msg =
     or_error ErrCrypto msg (NewSecretKey N rnd passphrase (so_N so) (so_R so) (so_P so))"

definition reencrypt ::
  "nacl \<Rightarrow> nonce result \<Rightarrow> SecretKey \<Rightarrow> SecretKey \<Rightarrow> bytes \<Rightarrow> string \<Rightarrow> string \<Rightarrow> bytes result" where
  "reencrypt N rnd old new c msg1 msg2 =
     rbind (or_error ErrCrypto msg1 (sk_Decrypt N old c)) (\<lambda>dec.
       or_error ErrCrypto msg2 (sk_Encrypt N rnd new dec))"

text \<open>The old passphrase is checked on a copy of the master key, made of its parameters.\<close>

definition check_passphrase :: "nacl \<Rightarrow> Parameters \<Rightarrow> bytes \<Rightarrow> SecretKey result" where
  "check_passphrase N pm passphrase =
     rbind (or_error ErrCrypto ''failed to derive master key''
              (DeriveKey N \<lparr>sk_Key = Some 0, sk_Parameters = pm\<rparr> passphrase)) (\<lambda>(sk, matches).
     if \<not> matches then Inl (ManagerError ErrWrongPassphrase ''invalid passphrase for master key'')
     else Inr sk)"

definition change_private ::
  "nacl \<Rightarrow> key result \<Rightarrow> (nat \<Rightarrow> nonce result) \<Rightarrow> SecretKey \<Rightarrow> SecretKey \<Rightarrow> bytes \<Rightarrow> Mgr \<Rightarrow> mgr_ns
   \<Rightarrow> (Mgr \<times> mgr_ns) result" where
  "change_private N rndSalt RN old new newPassphrase m ns =
     rbind (or_error ErrCrypto ''failed to read random source for passhprase salt'' rndSalt) (\<lambda>salt.
     rbind (reencrypt N (RN 0) old new (mg_privEncrypted m) ''failed to decrypt crypto private key''
              ''failed to encrypt crypto private key'') (\<lambda>encPriv.
     rbind (reencrypt N (RN 1) old new (mg_seedEncrypted m) ''failed to decrypt crypto seed key''
              ''failed to encrypt crypto seed key'') (\<lambda>encSeed.
     rbind (reencrypt N (RN 2) old new (mg_scriptEncrypted m) ''failed to decrypt crypto script key''
              ''failed to encrypt crypto script key'') (\<lambda>encScript.
     rbind (if mg_locked m then SecretKey_Zero new else Inr new) (\<lambda>kept.
     rbind (putCryptoKeys None (Some encPriv) (Some encScript) (Some encSeed) ns) (\<lambda>ns.
     rbind (putMasterKeyParams None (Some (SecretKey_Marshal new)) ns) (\<lambda>ns.
     rbind (zero_master (mg_masterKeyPriv m)) (\<lambda>_.
     Inr (m\<lparr>mg_seedEncrypted := copy_onto (mg_seedEncrypted m) encSeed,
             mg_privEncrypted := copy_onto (mg_privEncrypted m) encPriv,
             mg_scriptEncrypted := copy_onto (mg_scriptEncrypted m) encScript,
             mg_masterKeyPriv := Some kept, mg_salt := salt,
             mg_hashed := (if mg_locked m then 0 else hash_passphrase N salt newPassphrase)\<rparr>, ns)))))))))"

definition change_public ::
  "nacl \<Rightarrow> nonce result \<Rightarrow> SecretKey \<Rightarrow> Mgr \<Rightarrow> mgr_ns \<Rightarrow> (Mgr \<times> mgr_ns) result" where
  "change_public N rnd new m ns =
     rbind (or_error ErrCrypto ''failed to encrypt crypto public key''
              (sk_Encrypt N rnd new (be_bytes 32 (mg_cryptoKeyPub m)))) (\<lambda>encryptedPub.
     rbind (putCryptoKeys (Some encryptedPub) None None None ns) (\<lambda>ns.
     rbind (putMasterKeyParams (Some (SecretKey_Marshal new)) None ns) (\<lambda>ns.
     rbind (SecretKey_Zero (mg_masterKeyPub m)) (\<lambda>_.
     Inr (m\<lparr>mg_masterKeyPub := new\<rparr>, ns)))))"

definition ChangePassphrase ::
  "nacl \<Rightarrow> (nat \<Rightarrow> key result) \<Rightarrow> (nat \<Rightarrow> nonce result) \<Rightarrow> bytes \<Rightarrow> bytes \<Rightarrow> bool \<Rightarrow> ScryptOptions
   \<Rightarrow> Mgr \<Rightarrow> mgr_ns \<Rightarrow> (Mgr \<times> mgr_ns) result" where
  "ChangePassphrase N RK RN oldPassphrase newPassphrase private so m ns =
     (if private \<and> mg_watchingOnly m
      then Inl (ManagerError ErrWatchingOnly ''address manager is watching-only'')
      else rbind (if private
                  then (case mg_masterKeyPriv m of None \<Rightarrow> Inl nil_bucket | Some sk \<Rightarrow> Inr sk)
                  else Inr (mg_masterKeyPub m)) (\<lambda>master.
           rbind (check_passphrase N (sk_Parameters master) oldPassphrase) (\<lambda>old.
           rbind (new_secret N (RK 0) newPassphrase so ''failed to create new master private key'')
             (\<lambda>new.
           if private then change_private N (RK 1) RN old new newPassphrase m ns
           else change_public N (RN 0) new m ns))))"

text \<open>Keys whose values are removed are nil afterwards, and the encrypted ones empty.\<close>

definition ConvertToWatchingOnly :: "Mgr \<Rightarrow> mgr_ns \<Rightarrow> (Mgr \<times> mgr_ns) result" where
  "ConvertToWatchingOnly m ns =
     (if mg_watchingOnly m then Inr (m, ns)
      else rbind (deletePrivateKeys ns) (\<lambda>ns.
           rbind (putWatchingOnly True ns) (\<lambda>ns.
           rbind (if \<not> mg_locked m then lock_keys m else Inr m) (\<lambda>m.
           Inr (m\<lparr>mg_scriptEncrypted := [], mg_script := None, mg_privEncrypted := [], mg_priv := None,
                   mg_seedEncrypted := [], mg_seed := None, mg_masterKeyPriv := None,
                   mg_watchingOnly := True\<rparr>, ns)))))"

section \<open>Opening\<close>

definition newManager ::
  "SecretKey \<Rightarrow> SecretKey \<Rightarrow> key \<Rightarrow> bytes \<Rightarrow> bytes \<Rightarrow> bytes \<Rightarrow> syncState \<Rightarrow> gotime \<Rightarrow> key \<Rightarrow> bool \<Rightarrow> u8
   \<Rightarrow> Mgr" where
  "newManager pub priv cryptoPub seedEnc privEnc scriptEnc syncInfo birthday salt watchingOnly scheme =
     \<lparr>mg_syncState = syncInfo, mg_watchingOnly = watchingOnly, mg_cryptoScheme = scheme,
      mg_birthday = birthday, mg_locked = True, mg_closed = False, mg_masterKeyPub = pub,
      mg_masterKeyPriv = Some priv, mg_cryptoKeyPub = cryptoPub, mg_privEncrypted = privEnc,
      mg_priv = Some 0, mg_seedEncrypted = seedEnc, mg_seed = Some 0, mg_scriptEncrypted = scriptEnc,
      mg_script = Some 0, mg_salt = salt, mg_hashed = 0\<rparr>"

definition load_public :: "nacl \<Rightarrow> bytes \<Rightarrow> bytes \<Rightarrow> bytes \<Rightarrow> (SecretKey \<times> key) result" where
  "load_public N pubPassphrase pubParams cryptoKeyPubEnc =
     rbind (or_error ErrCrypto ''failed to unmarshal master public key''
              (SecretKey_Unmarshal pubParams zero_SecretKey)) (\<lambda>sk.
     rbind (or_error ErrWrongPassphrase ''invalid passphrase for master public key''
              (DeriveKey N sk pubPassphrase)) (\<lambda>(sk, matches).
     if \<not> matches
     then Inl (ManagerError ErrWrongPassphrase ''invalid passphrase for master public key'')
     else rbind (or_error ErrCrypto ''failed to decrypt crypto public key''
                   (sk_Decrypt N sk cryptoKeyPubEnc)) (\<lambda>ct.
          Inr (sk, be_word (copy_onto (be_bytes 32 (0 :: key)) ct)))))"

definition loadManager :: "nacl \<Rightarrow> key result \<Rightarrow> mgr_ns \<Rightarrow> bytes \<Rightarrow> Mgr result" where
  "loadManager N rnd ns pubPassphrase =
     rbind (or_error MgrDatabase ''failed to fetch version for update'' (fetchManagerVersion ns))
       (\<lambda>version.
     if version < latestMgrVersion then Inl (ManagerError ErrUpgrade ''database upgrade required'')
     else if latestMgrVersion < version
     then Inl (ManagerError ErrUpgrade ''database version is greater than latest understood version'')
     else
     rbind (fetchWatchingOnly ns) (\<lambda>watchingOnly.
     rbind (fetchCryptoScheme ns) (\<lambda>scheme.
     rbind (fetchMasterKeyParams ns) (\<lambda>(pubParams, privParams).
     rbind (fetchCryptoKeys ns) (\<lambda>(pubEnc, seedEnc, privEnc, scriptEnc).
     rbind (fetchSyncedTo ns) (\<lambda>syncedTo.
     rbind (FetchStartBlock ns) (\<lambda>startBlock.
     rbind (fetchBirthday ns) (\<lambda>birthday.
     rbind (if watchingOnly then Inr zero_SecretKey
            else or_error ErrCrypto ''failed to unmarshal master private key''
                   (SecretKey_Unmarshal (of_nil privParams) zero_SecretKey)) (\<lambda>masterPriv.
     rbind (load_public N pubPassphrase pubParams pubEnc) (\<lambda>(masterPub, cryptoPub).
     rbind (or_error ErrCrypto ''failed to read random source for passphrase salt'' rnd) (\<lambda>salt.
     Inr (newManager masterPub masterPriv cryptoPub (of_nil seedEnc) (of_nil privEnc)
            (of_nil scriptEnc) (newSyncState startBlock syncedTo) birthday salt watchingOnly
            scheme))))))))))))"

definition Mgr_Open :: "nacl \<Rightarrow> key result \<Rightarrow> mgr_ns \<Rightarrow> bytes \<Rightarrow> Mgr result" where
  "Mgr_Open N rnd ns pubPassphrase =
     (if \<not> managerExists ns
      then Inl (ManagerError ErrNoExist ''the specified address manager does not exist'')
      else loadManager N rnd ns pubPassphrase)"

section \<open>Creating\<close>

text \<open>
  The parameters of the chain: its identifier, and the hash and time of its genesis block. The
  master seed is nil for a watching-only manager. The random reads of \<open>Create\<close> are, in order:
  the salt of the public master key, the public crypto key, the salt of the private master key,
  the passphrase salt (not used), the private, script and seed crypto keys.
\<close>

record chain_params =
  cp_PQRingCTID :: u8
  cp_GenesisHash :: hash
  cp_GenesisTime :: gotime

record private_parts =
  pp_params :: "bytes option"
  pp_priv :: "bytes option"
  pp_script :: "bytes option"
  pp_seed :: "bytes option"

definition store_seeds ::
  "nacl \<Rightarrow> (nat \<Rightarrow> nonce result) \<Rightarrow> key \<Rightarrow> key \<Rightarrow> root_seeds \<Rightarrow> mgr_ns \<Rightarrow> mgr_ns result" where
  "store_seeds N RN cryptoSeed cryptoPub seeds ns =
     rbind (key_Encrypt N (RN 4) cryptoSeed (rs_coinSpend seeds)) (\<lambda>e.
     rbind (putSeedEnc (Some e) ns) (\<lambda>ns.
     rbind (key_Encrypt N (RN 5) cryptoPub (rs_snKey seeds)) (\<lambda>e.
     rbind (putSNKeyRootSeedEnc (Some e) ns) (\<lambda>ns.
     rbind (key_Encrypt N (RN 6) cryptoPub (rs_coinValue seeds)) (\<lambda>e.
     rbind (putValueRootSeedEnc (Some e) ns) (\<lambda>ns.
     rbind (key_Encrypt N (RN 7) cryptoPub (rs_detectorRootKey seeds)) (\<lambda>e.
     rbind (putDetectorRootKeyEnc (Some e) ns) (\<lambda>ns.
     rbind (key_Encrypt N (RN 8) cryptoPub (rs_coinValueAut seeds)) (\<lambda>e.
     putValueRootSeedAutEnc (Some e) ns)))))))))"

definition create_private ::
  "nacl \<Rightarrow> keygen \<Rightarrow> chain_params \<Rightarrow> (nat \<Rightarrow> key result) \<Rightarrow> (nat \<Rightarrow> nonce result) \<Rightarrow> bytes \<Rightarrow> bool
   \<Rightarrow> string \<Rightarrow> bytes \<Rightarrow> ScryptOptions \<Rightarrow> key \<Rightarrow> mgr_ns \<Rightarrow> (private_parts \<times> mgr_ns) result" where
  "create_private N G C RK RN masterSeed fromCLI version passphrase so cryptoPub ns =
     rbind (new_secret N (RK 2) passphrase so ''failed to master private key'') (\<lambda>master.
     rbind (or_error ErrCrypto ''failed to read random source for passphrase salt'' (RK 3)) (\<lambda>_.
     rbind (or_error ErrCrypto ''failed to generate crypto private key'' (RK 4)) (\<lambda>priv.
     rbind (or_error ErrCrypto ''failed to generate crypto script key'' (RK 5)) (\<lambda>script.
     rbind (or_error ErrCrypto ''failed to generate crypto originSeed key'' (RK 6)) (\<lambda>seed.
     rbind (or_error ErrCrypto ''failed to encrypt crypto private key''
              (sk_Encrypt N (RN 1) master (be_bytes 32 priv))) (\<lambda>privEnc.
     rbind (or_error ErrCrypto ''failed to encrypt crypto script key''
              (sk_Encrypt N (RN 2) master (be_bytes 32 script))) (\<lambda>scriptEnc.
     rbind (or_error ErrCrypto ''failed to encrypt crypto originSeed key''
              (sk_Encrypt N (RN 3) master (be_bytes 32 seed))) (\<lambda>seedEnc.
     rbind (generateAccountRootSeedsForPQRingCTX G masterSeed fromCLI version) (\<lambda>seeds.
     rbind (store_seeds N RN seed cryptoPub seeds ns) (\<lambda>ns.
     rbind (putNetID [cp_PQRingCTID C] ns) (\<lambda>ns.
     Inr (\<lparr>pp_params = Some (SecretKey_Marshal master), pp_priv = Some privEnc,
           pp_script = Some scriptEnc, pp_seed = Some seedEnc\<rparr>, ns))))))))))))"

definition createdAt :: "chain_params \<Rightarrow> BlockStamp" where
  "createdAt C = \<lparr>bs_Height = 0, bs_Hash = cp_GenesisHash C, bs_Timestamp = cp_GenesisTime C\<rparr>"

definition Mgr_Create ::
  "nacl \<Rightarrow> keygen \<Rightarrow> chain_params \<Rightarrow> (nat \<Rightarrow> key result) \<Rightarrow> (nat \<Rightarrow> nonce result) \<Rightarrow> gotime \<Rightarrow> u8
   \<Rightarrow> bytes option \<Rightarrow> bool \<Rightarrow> string \<Rightarrow> bytes \<Rightarrow> bytes \<Rightarrow> ScryptOptions option \<Rightarrow> gotime \<Rightarrow> mgr_ns
   \<Rightarrow> mgr_ns result" where
  "Mgr_Create N G C RK RN now scheme masterSeed fromCLI version pubPass privPass config birthday ns =
     (if scheme \<noteq> kg_PQRingCTX G then Inl (GoError ''unsupported crypto scheme'')
      else if managerExists ns then Inl (ManagerError MgrAlreadyExists ''address manager already exists'')
      else if masterSeed \<noteq> None \<and> privPass = []
      then Inl (ManagerError ErrEmptyPassphrase ''private passphrase may not be empty'')
      else
      rbind (createManagerNS now ns) (\<lambda>ns.
      let so = (case config of None \<Rightarrow> DefaultScryptOptions | Some so \<Rightarrow> so)
      in
      rbind (new_secret N (RK 0) pubPass so ''failed to master public key'') (\<lambda>masterPub.
      rbind (or_error ErrCrypto ''failed to generate crypto public key'' (RK 1)) (\<lambda>cryptoPub.
      rbind (or_error ErrCrypto ''failed to encrypt crypto public key''
               (sk_Encrypt N (RN 0) masterPub (be_bytes 32 cryptoPub))) (\<lambda>cryptoPubEnc.
      rbind (case masterSeed of
               None \<Rightarrow> Inr (\<lparr>pp_params = None, pp_priv = None, pp_script = None, pp_seed = None\<rparr>, ns)
             | Some seed \<Rightarrow>
                 create_private N G C RK RN seed fromCLI version privPass so cryptoPub ns) (\<lambda>(pp, ns).
      rbind (putMasterKeyParams (Some (SecretKey_Marshal masterPub)) (pp_params pp) ns) (\<lambda>ns.
      rbind (putCryptoKeys (Some cryptoPubEnc) (pp_priv pp) (pp_script pp) (pp_seed pp) ns) (\<lambda>ns.
      rbind (putWatchingOnly (masterSeed = None) ns) (\<lambda>ns.
      rbind (putCryptoScheme scheme ns) (\<lambda>ns.
      rbind (PutSyncedTo (createdAt C) ns) (\<lambda>ns.
      rbind (putStartBlock (createdAt C) ns) (\<lambda>ns.
      putBirthday (GoTime (unix birthday - 172800) (nsec birthday)) ns))))))))))))"

section \<open>The sync state\<close>

definition SetSyncedTo :: "BlockStamp option \<Rightarrow> Mgr \<Rightarrow> mgr_ns \<Rightarrow> (Mgr \<times> mgr_ns) result" where
  "SetSyncedTo bs m ns =
     (let bs = (case bs of None \<Rightarrow> ss_startBlock (mg_syncState m) | Some bs \<Rightarrow> bs)
      in rbind (PutSyncedTo bs ns) (\<lambda>ns.
         Inr (m\<lparr>mg_syncState := (mg_syncState m)\<lparr>ss_syncedTo := bs\<rparr>\<rparr>, ns)))"

definition SyncedTo :: "Mgr \<Rightarrow> BlockStamp" where
  "SyncedTo m = ss_syncedTo (mg_syncState m)"

definition Mgr_BlockHash :: "mgr_ns \<Rightarrow> i32 \<Rightarrow> hash result" where
  "Mgr_BlockHash = fetchBlockHash"

definition SetBirthday :: "gotime \<Rightarrow> Mgr \<Rightarrow> mgr_ns \<Rightarrow> (Mgr \<times> mgr_ns) result" where
  "SetBirthday birthday m ns =
     rbind (putBirthday birthday ns) (\<lambda>ns. Inr (m\<lparr>mg_birthday := birthday\<rparr>, ns))"

definition BirthdayBlock :: "mgr_ns \<Rightarrow> (BlockStamp \<times> bool) result" where
  "BirthdayBlock ns =
     rbind (FetchBirthdayBlock ns) (\<lambda>b. rbind (fetchBirthdayBlockVerification ns) (\<lambda>v. Inr (b, v)))"

definition SetBirthdayBlock :: "BlockStamp \<Rightarrow> bool \<Rightarrow> mgr_ns \<Rightarrow> mgr_ns result" where
  "SetBirthdayBlock block verified ns =
     rbind (PutBirthdayBlock block ns) (putBirthdayBlockVerification verified)"

end
