(* ===== verification/Vault.thy ===== *)
theory Vault
  imports ManagerOps
begin

text \<open>
  What the address manager protects: the database as \<open>Create\<close> writes it, the manager \<open>Open\<close> makes
  of it, the keys \<open>Unlock\<close> brings into memory and the seeds they decrypt; that a change of
  passphrase keeps them, and that a locked manager holds none of them.
\<close>

section \<open>Reading what was written\<close>

definition main_at :: "mgr_ns \<Rightarrow> mainkey \<Rightarrow> bytes option" where
  "main_at ns k = (case mn_main ns of None \<Rightarrow> None | Some m \<Rightarrow> m k)"

lemma main_get_at: "managerExists ns \<Longrightarrow> main_get k ns = Inr (main_at ns k)"
  by (auto simp: main_get_def main_bucket_def main_at_def managerExists_def split: option.splits)

text \<open>What a write of the main bucket does: the names written, and nothing else.\<close>

definition main_only :: "mgr_ns \<Rightarrow> (mainkey \<Rightarrow> bytes option) \<Rightarrow> mgr_ns \<Rightarrow> bool" where
  "main_only ns f ns' \<longleftrightarrow> managerExists ns \<and> managerExists ns' \<and> main_at ns' = f \<and>
     mn_addr ns' = mn_addr ns \<and> mn_sync ns' = mn_sync ns"

lemma main_at_Some: "mn_main ns = Some f \<Longrightarrow> main_at ns = f"
  by (rule ext) (simp add: main_at_def)

lemma main_set_only: "main_set k v ns = Inr ns' \<Longrightarrow> main_only ns ((main_at ns)(k := v)) ns'"
  by (auto simp: main_set_def main_bucket_def main_only_def managerExists_def rbind_Inr_iff
      main_at_Some split: option.splits)

lemma main_put_some_only:
  "main_put_some k v ns = Inr ns' \<Longrightarrow>
   main_only ns (case v of None \<Rightarrow> main_at ns | Some b \<Rightarrow> (main_at ns)(k := Some b)) ns'"
  by (auto simp: main_put_some_def rbind_Inr_iff main_only_def main_bucket_def managerExists_def
      split: option.splits dest: main_set_only)

lemma main_only_trans:
  "main_only ns f ns1 \<Longrightarrow> main_only ns1 g ns2 \<Longrightarrow> main_only ns g ns2"
  by (simp add: main_only_def)

lemma putMasterKeyParams_only:
  assumes "putMasterKeyParams pub priv ns = Inr ns'"
  shows "main_only ns (\<lambda>k. if k = masterPubKeyName \<and> pub \<noteq> None then pub
    else if k = masterPrivKeyName \<and> priv \<noteq> None then priv else main_at ns k) ns'"
proof -
  obtain n where "main_put_some masterPrivKeyName priv ns = Inr n"
    "main_put_some masterPubKeyName pub n = Inr ns'"
    using assms by (auto simp: putMasterKeyParams_def rbind_Inr_iff)
  from this [THEN main_put_some_only] show ?thesis
    by (auto simp: main_only_def fun_eq_iff split: option.splits)
qed

lemma putCryptoKeys_only:
  assumes "putCryptoKeys pub priv script seed ns = Inr ns'"
  shows "main_only ns (\<lambda>k. if k = cryptoPubKeyName \<and> pub \<noteq> None then pub
    else if k = cryptoPrivKeyName \<and> priv \<noteq> None then priv
    else if k = cryptoScriptKeyName \<and> script \<noteq> None then script
    else if k = cryptoSeedKeyName \<and> seed \<noteq> None then seed else main_at ns k) ns'"
proof -
  obtain n1 n2 n3 where n: "main_put_some cryptoPubKeyName pub ns = Inr n1"
    "main_put_some cryptoPrivKeyName priv n1 = Inr n2"
    "main_put_some cryptoScriptKeyName script n2 = Inr n3"
    "main_put_some cryptoSeedKeyName seed n3 = Inr ns'"
    using assms by (auto simp: putCryptoKeys_def rbind_Inr_iff)
  from n [THEN main_put_some_only] show ?thesis
    by (auto simp: main_only_def fun_eq_iff split: option.splits)
qed

section \<open>What is on disk\<close>

record vault_keys =
  vk_pub :: key
  vk_priv :: key
  vk_seed :: key
  vk_script :: key

definition marshal_params :: "Parameters \<Rightarrow> bytes" where
  "marshal_params pm = SecretKey_Marshal \<lparr>sk_Key = None, sk_Parameters = pm\<rparr>"

lemma Marshal_params: "SecretKey_Marshal sk = marshal_params (sk_Parameters sk)"
  by (simp add: marshal_params_def SecretKey_Marshal_def)

lemma Unmarshal_params:
  "SecretKey_Unmarshal (marshal_params pm) zero_SecretKey = Inr \<lparr>sk_Key = Some 0, sk_Parameters = pm\<rparr>"
  by (simp add: marshal_params_def Unmarshal_Marshal zero_SecretKey_def)

text \<open>A key under a master key, in the 72 bytes of a nonce and a box.\<close>

definition seals :: "nacl \<Rightarrow> key \<Rightarrow> key \<Rightarrow> bytes \<Rightarrow> bool" where
  "seals N k x c \<longleftrightarrow> key_Decrypt N k c = Inr (be_bytes 32 x) \<and> length c = 72"

lemma seals_Encrypt:
  "sound_box N \<Longrightarrow> key_Encrypt N rnd k (be_bytes 32 x) = Inr c \<Longrightarrow> seals N k x c"
  by (simp add: seals_def key_Decrypt_Encrypt key_Encrypt_length)

definition disk_public :: "nacl \<Rightarrow> bytes \<Rightarrow> key \<Rightarrow> mgr_ns \<Rightarrow> bool" where
  "disk_public N pass cp ns \<longleftrightarrow>
     (\<exists>pm k c. main_at ns masterPubKeyName = Some (marshal_params pm) \<and> opens N pass pm k \<and>
        main_at ns cryptoPubKeyName = Some c \<and> seals N k cp c)"

definition sealed_private ::
  "nacl \<Rightarrow> bytes \<Rightarrow> vault_keys \<Rightarrow> Parameters \<Rightarrow> bytes \<Rightarrow> bytes \<Rightarrow> bytes \<Rightarrow> bool" where
  "sealed_private N pass K pm pe se ce \<longleftrightarrow>
     (\<exists>k. opens N pass pm k \<and> seals N k (vk_priv K) pe \<and> seals N k (vk_seed K) se \<and>
        seals N k (vk_script K) ce)"

definition disk_private ::
  "mgr_ns \<Rightarrow> Parameters \<Rightarrow> bytes \<Rightarrow> bytes \<Rightarrow> bytes \<Rightarrow> bool" where
  "disk_private ns pm pe se ce \<longleftrightarrow>
     main_at ns masterPrivKeyName = Some (marshal_params pm) \<and> main_at ns cryptoPrivKeyName = Some pe \<and>
     main_at ns cryptoSeedKeyName = Some se \<and> main_at ns cryptoScriptKeyName = Some ce"

definition seed_under :: "nacl \<Rightarrow> key \<Rightarrow> mainkey \<Rightarrow> bytes \<Rightarrow> mgr_ns \<Rightarrow> bool" where
  "seed_under N k name s ns \<longleftrightarrow> (\<exists>e. main_at ns name = Some e \<and> key_Decrypt N k e = Inr s)"

definition disk_seeds :: "nacl \<Rightarrow> vault_keys \<Rightarrow> root_seeds \<Rightarrow> mgr_ns \<Rightarrow> bool" where
  "disk_seeds N K seeds ns \<longleftrightarrow>
     seed_under N (vk_seed K) seedKeyName (rs_coinSpend seeds) ns \<and>
     seed_under N (vk_pub K) snKeyRootSeedKeyName (rs_snKey seeds) ns \<and>
     seed_under N (vk_pub K) valueRootSeedKeyName (rs_coinValue seeds) ns \<and>
     seed_under N (vk_pub K) detectorRootKeyName (rs_detectorRootKey seeds) ns \<and>
     seed_under N (vk_pub K) valueRootSeedAutKeyName (rs_coinValueAut seeds) ns"

definition sync_readable :: "mgr_ns \<Rightarrow> bool" where
  "sync_readable ns \<longleftrightarrow> (\<exists>s b d. fetchSyncedTo ns = Inr s \<and> FetchStartBlock ns = Inr b \<and> fetchBirthday ns = Inr d)"

definition disk :: "nacl \<Rightarrow> bytes \<Rightarrow> bytes \<Rightarrow> vault_keys \<Rightarrow> root_seeds \<Rightarrow> mgr_ns \<Rightarrow> bool" where
  "disk N pubPass privPass K seeds ns \<longleftrightarrow>
     managerExists ns \<and> main_at ns mgrVersionName = Some (uint32ToBytes latestMgrVersion) \<and>
     main_at ns watchingOnlyName = Some [0] \<and> (\<exists>s. main_at ns cryptoSchemeName = Some [s]) \<and>
     disk_public N pubPass (vk_pub K) ns \<and>
     (\<exists>pm pe se ce. disk_private ns pm pe se ce \<and> sealed_private N privPass K pm pe se ce) \<and>
     disk_seeds N K seeds ns \<and> sync_readable ns"

section \<open>The manager in memory\<close>

definition wiped :: "Mgr \<Rightarrow> bool" where
  "wiped m \<longleftrightarrow> mg_priv m \<in> {None, Some 0} \<and> mg_seed m \<in> {None, Some 0} \<and> mg_script m \<in> {None, Some 0} \<and>
     (\<forall>sk. mg_masterKeyPriv m = Some sk \<longrightarrow> sk_Key sk \<in> {None, Some 0}) \<and> mg_hashed m = 0"

definition guarded :: "Mgr \<Rightarrow> bool" where
  "guarded m \<longleftrightarrow> (mg_locked m \<longrightarrow> wiped m)"

text \<open>A manager that protects the keys \<open>K\<close> with the passphrase, the way its database does.\<close>

definition vault :: "nacl \<Rightarrow> bytes \<Rightarrow> vault_keys \<Rightarrow> Mgr \<Rightarrow> mgr_ns \<Rightarrow> bool" where
  "vault N pass K m ns \<longleftrightarrow>
     \<not> mg_watchingOnly m \<and> mg_cryptoKeyPub m = vk_pub K \<and> sk_Key (mg_masterKeyPub m) \<noteq> None \<and>
     mg_priv m \<noteq> None \<and> mg_seed m \<noteq> None \<and> mg_script m \<noteq> None \<and>
     (\<exists>sk. mg_masterKeyPriv m = Some sk \<and> sk_Key sk \<noteq> None \<and>
        disk_private ns (sk_Parameters sk) (mg_privEncrypted m) (mg_seedEncrypted m) (mg_scriptEncrypted m) \<and>
        sealed_private N pass K (sk_Parameters sk) (mg_privEncrypted m) (mg_seedEncrypted m)
          (mg_scriptEncrypted m)) \<and>
     (\<not> mg_locked m \<longrightarrow> mg_priv m = Some (vk_priv K) \<and> mg_seed m = Some (vk_seed K) \<and>
        mg_hashed m = hash_passphrase N (mg_salt m) pass)"

lemma copy_onto_same: "length old = length new \<Longrightarrow> copy_onto old new = new"
  by (simp add: copy_onto_def)

lemma lock_keys_ok:
  assumes "mg_priv m \<noteq> None" "mg_seed m \<noteq> None" "mg_script m \<noteq> None"
    "mg_masterKeyPriv m = Some sk" "sk_Key sk \<noteq> None"
  shows "lock_keys m = Inr (m\<lparr>mg_script := Some 0, mg_priv := Some 0, mg_seed := Some 0,
    mg_masterKeyPriv := Some (sk\<lparr>sk_Key := Some 0\<rparr>), mg_hashed := 0, mg_locked := True\<rparr>)"
  using assms by (auto simp: lock_keys_def zero_key_def zero_master_def SecretKey_Zero_def)

lemma lock_keys_wiped: "lock_keys m = Inr m' \<Longrightarrow> wiped m' \<and> mg_locked m'"
  by (auto simp: lock_keys_def zero_key_def zero_master_def SecretKey_Zero_def rbind_Inr_iff wiped_def
      split: option.splits if_splits)

lemma Open_vault:
  assumes "disk N pubPass privPass K seeds ns"
  shows "\<exists>m. Mgr_Open N (Inr salt) ns pubPass = Inr m \<and> vault N privPass K m ns \<and> mg_locked m \<and> wiped m"
proof -
  obtain s where s: "main_at ns cryptoSchemeName = Some [s]"
    using assms by (auto simp: disk_def)
  obtain pm k c where pub: "main_at ns masterPubKeyName = Some (marshal_params pm)" "opens N pubPass pm k"
    "main_at ns cryptoPubKeyName = Some c" "seals N k (vk_pub K) c"
    using assms by (auto simp: disk_def disk_public_def)
  obtain qm pe se ce where prv: "disk_private ns qm pe se ce" "sealed_private N privPass K qm pe se ce"
    using assms by (auto simp: disk_def)
  obtain st b d where sy: "fetchSyncedTo ns = Inr st" "FetchStartBlock ns = Inr b" "fetchBirthday ns = Inr d"
    using assms by (auto simp: disk_def sync_readable_def)
  have ex: "managerExists ns" "main_at ns mgrVersionName = Some (uint32ToBytes latestMgrVersion)"
    "main_at ns watchingOnlyName = Some [0]"
    using assms by (simp_all add: disk_def)
  have lp: "load_public N pubPass (marshal_params pm) c = Inr (\<lparr>sk_Key = Some k, sk_Parameters = pm\<rparr>, vk_pub K)"
    using pub(2,4)
    by (simp add: load_public_def or_error_def Unmarshal_params DeriveKey_opens seals_def sk_Decrypt_def
        copy_onto_same)
  have um: "SecretKey_Unmarshal (marshal_params qm) zero_SecretKey = Inr \<lparr>sk_Key = Some 0, sk_Parameters = qm\<rparr>"
    by (rule Unmarshal_params)
  have rd: "fetchManagerVersion ns = Inr latestMgrVersion" "fetchWatchingOnly ns = Inr False"
    "fetchCryptoScheme ns = Inr s"
    "fetchMasterKeyParams ns = Inr (marshal_params pm, Some (marshal_params qm))"
    "fetchCryptoKeys ns = Inr (c, Some se, Some pe, Some ce)"
    using ex s pub prv(1)
    by (simp_all add: fetchManagerVersion_def main_get_at fetchWatchingOnly_def fetch_flag_def
        fetchCryptoScheme_def fetchMasterKeyParams_def fetchCryptoKeys_def disk_private_def
        uint32ToBytes_def)
  show ?thesis
    unfolding Mgr_Open_def loadManager_def
    using ex(1) prv
    by (auto simp: rd or_error_def of_nil_def um lp sy newManager_def vault_def wiped_def)
qed

section \<open>Unlocking\<close>

lemma CopyBytes_key: "k \<noteq> None \<Longrightarrow> CopyBytes (be_bytes 32 (x :: key)) k = Inr (Some x)"
  by (auto simp: CopyBytes_def copy_onto_same)

lemma Unlock_vault:
  assumes "vault N pass K m ns"
  shows "\<exists>m'. Mgr_Unlock N pass m = Inr (m', None) \<and> vault N pass K m' ns \<and> \<not> mg_locked m' \<and>
    (mg_locked m \<longrightarrow> mg_script m' = mg_script m)"
proof (cases "mg_locked m")
  case False
  then show ?thesis using assms by (auto simp: Mgr_Unlock_def vault_def)
next
  case True
  obtain sk k where sk: "mg_masterKeyPriv m = Some sk" "sk_Key sk \<noteq> None"
    "disk_private ns (sk_Parameters sk) (mg_privEncrypted m) (mg_seedEncrypted m) (mg_scriptEncrypted m)"
    "opens N pass (sk_Parameters sk) k" "seals N k (vk_priv K) (mg_privEncrypted m)"
    "seals N k (vk_seed K) (mg_seedEncrypted m)" "seals N k (vk_script K) (mg_scriptEncrypted m)"
    and nn: "mg_priv m \<noteq> None" "mg_seed m \<noteq> None" "\<not> mg_watchingOnly m"
    using assms by (auto simp: vault_def sealed_private_def)
  have "Mgr_Unlock N pass m = Inr (m\<lparr>mg_masterKeyPriv := Some (sk\<lparr>sk_Key := Some k\<rparr>),
      mg_priv := Some (vk_priv K), mg_seed := Some (vk_seed K), mg_locked := False,
      mg_hashed := hash_passphrase N (mg_salt m) pass\<rparr>, None)"
    using True sk nn
    by (simp add: Mgr_Unlock_def DeriveKey_opens unlock_keys_def sk_Decrypt_def seals_def CopyBytes_key Let_def)
  then show ?thesis using assms True sk by (auto simp: vault_def sealed_private_def)
qed

lemma Unlock_guarded:
  assumes "Mgr_Unlock N pass m = Inr (m', r)" and "guarded m"
  shows "guarded m'"
proof -
  have fl: "fail_locked c msg m1 = Inr (m', r) \<Longrightarrow> guarded m'" for c msg m1
    by (auto simp: fail_locked_def rbind_Inr_iff guarded_def dest: lock_keys_wiped)
  have "unlock_keys N pass sk m1 = Inr (m', r) \<Longrightarrow> guarded m'" for sk m1
    by (cases "sk_Decrypt N sk (mg_privEncrypted m1)"; cases "sk_Decrypt N sk (mg_seedEncrypted m1)")
      (auto simp: unlock_keys_def Let_def rbind_Inr_iff guarded_def dest!: fl)
  then show ?thesis
    using assms fl by (auto simp: Mgr_Unlock_def split: if_splits option.splits sum.splits go_error.splits)
qed

section \<open>The seeds\<close>

lemma Decrypt_public: "key_Decrypt N (mg_cryptoKeyPub m) e = Inr s \<Longrightarrow> Mgr_Decrypt N CKTPublic e m = Inr s"
  by (simp add: Mgr_Decrypt_def with_key_def selectCryptoKey_def)

lemma Decrypt_seed:
  "key_Decrypt N k e = Inr s \<Longrightarrow> mg_seed m = Some k \<Longrightarrow> \<not> mg_locked m \<Longrightarrow> \<not> mg_watchingOnly m \<Longrightarrow>
   Mgr_Decrypt N CKTSeed e m = Inr s"
  by (simp add: Mgr_Decrypt_def with_key_def selectCryptoKey_def)

lemma FetchProtectedRootSeeds_vault:
  assumes "vault N pass K m ns" and "disk_seeds N K seeds ns" and "managerExists ns"
  shows "Mgr_FetchProtectedRootSeeds N ns m =
    Inr (if mg_locked m then seeds\<lparr>rs_coinSpend := []\<rparr> else seeds)"
proof -
  obtain e1 e2 e3 e4 e5 where e: "main_at ns seedKeyName = Some e1" "key_Decrypt N (vk_seed K) e1 = Inr (rs_coinSpend seeds)"
    "main_at ns snKeyRootSeedKeyName = Some e2" "key_Decrypt N (vk_pub K) e2 = Inr (rs_snKey seeds)"
    "main_at ns valueRootSeedKeyName = Some e3" "key_Decrypt N (vk_pub K) e3 = Inr (rs_coinValue seeds)"
    "main_at ns detectorRootKeyName = Some e4" "key_Decrypt N (vk_pub K) e4 = Inr (rs_detectorRootKey seeds)"
    "main_at ns valueRootSeedAutKeyName = Some e5" "key_Decrypt N (vk_pub K) e5 = Inr (rs_coinValueAut seeds)"
    using assms(2) by (auto simp: disk_seeds_def seed_under_def)
  have p: "mg_cryptoKeyPub m = vk_pub K" "\<not> mg_watchingOnly m" "\<not> mg_locked m \<Longrightarrow> mg_seed m = Some (vk_seed K)"
    using assms(1) by (simp_all add: vault_def)
  note f = fetchSpKeyRootSeedEnc_def fetchSNKeyRootSeedEnc_def fetchValueRootSeedEnc_def
    fetchDetectorRootKeyEnc_def fetchValueRootSeedAutEnc_def main_get_at [OF assms(3)]
  show ?thesis
    by (auto simp: Mgr_FetchProtectedRootSeeds_def f e of_nil_def
        Decrypt_public [OF e(4) [folded p(1)]] Decrypt_public [OF e(6) [folded p(1)]]
        Decrypt_public [OF e(8) [folded p(1)]] Decrypt_public [OF e(10) [folded p(1)]]
        Decrypt_seed [OF e(2) p(3)] p(2))
qed

end
