(* ===== verification/VaultOps.thy ===== *)
theory VaultOps
  imports Vault
begin

text \<open>
  \<open>Create\<close> writes a database that \<open>Open\<close> and \<open>Unlock\<close> read back, a change of passphrase keeps
  what is protected, and no operation lets a locked manager keep a secret.
\<close>

lemma guard_Inr_iff: "(if b then Inl e else r) = Inr x \<longleftrightarrow> \<not> b \<and> r = Inr x"
  by simp

section \<open>Creating\<close>

lemma or_error_Inr [simp]: "or_error c msg r = Inr x \<longleftrightarrow> r = Inr x"
  by (cases r) (auto simp: or_error_def split: go_error.splits)

lemma new_secret_opens:
  assumes "new_secret N rnd pass so msg = Inr sk"
  shows "\<exists>k. sk_Key sk = Some k \<and> opens N pass (sk_Parameters sk) k"
  using assms NewSecretKey_opens by (simp add: new_secret_def)

lemma sk_Encrypt_seals:
  "sound_box N \<Longrightarrow> sk_Key sk = Some k \<Longrightarrow> sk_Encrypt N rnd sk (be_bytes 32 x) = Inr c \<Longrightarrow> seals N k x c"
  by (simp add: sk_Encrypt_def seals_Encrypt)

lemma store_seeds_only:
  assumes "store_seeds N RN ks cp seeds ns = Inr ns'" and "sound_box N"
  shows "\<exists>e1 e2 e3 e4 e5. key_Decrypt N ks e1 = Inr (rs_coinSpend seeds) \<and>
    key_Decrypt N cp e2 = Inr (rs_snKey seeds) \<and> key_Decrypt N cp e3 = Inr (rs_coinValue seeds) \<and>
    key_Decrypt N cp e4 = Inr (rs_detectorRootKey seeds) \<and> key_Decrypt N cp e5 = Inr (rs_coinValueAut seeds) \<and>
    main_only ns ((main_at ns)(seedKeyName := Some e1, snKeyRootSeedKeyName := Some e2,
      valueRootSeedKeyName := Some e3, detectorRootKeyName := Some e4,
      valueRootSeedAutKeyName := Some e5)) ns'"
proof -
  obtain e1 e2 e3 e4 e5 n1 n2 n3 n4 where e: "key_Encrypt N (RN 4) ks (rs_coinSpend seeds) = Inr e1"
    "key_Encrypt N (RN 5) cp (rs_snKey seeds) = Inr e2" "key_Encrypt N (RN 6) cp (rs_coinValue seeds) = Inr e3"
    "key_Encrypt N (RN 7) cp (rs_detectorRootKey seeds) = Inr e4"
    "key_Encrypt N (RN 8) cp (rs_coinValueAut seeds) = Inr e5"
    and n: "main_put_some seedKeyName (Some e1) ns = Inr n1"
    "main_put_some snKeyRootSeedKeyName (Some e2) n1 = Inr n2"
    "main_put_some valueRootSeedKeyName (Some e3) n2 = Inr n3"
    "main_put_some detectorRootKeyName (Some e4) n3 = Inr n4"
    "main_put_some valueRootSeedAutKeyName (Some e5) n4 = Inr ns'"
    using assms(1)
    by (auto simp: store_seeds_def rbind_Inr_iff putSeedEnc_def putSNKeyRootSeedEnc_def
        putValueRootSeedEnc_def putDetectorRootKeyEnc_def putValueRootSeedAutEnc_def)
  have "main_only ns ((main_at ns)(seedKeyName := Some e1, snKeyRootSeedKeyName := Some e2,
      valueRootSeedKeyName := Some e3, detectorRootKeyName := Some e4,
      valueRootSeedAutKeyName := Some e5)) ns'"
    using n [THEN main_put_some_only] by (simp add: main_only_def)
  then show ?thesis using e [THEN key_Decrypt_Encrypt [OF assms(2)]] by blast
qed

definition private_made ::
  "nacl \<Rightarrow> bytes \<Rightarrow> vault_keys \<Rightarrow> private_parts \<Rightarrow> bool" where
  "private_made N pass K pp \<longleftrightarrow>
     (\<exists>pm pe se ce. pp = \<lparr>pp_params = Some (marshal_params pm), pp_priv = Some pe, pp_script = Some ce,
        pp_seed = Some se\<rparr> \<and> sealed_private N pass K pm pe se ce)"

lemma create_private_spec:
  assumes "create_private N G C RK RN masterSeed fromCLI version pass so cp ns = Inr (pp, ns')"
    and "sound_box N"
  shows "\<exists>K seeds f. vk_pub K = cp \<and>
    generateAccountRootSeedsForPQRingCTX G masterSeed fromCLI version = Inr seeds \<and>
    private_made N pass K pp \<and> disk_seeds N K seeds ns' \<and> main_only ns f ns' \<and>
    (\<forall>k. k \<in> {mgrVersionName, watchingOnlyName} \<longrightarrow> f k = main_at ns k)"
proof -
  obtain master and priv script :: key and seed pe ce se seeds n1 where m:
    "new_secret N (RK 2) pass so ''failed to master private key'' = Inr master"
    "sk_Encrypt N (RN 1) master (be_bytes 32 priv) = Inr pe"
    "sk_Encrypt N (RN 2) master (be_bytes 32 script) = Inr ce"
    "sk_Encrypt N (RN 3) master (be_bytes 32 seed) = Inr se"
    "generateAccountRootSeedsForPQRingCTX G masterSeed fromCLI version = Inr seeds"
    "store_seeds N RN seed cp seeds ns = Inr n1" "putNetID [cp_PQRingCTID C] n1 = Inr ns'"
    "\<lparr>pp_params = Some (SecretKey_Marshal master), pp_priv = Some pe, pp_script = Some ce,
        pp_seed = Some se\<rparr> = pp"
    using assms(1) by (simp add: create_private_def rbind_Inr_iff del: One_nat_def) blast
  obtain k where k: "sk_Key master = Some k" "opens N pass (sk_Parameters master) k"
    using new_secret_opens [OF m(1)] by blast
  define K where "K = \<lparr>vk_pub = cp, vk_priv = priv, vk_seed = seed, vk_script = script\<rparr>"
  have "sealed_private N pass K (sk_Parameters master) pe se ce"
    using k m(2-4) sk_Encrypt_seals [OF assms(2) k(1)]
    by (auto simp: sealed_private_def K_def intro!: exI [of _ k])
  then have made: "private_made N pass K pp"
    by (auto simp: private_made_def m(8) [symmetric] Marshal_params)
  obtain e1 e2 e3 e4 e5 where e: "key_Decrypt N seed e1 = Inr (rs_coinSpend seeds)"
    "key_Decrypt N cp e2 = Inr (rs_snKey seeds)" "key_Decrypt N cp e3 = Inr (rs_coinValue seeds)"
    "key_Decrypt N cp e4 = Inr (rs_detectorRootKey seeds)" "key_Decrypt N cp e5 = Inr (rs_coinValueAut seeds)"
    "main_only ns ((main_at ns)(seedKeyName := Some e1, snKeyRootSeedKeyName := Some e2,
      valueRootSeedKeyName := Some e3, detectorRootKeyName := Some e4,
      valueRootSeedAutKeyName := Some e5)) n1"
    using store_seeds_only [OF m(6) assms(2)] by blast
  have n': "main_only ns ((main_at n1)(netIDName := Some [cp_PQRingCTID C])) ns'"
    using main_only_trans [OF e(6) main_set_only [OF m(7) [unfolded putNetID_def]]] .
  have at: "main_at ns' = (main_at n1)(netIDName := Some [cp_PQRingCTID C])"
    "main_at n1 = (main_at ns)(seedKeyName := Some e1, snKeyRootSeedKeyName := Some e2,
      valueRootSeedKeyName := Some e3, detectorRootKeyName := Some e4,
      valueRootSeedAutKeyName := Some e5)"
    using n' e(6) by (simp_all add: main_only_def)
  have "disk_seeds N K seeds ns'"
    using e(1-5) by (simp add: disk_seeds_def seed_under_def K_def at)
  then show ?thesis
    using made n' m(5)
    by (intro exI [of _ K] exI [of _ seeds] exI [of _ "(main_at n1)(netIDName := Some [cp_PQRingCTID C])"])
      (auto simp: K_def at)
qed

section \<open>The sync bucket\<close>

lemma sync_put_only:
  assumes "sync_put k v ns = Inr ns'"
  shows "mn_main ns' = mn_main ns" and "mn_addr ns' = mn_addr ns"
    and "sync_get k' ns' = (if k' = k then Inr (Some v) else sync_get k' ns)"
  using assms
  by (auto simp: sync_put_def sync_bucket_def sync_get_def rbind_Inr_iff kv_get_put split: option.splits)

lemma sync_delete_only:
  assumes "sync_delete k ns = Inr ns'"
  shows "mn_main ns' = mn_main ns" and "mn_addr ns' = mn_addr ns"
    and "sync_get k' ns' = (if k' = k then Inr None else sync_get k' ns)"
  using assms
  by (auto simp: sync_delete_def sync_bucket_def sync_get_def rbind_Inr_iff kv_get_delete
      split: option.splits)

lemma PutSyncedTo_frame:
  assumes "PutSyncedTo bs ns = Inr ns'"
  shows "mn_main ns' = mn_main ns" and "mn_addr ns' = mn_addr ns"
    and "\<forall>h. k \<noteq> height_key h \<Longrightarrow> k \<noteq> syncedToName \<Longrightarrow> sync_get k ns' = sync_get k ns"
    and "sync_get syncedToName ns' = Inr (Some (le_bytes 4 (bs_Height bs) @ be_bytes 32 (bs_Hash bs)
      @ le_bytes 4 (ucast (unix (bs_Timestamp bs)) :: u32)))"
  using assms
  by (auto simp: PutSyncedTo_def rbind_Inr_iff addBlockHash_def deleteBlockHash_def updateSyncedTo_def
      sync_put_only [of "height_key _"] sync_delete_only sync_put_only [of syncedToName] split: if_splits)

lemma fetchSyncedTo_PutSyncedTo:
  assumes "PutSyncedTo bs ns = Inr ns'"
  shows "fetchSyncedTo ns' = Inr (bs\<lparr>bs_Timestamp :=
    time_Unix (ucast (ucast (unix (bs_Timestamp bs)) :: u32))\<rparr>)"
  by (simp add: fetchSyncedTo_def PutSyncedTo_frame(4) [OF assms])

lemma FetchStartBlock_put:
  "putStartBlock bs ns = Inr ns' \<Longrightarrow> FetchStartBlock ns' = Inr (bs\<lparr>bs_Timestamp := zero_time\<rparr>)"
  by (simp add: putStartBlock_def FetchStartBlock_def sync_put_only(3))

lemma fetchBirthday_put: "putBirthday t ns = Inr ns' \<Longrightarrow> fetchBirthday ns' = Inr (time_Unix (unix t))"
  by (simp add: putBirthday_def fetchBirthday_def sync_put_only(3))

text \<open>What is on disk is not touched by what the manager is synced to, as long as it can be read.\<close>

lemma disk_sync:
  assumes "disk N pub priv K seeds ns" and "mn_main ns' = mn_main ns" and "sync_readable ns'"
  shows "disk N pub priv K seeds ns'"
proof -
  have "main_at ns' = main_at ns" "managerExists ns' = managerExists ns"
    using assms(2) by (simp_all add: main_at_def fun_eq_iff managerExists_def)
  then show ?thesis using assms(1,3)
    by (simp add: disk_def disk_public_def disk_private_def disk_seeds_def seed_under_def)
qed

lemma Create_disk:
  assumes "Mgr_Create N G C RK RN now scheme (Some seed) fromCLI version pubPass privPass config birthday ns
      = Inr ns'" and "sound_box N"
  shows "\<exists>K seeds. generateAccountRootSeedsForPQRingCTX G seed fromCLI version = Inr seeds \<and>
    disk N pubPass privPass K seeds ns'"
proof -
  obtain n0 so masterPub cp pubEnc pp n1 n2 n3 n4 n5 n6 n7 where c:
    "createManagerNS now ns = Inr n0"
    "new_secret N (RK 0) pubPass so ''failed to master public key'' = Inr masterPub"
    "sk_Encrypt N (RN 0) masterPub (be_bytes 32 cp) = Inr pubEnc"
    "create_private N G C RK RN seed fromCLI version privPass so cp n0 = Inr (pp, n1)"
    "putMasterKeyParams (Some (SecretKey_Marshal masterPub)) (pp_params pp) n1 = Inr n2"
    "putCryptoKeys (Some pubEnc) (pp_priv pp) (pp_script pp) (pp_seed pp) n2 = Inr n3"
    "putWatchingOnly False n3 = Inr n4" "putCryptoScheme scheme n4 = Inr n5"
    "PutSyncedTo (createdAt C) n5 = Inr n6" "putStartBlock (createdAt C) n6 = Inr n7"
    "putBirthday (GoTime (unix birthday - 172800) (nsec birthday)) n7 = Inr ns'"
    using assms(1) by (auto simp: Mgr_Create_def rbind_Inr_iff Let_def split: if_splits)
  obtain k where k: "sk_Key masterPub = Some k" "opens N pubPass (sk_Parameters masterPub) k"
    using new_secret_opens [OF c(2)] by blast
  obtain K seeds f where p: "vk_pub K = cp"
    "generateAccountRootSeedsForPQRingCTX G seed fromCLI version = Inr seeds"
    "private_made N privPass K pp" "disk_seeds N K seeds n1" "main_only n0 f n1"
    "f mgrVersionName = main_at n0 mgrVersionName"
    using create_private_spec [OF c(4) assms(2)] by auto
  obtain pm pe se ce where pp: "pp = \<lparr>pp_params = Some (marshal_params pm), pp_priv = Some pe,
      pp_script = Some ce, pp_seed = Some se\<rparr>" "sealed_private N privPass K pm pe se ce"
    using p(3) by (auto simp: private_made_def)
  have n0: "main_at n0 mgrVersionName = Some (uint32ToBytes latestMgrVersion)"
    using c(1) by (auto simp: createManagerNS_def Let_def rbind_Inr_iff putManagerVersion_def main_set_def
        main_bucket_def main_at_def split: if_splits option.splits)
  have at5: "managerExists n5"
    "main_at n5 = (\<lambda>x. if x = cryptoSchemeName then Some [scheme] else if x = watchingOnlyName then Some [0]
      else if x = cryptoPubKeyName then Some pubEnc else if x = cryptoPrivKeyName then Some pe
      else if x = cryptoScriptKeyName then Some ce else if x = cryptoSeedKeyName then Some se
      else if x = masterPubKeyName then Some (marshal_params (sk_Parameters masterPub))
      else if x = masterPrivKeyName then Some (marshal_params pm) else main_at n1 x)"
    using main_set_only [OF c(7) [unfolded putWatchingOnly_def]]
      main_set_only [OF c(8) [unfolded putCryptoScheme_def]]
      putMasterKeyParams_only [OF c(5)] putCryptoKeys_only [OF c(6)]
    by (auto simp: main_only_def pp(1) Marshal_params fun_eq_iff)
  have n7: "mn_main n7 = mn_main n5" "mn_main ns' = mn_main n5"
    using PutSyncedTo_frame(1) [OF c(9)] sync_put_only(1) [OF c(10) [unfolded putStartBlock_def]]
      sync_put_only(1) [OF c(11) [unfolded putBirthday_def]] by simp_all
  have sr: "sync_readable ns'"
    using fetchSyncedTo_PutSyncedTo [OF c(9)] FetchStartBlock_put [OF c(10)] fetchBirthday_put [OF c(11)]
      sync_put_only(3) [OF c(10) [unfolded putStartBlock_def]]
      sync_put_only(3) [OF c(11) [unfolded putBirthday_def]]
    by (simp add: sync_readable_def fetchSyncedTo_def FetchStartBlock_def)
  have main: "main_at ns' = main_at n5" "managerExists ns'"
    using n7(2) at5(1) by (simp_all add: main_at_def fun_eq_iff managerExists_def)
  have "disk N pubPass privPass K seeds ns'"
    unfolding disk_def
  proof (intro conjI)
    show "main_at ns' mgrVersionName = Some (uint32ToBytes latestMgrVersion)"
      using n0 p(5,6) by (simp add: main at5(2) main_only_def)
    show "disk_public N pubPass (vk_pub K) ns'"
      using k sk_Encrypt_seals [OF assms(2) k(1) c(3)] p(1)
      by (auto simp: disk_public_def main at5(2))
    show "\<exists>pm pe se ce. disk_private ns' pm pe se ce \<and> sealed_private N privPass K pm pe se ce"
      using pp(2) by (auto simp: disk_private_def main at5(2))
    show "disk_seeds N K seeds ns'"
      using p(4) by (simp add: disk_seeds_def seed_under_def main at5(2))
  qed (use sr main at5 in auto)
  then show ?thesis using p(2) by blast
qed

section \<open>Changing a passphrase\<close>

lemma check_passphrase_ok:
  "opens N pass pm k \<Longrightarrow>
   check_passphrase N pm pass = Inr \<lparr>sk_Key = Some k, sk_Parameters = pm\<rparr>"
  by (simp add: check_passphrase_def or_error_def DeriveKey_opens)

lemma reencrypt_seals:
  assumes "reencrypt N rnd old new c msg1 msg2 = Inr c'" and "sound_box N"
    and "sk_Key old = Some k" and "seals N k x c" and "sk_Key new = Some k'"
  shows "seals N k' x c'"
  using assms sk_Encrypt_seals [OF assms(2,5)]
  by (auto simp: reencrypt_def rbind_Inr_iff sk_Decrypt_def seals_def)

lemma change_private_keeps:
  assumes "ChangePassphrase N RK RN pass new True so m ns = Inr (m', ns')"
    and "vault N pass K m ns" and "sound_box N"
  shows "vault N new K m' ns'"
    and "disk N pub pass K seeds ns \<Longrightarrow> disk N pub new K seeds ns'"
proof -
  obtain sk k where sk: "mg_masterKeyPriv m = Some sk" "sk_Key sk \<noteq> None"
    "opens N pass (sk_Parameters sk) k" "seals N k (vk_priv K) (mg_privEncrypted m)"
    "seals N k (vk_seed K) (mg_seedEncrypted m)" "seals N k (vk_script K) (mg_scriptEncrypted m)"
    and v: "\<not> mg_watchingOnly m" "mg_cryptoKeyPub m = vk_pub K" "sk_Key (mg_masterKeyPub m) \<noteq> None"
    "mg_priv m \<noteq> None" "mg_seed m \<noteq> None" "mg_script m \<noteq> None"
    "\<not> mg_locked m \<longrightarrow> mg_priv m = Some (vk_priv K) \<and> mg_seed m = Some (vk_seed K)"
    using assms(2) by (auto simp: vault_def sealed_private_def)
  obtain nk where nk: "new_secret N (RK 0) new so ''failed to create new master private key'' = Inr nk"
    "change_private N (RK 1) RN \<lparr>sk_Key = Some k, sk_Parameters = sk_Parameters sk\<rparr> nk new m ns
      = Inr (m', ns')"
    using assms(1) v(1) sk(1) check_passphrase_ok [OF sk(3)]
    by (auto simp: ChangePassphrase_def rbind_Inr_iff)
  obtain k' where k': "sk_Key nk = Some k'" "opens N new (sk_Parameters nk) k'"
    using new_secret_opens [OF nk(1)] by blast
  obtain salt pe se ce kept n1 where c:
    "reencrypt N (RN 0) \<lparr>sk_Key = Some k, sk_Parameters = sk_Parameters sk\<rparr> nk (mg_privEncrypted m)
      ''failed to decrypt crypto private key'' ''failed to encrypt crypto private key'' = Inr pe"
    "reencrypt N (RN 1) \<lparr>sk_Key = Some k, sk_Parameters = sk_Parameters sk\<rparr> nk (mg_seedEncrypted m)
      ''failed to decrypt crypto seed key'' ''failed to encrypt crypto seed key'' = Inr se"
    "reencrypt N (RN 2) \<lparr>sk_Key = Some k, sk_Parameters = sk_Parameters sk\<rparr> nk (mg_scriptEncrypted m)
      ''failed to decrypt crypto script key'' ''failed to encrypt crypto script key'' = Inr ce"
    "(if mg_locked m then SecretKey_Zero nk else Inr nk) = Inr kept"
    "putCryptoKeys None (Some pe) (Some ce) (Some se) ns = Inr n1"
    "putMasterKeyParams None (Some (SecretKey_Marshal nk)) n1 = Inr ns'"
    "m' = m\<lparr>mg_seedEncrypted := copy_onto (mg_seedEncrypted m) se,
             mg_privEncrypted := copy_onto (mg_privEncrypted m) pe,
             mg_scriptEncrypted := copy_onto (mg_scriptEncrypted m) ce,
             mg_masterKeyPriv := Some kept, mg_salt := salt,
             mg_hashed := (if mg_locked m then 0 else hash_passphrase N salt new)\<rparr>"
    using nk(2) by (auto simp: change_private_def rbind_Inr_iff simp del: One_nat_def)
  have seals: "seals N k' (vk_priv K) pe" "seals N k' (vk_seed K) se" "seals N k' (vk_script K) ce"
    using reencrypt_seals [OF c(1) assms(3) _ sk(4) k'(1)] reencrypt_seals [OF c(2) assms(3) _ sk(5) k'(1)]
      reencrypt_seals [OF c(3) assms(3) _ sk(6) k'(1)] by simp_all
  then have sealed: "sealed_private N new K (sk_Parameters nk) pe se ce"
    using k'(2) by (auto simp: sealed_private_def)
  have cp: "copy_onto (mg_seedEncrypted m) se = se" "copy_onto (mg_privEncrypted m) pe = pe"
    "copy_onto (mg_scriptEncrypted m) ce = ce"
    using seals sk by (simp_all add: copy_onto_same seals_def)
  have kept: "sk_Parameters kept = sk_Parameters nk" "sk_Key kept \<noteq> None"
    using c(4) k'(1) by (auto simp: SecretKey_Zero_def split: if_splits)
  have at: "managerExists ns'" "mn_sync ns' = mn_sync ns"
    "main_at ns' = (\<lambda>x. if x = masterPrivKeyName then Some (marshal_params (sk_Parameters nk))
      else if x = cryptoPrivKeyName then Some pe else if x = cryptoScriptKeyName then Some ce
      else if x = cryptoSeedKeyName then Some se else main_at ns x)"
    using putCryptoKeys_only [OF c(5)] putMasterKeyParams_only [OF c(6)]
    by (auto simp: main_only_def Marshal_params fun_eq_iff)
  then have dp: "disk_private ns' (sk_Parameters nk) pe se ce"
    by (simp add: disk_private_def)
  show "vault N new K m' ns'"
    using v kept dp sealed by (auto simp: vault_def c(7) cp)
  assume d: "disk N pub pass K seeds ns"
  have sy: "sync_readable ns' = sync_readable ns"
    by (simp add: sync_readable_def fetchSyncedTo_def FetchStartBlock_def fetchBirthday_def
        sync_get_def sync_bucket_def at(2))
  have "disk_seeds N K seeds ns'" "disk_public N pub (vk_pub K) ns'"
    using d by (auto simp: disk_def disk_seeds_def seed_under_def disk_public_def at(3))
  then show "disk N pub new K seeds ns'"
    using d dp sealed by (auto simp: disk_def at(1,3) sy)
qed

section \<open>A wrong passphrase\<close>

lemma Unlock_refused:
  assumes "vault N pass K m ns" and "mg_locked m"
    and "mg_masterKeyPriv m = Some sk"
    and "scrypt_Key N p (pm_Salt (sk_Parameters sk)) (pm_N (sk_Parameters sk)) (pm_R (sk_Parameters sk))
      (pm_P (sk_Parameters sk)) = Inr k" and "Sum256 N k \<noteq> pm_Digest (sk_Parameters sk)"
  shows "\<exists>m' msg. Mgr_Unlock N p m = Inr (m', Some (ManagerError ErrWrongPassphrase msg)) \<and>
    mg_locked m' \<and> wiped m' \<and> vault N pass K m' ns"
proof -
  have v: "mg_priv m \<noteq> None" "mg_seed m \<noteq> None" "mg_script m \<noteq> None" "\<not> mg_watchingOnly m"
    "sk_Key sk \<noteq> None"
    using assms(1,3) by (auto simp: vault_def)
  have "Mgr_Unlock N p m = fail_locked ErrWrongPassphrase ''invalid passphrase for master private key''
      (m\<lparr>mg_masterKeyPriv := Some (sk\<lparr>sk_Key := Some k\<rparr>)\<rparr>)"
    using assms(2,3) v DeriveKey_refused [OF assms(4,5)] by (simp add: Mgr_Unlock_def)
  then have u: "Mgr_Unlock N p m = Inr (m\<lparr>mg_masterKeyPriv := Some (sk\<lparr>sk_Key := Some 0\<rparr>),
      mg_script := Some 0, mg_priv := Some 0, mg_seed := Some 0, mg_hashed := 0, mg_locked := True\<rparr>,
      Some (ManagerError ErrWrongPassphrase ''invalid passphrase for master private key''))"
    using v by (simp add: fail_locked_def lock_keys_ok)
  show ?thesis
    unfolding u using assms(1,3) by (auto simp: wiped_def vault_def)
qed

section \<open>No secret in a locked manager\<close>

text \<open>What can happen to a manager after it was opened.\<close>

inductive mgr_step :: "nacl \<Rightarrow> Mgr \<Rightarrow> Mgr \<Rightarrow> bool" for N where
  step_lock: "Mgr_Lock m = Inr m' \<Longrightarrow> mgr_step N m m'"
| step_unlock: "Mgr_Unlock N p m = Inr (m', r) \<Longrightarrow> mgr_step N m m'"
| step_change: "ChangePassphrase N RK RN old new private so m ns = Inr (m', ns') \<Longrightarrow> mgr_step N m m'"
| step_watch: "ConvertToWatchingOnly m ns = Inr (m', ns') \<Longrightarrow> mgr_step N m m'"
| step_sync: "SetSyncedTo bs m ns = Inr (m', ns') \<Longrightarrow> mgr_step N m m'"
| step_birthday: "SetBirthday b m ns = Inr (m', ns') \<Longrightarrow> mgr_step N m m'"
| step_close: "Mgr_Close m = Inr m' \<Longrightarrow> mgr_step N m m'"

inductive mgr_reachable :: "nacl \<Rightarrow> Mgr \<Rightarrow> bool" for N where
  opened: "Mgr_Open N rnd ns pass = Inr m \<Longrightarrow> mgr_reachable N m"
| stepped: "mgr_reachable N m \<Longrightarrow> mgr_step N m m' \<Longrightarrow> mgr_reachable N m'"

text \<open>The script key is never brought into memory: it is nil or zero.\<close>

definition script_unset :: "Mgr \<Rightarrow> bool" where
  "script_unset m \<longleftrightarrow> mg_script m \<in> {None, Some 0}"

lemma lock_keys_script: "lock_keys m = Inr m' \<Longrightarrow> script_unset m'"
  using lock_keys_wiped [of m m'] by (simp add: wiped_def script_unset_def)

lemma Unlock_script:
  assumes "Mgr_Unlock N pass m = Inr (m', r)" and "script_unset m"
  shows "script_unset m'"
proof -
  have fl: "fail_locked c msg m1 = Inr (m', r) \<Longrightarrow> script_unset m'" for c msg m1
    by (auto simp: fail_locked_def rbind_Inr_iff dest: lock_keys_script)
  have "unlock_keys N pass sk m1 = Inr (m', r) \<Longrightarrow> script_unset m1 \<Longrightarrow> script_unset m'" for sk m1
    by (cases "sk_Decrypt N sk (mg_privEncrypted m1)"; cases "sk_Decrypt N sk (mg_seedEncrypted m1)")
      (auto simp: unlock_keys_def Let_def rbind_Inr_iff script_unset_def
        dest!: fl [unfolded script_unset_def])
  then show ?thesis
    using assms fl by (auto simp: Mgr_Unlock_def split: if_splits option.splits sum.splits go_error.splits)
qed

lemma Open_guarded:
  assumes "Mgr_Open N rnd ns pass = Inr m"
  shows "guarded m \<and> script_unset m"
  using assms
  by (auto simp: Mgr_Open_def loadManager_def rbind_Inr_iff newManager_def guarded_def wiped_def
      script_unset_def SecretKey_Unmarshal_def zero_SecretKey_def split: if_splits)

lemma change_private_memory:
  assumes "change_private N rnd RN old nk new m ns = Inr (m', ns')"
  shows "\<exists>kept. (if mg_locked m then SecretKey_Zero nk else Inr nk) = Inr kept \<and>
    mg_masterKeyPriv m' = Some kept \<and> mg_locked m' = mg_locked m \<and> mg_priv m' = mg_priv m \<and>
    mg_seed m' = mg_seed m \<and> mg_script m' = mg_script m \<and> (mg_locked m \<longrightarrow> mg_hashed m' = 0)"
proof -
  obtain salt pe se ce kept where "(if mg_locked m then SecretKey_Zero nk else Inr nk) = Inr kept"
    "m\<lparr>mg_seedEncrypted := copy_onto (mg_seedEncrypted m) se,
       mg_privEncrypted := copy_onto (mg_privEncrypted m) pe,
       mg_scriptEncrypted := copy_onto (mg_scriptEncrypted m) ce,
       mg_masterKeyPriv := Some kept, mg_salt := salt,
       mg_hashed := (if mg_locked m then 0 else hash_passphrase N salt new)\<rparr> = m'"
    using assms unfolding change_private_def rbind_Inr_iff sum.inject prod.inject by blast
  then show ?thesis by auto
qed

lemma change_public_memory:
  "change_public N rnd nk m ns = Inr (m', ns') \<Longrightarrow> m' = m\<lparr>mg_masterKeyPub := nk\<rparr>"
  unfolding change_public_def rbind_Inr_iff sum.inject prod.inject by blast

lemma Change_guarded:
  assumes "ChangePassphrase N RK RN old new prv so m ns = Inr (m', ns')" and "guarded m"
  shows "guarded m' \<and> mg_script m' = mg_script m"
proof -
  obtain sk nk where "(if prv then change_private N (RK 1) RN sk nk new m ns
      else change_public N (RN 0) nk m ns) = Inr (m', ns')"
    using assms(1) unfolding ChangePassphrase_def guard_Inr_iff rbind_Inr_iff by blast
  then show ?thesis
    using assms(2) change_private_memory [of N "RK 1" RN sk nk new m ns m' ns']
      change_public_memory [of N "RN 0" nk m ns m' ns']
    by (auto simp: guarded_def wiped_def SecretKey_Zero_def split: if_splits)
qed

lemma Watch_guarded:
  assumes "ConvertToWatchingOnly m ns = Inr (m', ns')" and "guarded m \<and> script_unset m"
  shows "guarded m' \<and> script_unset m'"
proof (cases "mg_watchingOnly m")
  case False
  then obtain m1 where m1: "(if \<not> mg_locked m then lock_keys m else Inr m) = Inr m1"
    "mg_hashed m' = mg_hashed m1" "mg_masterKeyPriv m' = None" "mg_priv m' = None" "mg_seed m' = None"
    "mg_script m' = None"
    using assms(1) by (auto simp: ConvertToWatchingOnly_def rbind_Inr_iff)
  have "mg_hashed m1 = 0"
    using m1(1) assms(2) lock_keys_wiped [of m m1]
    by (auto simp: guarded_def wiped_def split: if_splits)
  then show ?thesis using m1 by (simp add: guarded_def wiped_def script_unset_def)
qed (use assms in \<open>simp add: ConvertToWatchingOnly_def\<close>)

lemma Close_guarded:
  assumes "Mgr_Close m = Inr m'" and "guarded m \<and> script_unset m"
  shows "guarded m' \<and> script_unset m'"
proof (cases "mg_closed m")
  case False
  then obtain m1 pub where m1:
    "(if \<not> mg_watchingOnly m \<and> \<not> mg_locked m then lock_keys m else Inr m) = Inr m1"
    "m' = m1\<lparr>mg_cryptoKeyPub := 0, mg_masterKeyPub := pub, mg_closed := True\<rparr>"
    using assms(1) by (auto simp: Mgr_Close_def rbind_Inr_iff)
  have "guarded m1 \<and> script_unset m1"
    using m1(1) assms(2) lock_keys_wiped [of m m1] lock_keys_script [of m m1]
    by (auto simp: guarded_def split: if_splits)
  then show ?thesis by (simp add: m1(2) guarded_def wiped_def script_unset_def)
qed (use assms in \<open>simp add: Mgr_Close_def\<close>)

lemma Lock_guarded: "Mgr_Lock m = Inr m' \<Longrightarrow> guarded m' \<and> script_unset m'"
  using lock_keys_wiped [of m m'] lock_keys_script [of m m']
  by (auto simp: Mgr_Lock_def guarded_def split: if_splits)

lemma Sync_guarded:
  "SetSyncedTo bs m ns = Inr (m', ns') \<Longrightarrow> guarded m \<and> script_unset m \<Longrightarrow> guarded m' \<and> script_unset m'"
  "SetBirthday b m ns = Inr (m', ns') \<Longrightarrow> guarded m \<and> script_unset m \<Longrightarrow> guarded m' \<and> script_unset m'"
  by (auto simp: SetSyncedTo_def SetBirthday_def rbind_Inr_iff Let_def guarded_def wiped_def script_unset_def)

lemma step_guarded:
  assumes "mgr_step N m m'" and "guarded m \<and> script_unset m"
  shows "guarded m' \<and> script_unset m'"
  using assms
proof (induction rule: mgr_step.induct)
  case (step_unlock p m m' r)
  then show ?case using Unlock_guarded Unlock_script by blast
next
  case (step_change RK RN old new prv so m ns m' ns')
  then show ?case using Change_guarded [OF step_change(1)] by (simp add: script_unset_def)
qed (blast dest: Watch_guarded Close_guarded Lock_guarded Sync_guarded)+

lemma reachable_guarded: "mgr_reachable N m \<Longrightarrow> guarded m \<and> script_unset m"
proof (induction rule: mgr_reachable.induct)
  case (opened rnd ns pass m)
  then show ?case by (rule Open_guarded)
next
  case (stepped m m')
  then show ?case using step_guarded by blast
qed

end
