(* ===== verification/SyncHeights.thy ===== *)
theory SyncHeights
  imports VaultOps
begin

text \<open>
  The hashes of recent blocks in the sync bucket: what \<open>PutSyncedTo\<close> does to them, what the record
  promises while blocks are connected and disconnected, and the three migrations of
  \<open>waddrmgr/migrations.go\<close>.
\<close>

section \<open>One step\<close>

lemma fetchBlockHash_get:
  "sync_get (height_key h) ns' = sync_get (height_key h) ns \<Longrightarrow> fetchBlockHash ns' h = fetchBlockHash ns h"
  by (simp add: fetchBlockHash_def)

lemma fetchBlockHash_add:
  "addBlockHash h x ns = Inr ns' \<Longrightarrow> fetchBlockHash ns' h' = (if h' = h then Inr x else fetchBlockHash ns h')"
  by (simp add: fetchBlockHash_def addBlockHash_def sync_put_only(3))

definition no_hash :: "hash result" where
  "no_hash = Inl (ManagerError ErrBlockNotFound ''failed to fetch block hash'')"

lemma fetchBlockHash_delete:
  "deleteBlockHash h ns = Inr ns' \<Longrightarrow> fetchBlockHash ns' h' = (if h' = h then no_hash else fetchBlockHash ns h')"
  by (simp add: fetchBlockHash_def deleteBlockHash_def sync_delete_only(3) no_hash_def)

lemma fetchBlockHash_update: "updateSyncedTo bs ns = Inr ns' \<Longrightarrow> fetchBlockHash ns' h = fetchBlockHash ns h"
  by (simp add: fetchBlockHash_def updateSyncedTo_def sync_put_only(3))

lemma PutSyncedTo_hashes:
  assumes "PutSyncedTo bs ns = Inr ns'"
  shows "fetchBlockHash ns' h =
    (if 0 < sint (staleHeight (bs_Height bs)) \<and> h = staleHeight (bs_Height bs) then no_hash
     else if h = bs_Height bs then Inr (bs_Hash bs) else fetchBlockHash ns h)"
proof -
  obtain n1 n2 where n: "addBlockHash (bs_Height bs) (bs_Hash bs) ns = Inr n1"
    "(if 0 < sint (staleHeight (bs_Height bs)) then deleteBlockHash (staleHeight (bs_Height bs)) n1
      else Inr n1) = Inr n2" "updateSyncedTo bs n2 = Inr ns'"
    using assms by (auto simp: PutSyncedTo_def rbind_Inr_iff)
  show ?thesis
    using n(2) fetchBlockHash_add [OF n(1)] fetchBlockHash_update [OF n(3)]
    by (auto simp: fetchBlockHash_delete split: if_splits)
qed

text \<open>With a birthday block on record, a block is refused unless the one before is on record.\<close>

lemma PutSyncedTo_previous:
  assumes "PutSyncedTo bs ns = Inr ns'" and "FetchBirthdayBlock ns = Inr b" and "0 < sint (bs_Height bs)"
  shows "\<exists>x. fetchBlockHash ns (bs_Height bs - 1) = Inr x"
  using assms
  by (auto simp: PutSyncedTo_def previous_known_def wrap_def rbind_Inr_iff
      split: sum.splits go_error.splits if_splits)

lemma PutSyncedTo_unknown:
  assumes "FetchBirthdayBlock ns = Inr b" and "0 < sint (bs_Height bs)"
    and "fetchBlockHash ns (bs_Height bs - 1) = no_hash"
  shows "\<exists>msg. PutSyncedTo bs ns = Inl (ManagerError ErrBlockNotFound msg)"
  using assms by (simp add: PutSyncedTo_def previous_known_def wrap_def no_hash_def)

section \<open>The record and the chain\<close>

text \<open>
  The chain as the wallet follows it: its blocks by height, its tip, and the highest tip it had.
  A block is connected at the height after the tip; or blocks are disconnected, and a block below
  the tip, on record as the one after it is, is synced to again.
\<close>

record followed =
  fo_chain :: "int \<Rightarrow> hash"
  fo_tip :: int
  fo_peak :: int

inductive follow :: "mgr_ns \<Rightarrow> followed \<Rightarrow> mgr_ns \<Rightarrow> followed \<Rightarrow> bool" where
  connected: "PutSyncedTo bs ns = Inr ns' \<Longrightarrow> sint (bs_Height bs) = fo_tip f + 1 \<Longrightarrow>
    follow ns f ns' \<lparr>fo_chain = (fo_chain f)(fo_tip f + 1 := bs_Hash bs), fo_tip = fo_tip f + 1,
      fo_peak = max (fo_peak f) (fo_tip f + 1)\<rparr>"
| disconnected: "PutSyncedTo bs ns = Inr ns' \<Longrightarrow> sint (bs_Height bs) = h \<Longrightarrow> 0 \<le> h \<Longrightarrow> h < fo_tip f \<Longrightarrow>
    fetchBlockHash ns (bs_Height bs) = Inr (bs_Hash bs) \<Longrightarrow>
    fetchBlockHash ns (bs_Height bs + 1) = Inr x \<Longrightarrow>
    follow ns f ns' (f\<lparr>fo_tip := h\<rparr>)"

inductive follows :: "mgr_ns \<Rightarrow> followed \<Rightarrow> mgr_ns \<Rightarrow> followed \<Rightarrow> bool" where
  none: "follows ns f ns f"
| one_more: "follows ns f ns1 f1 \<Longrightarrow> follow ns1 f1 ns2 f2 \<Longrightarrow> follows ns f ns2 f2"

text \<open>
  The record holds the genesis block and the chain as far back as \<open>MaxReorgDepth\<close> below the highest
  tip it had, holds nothing else, and is synced to the tip.
\<close>

definition agrees :: "mgr_ns \<Rightarrow> followed \<Rightarrow> bool" where
  "agrees ns f \<longleftrightarrow>
     0 \<le> fo_tip f \<and> fo_tip f \<le> fo_peak f \<and> fo_peak f < 2 ^ 31 \<and>
     (fo_peak f - 10000 < fo_tip f \<or> fo_tip f = 0 \<and> fo_peak f \<le> 10000) \<and>
     fetchBlockHash ns 0 = Inr (fo_chain f 0) \<and>
     (\<forall>h. 0 < h \<and> fo_peak f - 10000 < h \<and> h \<le> fo_tip f \<longrightarrow>
        fetchBlockHash ns (word_of_int h) = Inr (fo_chain f h)) \<and>
     (\<forall>h. 0 < h \<and> h \<le> fo_peak f - 10000 \<longrightarrow> fetchBlockHash ns (word_of_int h) = no_hash) \<and>
     (\<forall>w. sint w < 0 \<longrightarrow> fetchBlockHash ns w = no_hash) \<and>
     (\<exists>t. fetchSyncedTo ns = Inr \<lparr>bs_Height = word_of_int (fo_tip f), bs_Hash = fo_chain f (fo_tip f),
       bs_Timestamp = t\<rparr>)"

lemma sint_of_int_i32: "- (2 ^ 31) \<le> h \<Longrightarrow> h < 2 ^ 31 \<Longrightarrow> sint (word_of_int h :: i32) = h"
  by (simp add: signed_of_int signed_take_bit_int_eq_self)

lemma word_of_sint: "sint (w :: i32) = h \<Longrightarrow> w = word_of_int h"
  by auto

lemma i32_of_int:
  assumes "0 \<le> h" "h < 2 ^ 31"
  shows "word_of_int h = (w :: i32) \<longleftrightarrow> h = sint w"
  using sint_of_int_i32 [of h] assms by (auto simp: word_of_int_eq_iff [symmetric])

lemma staleHeight_sint:
  assumes "0 \<le> sint h"
  shows "sint (staleHeight h) = sint h - 10000"
proof -
  have b: "sint h < 2 ^ 31" using sint_lt [of h] by simp
  have st: "staleHeight h = word_of_int (sint h - 10000)"
    by (simp add: staleHeight_def MaxReorgDepth_def)
  show ?thesis unfolding st by (rule sint_of_int_i32) (use assms b in simp_all)
qed

text \<open>What one call does to the record, in integers.\<close>

lemma PutSyncedTo_record:
  assumes "PutSyncedTo bs ns = Inr ns'" and "sint (bs_Height bs) = t" and "0 \<le> t" and "0 \<le> h" "h < 2 ^ 31"
  shows "fetchBlockHash ns' (word_of_int h) =
    (if 10000 < t \<and> h = t - 10000 then no_hash
     else if h = t then Inr (bs_Hash bs) else fetchBlockHash ns (word_of_int h))"
  using PutSyncedTo_hashes [OF assms(1), of "word_of_int h"] assms(2-5)
  by (simp add: i32_of_int staleHeight_sint)

lemma PutSyncedTo_negative:
  assumes "PutSyncedTo bs ns = Inr ns'" and "sint (bs_Height bs) = t" and "0 \<le> t" and "sint h < 0"
  shows "fetchBlockHash ns' h = fetchBlockHash ns h"
  using PutSyncedTo_hashes [OF assms(1), of h] assms(2-4) by (auto simp: staleHeight_sint)

lemma PutSyncedTo_tip:
  assumes "PutSyncedTo bs ns = Inr ns'" and "sint (bs_Height bs) = t"
  shows "\<exists>time. fetchSyncedTo ns' = Inr \<lparr>bs_Height = word_of_int t, bs_Hash = bs_Hash bs, bs_Timestamp = time\<rparr>"
proof -
  have "bs_Height bs = word_of_int t" using assms(2) by (rule word_of_sint)
  then show ?thesis
    using fetchSyncedTo_PutSyncedTo [OF assms(1)] by (cases bs) simp
qed

lemma follow_agrees:
  assumes "follow ns f ns' f'" and a: "agrees ns f"
  shows "agrees ns' f'"
  using assms(1)
proof (cases rule: follow.cases)
  case (connected bs)
  have b: "fo_tip f + 1 < 2 ^ 31" using connected(3) sint_lt [of "bs_Height bs"] by simp
  have t: "0 \<le> fo_tip f + 1" using a by (simp add: agrees_def)
  note r = PutSyncedTo_record [OF connected(2,3) t]
  show ?thesis
    using a b r [of 0] PutSyncedTo_negative [OF connected(2,3) t] PutSyncedTo_tip [OF connected(2,3)]
    unfolding agrees_def connected(1) followed.simps by (auto simp: r)
next
  case (disconnected bs h x)
  note r = PutSyncedTo_record [OF disconnected(2-4)]
  have h: "bs_Height bs = word_of_int h" "bs_Height bs + 1 = word_of_int (h + 1)"
    using word_of_sint [OF disconnected(3)] by simp_all
  have known: "bs_Hash bs = fo_chain f h" "fo_peak f - 10000 < h \<or> h = 0 \<and> fo_peak f \<le> 10000"
  proof -
    have rec: "fetchBlockHash ns 0 = Inr (fo_chain f 0)"
      "\<And>h. 0 < h \<Longrightarrow> fo_peak f - 10000 < h \<Longrightarrow> h \<le> fo_tip f \<Longrightarrow>
         fetchBlockHash ns (word_of_int h) = Inr (fo_chain f h)"
      "\<And>h. 0 < h \<Longrightarrow> h \<le> fo_peak f - 10000 \<Longrightarrow> fetchBlockHash ns (word_of_int h) = no_hash"
      using a unfolding agrees_def by blast+
    have peak: "fo_peak f - 10000 < h + 1"
      using rec(3) [of "h + 1"] disconnected(4,7) unfolding h(2) by (force simp: no_hash_def)
    then show "fo_peak f - 10000 < h \<or> h = 0 \<and> fo_peak f \<le> 10000"
      using rec(3) [of h] disconnected(4,6) unfolding h(1)
      by (cases "h = 0"; cases "fo_peak f - 10000 < h") (auto simp: no_hash_def)
    then show "bs_Hash bs = fo_chain f h"
      using rec(1) rec(2) [of h] disconnected(4,5,6) unfolding h(1) by (cases "h = 0") auto
  qed
  show ?thesis
    using a disconnected(4,5) known r [of 0] PutSyncedTo_negative [OF disconnected(2-4)]
      PutSyncedTo_tip [OF disconnected(2,3)]
    unfolding agrees_def disconnected(1) followed.simps by (auto simp: r)
qed

lemma follows_agrees: "follows ns f ns' f' \<Longrightarrow> agrees ns f \<Longrightarrow> agrees ns' f'"
  by (induction rule: follows.induct) (auto intro: follow_agrees)

section \<open>From a new manager\<close>

definition follow_genesis :: "chain_params \<Rightarrow> (int \<Rightarrow> hash) \<Rightarrow> followed" where
  "follow_genesis C chain = \<lparr>fo_chain = chain(0 := cp_GenesisHash C), fo_tip = 0, fo_peak = 0\<rparr>"

lemma main_set_sync: "main_set k v ns = Inr ns' \<Longrightarrow> mn_sync ns' = mn_sync ns"
  by (drule main_set_only) (simp add: main_only_def)

lemma main_put_sync: "main_put_some k v ns = Inr ns' \<Longrightarrow> mn_sync ns' = mn_sync ns"
  by (drule main_put_some_only) (simp add: main_only_def)

lemma create_private_sync:
  "create_private N G C RK RN masterSeed fromCLI version pass so cp ns = Inr (pp, ns') \<Longrightarrow> mn_sync ns' = mn_sync ns"
  by (auto simp: create_private_def store_seeds_def rbind_Inr_iff putSeedEnc_def putSNKeyRootSeedEnc_def
      putValueRootSeedEnc_def putDetectorRootKeyEnc_def putValueRootSeedAutEnc_def putNetID_def
      dest!: main_put_sync main_set_sync)

lemma fetchBlockHash_empty: "mn_sync ns = Some [] \<Longrightarrow> fetchBlockHash ns h = no_hash"
  by (simp add: fetchBlockHash_def sync_get_def sync_bucket_def no_hash_def kv_get_def)

lemma Create_agrees:
  assumes "Mgr_Create N G C RK RN now scheme seed fromCLI version pubPass privPass config birthday ns = Inr ns'"
  shows "agrees ns' (follow_genesis C chain)"
proof -
  obtain n0 cp pp pub privp cpub cpriv cscript cseed n1 n2 n3 n4 n5 n6 n7 so where c0:
    "createManagerNS now ns = Inr n0"
    "(case seed of None \<Rightarrow> Inr (\<lparr>pp_params = None, pp_priv = None, pp_script = None, pp_seed = None\<rparr>, n0)
      | Some seed \<Rightarrow> create_private N G C RK RN seed fromCLI version privPass so cp n0) = Inr (pp, n1)"
    "putMasterKeyParams pub privp n1 = Inr n2" "putCryptoKeys cpub cpriv cscript cseed n2 = Inr n3"
    "putWatchingOnly (seed = None) n3 = Inr n4" "putCryptoScheme scheme n4 = Inr n5"
    and c: "PutSyncedTo (createdAt C) n5 = Inr n6" "putStartBlock (createdAt C) n6 = Inr n7"
    "putBirthday (GoTime (unix birthday - 172800) (nsec birthday)) n7 = Inr ns'"
    using assms unfolding Mgr_Create_def guard_Inr_iff Let_def
    by (auto simp: rbind_Inr_iff split_paired_all split: if_splits)
  have "mn_sync n0 = Some []"
    using c0(1) by (auto simp: createManagerNS_def Let_def rbind_Inr_iff putManagerVersion_def
        dest!: main_set_sync split: if_splits option.splits)
  moreover have "mn_sync n5 = mn_sync n0"
    using c0(2) putMasterKeyParams_only [OF c0(3)] putCryptoKeys_only [OF c0(4)] c0(5,6)
    by (auto simp: main_only_def putWatchingOnly_def putCryptoScheme_def
        dest!: main_set_sync create_private_sync split: option.splits)
  ultimately have n5: "fetchBlockHash n5 h = no_hash" for h by (simp add: fetchBlockHash_empty)
  note g = sync_put_only(3) [OF c(2) [unfolded putStartBlock_def]]
    sync_put_only(3) [OF c(3) [unfolded putBirthday_def]]
  have "\<And>h. fetchBlockHash ns' h = fetchBlockHash n6 h" "fetchSyncedTo ns' = fetchSyncedTo n6"
    using g by (simp_all add: fetchBlockHash_def fetchSyncedTo_def)
  then show ?thesis
    using PutSyncedTo_hashes [OF c(1)] fetchSyncedTo_PutSyncedTo [OF c(1)] n5
    by (auto simp: agrees_def follow_genesis_def createdAt_def staleHeight_def MaxReorgDepth_def)
qed

end
