(* ===== verification/TxLists.thy ===== *)
theory TxLists
  imports Unmined Queries
begin

text \<open>
  The lists of transactions by state, \<open>wtxmgr/unconfirmed.go\<close>, the state of a transaction, and the
  label of one, \<open>wtxmgr/query.go\<close>.
\<close>

section \<open>Hashes and records\<close>

text \<open>A fallible call on every element of a list, up to the first error.\<close>

fun fetch_all :: "('a \<Rightarrow> 'b result) \<Rightarrow> 'a list \<Rightarrow> 'b list result" where
  "fetch_all f [] = Inr []"
| "fetch_all f (x # xs) = rbind (f x) (\<lambda>y. rbind (fetch_all f xs) (\<lambda>ys. Inr (y # ys)))"

definition tx_hashes :: "bucket \<Rightarrow> namespace \<Rightarrow> hash list result" where
  "tx_hashes b ns = rbind (nested b ns) (\<lambda>m. fetch_all (\<lambda>(k, _). NewHash k) m)"

definition tx_values :: "abec \<Rightarrow> bucket \<Rightarrow> namespace \<Rightarrow> TxRecord list result" where
  "tx_values A b ns = rbind (nested b ns) (\<lambda>m. fetch_all (\<lambda>(_, v). TxRecord_Deserialize A v) m)"

definition unconfirmedTxHashes where "unconfirmedTxHashes = tx_hashes bucketUnconfirmedTx"
definition UnminedTxHashes where "UnminedTxHashes = unconfirmedTxHashes"
definition confirmedTxHashes where "confirmedTxHashes = tx_hashes bucketConfirmedTx"
definition ConfirmedTxHashes where "ConfirmedTxHashes = confirmedTxHashes"
definition invalidTxHashes where "invalidTxHashes = tx_hashes bucketInvalidTx"
definition InvalidTxHashes where "InvalidTxHashes = invalidTxHashes"
definition confirmedTxs where "confirmedTxs A = tx_values A bucketConfirmedTx"
definition ConfirmedTxs where "ConfirmedTxs = confirmedTxs"
definition invalidTxs where "invalidTxs A = tx_values A bucketInvalidTx"
definition InvalidTxs where "InvalidTxs = invalidTxs"

definition unconfirmedTxCount :: "namespace \<Rightarrow> nat result" where
  "unconfirmedTxCount ns = rbind (nested bucketUnconfirmedTx ns) (\<lambda>m. Inr (length m))"

text \<open>\<open>rnd i\<close> is the \<open>i\<close>-th draw of \<open>rand.Intn\<close> with the number of transactions.\<close>

fun draw_records ::
  "abec \<Rightarrow> (nat \<Rightarrow> nat) \<Rightarrow> nat \<Rightarrow> int \<Rightarrow> kv \<Rightarrow> nat \<Rightarrow> TxRecord list \<Rightarrow> TxRecord list result" where
  "draw_records A rnd n maxSize [] i acc = Inr acc"
| "draw_records A rnd n maxSize ((k, v) # m) i acc =
     (if maxSize \<le> int (length acc) then draw_records A rnd n maxSize m i acc
      else if int n < maxSize
      then rbind (TxRecord_Deserialize A v) (\<lambda>r. draw_records A rnd n maxSize m i (acc @ [r]))
      else if int (rnd i) < maxSize
      then rbind (TxRecord_Deserialize A v) (\<lambda>r. draw_records A rnd n maxSize m (Suc i) (acc @ [r]))
      else draw_records A rnd n maxSize m (Suc i) acc)"

definition unconfirmedTxRecords ::
  "abec \<Rightarrow> (nat \<Rightarrow> nat) \<Rightarrow> nat \<Rightarrow> int \<Rightarrow> namespace \<Rightarrow> TxRecord list result" where
  "unconfirmedTxRecords A rnd n maxSize ns =
     (if maxSize \<noteq> 0
      then rbind (nested bucketUnconfirmedTx ns) (\<lambda>m. draw_records A rnd n maxSize m 0 [])
      else tx_values A bucketUnconfirmedTx ns)"

definition UnconfirmedTxs :: "abec \<Rightarrow> (nat \<Rightarrow> nat) \<Rightarrow> int \<Rightarrow> namespace \<Rightarrow> TxRecord list result" where
  "UnconfirmedTxs A rnd maxSize ns =
     rbind (unconfirmedTxCount ns) (\<lambda>n. unconfirmedTxRecords A rnd n maxSize ns)"

section \<open>The state of a transaction\<close>

definition recorded :: "bytes option \<Rightarrow> bool" where
  "recorded v \<longleftrightarrow> (case v of None \<Rightarrow> False | Some b \<Rightarrow> b \<noteq> [])"

definition TxStatus :: "namespace \<Rightarrow> hash \<Rightarrow> int result" where
  "TxStatus ns h =
     (let k = be_bytes 32 h
      in rbind (existsRawUnconfirmedTx ns k) (\<lambda>v. if recorded v then Inr 0
         else rbind (existsRawConfirmedTx ns k) (\<lambda>v. if recorded v then Inr 1
         else rbind (existsRawInvalidTx ns k) (\<lambda>v. if recorded v then Inr 2 else Inr (- 1)))))"

definition TxLabel :: "namespace \<Rightarrow> hash \<Rightarrow> bytes result" where
  "TxLabel ns txid =
     (case FetchTxLabel ns txid of
        Inr l \<Rightarrow> Inr l
      | Inl e \<Rightarrow> if e \<in> {GoError ''labels bucket does not exist'', GoError ''label for transaction not found''}
                 then Inr [] else Inl e)"

lemma fetch_all_set: "fetch_all f xs = Inr ys \<Longrightarrow> y \<in> set ys \<longleftrightarrow> (\<exists>x \<in> set xs. f x = Inr y)"
  by (induction xs arbitrary: ys) (auto simp: rbind_Inr_iff)

lemma NewHash_iff: "NewHash k = Inr h \<longleftrightarrow> k = be_bytes 32 h"
  using be_bytes_word [of k, where 'a = 256] by (auto simp: NewHash_def be_word_bytes)

text \<open>The hashes listed are those under whose keys something is filed.\<close>

lemma tx_hashes_iff:
  assumes "tx_hashes b ns = Inr hs"
  shows "h \<in> set hs \<longleftrightarrow> (\<exists>v. nested_get b (be_bytes 32 h) ns = Inr (Some v))"
proof -
  obtain m where m: "nested b ns = Inr m" "fetch_all (\<lambda>(k, _). NewHash k) m = Inr hs"
    using assms by (auto simp: tx_hashes_def rbind_Inr_iff)
  have "h \<in> set hs \<longleftrightarrow> (\<exists>(k, v) \<in> set m. NewHash k = Inr h)"
    using fetch_all_set [OF m(2)] by (auto split: prod.splits)
  also have "\<dots> \<longleftrightarrow> be_bytes 32 h \<in> fst ` set m"
    by (force simp: NewHash_iff)
  also have "\<dots> \<longleftrightarrow> kv_get m (be_bytes 32 h) \<noteq> None"
    by (simp add: kv_get_def map_of_eq_None_iff)
  finally show ?thesis using m(1) by (simp add: nested_get_def)
qed

lemma draw_records_bound:
  "draw_records A rnd n maxSize m i acc = Inr rs \<Longrightarrow> int (length rs) \<le> max maxSize (int (length acc))"
  by (induction A rnd n maxSize m i acc arbitrary: rs rule: draw_records.induct)
    (fastforce simp: rbind_Inr_iff split: if_splits)+

lemma UnconfirmedTxs_bound:
  "UnconfirmedTxs A rnd maxSize ns = Inr rs \<Longrightarrow> 0 < maxSize \<Longrightarrow> int (length rs) \<le> maxSize"
  by (auto simp: UnconfirmedTxs_def unconfirmedTxRecords_def rbind_Inr_iff dest!: draw_records_bound)

section \<open>A transaction that was inserted\<close>

lemma retimed_put:
  assumes "putRawUnconfirmedTx now k v ns = Inr ns'"
  shows "\<exists>x. existsRawUnconfirmedTx ns' k = Inr (Some x) \<and> x \<noteq> []"
proof -
  obtain x where x: "retime now v = Inr x" "nested_put ''fail to put unconfirmed transaction'' bucketUnconfirmedTx k x ns = Inr ns'"
    using assms by (auto simp: putRawUnconfirmedTx_def rbind_Inr_iff)
  have "length x \<ge> 8" using x(1) by (auto simp: retime_def split: if_splits)
  then show ?thesis using nested_get_put [OF x(2)] by (auto simp: existsRawUnconfirmedTx_def)
qed

lemma InsertTx_listed:
  assumes "InsertTx A now height rec hasBlock ns = Inr ns'"
    and "existsRawUnconfirmedTx ns (be_bytes 32 (rec_Hash rec)) = Inr None"
  shows "TxStatus ns' (rec_Hash rec) = Inr 0"
    and "UnminedTxHashes ns' = Inr hs \<Longrightarrow> rec_Hash rec \<in> set hs"
proof -
  obtain ns1 ns2 v where n: "putRawUnconfirmedTx now (be_bytes 32 (rec_Hash rec)) v ns1 = Inr ns2"
    "ns' = notify (NotifyTransactionRollback (rec_Hash rec) height) ns2"
    using assms by (cases rule: InsertTx_cases) auto
  have b: "ns_bucket ns' = ns_bucket ns2" by (simp add: n(2))
  have g: "existsRawUnconfirmedTx ns' k = existsRawUnconfirmedTx ns2 k" for k
    by (simp add: existsRawUnconfirmedTx_def nested_get_def nested_def b)
  obtain x where x: "existsRawUnconfirmedTx ns' (be_bytes 32 (rec_Hash rec)) = Inr (Some x)" "x \<noteq> []"
    using retimed_put [OF n(1)] unfolding g by blast
  show "TxStatus ns' (rec_Hash rec) = Inr 0" using x by (simp add: TxStatus_def recorded_def)
  show "rec_Hash rec \<in> set hs" if "UnminedTxHashes ns' = Inr hs"
    using that x tx_hashes_iff [of bucketUnconfirmedTx ns' hs]
    by (simp add: UnminedTxHashes_def unconfirmedTxHashes_def existsRawUnconfirmedTx_def)
qed

end
