(* ===== verification/ChainSync.thy ===== *)
theory ChainSync
  imports SyncHeights Machine TxLists
begin

text \<open>
  The wallet following the chain: \<open>wallet/chainntfns.go\<close> (blocks connected and disconnected, the
  check of the birthday block), \<open>wallet/rescan.go\<close> (catching up) and the synchronisation of
  \<open>wallet/wallet.go\<close> (the fork point, the birthday block).

  The wallet is the address manager in memory and the two namespaces of its database. A database
  transaction that fails leaves the namespaces as they were; the manager in memory stays as the
  transaction left it. The chain server is a parameter: what it answers, the same throughout one
  operation.
\<close>

section \<open>The wallet and the chain server\<close>

record wallet =
  wl_mgr :: Mgr
  wl_addr :: mgr_ns
  wl_tx :: namespace

text \<open>\<open>ch_ready\<close>: waiting until the server is synced; \<open>ch_notify\<close>: \<open>NotifyBlocks\<close>.\<close>

record chain =
  ch_best :: "i32 result"
  ch_hash :: "int \<Rightarrow> hash result"
  ch_header :: "hash \<Rightarrow> gotime result"
  ch_block :: "hash \<Rightarrow> MsgBlockAbe result"
  ch_ready :: "unit result"
  ch_notify :: "unit result"

text \<open>The packages outside the repository, the parameters of the chain and of the wallet.\<close>

record wallet_env =
  we_abec :: abec
  we_blk :: abecblk
  we_crypto :: crypto
  we_nacl :: nacl
  we_keygen :: keygen
  we_RingCT :: u8
  we_HeightMLPAUT :: i32
  we_SyncFrom :: i32

record BlockMeta =
  bm_Hash :: hash
  bm_Height :: i32
  bm_Time :: gotime

text \<open>The address manager as the transaction store uses it.\<close>

definition as_manager :: "wallet_env \<Rightarrow> wallet \<Rightarrow> manager" where
  "as_manager W w =
     \<lparr>FetchProtectedRootSeeds = Mgr_FetchProtectedRootSeeds (we_nacl W) (wl_addr w) (wl_mgr w),
      CryptoSchemeIsRingCT = (mg_cryptoScheme (wl_mgr w) = we_RingCT W),
      AddressSnKey = (\<lambda>coinAddr.
        rbind (FetchAddressKeyEnc (we_keygen W) (wl_addr w) coinAddr) (\<lambda>(enc, _).
        rbind (DecryptAddressKey (we_nacl W) \<lparr>ak_address = None, ak_spend = None,
                 ak_serial = ak_serial enc, ak_value = None, ak_detector = None\<rparr> (wl_mgr w))
          (\<lambda>keys. Inr (of_nil (ak_serial keys)))))\<rparr>"

type_synonym 'a act = "wallet \<Rightarrow> wallet \<times> 'a result"

definition walletdb_Update :: "'a act \<Rightarrow> 'a act" where
  "walletdb_Update f w =
     (case f w of (w', Inr x) \<Rightarrow> (w', Inr x)
      | (w', Inl e) \<Rightarrow> (w'\<lparr>wl_addr := wl_addr w, wl_tx := wl_tx w\<rparr>, Inl e))"

text \<open>\<open>SetSyncedTo\<close>, and then a change of the transaction store.\<close>

definition sync_then :: "BlockStamp \<Rightarrow> (wallet \<Rightarrow> namespace result) \<Rightarrow> unit act" where
  "sync_then bs f w =
     (case SetSyncedTo (Some bs) (wl_mgr w) (wl_addr w) of
        Inl e \<Rightarrow> (w, Inl e)
      | Inr (m, ans) \<Rightarrow>
          let w = w\<lparr>wl_mgr := m, wl_addr := ans\<rparr>
          in case f w of Inl e \<Rightarrow> (w, Inl e) | Inr tx \<Rightarrow> (w\<lparr>wl_tx := tx\<rparr>, Inr ()))"

section \<open>What a block needs\<close>

text \<open>The hashes of the blocks whose coinbases mature, when a group of blocks does; else nils.\<close>

definition matured_hashes :: "crypto \<Rightarrow> chain \<Rightarrow> i32 \<Rightarrow> hash list result" where
  "matured_hashes K ch height =
     (let blockNum = GetBlockNumPerRingGroup K height; maturity = CoinbaseMaturity K
      in if sint blockNum < 0 then Inl (GoPanic ''makeslice: len out of range'')
         else if sint height < sint maturity then Inr []
         else rbind (i32_rem (height - maturity + 1) blockNum) (\<lambda>r.
              if r \<noteq> 0 then Inr []
              else fetch_all (\<lambda>j. ch_hash ch (sint (height - maturity - of_nat j)))
                     [0..<nat (sint blockNum)]))"

text \<open>The two blocks before the one that closes a group.\<close>

definition extra_blocks ::
  "abec \<Rightarrow> abecblk \<Rightarrow> chain \<Rightarrow> i32 \<Rightarrow> BlockRecord \<Rightarrow> (u32 \<times> BlockRecord) list result" where
  "extra_blocks A B ch blockNum br =
     rbind (i32_rem (blk_Height br) blockNum) (\<lambda>r.
     if r \<noteq> blockNum - 1 then Inr []
     else rbind (ch_block ch (mb_PrevBlock (blk_MsgBlock br))) (\<lambda>b1.
          rbind (NewBlockRecordFromMsgBlock A B b1) (\<lambda>r1.
          rbind (ch_block ch (mb_PrevBlock (blk_MsgBlock r1))) (\<lambda>b2.
          rbind (NewBlockRecordFromMsgBlock A B b2) (\<lambda>r2.
          Inr [(blk_Height br - 1, r1), (blk_Height br - 2, r2)])))))"

section \<open>Blocks connected and disconnected\<close>

definition connect_insert :: "wallet_env \<Rightarrow> gotime \<Rightarrow> chain \<Rightarrow> BlockMeta \<Rightarrow> wallet \<Rightarrow> namespace result" where
  "connect_insert W now ch b w =
     rbind (ch_block ch (bm_Hash b)) (\<lambda>block.
     rbind (NewBlockRecordFromMsgBlock (we_abec W) (we_blk W) block) (\<lambda>br.
     rbind (matured_hashes (we_crypto W) ch (bm_Height b)) (\<lambda>hs.
     rbind (extra_blocks (we_abec W) (we_blk W) ch
              (GetBlockNumPerRingGroup (we_crypto W) (bm_Height b)) br) (\<lambda>extra.
     InsertBlock (we_abec W) (we_blk W) (we_crypto W) (as_manager W w) now br extra hs (wl_tx w)))))"

definition meta_stamp :: "BlockMeta \<Rightarrow> BlockStamp" where
  "meta_stamp b = \<lparr>bs_Height = bm_Height b, bs_Hash = bm_Hash b, bs_Timestamp = bm_Time b\<rparr>"

definition connectBlock :: "wallet_env \<Rightarrow> gotime \<Rightarrow> chain \<Rightarrow> BlockMeta \<Rightarrow> unit act" where
  "connectBlock W now ch b = sync_then (meta_stamp b) (connect_insert W now ch b)"

text \<open>The block to go back to when the disconnected one is on record.\<close>

definition detached_to :: "chain \<Rightarrow> BlockMeta \<Rightarrow> mgr_ns \<Rightarrow> BlockStamp option result" where
  "detached_to ch b ans =
     rbind (Mgr_BlockHash ans (bm_Height b)) (\<lambda>h.
     if h \<noteq> bm_Hash b then Inr None
     else rbind (Mgr_BlockHash ans (bm_Height b - 1)) (\<lambda>h.
          rbind (ch_header ch h) (\<lambda>t.
          Inr (Some \<lparr>bs_Height = bm_Height b - 1, bs_Hash = h, bs_Timestamp = t\<rparr>))))"

definition roll_store :: "wallet_env \<Rightarrow> gotime \<Rightarrow> i32 \<Rightarrow> wallet \<Rightarrow> namespace result" where
  "roll_store W now height w =
     Rollback (we_abec W) (we_crypto W) now (Mgr_BlockHash (wl_addr w)) height (wl_tx w)"

definition disconnectBlock :: "wallet_env \<Rightarrow> gotime \<Rightarrow> chain \<Rightarrow> BlockMeta \<Rightarrow> unit act" where
  "disconnectBlock W now ch b w =
     (if sint (bs_Height (SyncedTo (wl_mgr w))) < sint (bm_Height b) then (w, Inr ())
      else case detached_to ch b (wl_addr w) of
        Inl e \<Rightarrow> (w, Inl e)
      | Inr None \<Rightarrow> (w, Inr ())
      | Inr (Some bs) \<Rightarrow> sync_then bs (roll_store W now (bs_Height bs)) w)"

text \<open>The cases of \<open>handleChainNotifications\<close>.\<close>

definition BlockConnected :: "wallet_env \<Rightarrow> gotime \<Rightarrow> chain \<Rightarrow> BlockMeta \<Rightarrow> unit act" where
  "BlockConnected W now ch n w =
     (if sint (bs_Height (SyncedTo (wl_mgr w))) < sint (bm_Height n)
      then walletdb_Update (connectBlock W now ch n) w else (w, Inr ()))"

definition BlockDisconnected :: "wallet_env \<Rightarrow> gotime \<Rightarrow> chain \<Rightarrow> BlockMeta \<Rightarrow> unit act" where
  "BlockDisconnected W now ch n = walletdb_Update (disconnectBlock W now ch n)"

section \<open>Catching up\<close>

text \<open>
  The height of an iteration; below the heights to sync from only the hash is filed. The loop stops
  at the first error, and a batch is one database transaction.
\<close>

definition fetched_block ::
  "wallet_env \<Rightarrow> gotime \<Rightarrow> chain \<Rightarrow> i32 \<Rightarrow> hash \<Rightarrow> wallet \<Rightarrow> (gotime \<times> namespace) result" where
  "fetched_block W now ch height h w =
     rbind (matured_hashes (we_crypto W) ch height) (\<lambda>hs.
     rbind (ch_block ch h) (\<lambda>b.
     rbind (NewBlockRecordFromMsgBlock (we_abec W) (we_blk W) b) (\<lambda>br.
     rbind (extra_blocks (we_abec W) (we_blk W) ch
              (GetBlockNumPerRingGroup (we_crypto W) height) br) (\<lambda>extra.
     rbind (InsertBlock (we_abec W) (we_blk W) (we_crypto W) (as_manager W w) now br extra hs (wl_tx w))
       (\<lambda>tx. Inr (blk_RecvTime br, tx))))))"

definition catch_block :: "wallet_env \<Rightarrow> gotime \<Rightarrow> chain \<Rightarrow> i32 \<Rightarrow> unit act" where
  "catch_block W now ch height w =
     (case ch_hash ch (sint height) of Inl e \<Rightarrow> (w, Inl e)
      | Inr h \<Rightarrow>
          (case (if sint height < sint (we_HeightMLPAUT W) \<or> sint height < sint (we_SyncFrom W)
                 then rbind (ch_header ch h) (\<lambda>t. Inr (t, wl_tx w))
                 else fetched_block W now ch height h w) of
             Inl e \<Rightarrow> (w, Inl e)
           | Inr (t, tx) \<Rightarrow>
               sync_then \<lparr>bs_Height = height, bs_Hash = h, bs_Timestamp = t\<rparr> (\<lambda>w. Inr (wl_tx w))
                 (w\<lparr>wl_tx := tx\<rparr>)))"

fun catch_blocks :: "wallet_env \<Rightarrow> gotime \<Rightarrow> chain \<Rightarrow> i32 list \<Rightarrow> unit act" where
  "catch_blocks W now ch [] w = (w, Inr ())"
| "catch_blocks W now ch (h # hs) w =
     (case catch_block W now ch h w of
        (w', Inl e) \<Rightarrow> (w', Inl e) | (w', Inr _) \<Rightarrow> catch_blocks W now ch hs w')"

definition batchBlockNum :: i32 where "batchBlockNum = 400"

definition batch :: "i32 \<Rightarrow> i32 \<Rightarrow> i32 list" where
  "batch i height = takeWhile (\<lambda>h. sint h \<le> sint height) (map (\<lambda>j. i + of_nat j) [0..<unat batchBlockNum])"

partial_function (option) catch_up ::
  "wallet_env \<Rightarrow> gotime \<Rightarrow> chain \<Rightarrow> i32 \<Rightarrow> i32 \<Rightarrow> wallet \<Rightarrow> (wallet \<times> unit result) option" where
  "catch_up W now ch height i w =
     (if sint height < sint i then Some (w, Inr ())
      else case walletdb_Update (catch_blocks W now ch (batch i height)) w of
        (w', Inl e) \<Rightarrow> Some (w', Inl e)
      | (w', Inr _) \<Rightarrow> catch_up W now ch height (i + batchBlockNum) w')"

definition rescanWithTarget :: "wallet_env \<Rightarrow> gotime \<Rightarrow> chain \<Rightarrow> wallet \<Rightarrow> (wallet \<times> unit result) option" where
  "rescanWithTarget W now ch w =
     (case ch_best ch of Inl e \<Rightarrow> Some (w, Inl e)
      | Inr best \<Rightarrow> catch_up W now ch best (bs_Height (SyncedTo (wl_mgr w)) + 1) w)"

section \<open>The birthday block\<close>

text \<open>\<open>Time.Sub\<close>: a number of nanoseconds, at the ends of its range when it does not fit.\<close>

definition time_Sub :: "gotime \<Rightarrow> gotime \<Rightarrow> int" where
  "time_Sub a b = max (- (2 ^ 63)) (min (2 ^ 63 - 1)
     ((sint (unix a) - sint (unix b)) * 1000000000 + (uint (nsec a) - uint (nsec b))))"

definition birthdayBlockDelta :: int where "birthdayBlockDelta = 2 * 3600 * 1000000000"

definition midpoint :: "i32 \<Rightarrow> i32 \<Rightarrow> i32" where
  "midpoint left right = left + word_of_int (sint (right - left) sdiv 2)"

definition block_at :: "chain \<Rightarrow> i32 \<Rightarrow> BlockStamp result" where
  "block_at ch height =
     rbind (ch_hash ch (sint height)) (\<lambda>h.
     rbind (ch_header ch h) (\<lambda>t. Inr \<lparr>bs_Height = height, bs_Hash = h, bs_Timestamp = t\<rparr>))"

partial_function (option) birthday_search ::
  "chain \<Rightarrow> gotime \<Rightarrow> i32 \<Rightarrow> i32 \<Rightarrow> i32 \<Rightarrow> BlockStamp result option" where
  "birthday_search ch birthday best left right =
     (let mid = midpoint left right
      in case block_at ch mid of
        Inl e \<Rightarrow> Some (Inl e)
      | Inr bs \<Rightarrow>
          if mid = 0 \<or> mid = best \<or> mid = left then Some (Inr bs)
          else if birthdayBlockDelta < time_Sub (bs_Timestamp bs) birthday
          then birthday_search ch birthday best left mid
          else if time_Sub (bs_Timestamp bs) birthday < - birthdayBlockDelta
          then birthday_search ch birthday best mid right
          else Some (Inr bs))"

definition locateBirthdayBlock :: "chain \<Rightarrow> gotime \<Rightarrow> BlockStamp result option" where
  "locateBirthdayBlock ch birthday =
     (case ch_best ch of Inl e \<Rightarrow> Some (Inl e) | Inr best \<Rightarrow> birthday_search ch birthday best 0 best)"

text \<open>\<open>walletBirthdayStore.SetBirthdayBlock\<close>.\<close>

definition store_birthday :: "BlockStamp \<Rightarrow> unit act" where
  "store_birthday bs = walletdb_Update (\<lambda>w.
     case SetBirthdayBlock bs True (wl_addr w) of Inl e \<Rightarrow> (w, Inl e)
     | Inr ans \<Rightarrow> sync_then bs (\<lambda>w. Inr (wl_tx w)) (w\<lparr>wl_addr := ans\<rparr>))"

definition birthdaySanityCheck :: "chain \<Rightarrow> wallet \<Rightarrow> (wallet \<times> BlockStamp result) option" where
  "birthdaySanityCheck ch w =
     (case BirthdayBlock (wl_addr w) of
        Inl e \<Rightarrow> Some (w, Inl e)
      | Inr (b, verified) \<Rightarrow>
          if verified then Some (w, Inr b)
          else (case locateBirthdayBlock ch (mg_birthday (wl_mgr w)) of
                  None \<Rightarrow> None
                | Some (Inl e) \<Rightarrow> Some (w, Inl e)
                | Some (Inr bs) \<Rightarrow>
                    (case store_birthday bs w of
                       (w', Inl e) \<Rightarrow> Some (w', Inl e) | (w', Inr _) \<Rightarrow> Some (w', Inr bs))))"

section \<open>Synchronising\<close>

text \<open>An error replaced by another, a panic not.\<close>

definition as_error :: "string \<Rightarrow> go_error \<Rightarrow> go_error" where
  "as_error msg e = (case e of GoPanic s \<Rightarrow> GoPanic s | _ \<Rightarrow> GoError msg)"

text \<open>
  The last block on record that the chain has too, from a height down: with whether the search went
  below the first height.
\<close>

partial_function (option) find_fork ::
  "chain \<Rightarrow> mgr_ns \<Rightarrow> i32 \<Rightarrow> bool \<Rightarrow> (BlockStamp \<times> bool) result option" where
  "find_fork ch ans height rolled =
     (case fetchBlockHash ans height of Inl e \<Rightarrow> Some (Inl e)
      | Inr h \<Rightarrow>
          (case block_at ch height of Inl e \<Rightarrow> Some (Inl e)
           | Inr bs \<Rightarrow> if h = bs_Hash bs then Some (Inr (bs, rolled))
                        else find_fork ch ans (height - 1) True))"

definition rewind :: "wallet_env \<Rightarrow> gotime \<Rightarrow> BlockStamp \<Rightarrow> BlockStamp \<Rightarrow> unit act" where
  "rewind W now birthday bs w =
     (case sync_then bs (\<lambda>w. Inr (wl_tx w)) w of
        (w, Inl e) \<Rightarrow> (w, Inl e)
      | (w, Inr _) \<Rightarrow>
          (case (if sint (bs_Height bs) \<le> sint (bs_Height birthday) \<and> bs_Hash bs \<noteq> bs_Hash birthday
                 then SetBirthdayBlock bs True (wl_addr w) else Inr (wl_addr w)) of
             Inl e \<Rightarrow> (w, Inl e)
           | Inr ans \<Rightarrow>
               let w = w\<lparr>wl_addr := ans\<rparr>
               in case roll_store W now (bs_Height bs) w of
                    Inl e \<Rightarrow> (w, Inl e) | Inr tx \<Rightarrow> (w\<lparr>wl_tx := tx\<rparr>, Inr ())))"

definition compare_chain ::
  "wallet_env \<Rightarrow> gotime \<Rightarrow> chain \<Rightarrow> BlockStamp \<Rightarrow> wallet \<Rightarrow> (wallet \<times> unit result) option" where
  "compare_chain W now ch birthday w =
     (case find_fork ch (wl_addr w) (bs_Height (SyncedTo (wl_mgr w))) False of
        None \<Rightarrow> None
      | Some (Inl e) \<Rightarrow> Some (w, Inl e)
      | Some (Inr (bs, rolled)) \<Rightarrow>
          Some (if rolled then walletdb_Update (rewind W now birthday bs) w else (w, Inr ())))"

text \<open>The birthday block that \<open>syncWithChain\<close> is given, or else the one it locates and files.\<close>

definition sync_birthday ::
  "chain \<Rightarrow> BlockStamp option \<Rightarrow> wallet \<Rightarrow> (wallet \<times> BlockStamp result) option" where
  "sync_birthday ch stamp w =
     (case stamp of Some b \<Rightarrow> Some (w, Inr b)
      | None \<Rightarrow>
          (case locateBirthdayBlock ch (mg_birthday (wl_mgr w)) of
             None \<Rightarrow> None
           | Some (Inl e) \<Rightarrow> Some (w, Inl (as_error ''unable to locate birthday block'' e))
           | Some (Inr b) \<Rightarrow>
               (case SetBirthdayBlock b True (wl_addr w) of
                  Inl e \<Rightarrow> Some (w, Inl (as_error ''unable to persist initial sync data'' e))
                | Inr ans \<Rightarrow> Some (w\<lparr>wl_addr := ans\<rparr>, Inr b))))"

definition syncWithChain ::
  "wallet_env \<Rightarrow> gotime \<Rightarrow> chain \<Rightarrow> BlockStamp option \<Rightarrow> wallet \<Rightarrow> (wallet \<times> unit result) option" where
  "syncWithChain W now ch stamp w =
     (case ch_ready ch of Inl e \<Rightarrow> Some (w, Inl e)
      | Inr _ \<Rightarrow>
          (case sync_birthday ch stamp w of
             None \<Rightarrow> None
           | Some (w, Inl e) \<Rightarrow> Some (w, Inl e)
           | Some (w, Inr b) \<Rightarrow>
               (case compare_chain W now ch b w of
                  None \<Rightarrow> None
                | Some (w, Inl e) \<Rightarrow> Some (w, Inl e)
                | Some (w, Inr _) \<Rightarrow>
                    (case ch_notify ch of Inl e \<Rightarrow> Some (w, Inl e)
                     | Inr _ \<Rightarrow> rescanWithTarget W now ch w))))"

text \<open>
  A new connection to the server: an error is fatal, other than that no birthday block is set, after
  which one is located.
\<close>

definition fatal :: "wallet \<times> unit result \<Rightarrow> wallet \<times> unit result" where
  "fatal wr = (case wr of (w, Inr x) \<Rightarrow> (w, Inr x)
    | (w, Inl e) \<Rightarrow> (w, Inl (GoPanic ''unable to synchronize wallet to chain'')))"

definition ClientConnected :: "wallet_env \<Rightarrow> gotime \<Rightarrow> chain \<Rightarrow> wallet \<Rightarrow> (wallet \<times> unit result) option" where
  "ClientConnected W now ch w =
     (case birthdaySanityCheck ch w of
        None \<Rightarrow> None
      | Some (w, Inl (ManagerError ErrBirthdayBlockNotSet _)) \<Rightarrow>
          map_option fatal (syncWithChain W now ch None w)
      | Some (w, Inl e) \<Rightarrow> Some (w, Inl (GoPanic ''unable to sanity check wallet birthday block''))
      | Some (w, Inr b) \<Rightarrow> map_option fatal (syncWithChain W now ch (Some b) w))"

end
