(* ===== verification/ChainSearch.thy ===== *)
theory ChainSearch
  imports ChainSync
begin

text \<open>
  The loops of \<open>ChainSync\<close>: that they end, and what the searches find.
\<close>

section \<open>The birthday search\<close>

lemma sint_i32: "- (2 ^ 31) \<le> sint (w :: i32)" "sint (w :: i32) < 2 ^ 31"
  using sint_ge [of w] sint_lt [of w] by simp_all

lemma sint_diff_i32:
  assumes "- (2 ^ 31) \<le> sint a - sint b" and "sint a - sint b < 2 ^ 31"
  shows "sint (a - b :: i32) = sint a - sint b"
proof -
  have "a - b = word_of_int (sint a - sint b)" by simp
  then show ?thesis using sint_of_int_i32 [OF assms] by (simp only:)
qed

lemma sint_add_i32:
  assumes "- (2 ^ 31) \<le> sint a + sint b" and "sint a + sint b < 2 ^ 31"
  shows "sint (a + b :: i32) = sint a + sint b"
proof -
  have "a + b = word_of_int (sint a + sint b)" by simp
  then show ?thesis using sint_of_int_i32 [OF assms] by (simp only:)
qed

text \<open>Half of a difference of either sign, rounded towards zero.\<close>

lemma sdiv2_pos: "0 \<le> d \<Longrightarrow> (d :: int) sdiv 2 = d div 2"
  by (simp add: signed_divide_int_def sgn_if)

lemma sdiv2_neg: "d < 0 \<Longrightarrow> (d :: int) sdiv 2 = - (- d div 2)"
  by (simp add: signed_divide_int_def sgn_if)

text \<open>The two ends of a search, which starts at 0 and at any height, positive or negative.\<close>

definition search_range :: "i32 \<Rightarrow> i32 \<Rightarrow> bool" where
  "search_range left right \<longleftrightarrow>
     0 \<le> sint left \<and> sint left \<le> sint right \<or> sint left \<le> 0 \<and> sint right \<le> sint left"

lemma midpoint_sint:
  assumes "search_range left right"
  shows "sint (midpoint left right) = sint left + (sint right - sint left) sdiv 2"
proof -
  have d: "sint (right - left) = sint right - sint left"
    using assms sint_i32 [of left] sint_i32 [of right]
    by (intro sint_diff_i32) (auto simp: search_range_def)
  have b: "- (2 ^ 31) \<le> sint left + (sint right - sint left) sdiv 2"
    "sint left + (sint right - sint left) sdiv 2 < 2 ^ 31"
    "- (2 ^ 31) \<le> (sint right - sint left) sdiv 2" "(sint right - sint left) sdiv 2 < 2 ^ 31"
    using assms sint_i32 [of left] sint_i32 [of right]
    by (cases "0 \<le> sint right - sint left"; auto simp: search_range_def sdiv2_pos sdiv2_neg)+
  show ?thesis
    unfolding midpoint_def d using b by (subst sint_add_i32) (simp_all add: sint_of_int_i32)
qed

text \<open>Each half is a range again, and a shorter one unless the midpoint is the left end.\<close>

definition range_size :: "i32 \<Rightarrow> i32 \<Rightarrow> nat" where
  "range_size left right = nat \<bar>sint right - sint left\<bar>"

lemma midpoint_halves:
  assumes "search_range left right" and "midpoint left right \<noteq> left"
  shows "search_range left (midpoint left right)" "search_range (midpoint left right) right"
    "range_size left (midpoint left right) < range_size left right"
    "range_size (midpoint left right) right < range_size left right"
proof -
  define mid where "mid = midpoint left right"
  have m: "sint mid = sint left + (sint right - sint left) sdiv 2"
    unfolding mid_def by (rule midpoint_sint [OF assms(1)])
  have ne: "(sint right - sint left) sdiv 2 \<noteq> 0"
    using m assms(2) by (auto simp: mid_def signed_word_eqI)
  show "search_range left (midpoint left right)" "search_range (midpoint left right) right"
    "range_size left (midpoint left right) < range_size left right"
    "range_size (midpoint left right) right < range_size left right"
    using assms(1) m ne unfolding mid_def [symmetric]
    by (cases "0 \<le> sint right - sint left"; auto simp: search_range_def range_size_def sdiv2_pos sdiv2_neg)+
qed

lemma birthday_search_returns:
  "search_range left right \<Longrightarrow> \<exists>r. birthday_search ch birthday best left right = Some r"
proof (induction "range_size left right" arbitrary: left right rule: less_induct)
  case less
  show ?case
  proof (cases "midpoint left right = left")
    case True
    then show ?thesis by (subst birthday_search.simps) (simp add: Let_def split: sum.split)
  next
    case False
    note h = midpoint_halves [OF less.prems False]
    show ?thesis
      using less.hyps [OF h(3) h(1)] less.hyps [OF h(4) h(2)]
      by (subst birthday_search.simps) (auto simp: Let_def split: sum.split)
  qed
qed

lemma locateBirthdayBlock_returns: "\<exists>r. locateBirthdayBlock ch birthday = Some r"
proof (cases "ch_best ch")
  case (Inr best)
  have "search_range 0 best" by (auto simp: search_range_def)
  then show ?thesis using birthday_search_returns Inr by (simp add: locateBirthdayBlock_def)
qed (simp add: locateBirthdayBlock_def)

text \<open>What the search finds on a chain from height 0 to the best one.\<close>

definition too_late :: "chain \<Rightarrow> gotime \<Rightarrow> i32 \<Rightarrow> bool" where
  "too_late ch birthday h \<longleftrightarrow>
     (\<exists>bs. block_at ch h = Inr bs \<and> birthdayBlockDelta < time_Sub (bs_Timestamp bs) birthday)"

definition too_early :: "chain \<Rightarrow> gotime \<Rightarrow> i32 \<Rightarrow> bool" where
  "too_early ch birthday h \<longleftrightarrow>
     (\<exists>bs. block_at ch h = Inr bs \<and> time_Sub (bs_Timestamp bs) birthday < - birthdayBlockDelta)"

lemma not_late_and_early: "too_late ch birthday h \<Longrightarrow> \<not> too_early ch birthday h"
  by (auto simp: too_late_def too_early_def birthdayBlockDelta_def)

definition birthday_found :: "chain \<Rightarrow> gotime \<Rightarrow> i32 \<Rightarrow> BlockStamp \<Rightarrow> bool" where
  "birthday_found ch birthday best bs \<longleftrightarrow>
     block_at ch (bs_Height bs) = Inr bs \<and>
     (bs_Height bs = 0 \<or> bs_Height bs = best \<or>
      \<bar>time_Sub (bs_Timestamp bs) birthday\<bar> \<le> birthdayBlockDelta \<or>
      too_early ch birthday (bs_Height bs) \<and>
        (bs_Height bs + 1 = best \<or> too_late ch birthday (bs_Height bs + 1)))"

definition bracketed :: "chain \<Rightarrow> gotime \<Rightarrow> i32 \<Rightarrow> i32 \<Rightarrow> i32 \<Rightarrow> bool" where
  "bracketed ch birthday best left right \<longleftrightarrow>
     0 \<le> sint left \<and> sint left \<le> sint right \<and> (left = 0 \<or> too_early ch birthday left) \<and>
     (right = best \<or> too_late ch birthday right)"

lemma block_at_height: "block_at ch h = Inr bs \<Longrightarrow> bs_Height bs = h"
  by (auto simp: block_at_def rbind_Inr_iff)

lemma midpoint_left:
  assumes "midpoint left right = left" and "0 \<le> sint left" "sint left \<le> sint right"
  shows "right = left \<or> right = left + 1"
proof -
  have "sint left + (sint right - sint left) sdiv 2 = sint left"
    using midpoint_sint [of left right] assms by (simp add: search_range_def)
  then have "sint right = sint left \<or> sint right = sint left + 1"
    using assms by (simp add: sdiv2_pos) linarith
  moreover have "sint right = sint left + 1 \<Longrightarrow> sint (left + 1) = sint left + 1"
    using sint_add_i32 [of left 1] sint_i32 [of right] assms(2) by simp
  ultimately show ?thesis by (metis signed_word_eqI)
qed

lemma birthday_search_finds:
  "bracketed ch birthday best left right \<Longrightarrow> birthday_search ch birthday best left right = Some (Inr bs) \<Longrightarrow>
   birthday_found ch birthday best bs"
proof (induction "range_size left right" arbitrary: left right rule: less_induct)
  case less
  define mid where "mid = midpoint left right"
  have sr: "search_range left right" using less.prems(1) by (simp add: bracketed_def search_range_def)
  note run = less.prems(2) [unfolded birthday_search.simps [of ch birthday best left right] Let_def,
    folded mid_def]
  obtain b where b: "block_at ch mid = Inr b" using run by (auto split: sum.splits)
  consider "mid = 0 \<or> mid = best \<or> mid = left" | "mid \<noteq> left" "too_late ch birthday mid"
      "birthday_search ch birthday best left mid = Some (Inr bs)"
    | "mid \<noteq> left" "too_early ch birthday mid" "birthday_search ch birthday best mid right = Some (Inr bs)"
    | "bs = b" "\<bar>time_Sub (bs_Timestamp b) birthday\<bar> \<le> birthdayBlockDelta"
    using run b by (auto simp: too_late_def too_early_def split: if_splits)
  then show ?case
  proof cases
    case 1
    then have bs: "bs = b" using run b by auto
    show ?thesis
    proof (cases "mid = 0 \<or> mid = best")
      case True
      then show ?thesis using bs b block_at_height [OF b] by (auto simp: birthday_found_def)
    next
      case False
      then have l: "mid = left" "left \<noteq> 0" "left \<noteq> best" using 1 by auto
      then have e: "too_early ch birthday left" using less.prems(1) by (simp add: bracketed_def)
      have "right = left \<or> right = left + 1"
        using less.prems(1) l(1) midpoint_left [of left right] by (simp add: mid_def bracketed_def)
      then have "left + 1 = best \<or> too_late ch birthday (left + 1)"
        using less.prems(1) e l(3) not_late_and_early by (auto simp: bracketed_def)
      then show ?thesis using e bs b block_at_height [OF b] l(1) by (simp add: birthday_found_def)
    qed
  next
    case 2
    note h = midpoint_halves [OF sr 2(1) [unfolded mid_def], folded mid_def]
    have "bracketed ch birthday best left mid" using less.prems(1) h(1,2) 2 by (auto simp: bracketed_def search_range_def)
    then show ?thesis using less.hyps h(3) 2(3) by blast
  next
    case 3
    note h = midpoint_halves [OF sr 3(1) [unfolded mid_def], folded mid_def]
    have "bracketed ch birthday best mid right"
      using less.prems(1) h(1,2) 3 by (auto simp: bracketed_def search_range_def)
    then show ?thesis using less.hyps h(4) 3(3) by blast
  next
    case 4
    then show ?thesis using b block_at_height [OF b] by (simp add: birthday_found_def)
  qed
qed

lemma locateBirthdayBlock_finds:
  assumes "locateBirthdayBlock ch birthday = Some (Inr bs)" and "ch_best ch = Inr best" and "0 \<le> sint best"
  shows "birthday_found ch birthday best bs"
proof (rule birthday_search_finds)
  show "bracketed ch birthday best 0 best" using assms(3) by (simp add: bracketed_def)
  show "birthday_search ch birthday best 0 best = Some (Inr bs)"
    using assms(1,2) by (simp add: locateBirthdayBlock_def)
qed

end
