(* ===== verification/ChainFollow.thy ===== *)
theory ChainFollow
  imports ChainSearch
begin

text \<open>
  The wallet behind the chain server: catching up ends, the record of block hashes follows the
  server's chain from the fork point on, and the transaction store stays in good order, also when an
  operation fails.
\<close>

section \<open>Synced with a server\<close>

text \<open>
  The record agrees with a chain, the manager in memory is at its tip; up to \<open>k\<close> it is the chain
  \<open>c\<close>, from \<open>k\<close> on the server's.
\<close>

definition synced :: "chain \<Rightarrow> int \<Rightarrow> (int \<Rightarrow> hash) \<Rightarrow> wallet \<Rightarrow> followed \<Rightarrow> bool" where
  "synced ch k c w f \<longleftrightarrow>
     agrees (wl_addr w) f \<and> sint (bs_Height (SyncedTo (wl_mgr w))) = fo_tip f \<and> k \<le> fo_tip f \<and>
     (\<forall>h\<le>k. fo_chain f h = c h) \<and> (\<forall>h. k \<le> h \<and> h \<le> fo_tip f \<longrightarrow> ch_hash ch h = Inr (fo_chain f h))"

lemma agrees_cong:
  assumes "\<And>h. fetchBlockHash ns' h = fetchBlockHash ns h" and "fetchSyncedTo ns' = fetchSyncedTo ns"
  shows "agrees ns' f = agrees ns f"
  by (simp add: agrees_def assms)

lemma sync_then_ok:
  assumes "sync_then bs f w = (w', Inr ())"
  shows "PutSyncedTo bs (wl_addr w) = Inr (wl_addr w') \<and> SyncedTo (wl_mgr w') = bs"
  using assms
  by (auto simp: sync_then_def SetSyncedTo_def SyncedTo_def Let_def rbind_def split: sum.splits)

lemma catch_block_ok:
  assumes "catch_block W now ch height w = (w', Inr ())"
  shows "\<exists>h t. ch_hash ch (sint height) = Inr h \<and>
    PutSyncedTo \<lparr>bs_Height = height, bs_Hash = h, bs_Timestamp = t\<rparr> (wl_addr w) = Inr (wl_addr w') \<and>
    SyncedTo (wl_mgr w') = \<lparr>bs_Height = height, bs_Hash = h, bs_Timestamp = t\<rparr>"
  using assms by (auto simp: catch_block_def split: sum.splits if_splits dest!: sync_then_ok)

lemma catch_block_synced:
  assumes "catch_block W now ch height w = (w', Inr ())" and "synced ch k c w f"
    and "sint height = fo_tip f + 1"
  shows "\<exists>f'. synced ch k c w' f' \<and> fo_tip f' = fo_tip f + 1"
proof -
  obtain h t where h: "ch_hash ch (sint height) = Inr h"
    "PutSyncedTo \<lparr>bs_Height = height, bs_Hash = h, bs_Timestamp = t\<rparr> (wl_addr w) = Inr (wl_addr w')"
    "SyncedTo (wl_mgr w') = \<lparr>bs_Height = height, bs_Hash = h, bs_Timestamp = t\<rparr>"
    using catch_block_ok [OF assms(1)] by blast
  let ?f = "\<lparr>fo_chain = (fo_chain f)(fo_tip f + 1 := h), fo_tip = fo_tip f + 1,
    fo_peak = max (fo_peak f) (fo_tip f + 1)\<rparr>"
  have "follow (wl_addr w) f (wl_addr w') ?f"
    using follow.connected [OF h(2), of f] assms(3) by simp
  then have "agrees (wl_addr w') ?f" using follow_agrees assms(2) by (simp add: synced_def)
  then have "synced ch k c w' ?f"
    using assms(2,3) h by (auto simp: synced_def)
  then show ?thesis by (intro exI [of _ ?f]) simp
qed

section \<open>Catching up\<close>

text \<open>The heights of a batch.\<close>

fun run_of :: "int \<Rightarrow> nat \<Rightarrow> i32 list" where
  "run_of t 0 = []"
| "run_of t (Suc n) = word_of_int t # run_of (t + 1) n"

lemma catch_blocks_synced:
  "catch_blocks W now ch (run_of (fo_tip f + 1) n) w = (w', Inr ()) \<Longrightarrow> synced ch k c w f \<Longrightarrow>
   0 \<le> fo_tip f \<Longrightarrow> fo_tip f + int n < 2 ^ 31 \<Longrightarrow>
   \<exists>f'. synced ch k c w' f' \<and> fo_tip f' = fo_tip f + int n"
proof (induction n arbitrary: w f)
  case 0
  then show ?case by auto
next
  case (Suc n)
  obtain w1 where w1: "catch_block W now ch (word_of_int (fo_tip f + 1)) w = (w1, Inr ())"
    "catch_blocks W now ch (run_of (fo_tip f + 1 + 1) n) w1 = (w', Inr ())"
    using Suc.prems(1) by (auto split: prod.splits sum.splits)
  have "sint (word_of_int (fo_tip f + 1) :: i32) = fo_tip f + 1"
    using Suc.prems(3,4) by (intro sint_of_int_i32) auto
  then obtain f1 where f1: "synced ch k c w1 f1" "fo_tip f1 = fo_tip f + 1"
    using catch_block_synced [OF w1(1) Suc.prems(2)] by blast
  have "\<exists>f'. synced ch k c w' f' \<and> fo_tip f' = fo_tip f1 + int n"
    using Suc.prems(3,4) f1 w1(2) by (intro Suc.IH [of f1 w1]) (simp_all del: of_int_add)
  then show ?case using f1(2) by auto
qed

lemma takeWhile_upt: "(\<And>j. j < n \<Longrightarrow> P j \<longleftrightarrow> j < m) \<Longrightarrow> takeWhile P [0..<n] = [0..<min n m]"
proof (induction n)
  case (Suc n)
  show ?case
  proof (cases "n < m")
    case True
    then have "takeWhile P [0..<Suc n] = [0..<Suc n]" using Suc.prems by (simp add: takeWhile_eq_all_conv)
    then show ?thesis using True by (simp add: min_def)
  next
    case False
    then have "\<not> P n" using Suc.prems by simp
    have "takeWhile P [0..<Suc n] = takeWhile P [0..<n]"
      using \<open>\<not> P n\<close>
      by (auto simp: takeWhile_append intro!: takeWhile_eq_all_conv [THEN iffD2, symmetric])
    then show ?thesis using Suc False by (simp add: min_def)
  qed
qed simp

lemma run_of_map: "run_of t n = map (\<lambda>j. word_of_int (t + int j)) [0..<n]"
proof (induction n arbitrary: t)
  case (Suc n)
  have u: "[0..<Suc n] = 0 # map Suc [0..<n]" by (simp only: map_Suc_upt upt_conv_Cons zero_less_Suc)
  have "run_of (t + 1) n = map (\<lambda>j. word_of_int (t + int (Suc j))) [0..<n]"
    unfolding Suc by (simp add: add.commute add.left_commute)
  then show ?case unfolding u by (simp add: comp_def)
qed simp

lemma batch_run:
  assumes "0 \<le> sint i" and "sint i \<le> sint height" and "sint height < 2 ^ 31 - 400"
  shows "batch i height = run_of (sint i) (min 400 (nat (sint height - sint i + 1)))"
proof -
  have s: "sint (i + of_nat j) = sint i + int j" if "j < 400" for j
  proof -
    have "sint (of_nat j :: i32) = int j" using that sint_of_int_i32 [of "int j"] by simp
    then show ?thesis using that assms sint_add_i32 [of i "of_nat j"] by simp
  qed
  have "takeWhile (\<lambda>h. sint h \<le> sint height) (map (\<lambda>j. i + of_nat j) [0..<400]) =
      map (\<lambda>j. i + of_nat j) [0..<min 400 (nat (sint height - sint i + 1))]"
    unfolding takeWhile_map comp_def by (subst takeWhile_upt) (use s assms in auto)
  then show ?thesis by (simp add: batch_def batchBlockNum_def run_of_map)
qed

lemma next_batch:
  "sint i \<le> sint height \<Longrightarrow> sint height < 2 ^ 31 - 400 \<Longrightarrow> sint (i + batchBlockNum) = sint i + 400"
  using sint_add_i32 [of i 400] sint_i32 [of i] by (simp add: batchBlockNum_def)

text \<open>The loop ends, and after it the wallet is at the height or above.\<close>

lemma catch_up_returns:
  "sint height < 2 ^ 31 - 400 \<Longrightarrow> \<exists>r. catch_up W now ch height i w = Some r"
proof (induction "nat (sint height - sint i + 1)" arbitrary: i w rule: less_induct)
  case less
  show ?case
  proof (cases "sint height < sint i")
    case True
    then show ?thesis by (subst catch_up.simps) simp
  next
    case False
    have "\<exists>r. catch_up W now ch height (i + batchBlockNum) w' = Some r" for w'
      using False next_batch [of i height] less.prems by (intro less.hyps) auto
    then show ?thesis by (subst catch_up.simps) (simp split: prod.split sum.split)
  qed
qed

lemma walletdb_Update_ok: "walletdb_Update f w = (w', Inr x) \<longleftrightarrow> f w = (w', Inr x)"
  by (auto simp: walletdb_Update_def split: prod.splits sum.splits)

lemma synced_tip: "synced ch k c w f \<Longrightarrow> 0 \<le> fo_tip f"
  by (simp add: synced_def agrees_def)

lemma catch_up_synced:
  "catch_up W now ch height i w = Some (w', Inr ()) \<Longrightarrow> synced ch k c w f \<Longrightarrow> sint i = fo_tip f + 1 \<Longrightarrow>
   sint height < 2 ^ 31 - 400 \<Longrightarrow> \<exists>f'. synced ch k c w' f' \<and> fo_tip f' = max (fo_tip f) (sint height)"
proof (induction "nat (sint height - sint i + 1)" arbitrary: i w f rule: less_induct)
  case less
  show ?case
  proof (cases "sint height < sint i")
    case True
    then have "w' = w" using less.prems(1) by (subst (asm) catch_up.simps) simp
    then show ?thesis using less.prems True by (intro exI [of _ f]) (auto simp: max_def)
  next
    case False
    let ?n = "min 400 (nat (sint height - sint i + 1))"
    obtain w1 where w1: "catch_blocks W now ch (batch i height) w = (w1, Inr ())"
      "catch_up W now ch height (i + batchBlockNum) w1 = Some (w', Inr ())"
      using less.prems(1) False
      by (subst (asm) catch_up.simps) (auto simp: walletdb_Update_ok split: prod.splits sum.splits)
    have tip: "0 \<le> fo_tip f" by (rule synced_tip [OF less.prems(2)])
    have "batch i height = run_of (fo_tip f + 1) ?n"
      using batch_run [of i height] tip False less.prems(3,4) by simp
    moreover have "fo_tip f + int ?n < 2 ^ 31" using False less.prems(3,4) by auto
    ultimately obtain f1 where f1: "synced ch k c w1 f1" "fo_tip f1 = fo_tip f + int ?n"
      using catch_blocks_synced [of W now ch f ?n w w1 k c] w1(1) less.prems(2) tip by auto
    have nb: "sint (i + batchBlockNum) = sint i + 400"
      using next_batch [of i height] False less.prems(4) by simp
    show ?thesis
    proof (cases "sint height - sint i < 399")
      case True
      then have "w' = w1" using w1(2) nb by (subst (asm) catch_up.simps) simp
      then show ?thesis using f1 True False less.prems(3) by (intro exI [of _ f1]) auto
    next
      case full: False
      have "\<exists>f'. synced ch k c w' f' \<and> fo_tip f' = max (fo_tip f1) (sint height)"
        using full nb f1 less.prems(3,4) w1(2) by (intro less.hyps [of "i + batchBlockNum" w1 f1]) auto
      then show ?thesis using f1(2) full less.prems(3) by auto
    qed
  qed
qed

section \<open>The fork point\<close>

lemma find_fork_returns:
  "(\<And>h. sint h < 0 \<Longrightarrow> fetchBlockHash ns h = no_hash) \<Longrightarrow> \<exists>r. find_fork ch ns height rolled = Some r"
proof (induction "nat (sint height + 1)" arbitrary: height rolled rule: less_induct)
  case less
  show ?case
  proof (cases "sint height < 0")
    case True
    then show ?thesis using less.prems [of height] by (subst find_fork.simps) (simp add: no_hash_def)
  next
    case False
    have "sint (height - 1) = sint height - 1"
      using False sint_diff_i32 [of height 1] sint_i32 [of height] by simp
    then have "\<exists>r. find_fork ch ns (height - 1) True = Some r"
      using False less.prems by (intro less.hyps) auto
    then show ?thesis by (subst find_fork.simps) (auto split: sum.split)
  qed
qed

text \<open>The fork point is on record and on the chain; if blocks were passed over, so is the one after it.\<close>

definition fork_found :: "chain \<Rightarrow> mgr_ns \<Rightarrow> i32 \<Rightarrow> bool \<Rightarrow> BlockStamp \<Rightarrow> bool \<Rightarrow> bool" where
  "fork_found ch ns height rolled bs rolled' \<longleftrightarrow>
     block_at ch (bs_Height bs) = Inr bs \<and> fetchBlockHash ns (bs_Height bs) = Inr (bs_Hash bs) \<and>
     (rolled' = rolled \<and> bs_Height bs = height \<or>
      rolled' \<and> (\<exists>x. fetchBlockHash ns (bs_Height bs + 1) = Inr x) \<and> sint (bs_Height bs) < sint height)"

lemma find_fork_finds:
  "find_fork ch ns height rolled = Some r \<Longrightarrow> (\<And>h. sint h < 0 \<Longrightarrow> fetchBlockHash ns h = no_hash) \<Longrightarrow>
   r = Inr (bs, rolled') \<Longrightarrow> fork_found ch ns height rolled bs rolled'"
proof (induction ch ns height rolled r rule: find_fork.raw_induct [rotated, consumes 1])
  case (1 rec ch ns height rolled r)
  obtain h b where b: "fetchBlockHash ns height = Inr h" "block_at ch height = Inr b"
    "if h = bs_Hash b then bs = b \<and> rolled' = rolled else rec ch ns (height - 1) True = Some r"
    using 1(2,4) by (auto split: sum.splits if_splits)
  have "sint (height - 1) = sint height - 1"
    using b(1) 1(3) [of height] sint_diff_i32 [of height 1] sint_i32 [of height]
    by (cases "sint height < 0") (auto simp: no_hash_def)
  moreover have "h \<noteq> bs_Hash b \<Longrightarrow> fork_found ch ns (height - 1) True bs rolled'"
    using 1(1) [OF _ 1(3,4)] b(3) by simp
  ultimately show ?case
    using b block_at_height [OF b(2)] by (cases "h = bs_Hash b") (auto simp: fork_found_def)
qed

section \<open>Synchronising\<close>

lemma SetBirthdayBlock_record:
  assumes "SetBirthdayBlock b v ns = Inr ns'"
  shows "fetchBlockHash ns' h = fetchBlockHash ns h" and "fetchSyncedTo ns' = fetchSyncedTo ns"
  using assms
  by (auto simp: SetBirthdayBlock_def PutBirthdayBlock_def putBirthdayBlockVerification_def rbind_Inr_iff
      fetchBlockHash_def fetchSyncedTo_def sync_put_only(3))

lemma SetBirthdayBlock_agrees: "SetBirthdayBlock b v ns = Inr ns' \<Longrightarrow> agrees ns' f = agrees ns f"
  by (intro agrees_cong) (simp_all add: SetBirthdayBlock_record)

lemma agrees_negative: "agrees ns f \<Longrightarrow> sint h < 0 \<Longrightarrow> fetchBlockHash ns h = no_hash"
  by (simp add: agrees_def)

lemma agrees_at_tip:
  assumes "agrees ns f"
  shows "fetchBlockHash ns (word_of_int (fo_tip f)) = Inr (fo_chain f (fo_tip f))"
proof (cases "fo_tip f = 0")
  case False
  then show ?thesis using assms by (simp add: agrees_def)
qed (use assms in \<open>simp add: agrees_def\<close>)

lemma block_at_hash: "block_at ch h = Inr bs \<Longrightarrow> ch_hash ch (sint h) = Inr (bs_Hash bs)"
  by (auto simp: block_at_def rbind_Inr_iff)

lemma rewind_ok:
  assumes "rewind W now b bs w = (w', Inr ())"
  shows "\<exists>ans. PutSyncedTo bs (wl_addr w) = Inr ans \<and> SyncedTo (wl_mgr w') = bs \<and>
    (wl_addr w' = ans \<or> SetBirthdayBlock bs True ans = Inr (wl_addr w'))"
  using assms sync_then_ok
  by (fastforce simp: rewind_def Let_def split: prod.splits sum.splits if_splits)

lemma compare_chain_synced:
  assumes "compare_chain W now ch b w = Some (w', Inr ())" and a: "agrees (wl_addr w) f"
    and t: "sint (bs_Height (SyncedTo (wl_mgr w))) = fo_tip f"
  shows "\<exists>f'. synced ch (fo_tip f') (fo_chain f) w' f' \<and> fo_tip f' \<le> fo_tip f"
proof -
  obtain bs rolled where fk: "find_fork ch (wl_addr w) (bs_Height (SyncedTo (wl_mgr w))) False = Some (Inr (bs, rolled))"
    "(if rolled then walletdb_Update (rewind W now b bs) w else (w, Inr ())) = (w', Inr ())"
    using assms(1) by (auto simp: compare_chain_def split: option.splits sum.splits)
  have found: "fork_found ch (wl_addr w) (bs_Height (SyncedTo (wl_mgr w))) False bs rolled"
    by (rule find_fork_finds [OF fk(1) agrees_negative [OF a] refl])
  then have at: "block_at ch (bs_Height bs) = Inr bs" "fetchBlockHash (wl_addr w) (bs_Height bs) = Inr (bs_Hash bs)"
    by (simp_all add: fork_found_def)
  show ?thesis
  proof (cases rolled)
    case False
    then have h: "bs_Height bs = word_of_int (fo_tip f)" "w' = w"
      using found fk(2) word_of_sint [OF t] by (simp_all add: fork_found_def)
    have "bs_Hash bs = fo_chain f (fo_tip f)" using at(2) agrees_at_tip [OF a] h(1) by simp
    moreover have "sint (bs_Height bs) = fo_tip f" using found False t by (simp add: fork_found_def)
    ultimately have "synced ch (fo_tip f) (fo_chain f) w f"
      using a t block_at_hash [OF at(1)] by (auto simp: synced_def dest!: antisym)
    then show ?thesis using h(2) by blast
  next
    case True
    then obtain x where x: "fetchBlockHash (wl_addr w) (bs_Height bs + 1) = Inr x"
      "sint (bs_Height bs) < fo_tip f"
      using found t by (auto simp: fork_found_def)
    obtain ans where r: "PutSyncedTo bs (wl_addr w) = Inr ans" "SyncedTo (wl_mgr w') = bs"
      "wl_addr w' = ans \<or> SetBirthdayBlock bs True ans = Inr (wl_addr w')"
      using fk(2) True rewind_ok [of W now b bs w w'] by (auto simp: walletdb_Update_ok)
    let ?f = "f\<lparr>fo_tip := sint (bs_Height bs)\<rparr>"
    have nn: "0 \<le> sint (bs_Height bs)"
      using at(2) agrees_negative [OF a, of "bs_Height bs"]
      by (cases "sint (bs_Height bs) < 0") (auto simp: no_hash_def)
    have "agrees ans ?f"
      using follow_agrees [OF follow.disconnected [OF r(1) refl nn x(2) at(2) x(1)] a] .
    then have g: "agrees (wl_addr w') ?f" using r(3) SetBirthdayBlock_agrees by auto
    have "fetchBlockHash ans (bs_Height bs) = Inr (bs_Hash bs)"
      using PutSyncedTo_record [OF r(1) refl nn nn sint_i32(2)] by simp
    then have "bs_Hash bs = fo_chain f (sint (bs_Height bs))"
      using agrees_at_tip [OF \<open>agrees ans ?f\<close>] by simp
    then have "synced ch (fo_tip ?f) (fo_chain f) w' ?f"
      using g r(2) block_at_hash [OF at(1)] by (auto simp: synced_def dest!: antisym)
    then show ?thesis using x(2) by (intro exI [of _ ?f]) simp
  qed
qed

lemma sync_birthday_agrees:
  assumes "sync_birthday ch stamp w = Some (w', r)"
  shows "agrees (wl_addr w') f = agrees (wl_addr w) f \<and> wl_mgr w' = wl_mgr w \<and> wl_tx w' = wl_tx w"
  using assms SetBirthdayBlock_agrees
  by (auto simp: sync_birthday_def split: option.splits sum.splits)

lemma rescan_synced:
  assumes "rescanWithTarget W now ch w = Some (w', Inr ())" and "ch_best ch = Inr best"
    and "sint best < 2 ^ 31 - 400" and "synced ch k c w f" and "fo_tip f < 2 ^ 31 - 1"
  shows "\<exists>f'. synced ch k c w' f' \<and> fo_tip f' = max (fo_tip f) (sint best)"
proof (rule catch_up_synced)
  show "catch_up W now ch best (bs_Height (SyncedTo (wl_mgr w)) + 1) w = Some (w', Inr ())"
    using assms(1,2) by (simp add: rescanWithTarget_def)
  show "sint (bs_Height (SyncedTo (wl_mgr w)) + 1) = fo_tip f + 1"
    using assms(4,5) synced_tip [OF assms(4)] sint_add_i32 [of "bs_Height (SyncedTo (wl_mgr w))" 1]
    by (simp add: synced_def)
qed (use assms in auto)

lemma syncWithChain_synced:
  assumes "syncWithChain W now ch stamp w = Some (w', Inr ())" and a: "agrees (wl_addr w) f"
    and t: "sint (bs_Height (SyncedTo (wl_mgr w))) = fo_tip f" and "fo_tip f < 2 ^ 31 - 1"
    and best: "ch_best ch = Inr best" "sint best < 2 ^ 31 - 400"
  shows "\<exists>f' k. synced ch k (fo_chain f) w' f' \<and> k \<le> fo_tip f \<and> fo_tip f' = max k (sint best)"
proof -
  obtain w1 b w2 where s: "sync_birthday ch stamp w = Some (w1, Inr b)"
    "compare_chain W now ch b w1 = Some (w2, Inr ())" "rescanWithTarget W now ch w2 = Some (w', Inr ())"
    using assms(1) by (auto simp: syncWithChain_def split: sum.splits option.splits prod.splits)
  obtain f1 where f1: "synced ch (fo_tip f1) (fo_chain f) w2 f1" "fo_tip f1 \<le> fo_tip f"
    using compare_chain_synced [OF s(2)] sync_birthday_agrees [OF s(1)] a t by metis
  show ?thesis using rescan_synced [OF s(3) best f1(1)] f1(2) assms(4) by auto
qed

lemma sync_birthday_returns: "\<exists>w1 r1. sync_birthday ch stamp w = Some (w1, r1)"
proof (cases stamp)
  case None
  obtain r where r: "locateBirthdayBlock ch (mg_birthday (wl_mgr w)) = Some r"
    using locateBirthdayBlock_returns by blast
  show ?thesis
  proof (cases r)
    case (Inr b)
    then show ?thesis
      using None r by (cases "SetBirthdayBlock b True (wl_addr w)") (simp_all add: sync_birthday_def)
  qed (use None r in \<open>simp add: sync_birthday_def\<close>)
qed (simp add: sync_birthday_def)

lemma syncWithChain_returns:
  assumes "agrees (wl_addr w) f" and "\<forall>best. ch_best ch = Inr best \<longrightarrow> sint best < 2 ^ 31 - 400"
  shows "\<exists>r. syncWithChain W now ch stamp w = Some r"
proof -
  obtain w1 r1 where b: "sync_birthday ch stamp w = Some (w1, r1)"
    using sync_birthday_returns by blast
  have a: "agrees (wl_addr w1) f" using sync_birthday_agrees [OF b] assms(1) by simp
  obtain r where r: "find_fork ch (wl_addr w1) (bs_Height (SyncedTo (wl_mgr w1))) False = Some r"
    using find_fork_returns [OF agrees_negative [OF a]] by blast
  then have c: "\<exists>w2 r2. compare_chain W now ch b w1 = Some (w2, r2)" for b
    by (cases r) (auto simp: compare_chain_def intro: prod.exhaust)
  have d: "\<exists>r. rescanWithTarget W now ch w2 = Some r" for w2
    using assms(2) catch_up_returns by (cases "ch_best ch") (auto simp: rescanWithTarget_def)
  show ?thesis
  proof (cases "ch_ready ch"; cases r1)
    fix u b' assume i: "ch_ready ch = Inr u" "r1 = Inr b'"
    obtain w2 r2 where "compare_chain W now ch b' w1 = Some (w2, r2)" using c by blast
    then show ?thesis using i b d by (cases r2; cases "ch_notify ch") (auto simp: syncWithChain_def)
  qed (use b in \<open>simp_all add: syncWithChain_def\<close>)
qed

end
