(* ===== verification/Migrate.thy ===== *)
theory Migrate
  imports ChainSearch "HOL-Library.Multiset"
begin

text \<open>
  Database versions: \<open>walletdb/migration/manager.go\<close>, the migrations of \<open>waddrmgr/migrations.go\<close>, and
  the services of the address manager and the transaction store that are upgraded when a wallet is
  opened.
\<close>

section \<open>Versions\<close>

text \<open>
  A version is its number and the migration to it, if there is one. \<open>sort.Slice\<close> orders by number;
  the order of versions of the same number is not defined by it, and is that of the list here.
\<close>

type_synonym 's version = "u32 \<times> ('s \<Rightarrow> 's result) option"

definition GetLatestVersion :: "'s version list \<Rightarrow> u32" where
  "GetLatestVersion versions = (if versions = [] then 0 else fst (last (sort_key fst versions)))"

definition VersionsToApply :: "u32 \<Rightarrow> 's version list \<Rightarrow> 's version list" where
  "VersionsToApply currentVersion versions =
     sort_key fst (filter (\<lambda>version. currentVersion < fst version) versions)"

definition ErrReversion :: go_error where
  "ErrReversion = GoError ''reverting to a previous version is not supported''"

text \<open>The interface \<open>migration.Manager\<close>, over the database it works on.\<close>

record 's service =
  sv_CurrentVersion :: "'s \<Rightarrow> u32 result"
  sv_SetVersion :: "u32 \<Rightarrow> 's \<Rightarrow> 's result"
  sv_Versions :: "'s version list"

definition migrate :: "'s version \<Rightarrow> 's \<Rightarrow> 's result" where
  "migrate version s = (case snd version of None \<Rightarrow> Inr s | Some f \<Rightarrow> f s)"

definition upgrade :: "'s service \<Rightarrow> 's \<Rightarrow> 's result" where
  "upgrade mgr s =
     rbind (sv_CurrentVersion mgr s) (\<lambda>currentVersion.
     let versions = sv_Versions mgr; latestVersion = GetLatestVersion versions
     in if latestVersion < currentVersion then Inl ErrReversion
        else if currentVersion < latestVersion
        then rbind (rfold migrate (VersionsToApply currentVersion versions) s) (sv_SetVersion mgr latestVersion)
        else Inr s)"

definition Upgrade :: "'s service list \<Rightarrow> 's \<Rightarrow> 's result" where
  "Upgrade mgrs s = rfold upgrade mgrs s"

lemma VersionsToApply_spec:
  "sorted (map fst (VersionsToApply cur vs)) \<and>
   mset (VersionsToApply cur vs) = {#v \<in># mset vs. cur < fst v#}"
  by (simp add: VersionsToApply_def)

text \<open>The latest version is the greatest number.\<close>

lemma GetLatestVersion_max:
  assumes "v \<in> set vs"
  shows "fst v \<le> GetLatestVersion vs \<and> GetLatestVersion vs \<in> fst ` set vs"
proof -
  have ne: "sort_key fst vs \<noteq> []" "vs \<noteq> []" using assms by (auto simp flip: set_empty)
  obtain i where i: "i < length vs" "sort_key fst vs ! i = v"
    using assms by (metis in_set_conv_nth length_sort set_sort)
  have "map fst (sort_key fst vs) ! i \<le> map fst (sort_key fst vs) ! (length vs - 1)"
    using i(1) by (intro sorted_nth_mono sorted_sort_key) auto
  moreover have "last (sort_key fst vs) \<in> set vs" using last_in_set [OF ne(1)] by simp
  ultimately show ?thesis
    using i ne by (auto simp: GetLatestVersion_def last_conv_nth)
qed

section \<open>Migrations of the address manager\<close>

text \<open>
  The networks are those the source names, by the hash and the time of their genesis block. The
  quotient is exact in floating point as far as its integer part goes: times have whole seconds.
\<close>

definition estimated_height :: "gotime \<Rightarrow> gotime \<Rightarrow> i32" where
  "estimated_height birthday genesis = word_of_int (time_Sub birthday genesis sdiv (600 * 1000000000))"

definition not_found :: "'a result \<Rightarrow> bool" where
  "not_found r = (case r of Inl (ManagerError ErrBlockNotFound _) \<Rightarrow> True | _ \<Rightarrow> False)"

partial_function (option) known_height :: "mgr_ns \<Rightarrow> i32 \<Rightarrow> (i32 \<times> hash result) option" where
  "known_height ns h =
     (if not_found (fetchBlockHash ns h)
      then known_height ns (if sint (h - 144) < 0 then 0 else h - 144)
      else Some (h, fetchBlockHash ns h))"

definition populateBirthdayBlock :: "(hash \<times> gotime) list \<Rightarrow> mgr_ns \<Rightarrow> mgr_ns result option" where
  "populateBirthdayBlock nets ns =
     (case fetchBirthday ns of Inl e \<Rightarrow> Some (Inl (as_error ''unable to fetch birthday timestamp'' e))
      | Inr birthday \<Rightarrow>
     (case fetchBlockHash ns 0 of Inl e \<Rightarrow> Some (Inl (as_error ''unable to fetch genesis block hash'' e))
      | Inr genesis \<Rightarrow>
     (case map_of nets genesis of None \<Rightarrow> Some (Inl (GoError ''unknown genesis hash''))
      | Some genesisTime \<Rightarrow>
     (case known_height ns (estimated_height birthday genesisTime) of None \<Rightarrow> None
      | Some (h, r) \<Rightarrow> Some (rbind r (\<lambda>x. PutBirthdayBlock
          \<lparr>bs_Height = h, bs_Hash = x, bs_Timestamp = zero_time\<rparr> ns))))))"

definition resetSyncedBlockToBirthday :: "mgr_ns \<Rightarrow> mgr_ns result" where
  "resetSyncedBlockToBirthday ns =
     (if mn_sync ns = None then Inl (GoError ''sync bucket does not exist'')
      else rbind (FetchBirthdayBlock ns) (\<lambda>b. PutSyncedTo b ns))"

definition storeMaxReorgDepth :: "mgr_ns \<Rightarrow> mgr_ns result" where
  "storeMaxReorgDepth ns =
     rbind (fetchSyncedTo ns) (\<lambda>syncedTo.
     let maxStaleHeight = staleHeight (bs_Height syncedTo)
     in if sint maxStaleHeight < 1 then Inr ns
        else rfold deleteBlockHash (map of_nat (rev [1..<Suc (nat (sint maxStaleHeight))])) ns)"

lemma known_height_unfold:
  "known_height ns h = (if not_found (fetchBlockHash ns h)
     then known_height ns (if sint (h - 144) < 0 then 0 else h - 144) else Some (h, fetchBlockHash ns h))"
  by (subst known_height.simps) (rule refl)

lemma known_height_nonneg:
  "\<not> not_found (fetchBlockHash ns 0) \<Longrightarrow> 0 \<le> sint h \<Longrightarrow> \<exists>r. known_height ns h = Some r"
proof (induction "nat (sint h + 1)" arbitrary: h rule: less_induct)
  case less
  have zero: "known_height ns 0 = Some (0, fetchBlockHash ns 0)"
    using less.prems by (subst known_height_unfold) simp
  have d: "sint (h - 144) = sint h - 144"
    using less.prems sint_diff_i32 [of h 144] sint_i32 [of h] by simp
  have "0 \<le> sint (h - 144) \<Longrightarrow> \<exists>r. known_height ns (h - 144) = Some r"
    using less d by (intro less.hyps) auto
  then show ?case using zero by (subst known_height_unfold) auto
qed

lemma known_height_returns:
  assumes "\<not> not_found (fetchBlockHash ns 0)"
  shows "\<exists>r. known_height ns h = Some r"
proof -
  have "\<exists>r. known_height ns (if sint (h - 144) < 0 then 0 else h - 144) = Some r"
    by (rule known_height_nonneg [OF assms]) simp
  then show ?thesis by (subst known_height_unfold) simp
qed

lemma populateBirthdayBlock_returns: "\<exists>r. populateBirthdayBlock nets ns = Some r"
proof (cases "fetchBirthday ns"; cases "fetchBlockHash ns 0")
  fix b x assume "fetchBirthday ns = Inr b" "fetchBlockHash ns 0 = Inr x"
  then show ?thesis
    using known_height_returns [of ns]
    by (auto simp: populateBirthdayBlock_def not_found_def split: option.split)
      (metis option.distinct(1))
qed (simp_all add: populateBirthdayBlock_def)

section \<open>The services of the wallet\<close>

text \<open>What a service promises of its version: the one set is the one read.\<close>

locale versioned =
  fixes mgr :: "'s service"
  assumes set_current: "sv_SetVersion mgr v s = Inr s' \<Longrightarrow> sv_CurrentVersion mgr s' = Inr v"
begin

lemma upgraded:
  assumes "upgrade mgr s = Inr s'"
  shows "sv_CurrentVersion mgr s' = Inr (GetLatestVersion (sv_Versions mgr))"
  using assms set_current by (auto simp: upgrade_def Let_def rbind_Inr_iff split: if_splits)

lemma upgrade_again: "upgrade mgr s = Inr s' \<Longrightarrow> upgrade mgr s' = Inr s'"
  using upgraded by (simp add: upgrade_def)

end

type_synonym wallet_db = "mgr_ns \<times> namespace"

definition addr_service :: "wallet_db service" where
  "addr_service = \<lparr>sv_CurrentVersion = (\<lambda>(ans, _). fetchManagerVersion ans),
     sv_SetVersion = (\<lambda>v (ans, tx). rbind (putManagerVersion v ans) (\<lambda>ans. Inr (ans, tx))),
     sv_Versions = [(0, None)]\<rparr>"

definition tx_service :: "wallet_db service" where
  "tx_service = \<lparr>sv_CurrentVersion = (\<lambda>(_, tx). fetchVersion tx),
     sv_SetVersion = (\<lambda>v (ans, tx). Inr (ans, putVersion v tx)), sv_Versions = [(0, None)]\<rparr>"

interpretation av: versioned addr_service
proof (unfold_locales, clarify)
  fix v ans tx ans' tx'
  assume "sv_SetVersion addr_service v (ans, tx) = Inr (ans', tx')"
  then have "main_set mgrVersionName (Some (uint32ToBytes v)) ans = Inr ans'"
    by (simp add: addr_service_def putManagerVersion_def rbind_Inr_iff)
  from main_set_only [OF this] show "sv_CurrentVersion addr_service (ans', tx') = Inr v"
    by (simp add: addr_service_def main_only_def fetchManagerVersion_def main_get_at uint32ToBytes_def)
qed

interpretation tv: versioned tx_service
  by unfold_locales (auto simp: tx_service_def putVersion_def fetchVersion_def root_put_def)

end
