(* ===== verification/WalletOpen.thy ===== *)
theory WalletOpen
  imports Migrate
begin

text \<open>
  Creating and opening a wallet, \<open>Create\<close> and \<open>Open\<close> of \<open>wallet/wallet.go\<close>: the namespaces of the
  address manager and of the transaction store made in one database transaction; upgraded and
  opened in another.
\<close>

definition empty_addr :: mgr_ns where
  "empty_addr = \<lparr>mn_main = None, mn_addr = empty_map, mn_sync = None\<rparr>"

definition empty_tx :: namespace where
  "empty_tx = \<lparr>ns_root = empty_map, ns_ctaut = empty_map, ns_bucket = empty_map, ns_notes = []\<rparr>"

text \<open>\<open>rnd\<close> is the random seed of a wallet that is given none and is not watching-only.\<close>

definition Wallet_Create ::
  "nacl \<Rightarrow> keygen \<Rightarrow> chain_params \<Rightarrow> (nat \<Rightarrow> key result) \<Rightarrow> (nat \<Rightarrow> nonce result) \<Rightarrow> bytes result \<Rightarrow> gotime \<Rightarrow> u8
   \<Rightarrow> bytes \<Rightarrow> bytes \<Rightarrow> bytes option \<Rightarrow> bool \<Rightarrow> string \<Rightarrow> gotime \<Rightarrow> bool \<Rightarrow> wallet_db result" where
  "Wallet_Create N G C RK RN rnd now scheme pubPass privPass masterSeed fromCLI version birthday watchingOnly =
     rbind (if watchingOnly \<or> masterSeed \<noteq> None then Inr masterSeed
            else case rnd of Inl e \<Rightarrow> Inl (as_error ''failed to read random source'' e)
                 | Inr seed \<Rightarrow> Inr (Some seed)) (\<lambda>seed.
     rbind (Mgr_Create N G C RK RN now scheme seed fromCLI version pubPass privPass None birthday empty_addr)
       (\<lambda>ans. rbind (createStore now empty_tx) (\<lambda>tx. Inr (ans, tx))))"

definition Wallet_Open :: "nacl \<Rightarrow> key result \<Rightarrow> bytes \<Rightarrow> wallet_db \<Rightarrow> wallet result" where
  "Wallet_Open N rnd pubPass db =
     rbind (Upgrade [addr_service, tx_service] db) (\<lambda>(ans, tx).
     rbind (Mgr_Open N rnd ans pubPass) (\<lambda>m.
     rbind (openStore tx) (\<lambda>_. Inr \<lparr>wl_mgr = m, wl_addr = ans, wl_tx = tx\<rparr>)))"

text \<open>There is one version of each, so an upgrade changes nothing.\<close>

lemma upgrade_services:
  "upgrade addr_service db = Inr db' \<Longrightarrow> db' = db" "upgrade tx_service db = Inr db' \<Longrightarrow> db' = db"
  by (auto simp: upgrade_def addr_service_def tx_service_def GetLatestVersion_def Let_def rbind_Inr_iff
      split: if_splits)

lemma Upgrade_services: "Upgrade [addr_service, tx_service] db = Inr db' \<Longrightarrow> db' = db"
  by (auto simp: Upgrade_def rbind_Inr_iff dest!: upgrade_services)

lemma Upgrade_current:
  "fetchManagerVersion ans = Inr 0 \<Longrightarrow> fetchVersion tx = Inr 0 \<Longrightarrow>
   Upgrade [addr_service, tx_service] (ans, tx) = Inr (ans, tx)"
  by (simp add: Upgrade_def upgrade_def addr_service_def tx_service_def GetLatestVersion_def)

lemma Wallet_Open_ok:
  assumes "Wallet_Open N rnd pubPass db = Inr w"
  shows "db = (wl_addr w, wl_tx w)" "Mgr_Open N rnd (wl_addr w) pubPass = Inr (wl_mgr w)"
    "openStore (wl_tx w) = Inr ()"
  using assms Upgrade_services [of db] by (auto simp: Wallet_Open_def rbind_Inr_iff)

lemma Wallet_Create_ok:
  assumes "Wallet_Create N G C RK RN rnd now scheme pubPass privPass masterSeed fromCLI version birthday
    watchingOnly = Inr db"
  shows "\<exists>seed. Mgr_Create N G C RK RN now scheme seed fromCLI version pubPass privPass None birthday empty_addr
      = Inr (fst db) \<and> createStore now empty_tx = Inr (snd db) \<and> (masterSeed \<noteq> None \<longrightarrow> seed = masterSeed)"
  using assms by (auto simp: Wallet_Create_def rbind_Inr_iff split: if_splits sum.splits)

section \<open>From creation to unlocking\<close>

lemma disk_version: "disk N pub prv K seeds ns \<Longrightarrow> fetchManagerVersion ns = Inr 0"
  by (auto simp: disk_def fetchManagerVersion_def main_get_at uint32ToBytes_def latestMgrVersion_def)

lemma openStore_current: "openStore tx = Inr () \<Longrightarrow> fetchVersion tx = Inr 0"
  by (auto simp: openStore_def rbind_Inr_iff getLatestVersion_def word_gt_0 split: if_splits)

lemma Open_wallet:
  assumes "disk N pubPass privPass K seeds ans" and "openStore tx = Inr ()"
  shows "\<exists>m. Wallet_Open N (Inr salt) pubPass (ans, tx) = Inr \<lparr>wl_mgr = m, wl_addr = ans, wl_tx = tx\<rparr> \<and>
    Mgr_Open N (Inr salt) ans pubPass = Inr m \<and> vault N privPass K m ans \<and> mg_locked m \<and> wiped m"
  using Open_vault [OF assms(1), of salt] assms(2)
  by (auto simp: Wallet_Open_def Upgrade_current disk_version [OF assms(1)] openStore_current [OF assms(2)])

text \<open>The manager is opened at the block that is on record as the one synced to.\<close>

lemma Mgr_Open_synced:
  "Mgr_Open N rnd ns pass = Inr m \<Longrightarrow> fetchSyncedTo ns = Inr (SyncedTo m)"
  by (auto simp: Mgr_Open_def loadManager_def rbind_Inr_iff newManager_def newSyncState_def SyncedTo_def
      split: if_splits)

lemma Open_agrees:
  assumes "Mgr_Open N rnd ns pass = Inr m" and "agrees ns f"
  shows "sint (bs_Height (SyncedTo m)) = fo_tip f"
proof -
  obtain t where "SyncedTo m = \<lparr>bs_Height = word_of_int (fo_tip f), bs_Hash = fo_chain f (fo_tip f),
      bs_Timestamp = t\<rparr>"
    using Mgr_Open_synced [OF assms(1)] assms(2) by (auto simp: agrees_def)
  then show ?thesis using assms(2) sint_of_int_i32 [of "fo_tip f"] by (simp add: agrees_def)
qed

end
