(* ===== verification/ChainKeeps.thy ===== *)
theory ChainKeeps
  imports ChainFollow WalletOpen
begin

text \<open>
  The operations of \<open>ChainSync\<close> and the invariants of the components they drive: the order of the
  transaction store and what a manager can become.
\<close>

section \<open>What every operation maintains\<close>

text \<open>
  Whatever an operation returns: a transaction store in good order stays in good order, and the
  manager goes through its own steps.
\<close>

definition maintains :: "wallet_env \<Rightarrow> wallet \<Rightarrow> wallet \<Rightarrow> bool" where
  "maintains W w w' \<longleftrightarrow>
     (sound_store (wl_tx w) \<longrightarrow> sound_store (wl_tx w')) \<and>
     (mgr_reachable (we_nacl W) (wl_mgr w) \<longrightarrow> mgr_reachable (we_nacl W) (wl_mgr w'))"

lemma maintains_refl [simp]: "maintains W w w"
  by (simp add: maintains_def)

lemma maintains_trans: "maintains W w w1 \<Longrightarrow> maintains W w1 w2 \<Longrightarrow> maintains W w w2"
  by (simp add: maintains_def)

lemma maintains_addr [simp]: "maintains W w (w'\<lparr>wl_addr := x\<rparr>) = maintains W w w'"
  by (simp add: maintains_def)

lemma maintains_from_addr [simp]: "maintains W (w\<lparr>wl_addr := x\<rparr>) w' = maintains W w w'"
  by (simp add: maintains_def)

lemma maintains_tx: "(sound_store (wl_tx w) \<Longrightarrow> sound_store tx) \<Longrightarrow> maintains W w (w\<lparr>wl_tx := tx\<rparr>)"
  by (simp add: maintains_def)

lemma maintains_Update:
  assumes "walletdb_Update f w = (w', r)" and "\<And>w' r. f w = (w', r) \<Longrightarrow> maintains W w w'"
  shows "maintains W w w'"
proof -
  obtain w1 r1 where f: "f w = (w1, r1)" by (cases "f w")
  then have "maintains W w w1" by (rule assms(2))
  then show ?thesis using assms(1) f by (auto simp: walletdb_Update_def maintains_def split: sum.splits)
qed

lemma maintains_sync_then:
  assumes "sync_then bs f w = (w', r)"
    and "\<And>w1 tx. wl_tx w1 = wl_tx w \<Longrightarrow> f w1 = Inr tx \<Longrightarrow> sound_store (wl_tx w) \<Longrightarrow> sound_store tx"
  shows "maintains W w w'"
proof (cases "SetSyncedTo (Some bs) (wl_mgr w) (wl_addr w)")
  case (Inr x)
  obtain m ans where x: "x = (m, ans)" by (cases x)
  let ?w = "w\<lparr>wl_mgr := m, wl_addr := ans\<rparr>"
  have "mgr_step (we_nacl W) (wl_mgr w) m" using Inr x by (blast intro: mgr_step.intros)
  then have "maintains W w ?w" by (auto simp: maintains_def intro: mgr_reachable.stepped)
  then show ?thesis
    using assms(1) Inr x assms(2) [of ?w]
    by (cases "f ?w") (auto simp: sync_then_def Let_def maintains_def)
qed (use assms(1) in \<open>simp add: sync_then_def\<close>)

lemma InsertBlock_sound: "InsertBlock A B K M now block extra hs ns = Inr ns' \<Longrightarrow> sound_store ns \<Longrightarrow> sound_store ns'"
  by (rule store_step_sound [OF store_step.connect])

lemma roll_store_sound: "roll_store W now h w = Inr tx \<Longrightarrow> sound_store (wl_tx w) \<Longrightarrow> sound_store tx"
  unfolding roll_store_def by (rule store_step_sound [OF store_step.disconnect])

lemma BlockConnected_maintains: "BlockConnected W now ch n w = (w', r) \<Longrightarrow> maintains W w w'"
  unfolding BlockConnected_def connectBlock_def
  by (auto split: if_splits elim!: maintains_Update maintains_sync_then
      simp: connect_insert_def rbind_Inr_iff InsertBlock_sound)

lemma BlockDisconnected_maintains:
  assumes "BlockDisconnected W now ch n w = (w', r)"
  shows "maintains W w w'"
  using assms unfolding BlockDisconnected_def
proof (rule maintains_Update)
  fix w' r assume "disconnectBlock W now ch n w = (w', r)"
  then show "maintains W w w'"
    by (auto simp: disconnectBlock_def split: if_splits sum.splits option.splits
        elim!: maintains_sync_then dest: roll_store_sound)
qed

lemma sync_only_maintains: "sync_then bs (\<lambda>w. Inr (wl_tx w)) w = (w', r) \<Longrightarrow> maintains W w w'"
  by (erule maintains_sync_then) simp

lemma catch_block_maintains:
  assumes "catch_block W now ch height w = (w', r)"
  shows "maintains W w w'"
proof -
  have ins: "maintains W w (w\<lparr>wl_tx := tx\<rparr>)"
    if "fetched_block W now ch height h w = Inr (t, tx)" for h t tx
    using that InsertBlock_sound by (intro maintains_tx) (auto simp: fetched_block_def rbind_Inr_iff)
  show ?thesis
    using assms
    by (auto simp: catch_block_def rbind_Inr_iff split: sum.splits if_splits dest: sync_only_maintains;
        blast intro: maintains_trans [OF ins sync_only_maintains])
qed

lemma catch_blocks_maintains: "catch_blocks W now ch hs w = (w', r) \<Longrightarrow> maintains W w w'"
proof (induction hs arbitrary: w)
  case (Cons h hs)
  then show ?case
    using catch_block_maintains maintains_trans by (fastforce split: prod.splits sum.splits)
qed simp

lemma catch_up_maintains: "catch_up W now ch height i w = Some (w', r) \<Longrightarrow> maintains W w w'"
proof (induction W now ch height i w "(w', r)" arbitrary: w' r
    rule: catch_up.raw_induct [rotated, consumes 1])
  case (1 rec W now ch height i w)
  show ?case
  proof (cases "sint height < sint i")
    case True
    then show ?thesis using 1(2) by simp
  next
    case False
    obtain w1 r1 where w1: "walletdb_Update (catch_blocks W now ch (batch i height)) w = (w1, r1)"
      by (cases "walletdb_Update (catch_blocks W now ch (batch i height)) w")
    have m: "maintains W w w1"
      using w1 catch_blocks_maintains by (rule maintains_Update)
    show ?thesis
    proof (cases r1)
      case (Inl e)
      then show ?thesis using 1(2) False w1 m by simp
    next
      case (Inr u)
      then have "rec W now ch height (i + batchBlockNum) w1 = Some (w', r)" using 1(2) False w1 by simp
      then have "maintains W w1 w'" by (rule 1(1))
      then show ?thesis using m maintains_trans by blast
    qed
  qed
qed

lemma rescan_maintains: "rescanWithTarget W now ch w = Some (w', r) \<Longrightarrow> maintains W w w'"
  by (auto simp: rescanWithTarget_def split: sum.splits dest: catch_up_maintains)

lemma store_birthday_maintains:
  assumes "store_birthday bs w = (w', r)"
  shows "maintains W w w'"
  using assms unfolding store_birthday_def
proof (rule maintains_Update)
  fix w' r assume "(case SetBirthdayBlock bs True (wl_addr w) of Inl e \<Rightarrow> (w, Inl e)
    | Inr ans \<Rightarrow> sync_then bs (\<lambda>w. Inr (wl_tx w)) (w\<lparr>wl_addr := ans\<rparr>)) = (w', r)"
  then show "maintains W w w'" by (auto split: sum.splits dest: sync_only_maintains)
qed

lemma birthdaySanityCheck_maintains: "birthdaySanityCheck ch w = Some (w', r) \<Longrightarrow> maintains W w w'"
  by (auto simp: birthdaySanityCheck_def split: sum.splits if_splits option.splits prod.splits
      dest: store_birthday_maintains)

lemma rewind_maintains:
  assumes "rewind W now b bs w = (w', r)"
  shows "maintains W w w'"
proof -
  obtain w1 r1 where w1: "sync_then bs (\<lambda>w. Inr (wl_tx w)) w = (w1, r1)"
    by (cases "sync_then bs (\<lambda>w. Inr (wl_tx w)) w")
  have m: "maintains W w w1" using w1 by (rule sync_only_maintains)
  have "maintains W w1 (w1\<lparr>wl_addr := ans, wl_tx := tx\<rparr>)"
    if "roll_store W now h (w1\<lparr>wl_addr := ans\<rparr>) = Inr tx" for h ans tx
    using roll_store_sound [OF that] by (simp add: maintains_def)
  then show ?thesis
    using assms w1 m maintains_trans [OF m]
    by (cases r1) (auto simp: rewind_def Let_def split: sum.splits)
qed

lemma compare_chain_maintains: "compare_chain W now ch b w = Some (w', r) \<Longrightarrow> maintains W w w'"
  by (auto simp: compare_chain_def split: option.splits sum.splits prod.splits if_splits
      elim!: maintains_Update dest: rewind_maintains)

lemma sync_birthday_maintains: "sync_birthday ch stamp w = Some (w', r) \<Longrightarrow> maintains W w w'"
  using sync_birthday_agrees [of ch stamp w w' r] by (simp add: maintains_def)

lemma syncWithChain_maintains:
  assumes "syncWithChain W now ch stamp w = Some (w', r)"
  shows "maintains W w w'"
proof (cases "ch_ready ch")
  case (Inr u)
  obtain w1 r1 where s1: "sync_birthday ch stamp w = Some (w1, r1)"
    using sync_birthday_returns by blast
  note m1 = sync_birthday_maintains [OF s1, of W]
  show ?thesis
  proof (cases r1)
    case (Inr b)
    then obtain w2 r2 where s2: "compare_chain W now ch b w1 = Some (w2, r2)"
      using assms s1 \<open>ch_ready ch = Inr u\<close> by (auto simp: syncWithChain_def split: option.splits)
    have m2: "maintains W w w2" using m1 compare_chain_maintains [OF s2] maintains_trans by blast
    show ?thesis
      using assms s1 s2 Inr m2 \<open>ch_ready ch = Inr u\<close> maintains_trans [OF m2 rescan_maintains]
      by (cases r2; cases "ch_notify ch") (auto simp: syncWithChain_def)
  qed (use assms s1 m1 \<open>ch_ready ch = Inr u\<close> in \<open>auto simp: syncWithChain_def\<close>)
qed (use assms in \<open>simp add: syncWithChain_def\<close>)

lemma fatal_fst: "fatal wr = (w', r) \<Longrightarrow> w' = fst wr"
  by (cases wr; cases "snd wr") (auto simp: fatal_def)

lemma ClientConnected_maintains:
  assumes "ClientConnected W now ch w = Some (w', r)"
  shows "maintains W w w'"
proof -
  obtain w1 r1 where s1: "birthdaySanityCheck ch w = Some (w1, r1)"
    using assms by (auto simp: ClientConnected_def split: option.splits)
  have m1: "maintains W w w1" by (rule birthdaySanityCheck_maintains [OF s1])
  have "w' = w1 \<or> (\<exists>stamp wr. syncWithChain W now ch stamp w1 = Some wr \<and> fatal wr = (w', r))"
    using assms s1 by (auto simp: ClientConnected_def split: sum.splits go_error.splits manager_code.splits)
  then show ?thesis
    using m1 syncWithChain_maintains maintains_trans fatal_fst by (metis prod.collapse)
qed

section \<open>The wallet as a machine\<close>

text \<open>
  Notifications of the server, the operations of the manager and of the store, and starting again:
  the manager opened from the database.
\<close>

inductive wallet_step :: "wallet_env \<Rightarrow> wallet \<Rightarrow> wallet \<Rightarrow> bool" for W where
  block_connected: "BlockConnected W now ch n w = (w', r) \<Longrightarrow> wallet_step W w w'"
| block_disconnected: "BlockDisconnected W now ch n w = (w', r) \<Longrightarrow> wallet_step W w w'"
| client_connected: "ClientConnected W now ch w = Some (w', r) \<Longrightarrow> wallet_step W w w'"
| locked: "Mgr_Lock (wl_mgr w) = Inr m \<Longrightarrow> wallet_step W w (w\<lparr>wl_mgr := m\<rparr>)"
| unlocked: "Mgr_Unlock (we_nacl W) pass (wl_mgr w) = Inr (m, r) \<Longrightarrow> wallet_step W w (w\<lparr>wl_mgr := m\<rparr>)"
| passphrase: "ChangePassphrase (we_nacl W) RK RN old new prv so (wl_mgr w) (wl_addr w) = Inr (m, ans) \<Longrightarrow>
    wallet_step W w (w\<lparr>wl_mgr := m, wl_addr := ans\<rparr>)"
| new_address: "GenerateAddressKeys (we_nacl W) (we_keygen W) RN level (wl_mgr w) (wl_addr w) = Inr (x, ans) \<Longrightarrow>
    wallet_step W w (w\<lparr>wl_addr := ans\<rparr>)"
| store: "store_step (we_abec W) (we_blk W) (we_crypto W) (as_manager W w) (wl_tx w) tx \<Longrightarrow>
    wallet_step W w (w\<lparr>wl_tx := tx\<rparr>)"
| started: "Wallet_Open (we_nacl W) rnd pass (wl_addr w, wl_tx w) = Inr w' \<Longrightarrow> wallet_step W w w'"

inductive wallet_reachable :: "wallet_env \<Rightarrow> wallet \<Rightarrow> bool" for W where
  wallet_opened: "Wallet_Create (we_nacl W) (we_keygen W) C RK RN rnd now scheme pubPass privPass masterSeed fromCLI
      version birthday watchingOnly = Inr db \<Longrightarrow> Wallet_Open (we_nacl W) salt pass db = Inr w \<Longrightarrow>
    wallet_reachable W w"
| wallet_stepped: "wallet_reachable W w \<Longrightarrow> wallet_step W w w' \<Longrightarrow> wallet_reachable W w'"

lemma maintains_mgr: "mgr_step (we_nacl W) (wl_mgr w) m \<Longrightarrow> maintains W w (w\<lparr>wl_mgr := m\<rparr>)"
  by (auto simp: maintains_def intro: mgr_reachable.stepped)

lemma wallet_step_maintains:
  assumes "wallet_step W w w'"
  shows "maintains W w w'"
  using assms
proof (cases rule: wallet_step.cases)
  case (passphrase RK RN old new prv so m ans)
  then have "maintains W w (w\<lparr>wl_mgr := m\<rparr>)" by (intro maintains_mgr mgr_step.step_change)
  then show ?thesis by (simp add: passphrase(1) maintains_def)
next
  case (store tx)
  show ?thesis unfolding store(1) by (intro maintains_tx store_step_sound [OF store(2)])
next
  case (started rnd pass)
  show ?thesis
    using Wallet_Open_ok [OF started] by (auto simp: maintains_def intro: mgr_reachable.opened)
qed (auto intro: BlockConnected_maintains BlockDisconnected_maintains ClientConnected_maintains
    maintains_mgr mgr_step.intros)

lemma wallet_reachable_keeps:
  "wallet_reachable W w \<Longrightarrow> sound_store (wl_tx w) \<and> mgr_reachable (we_nacl W) (wl_mgr w)"
proof (induction rule: wallet_reachable.induct)
  case (wallet_opened C RK RN rnd now scheme pubPass privPass masterSeed fromCLI version birthday watchingOnly
      db salt pass w)
  show ?case
    using Wallet_Create_ok [OF wallet_opened(1)] Wallet_Open_ok [OF wallet_opened(2)]
    by (auto intro: createStore_sound mgr_reachable.opened)
next
  case (wallet_stepped w w')
  then show ?case using wallet_step_maintains [OF wallet_stepped(2)] by (simp add: maintains_def)
qed

end
