(* ===== verification/ChainLive.thy ===== *)
theory ChainLive
  imports ChainKeeps
begin

text \<open>
  Where the wallet gets: before the height it synchronises from it reaches the best block of the
  server; and a block that cannot be inserted leaves the manager in memory ahead of the database.
\<close>

section \<open>Reaching the best block\<close>

lemma fetchBlockHash_bucket: "fetchBlockHash ns h = Inr x \<Longrightarrow> \<exists>m. mn_sync ns = Some m"
  by (auto simp: fetchBlockHash_def sync_get_def sync_bucket_def rbind_def split: option.splits)

lemma PutSyncedTo_succeeds:
  assumes "fetchBlockHash ns (bs_Height bs - 1) = Inr x"
  shows "\<exists>ns'. PutSyncedTo bs ns = Inr ns'"
proof -
  obtain m where m: "mn_sync ns = Some m" using fetchBlockHash_bucket [OF assms] by blast
  have "FetchBirthdayBlock ns \<noteq> Inl (GoPanic s)" for s
    using m by (auto simp: FetchBirthdayBlock_def sync_get_def sync_bucket_def split: option.splits)
  then have "previous_known bs ns = Inr ()"
    using assms by (auto simp: previous_known_def wrap_def split: sum.splits go_error.splits)
  then show ?thesis
    using m by (simp add: PutSyncedTo_def addBlockHash_def deleteBlockHash_def updateSyncedTo_def
        sync_put_def sync_delete_def sync_bucket_def)
qed

text \<open>The server has a block with a header at a height, below the heights the wallet scans.\<close>

definition headers_only :: "wallet_env \<Rightarrow> chain \<Rightarrow> int \<Rightarrow> int \<Rightarrow> bool" where
  "headers_only W ch from best \<longleftrightarrow>
     (\<forall>h. from < h \<and> h \<le> best \<longrightarrow> (\<exists>x t. ch_hash ch h = Inr x \<and> ch_header ch x = Inr t) \<and>
        (h < sint (we_HeightMLPAUT W) \<or> h < sint (we_SyncFrom W)))"

lemma catch_block_succeeds:
  assumes "synced ch k c w f" and "sint height = fo_tip f + 1"
    and "headers_only W ch (fo_tip f) best" "sint height \<le> best"
  shows "\<exists>w'. catch_block W now ch height w = (w', Inr ())"
proof -
  obtain x t where x: "ch_hash ch (sint height) = Inr x" "ch_header ch x = Inr t"
    "sint height < sint (we_HeightMLPAUT W) \<or> sint height < sint (we_SyncFrom W)"
    using assms(3) [unfolded headers_only_def, rule_format, of "sint height"] assms(2,4) by auto
  have "height - 1 = word_of_int (fo_tip f)" using word_of_sint [OF assms(2)] by simp
  then have "fetchBlockHash (wl_addr w) (height - 1) = Inr (fo_chain f (fo_tip f))"
    using agrees_at_tip assms(1) by (simp add: synced_def)
  then obtain ns where "PutSyncedTo \<lparr>bs_Height = height, bs_Hash = x, bs_Timestamp = t\<rparr> (wl_addr w) = Inr ns"
    using PutSyncedTo_succeeds [of "wl_addr w" "\<lparr>bs_Height = height, bs_Hash = x, bs_Timestamp = t\<rparr>"] by auto
  then show ?thesis using x by (simp add: catch_block_def sync_then_def SetSyncedTo_def Let_def)
qed

lemma catch_blocks_succeed:
  "synced ch k c w f \<Longrightarrow> headers_only W ch (fo_tip f) best \<Longrightarrow> fo_tip f + int n \<le> best \<Longrightarrow> best < 2 ^ 31 \<Longrightarrow>
   \<exists>w'. catch_blocks W now ch (run_of (fo_tip f + 1) n) w = (w', Inr ())"
proof (induction n arbitrary: w f)
  case (Suc n)
  have s: "sint (word_of_int (fo_tip f + 1) :: i32) = fo_tip f + 1"
    using synced_tip [OF Suc.prems(1)] Suc.prems(3,4) by (intro sint_of_int_i32) auto
  then obtain w1 where w1: "catch_block W now ch (word_of_int (fo_tip f + 1)) w = (w1, Inr ())"
    using catch_block_succeeds [OF Suc.prems(1) s Suc.prems(2)] Suc.prems(3) by auto
  obtain f1 where f1: "synced ch k c w1 f1" "fo_tip f1 = fo_tip f + 1"
    using catch_block_synced [OF w1 Suc.prems(1) s] by blast
  have "\<exists>w'. catch_blocks W now ch (run_of (fo_tip f1 + 1) n) w1 = (w', Inr ())"
    using Suc.prems f1 by (intro Suc.IH) (auto simp: headers_only_def)
  then show ?case using w1 f1(2) by (simp del: of_int_add)
qed simp

lemma catch_up_succeeds:
  "synced ch k c w f \<Longrightarrow> headers_only W ch (fo_tip f) (sint height) \<Longrightarrow> sint i = fo_tip f + 1 \<Longrightarrow>
   sint height < 2 ^ 31 - 400 \<Longrightarrow> \<exists>w'. catch_up W now ch height i w = Some (w', Inr ())"
proof (induction "nat (sint height - sint i + 1)" arbitrary: i w f rule: less_induct)
  case less
  show ?case
  proof (cases "sint height < sint i")
    case True
    then show ?thesis by (subst catch_up.simps) simp
  next
    case False
    let ?n = "min 400 (nat (sint height - sint i + 1))"
    have tip: "0 \<le> fo_tip f" by (rule synced_tip [OF less.prems(1)])
    have b: "batch i height = run_of (fo_tip f + 1) ?n"
      using batch_run [of i height] tip False less.prems(3,4) by simp
    have n: "fo_tip f + int ?n \<le> sint height" "fo_tip f + int ?n < 2 ^ 31"
      using False less.prems(3,4) by auto
    obtain w1 where w1: "catch_blocks W now ch (batch i height) w = (w1, Inr ())"
      unfolding b using catch_blocks_succeed [OF less.prems(1,2) n(1)] less.prems(4) by auto
    obtain f1 where f1: "synced ch k c w1 f1" "fo_tip f1 = fo_tip f + int ?n"
      using catch_blocks_synced [OF w1 [unfolded b] less.prems(1) tip n(2)] by blast
    have nb: "sint (i + batchBlockNum) = sint i + 400"
      using next_batch [of i height] False less.prems(4) by simp
    have u: "walletdb_Update (catch_blocks W now ch (batch i height)) w = (w1, Inr ())"
      using w1 by (simp add: walletdb_Update_ok)
    have "\<exists>w'. catch_up W now ch height (i + batchBlockNum) w1 = Some (w', Inr ())"
    proof (cases "sint height - sint i < 399")
      case True
      then show ?thesis using nb by (subst catch_up.simps) simp
    next
      case full: False
      then show ?thesis
        using nb f1 less.prems by (intro less.hyps [of "i + batchBlockNum" w1 f1]) (auto simp: headers_only_def)
    qed
    then show ?thesis using False u by (subst catch_up.simps) simp
  qed
qed

lemma find_fork_at_once:
  assumes "fetchBlockHash ns height = Inr x" and "block_at ch height = Inr bs" and "bs_Hash bs = x"
  shows "find_fork ch ns height rolled = Some (Inr (bs, rolled))"
  using assms by (subst find_fork.simps) simp

text \<open>A wallet whose tip is a block of the server.\<close>

lemma syncWithChain_reaches:
  assumes a: "agrees (wl_addr w) f" and t: "sint (bs_Height (SyncedTo (wl_mgr w))) = fo_tip f"
    and "fo_tip f < 2 ^ 31 - 1"
    and "ch_ready ch = Inr ()" "ch_notify ch = Inr ()" "ch_best ch = Inr best" "sint best < 2 ^ 31 - 400"
    and "ch_hash ch (fo_tip f) = Inr (fo_chain f (fo_tip f))" "ch_header ch (fo_chain f (fo_tip f)) = Inr tm"
    and "headers_only W ch (fo_tip f) (sint best)"
  shows "\<exists>w'. syncWithChain W now ch (Some b) w = Some (w', Inr ()) \<and>
    sint (bs_Height (SyncedTo (wl_mgr w'))) = max (fo_tip f) (sint best)"
proof -
  let ?h = "bs_Height (SyncedTo (wl_mgr w))"
  have "block_at ch ?h = Inr \<lparr>bs_Height = ?h, bs_Hash = fo_chain f (fo_tip f), bs_Timestamp = tm\<rparr>"
    using assms(8,9) t by (simp add: block_at_def)
  moreover have "fetchBlockHash (wl_addr w) ?h = Inr (fo_chain f (fo_tip f))"
    using agrees_at_tip [OF a] word_of_sint [OF t] by simp
  ultimately have fk: "compare_chain W now ch b w = Some (w, Inr ())"
    by (simp add: compare_chain_def find_fork_at_once)
  have s: "synced ch (fo_tip f) (fo_chain f) w f"
    using a t assms(8) by (auto simp: synced_def dest!: antisym)
  have "sint (?h + 1) = fo_tip f + 1"
    using t assms(3) synced_tip [OF s] sint_add_i32 [of ?h 1] by simp
  then obtain w' where w': "rescanWithTarget W now ch w = Some (w', Inr ())"
    using catch_up_succeeds [OF s assms(10)] assms(6,7) by (auto simp: rescanWithTarget_def)
  then obtain f' where "synced ch (fo_tip f) (fo_chain f) w' f'" "fo_tip f' = max (fo_tip f) (sint best)"
    using rescan_synced [OF _ assms(6,7) s] assms(3) by blast
  then show ?thesis
    using w' fk assms(4,5) by (simp add: syncWithChain_def sync_birthday_def synced_def)
qed

section \<open>A block that is not inserted\<close>

text \<open>
  \<open>connectBlock\<close> advances the manager in memory before it inserts the block. When that fails the
  database is as it was, but the manager is not.
\<close>

lemma BlockConnected_fails:
  assumes "sint (bs_Height (SyncedTo (wl_mgr w))) < sint (bm_Height n)"
    and "SetSyncedTo (Some (meta_stamp n)) (wl_mgr w) (wl_addr w) = Inr (m, ans)"
    and "connect_insert W now ch n (w\<lparr>wl_mgr := m, wl_addr := ans\<rparr>) = Inl e"
  shows "BlockConnected W now ch n w = (w\<lparr>wl_mgr := m\<rparr>, Inl e)" and "SyncedTo m = meta_stamp n"
  using assms
  by (auto simp: BlockConnected_def connectBlock_def sync_then_def Let_def walletdb_Update_def
      SetSyncedTo_def SyncedTo_def rbind_Inr_iff)

text \<open>
  From then on the same block is passed over, the next one is refused, and a new connection fails,
  until the wallet is started again.
\<close>

lemma ahead_passes_over:
  "SyncedTo (wl_mgr w) = meta_stamp n \<Longrightarrow> BlockConnected W now ch n w = (w, Inr ())"
  by (simp add: BlockConnected_def meta_stamp_def)

lemma ahead_refuses:
  assumes "SyncedTo (wl_mgr w) = meta_stamp n" and "FetchBirthdayBlock (wl_addr w) = Inr b"
    and "fetchBlockHash (wl_addr w) (bm_Height n) = no_hash"
    and "bm_Height n' = bm_Height n + 1" and "0 \<le> sint (bm_Height n)" "sint (bm_Height n) < 2 ^ 31 - 1"
  shows "\<exists>msg. BlockConnected W now ch n' w = (w, Inl (ManagerError ErrBlockNotFound msg))"
proof -
  have s: "sint (bm_Height n') = sint (bm_Height n) + 1"
    using assms(4-6) sint_add_i32 [of "bm_Height n" 1] by simp
  obtain msg where "PutSyncedTo (meta_stamp n') (wl_addr w) = Inl (ManagerError ErrBlockNotFound msg)"
    using PutSyncedTo_unknown [OF assms(2), of "meta_stamp n'"] s assms(3-5) by (auto simp: meta_stamp_def)
  then show ?thesis
    using s assms(1)
    by (simp add: BlockConnected_def connectBlock_def sync_then_def SetSyncedTo_def walletdb_Update_def
        meta_stamp_def)
qed

lemma ahead_cannot_sync:
  assumes "SyncedTo (wl_mgr w) = meta_stamp n" and "fetchBlockHash (wl_addr w) (bm_Height n) = no_hash"
  shows "\<exists>e. syncWithChain W now ch (Some b) w = Some (w, Inl e)"
proof (cases "ch_ready ch")
  case (Inr u)
  have "find_fork ch (wl_addr w) (bm_Height n) False =
      Some (Inl (ManagerError ErrBlockNotFound ''failed to fetch block hash''))"
    using assms(2) by (subst find_fork.simps) (simp add: no_hash_def)
  then show ?thesis
    using assms(1) Inr by (simp add: syncWithChain_def sync_birthday_def compare_chain_def meta_stamp_def)
qed (simp add: syncWithChain_def)

end
