(* ===== verification/MgrTyped.thy ===== *)
theory MgrTyped
  imports SyncHeights
begin

text \<open>
  The values of the address manager's namespace have the form their readers expect, in every
  namespace that \<open>Create\<close> makes and the operations of the manager change: no read fails for a
  malformed or missing value, and none panics.
\<close>

section \<open>Values that fit\<close>

definition main_fits :: "mainkey \<Rightarrow> bytes \<Rightarrow> bool" where
  "main_fits k v \<longleftrightarrow>
     (k = mgrVersionName \<longrightarrow> length v = 4) \<and>
     (k \<in> {watchingOnlyName, cryptoSchemeName} \<longrightarrow> length v = 1) \<and>
     (k \<in> {masterPubKeyName, masterPrivKeyName} \<longrightarrow> length v = 88)"

definition sync_fits :: "bytes \<Rightarrow> bytes \<Rightarrow> bool" where
  "sync_fits k v \<longleftrightarrow>
     (k = syncedToName \<longrightarrow> length v = 40) \<and> (k = startBlockName \<longrightarrow> length v = 36) \<and>
     (k = birthdayName \<longrightarrow> length v = 8) \<and> (k = birthdayBlockName \<longrightarrow> length v = 44) \<and>
     (k = birthdayBlockVerifiedName \<longrightarrow> length v = 2) \<and> (\<forall>h. k = height_key h \<longrightarrow> length v = 32)"

definition fitting :: "mgr_ns \<Rightarrow> bool" where
  "fitting ns \<longleftrightarrow> (\<forall>k v. main_at ns k = Some v \<longrightarrow> main_fits k v) \<and>
     (\<forall>k v. sync_get k ns = Inr (Some v) \<longrightarrow> sync_fits k v)"

definition required_main :: "mainkey set" where
  "required_main = {mgrVersionName, watchingOnlyName, cryptoSchemeName, masterPubKeyName, cryptoPubKeyName}"

definition required_sync :: "bytes set" where
  "required_sync = {syncedToName, startBlockName, birthdayName}"

definition has_main :: "mgr_ns \<Rightarrow> mainkey \<Rightarrow> bool" where "has_main ns k \<longleftrightarrow> main_at ns k \<noteq> None"
definition has_sync :: "mgr_ns \<Rightarrow> bytes \<Rightarrow> bool" where
  "has_sync ns k \<longleftrightarrow> (\<exists>v. sync_get k ns = Inr (Some v))"

definition typed :: "mgr_ns \<Rightarrow> bool" where
  "typed ns \<longleftrightarrow> fitting ns \<and> managerExists ns \<and> (\<forall>b. mn_addr ns b \<noteq> None) \<and> mn_sync ns \<noteq> None \<and>
     (\<forall>k \<in> required_main. has_main ns k) \<and> (\<forall>k \<in> required_sync. has_sync ns k)"

section \<open>Writes\<close>

text \<open>A write keeps what fits fitting and what is required there.\<close>

definition grows :: "mgr_ns \<Rightarrow> mgr_ns \<Rightarrow> bool" where
  "grows ns ns' \<longleftrightarrow>
     (fitting ns \<longrightarrow> fitting ns') \<and> (managerExists ns \<longrightarrow> managerExists ns') \<and>
     (\<forall>b. mn_addr ns b \<noteq> None \<longrightarrow> mn_addr ns' b \<noteq> None) \<and> (mn_sync ns \<noteq> None \<longrightarrow> mn_sync ns' \<noteq> None) \<and>
     (\<forall>k \<in> required_main. has_main ns k \<longrightarrow> has_main ns' k) \<and>
     (\<forall>k \<in> required_sync. has_sync ns k \<longrightarrow> has_sync ns' k)"

lemma grows_refl [simp]: "grows ns ns"
  by (simp add: grows_def)

lemma grows_trans: "grows a b \<Longrightarrow> grows b c \<Longrightarrow> grows a c"
  by (simp add: grows_def)

lemma typed_grows: "typed ns \<Longrightarrow> grows ns ns' \<Longrightarrow> typed ns'"
  by (simp add: typed_def grows_def)

lemma sync_get_same: "mn_sync ns' = mn_sync ns \<Longrightarrow> sync_get k ns' = sync_get k ns"
  by (simp add: sync_get_def sync_bucket_def)

lemma main_only_grows:
  assumes "main_only ns f ns'" and "\<And>k v. f k = Some v \<Longrightarrow> main_at ns k = Some v \<or> main_fits k v"
    and "\<And>k. k \<in> required_main \<Longrightarrow> main_at ns k \<noteq> None \<Longrightarrow> f k \<noteq> None"
  shows "grows ns ns'"
proof -
  have m: "main_at ns' = f" "mn_addr ns' = mn_addr ns" "mn_sync ns' = mn_sync ns" "managerExists ns'"
    using assms(1) by (simp_all add: main_only_def)
  have s: "sync_get k ns' = sync_get k ns" for k by (rule sync_get_same [OF m(3)])
  have "fitting ns \<longrightarrow> fitting ns'" unfolding fitting_def m(1) s using assms(2) by blast
  moreover have "\<forall>k \<in> required_main. has_main ns k \<longrightarrow> has_main ns' k"
    unfolding has_main_def m(1) using assms(3) by blast
  ultimately show ?thesis using m s by (simp add: grows_def has_sync_def)
qed

lemma main_set_grows: "main_set k (Some v) ns = Inr ns' \<Longrightarrow> main_fits k v \<Longrightarrow> grows ns ns'"
  by (erule main_only_grows [OF main_set_only]) (auto split: if_splits)

lemma main_unset_grows: "main_set k None ns = Inr ns' \<Longrightarrow> k \<notin> required_main \<Longrightarrow> grows ns ns'"
  by (erule main_only_grows [OF main_set_only]) (auto split: if_splits)

lemma main_put_some_grows:
  "main_put_some k v ns = Inr ns' \<Longrightarrow> (\<And>b. v = Some b \<Longrightarrow> main_fits k b) \<Longrightarrow> grows ns ns'"
  by (erule main_only_grows [OF main_put_some_only]) (auto split: option.splits if_splits)

lemma sync_write:
  assumes "mn_main ns' = mn_main ns" "mn_addr ns' = mn_addr ns" "mn_sync ns \<noteq> None \<longrightarrow> mn_sync ns' \<noteq> None"
    and "\<And>k v. sync_get k ns' = Inr (Some v) \<Longrightarrow> sync_get k ns = Inr (Some v) \<or> sync_fits k v"
    and "\<And>k. k \<in> required_sync \<Longrightarrow> has_sync ns k \<Longrightarrow> has_sync ns' k"
  shows "grows ns ns'"
proof -
  have m: "main_at ns' = main_at ns" "managerExists ns' = managerExists ns"
    using assms(1) by (simp_all add: main_at_def fun_eq_iff managerExists_def)
  have "fitting ns \<longrightarrow> fitting ns'" unfolding fitting_def m(1) using assms(4) by blast
  moreover have "\<forall>k \<in> required_sync. has_sync ns k \<longrightarrow> has_sync ns' k" using assms(5) by blast
  ultimately show ?thesis using m assms(2,3) by (simp add: grows_def has_main_def)
qed

lemma sync_put_grows:
  assumes "sync_put k v ns = Inr ns'" and "sync_fits k v"
  shows "grows ns ns'" and "has_sync ns' k"
proof -
  note p = sync_put_only [OF assms(1)]
  have s: "mn_sync ns' \<noteq> None" using assms(1) by (auto simp: sync_put_def rbind_Inr_iff)
  show "has_sync ns' k" by (simp add: has_sync_def p(3))
  show "grows ns ns'"
  proof (rule sync_write)
    show "sync_get k' ns = Inr (Some v') \<or> sync_fits k' v'" if "sync_get k' ns' = Inr (Some v')" for k' v'
      using that assms(2) p(3) [of k'] by (simp split: if_splits)
    show "has_sync ns' k'" if "has_sync ns k'" for k'
      using that p(3) [of k'] by (simp add: has_sync_def)
  qed (use p s in auto)
qed

lemma sync_delete_grows:
  assumes "sync_delete k ns = Inr ns'" and "k \<notin> required_sync"
  shows "grows ns ns'"
proof -
  note p = sync_delete_only [OF assms(1)]
  have s: "mn_sync ns' \<noteq> None" using assms(1) by (auto simp: sync_delete_def rbind_Inr_iff)
  show ?thesis
  proof (rule sync_write)
    show "sync_get k' ns = Inr (Some v') \<or> sync_fits k' v'" if "sync_get k' ns' = Inr (Some v')" for k' v'
      using that p(3) [of k'] by (simp split: if_splits)
    show "has_sync ns' k'" if "k' \<in> required_sync" "has_sync ns k'" for k'
      using that assms(2) p(3) [of k'] by (auto simp: has_sync_def split: if_splits)
  qed (use p s in auto)
qed

lemma addr_put_grows:
  assumes "addr_put msg b k v ns = Inr ns'"
  shows "grows ns ns'"
proof -
  have m: "mn_main ns' = mn_main ns" "mn_sync ns' = mn_sync ns"
    using assms by (auto simp: addr_put_def rbind_Inr_iff split: if_splits)
  have b: "\<forall>c. mn_addr ns c \<noteq> None \<longrightarrow> mn_addr ns' c \<noteq> None"
    using assms by (auto simp: addr_put_def rbind_Inr_iff split: if_splits)
  have e: "main_at ns' = main_at ns" "managerExists ns' = managerExists ns"
    using m(1) by (simp_all add: main_at_def fun_eq_iff managerExists_def)
  have s: "sync_get k ns' = sync_get k ns" for k by (rule sync_get_same [OF m(2)])
  have f: "fitting ns' = fitting ns" unfolding fitting_def e(1) s by (rule refl)
  have h: "has_main ns' = has_main ns" "has_sync ns' = has_sync ns"
    unfolding has_main_def has_sync_def fun_eq_iff e(1) s by simp_all
  show ?thesis unfolding grows_def f h m(2) e(2) using b by blast
qed

section \<open>The operations\<close>

lemma main_fits_simps:
  "main_fits mgrVersionName v = (length v = 4)" "main_fits watchingOnlyName v = (length v = 1)"
  "main_fits cryptoSchemeName v = (length v = 1)" "main_fits masterPubKeyName v = (length v = 88)"
  "main_fits masterPrivKeyName v = (length v = 88)"
  "k \<notin> {mgrVersionName, watchingOnlyName, cryptoSchemeName, masterPubKeyName, masterPrivKeyName} \<Longrightarrow> main_fits k v"
  by (auto simp: main_fits_def)

lemma sync_fits_simps:
  "sync_fits syncedToName v = (length v = 40)" "sync_fits startBlockName v = (length v = 36)"
  "sync_fits birthdayName v = (length v = 8)" "sync_fits birthdayBlockName v = (length v = 44)"
  "sync_fits birthdayBlockVerifiedName v = (length v = 2)" "sync_fits (height_key h) v = (length v = 32)"
  by (auto simp: sync_fits_def)

lemma required_heights: "height_key h \<notin> required_sync"
  by (simp add: required_sync_def)

lemma PutSyncedTo_grows:
  assumes "PutSyncedTo bs ns = Inr ns'"
  shows "grows ns ns'" and "has_sync ns' syncedToName"
proof -
  obtain n1 n2 where n: "addBlockHash (bs_Height bs) (bs_Hash bs) ns = Inr n1"
    "(if 0 < sint (staleHeight (bs_Height bs)) then deleteBlockHash (staleHeight (bs_Height bs)) n1
      else Inr n1) = Inr n2" "updateSyncedTo bs n2 = Inr ns'"
    using assms by (auto simp: PutSyncedTo_def rbind_Inr_iff)
  have g: "grows ns n1" "grows n1 n2"
    using n(1,2) sync_put_grows(1) sync_delete_grows [OF _ required_heights]
    by (auto simp: addBlockHash_def deleteBlockHash_def sync_fits_simps split: if_splits)
  have u: "grows n2 ns' \<and> has_sync ns' syncedToName"
    using sync_put_grows [OF n(3) [unfolded updateSyncedTo_def]] by (simp add: sync_fits_simps)
  show "grows ns ns'" "has_sync ns' syncedToName" using g u grows_trans by blast+
qed

lemma main_put_free:
  "main_put_some k v ns = Inr ns' \<Longrightarrow> k \<notin> {mgrVersionName, watchingOnlyName, cryptoSchemeName, masterPubKeyName,
     masterPrivKeyName} \<Longrightarrow> grows ns ns'"
  by (rule main_put_some_grows) (auto intro: main_fits_simps(6))

lemma putMasterKeyParams_grows:
  assumes "putMasterKeyParams pub prv ns = Inr ns'"
    and "\<And>b. pub = Some b \<Longrightarrow> length b = 88" and "\<And>b. prv = Some b \<Longrightarrow> length b = 88"
  shows "grows ns ns'"
proof -
  obtain n where n: "main_put_some masterPrivKeyName prv ns = Inr n" "main_put_some masterPubKeyName pub n = Inr ns'"
    using assms(1) by (auto simp: putMasterKeyParams_def rbind_Inr_iff)
  have "grows ns n" "grows n ns'"
    using assms(2,3) by (auto intro: main_put_some_grows [OF n(1)] main_put_some_grows [OF n(2)] simp: main_fits_simps)
  then show ?thesis by (rule grows_trans)
qed

lemma putCryptoKeys_grows:
  assumes "putCryptoKeys pub prv script seed ns = Inr ns'"
  shows "grows ns ns'"
proof -
  obtain n1 n2 n3 where n: "main_put_some cryptoPubKeyName pub ns = Inr n1"
    "main_put_some cryptoPrivKeyName prv n1 = Inr n2" "main_put_some cryptoScriptKeyName script n2 = Inr n3"
    "main_put_some cryptoSeedKeyName seed n3 = Inr ns'"
    using assms by (auto simp: putCryptoKeys_def rbind_Inr_iff)
  from n [THEN main_put_free] show ?thesis by (auto intro: grows_trans [OF grows_trans [OF grows_trans]])
qed

lemma deletePrivateKeys_grows:
  assumes "deletePrivateKeys ns = Inr ns'"
  shows "grows ns ns'"
proof -
  obtain n1 n2 n3 where n: "main_set masterPrivKeyName None ns = Inr n1"
    "main_set cryptoPrivKeyName None n1 = Inr n2" "main_set cryptoSeedKeyName None n2 = Inr n3"
    "main_set cryptoScriptKeyName None n3 = Inr ns'"
    using assms by (auto simp: deletePrivateKeys_def rbind_Inr_iff)
  from n [THEN main_unset_grows] show ?thesis
    by (auto simp: required_main_def intro: grows_trans [OF grows_trans [OF grows_trans]])
qed

lemma addr_put_some_grows: "addr_put_some msg b k v ns = Inr ns' \<Longrightarrow> grows ns ns'"
  by (auto simp: addr_put_some_def split: option.splits intro: addr_put_grows)

lemma putAddressKeysEnc_grows: "putAddressKeysEnc k keys r ns = Inr ns' \<Longrightarrow> grows ns ns'"
  by (auto simp: putAddressKeysEnc_def rbind_Inr_iff split: if_splits dest!: addr_put_grows addr_put_some_grows)
    (meson grows_trans)+

lemma GenerateAddressKeys_grows:
  "GenerateAddressKeys N G RN level m ns = Inr (x, ns') \<Longrightarrow> grows ns ns'"
  by (auto simp: GenerateAddressKeys_def encryptAndPutAddressKeys_def rbind_Inr_iff putAddressKeysEnc_grows
      split: if_splits)

lemma change_private_grows:
  assumes "change_private N rnd RN old nk new m ns = Inr (m', ns')"
  shows "grows ns ns'"
proof -
  obtain a b c n where n: "putCryptoKeys None (Some a) (Some b) (Some c) ns = Inr n"
    "putMasterKeyParams None (Some (SecretKey_Marshal nk)) n = Inr ns'"
    using assms unfolding change_private_def rbind_Inr_iff sum.inject prod.inject by blast
  show ?thesis
    by (rule grows_trans [OF putCryptoKeys_grows [OF n(1)] putMasterKeyParams_grows [OF n(2)]]) auto
qed

lemma change_public_grows:
  assumes "change_public N rnd nk m ns = Inr (m', ns')"
  shows "grows ns ns'"
proof -
  obtain a n where n: "putCryptoKeys (Some a) None None None ns = Inr n"
    "putMasterKeyParams (Some (SecretKey_Marshal nk)) None n = Inr ns'"
    using assms unfolding change_public_def rbind_Inr_iff sum.inject prod.inject by blast
  show ?thesis
    by (rule grows_trans [OF putCryptoKeys_grows [OF n(1)] putMasterKeyParams_grows [OF n(2)]]) auto
qed

lemma Change_grows:
  assumes "ChangePassphrase N RK RN old new prv so m ns = Inr (m', ns')"
  shows "grows ns ns'"
proof -
  obtain sk nk where "(if prv then change_private N (RK 1) RN sk nk new m ns
      else change_public N (RN 0) nk m ns) = Inr (m', ns')"
    using assms(1) unfolding ChangePassphrase_def guard_Inr_iff rbind_Inr_iff by blast
  then show ?thesis by (auto split: if_splits dest: change_private_grows change_public_grows)
qed

lemma Watch_grows: "ConvertToWatchingOnly m ns = Inr (m', ns') \<Longrightarrow> grows ns ns'"
  by (auto simp: ConvertToWatchingOnly_def rbind_Inr_iff putWatchingOnly_def main_fits_simps split: if_splits
      intro: grows_trans [OF deletePrivateKeys_grows main_set_grows])

lemma SetSyncedTo_grows: "SetSyncedTo bs m ns = Inr (m', ns') \<Longrightarrow> grows ns ns'"
  by (auto simp: SetSyncedTo_def Let_def rbind_Inr_iff intro: PutSyncedTo_grows)

lemma putBirthday_grows: "putBirthday b ns = Inr ns' \<Longrightarrow> grows ns ns' \<and> has_sync ns' birthdayName"
  unfolding putBirthday_def using sync_put_grows by (simp add: sync_fits_simps)

lemma putStartBlock_grows: "putStartBlock b ns = Inr ns' \<Longrightarrow> grows ns ns' \<and> has_sync ns' startBlockName"
  unfolding putStartBlock_def using sync_put_grows by (simp add: sync_fits_simps)

lemma SetBirthdayBlock_grows:
  assumes "SetBirthdayBlock b v ns = Inr ns'"
  shows "grows ns ns'"
proof -
  obtain n where n: "PutBirthdayBlock b ns = Inr n" "putBirthdayBlockVerification v n = Inr ns'"
    using assms by (auto simp: SetBirthdayBlock_def rbind_Inr_iff)
  have "grows ns n" "grows n ns'"
    using sync_put_grows(1) [OF n(1) [unfolded PutBirthdayBlock_def]]
      sync_put_grows(1) [OF n(2) [unfolded putBirthdayBlockVerification_def]]
    by (simp_all add: sync_fits_simps)
  then show ?thesis by (rule grows_trans)
qed

section \<open>Namespaces of a manager\<close>

text \<open>A namespace that was created and then changed by operations of a manager, in any order.\<close>

inductive addr_step :: "nacl \<Rightarrow> keygen \<Rightarrow> mgr_ns \<Rightarrow> mgr_ns \<Rightarrow> bool" for N and G where
  "SetSyncedTo bs m ns = Inr (m', ns') \<Longrightarrow> addr_step N G ns ns'"
| "SetBirthday b m ns = Inr (m', ns') \<Longrightarrow> addr_step N G ns ns'"
| "SetBirthdayBlock bs v ns = Inr ns' \<Longrightarrow> addr_step N G ns ns'"
| "DeleteBirthdayBlock ns = Inr ns' \<Longrightarrow> addr_step N G ns ns'"
| "ChangePassphrase N RK RN old new prv so m ns = Inr (m', ns') \<Longrightarrow> addr_step N G ns ns'"
| "ConvertToWatchingOnly m ns = Inr (m', ns') \<Longrightarrow> addr_step N G ns ns'"
| "GenerateAddressKeys N G RN level m ns = Inr (x, ns') \<Longrightarrow> addr_step N G ns ns'"

inductive addr_reachable :: "nacl \<Rightarrow> keygen \<Rightarrow> mgr_ns \<Rightarrow> bool" for N and G where
  addr_created: "Mgr_Create N G C RK RN now scheme seed fromCLI version pubPass privPass config birthday ns = Inr ns' \<Longrightarrow>
    addr_reachable N G ns'"
| addr_stepped: "addr_reachable N G ns \<Longrightarrow> addr_step N G ns ns' \<Longrightarrow> addr_reachable N G ns'"

lemma addr_step_grows:
  assumes "addr_step N G ns ns'"
  shows "grows ns ns'"
  using assms
proof (cases rule: addr_step.cases)
  case (2 b m m')
  then show ?thesis by (auto simp: SetBirthday_def rbind_Inr_iff dest: putBirthday_grows)
next
  case 4
  then show ?thesis
    unfolding DeleteBirthdayBlock_def by (rule sync_delete_grows) (simp add: required_sync_def)
qed (rule SetSyncedTo_grows SetBirthdayBlock_grows Change_grows Watch_grows GenerateAddressKeys_grows; assumption)+

section \<open>Created\<close>

lemma createManagerNS_fits:
  assumes "createManagerNS now ns = Inr ns'"
  shows "fitting ns' \<and> managerExists ns' \<and> (\<forall>b. mn_addr ns' b \<noteq> None) \<and> mn_sync ns' \<noteq> None \<and>
    has_main ns' mgrVersionName"
proof -
  let ?m = "empty_map(mgrVersionName := Some (uint32ToBytes latestMgrVersion),
    mgrCreateDateName := Some (le_bytes 8 (unix now)))"
  have n: "mn_main ns' = Some ?m" "mn_addr ns' = empty_buckets" "mn_sync ns' = Some []"
    using assms by (auto simp: createManagerNS_def Let_def rbind_Inr_iff putManagerVersion_def main_set_def
        main_bucket_def split: if_splits option.splits)
  have "main_at ns' = ?m" by (rule main_at_Some [OF n(1)])
  moreover have "sync_get k ns' = Inr None" for k by (simp add: sync_get_def sync_bucket_def n kv_get_def)
  ultimately show ?thesis
    using n by (auto simp: fitting_def managerExists_def has_main_def main_fits_def uint32ToBytes_def)
qed

lemma putSeed_grows:
  "putSeedEnc e ns = Inr ns' \<Longrightarrow> grows ns ns'" "putSNKeyRootSeedEnc e ns = Inr ns' \<Longrightarrow> grows ns ns'"
  "putValueRootSeedEnc e ns = Inr ns' \<Longrightarrow> grows ns ns'" "putDetectorRootKeyEnc e ns = Inr ns' \<Longrightarrow> grows ns ns'"
  "putValueRootSeedAutEnc e ns = Inr ns' \<Longrightarrow> grows ns ns'" "putNetID b ns = Inr ns' \<Longrightarrow> grows ns ns'"
  by (auto simp: putSeedEnc_def putSNKeyRootSeedEnc_def putValueRootSeedEnc_def putDetectorRootKeyEnc_def
      putValueRootSeedAutEnc_def putNetID_def intro: main_put_free main_set_grows [OF _ main_fits_simps(6)])

lemma store_seeds_grows: "store_seeds N RN ks cp seeds ns = Inr ns' \<Longrightarrow> grows ns ns'"
  by (auto simp: store_seeds_def rbind_Inr_iff dest!: putSeed_grows) (meson grows_trans)

lemma create_private_grows:
  assumes "create_private N G C RK RN masterSeed fromCLI version pass so cp ns = Inr (pp, ns')"
  shows "grows ns ns' \<and> (\<forall>b. pp_params pp = Some b \<longrightarrow> length b = 88)"
proof -
  obtain ks seeds n master privEnc scriptEnc seedEnc where n: "store_seeds N RN ks cp seeds ns = Inr n"
    "putNetID [cp_PQRingCTID C] n = Inr ns'"
    "pp = \<lparr>pp_params = Some (SecretKey_Marshal master), pp_priv = Some privEnc, pp_script = Some scriptEnc,
      pp_seed = Some seedEnc\<rparr>"
    using assms unfolding create_private_def rbind_Inr_iff sum.inject prod.inject by blast
  show ?thesis using grows_trans [OF store_seeds_grows [OF n(1)] putSeed_grows(6) [OF n(2)]] n(3) by simp
qed

lemma has_main_only: "main_only ns f ns' \<Longrightarrow> has_main ns' k = (f k \<noteq> None)"
  by (simp add: main_only_def has_main_def)

lemma Create_typed:
  assumes "Mgr_Create N G C RK RN now scheme seed fromCLI version pubPass privPass config birthday ns = Inr ns'"
  shows "typed ns'"
proof -
  obtain n0 cp pp pub cpub n1 n2 n3 n4 n5 n6 n7 so where c:
    "createManagerNS now ns = Inr n0"
    "(case seed of None \<Rightarrow> Inr (\<lparr>pp_params = None, pp_priv = None, pp_script = None, pp_seed = None\<rparr>, n0)
      | Some seed \<Rightarrow> create_private N G C RK RN seed fromCLI version privPass so cp n0) = Inr (pp, n1)"
    "putMasterKeyParams (Some (SecretKey_Marshal pub)) (pp_params pp) n1 = Inr n2"
    "putCryptoKeys (Some cpub) (pp_priv pp) (pp_script pp) (pp_seed pp) n2 = Inr n3"
    "putWatchingOnly (seed = None) n3 = Inr n4" "putCryptoScheme scheme n4 = Inr n5"
    "PutSyncedTo (createdAt C) n5 = Inr n6" "putStartBlock (createdAt C) n6 = Inr n7"
    "putBirthday (GoTime (unix birthday - 172800) (nsec birthday)) n7 = Inr ns'"
    using assms unfolding Mgr_Create_def guard_Inr_iff Let_def
    by (auto simp: rbind_Inr_iff split_paired_all split: if_splits)
  have pp: "grows n0 n1" "\<forall>b. pp_params pp = Some b \<longrightarrow> length b = 88"
    using c(2) by (auto split: option.splits dest: create_private_grows)
  have g: "grows n1 n2" "grows n2 n3" "grows n3 n4" "grows n4 n5" "grows n5 n6" "grows n6 n7" "grows n7 ns'"
  proof -
    show "grows n1 n2" by (rule putMasterKeyParams_grows [OF c(3)]) (use pp in auto)
    show "grows n2 n3" by (rule putCryptoKeys_grows [OF c(4)])
    show "grows n3 n4" "grows n4 n5"
      using c(5,6) by (auto simp: putWatchingOnly_def putCryptoScheme_def main_fits_simps intro: main_set_grows)
    show "grows n5 n6" by (rule PutSyncedTo_grows [OF c(7)])
    show "grows n6 n7" "grows n7 ns'" using putStartBlock_grows [OF c(8)] putBirthday_grows [OF c(9)] by simp_all
  qed
  have h: "has_main n0 mgrVersionName" "has_main n2 masterPubKeyName" "has_main n3 cryptoPubKeyName"
    "has_main n4 watchingOnlyName" "has_main n5 cryptoSchemeName" "has_sync n6 syncedToName"
    "has_sync n7 startBlockName" "has_sync ns' birthdayName"
    using createManagerNS_fits [OF c(1)] has_main_only [OF putMasterKeyParams_only [OF c(3)]]
      has_main_only [OF putCryptoKeys_only [OF c(4)]]
      has_main_only [OF main_set_only [OF c(5) [unfolded putWatchingOnly_def]]]
      has_main_only [OF main_set_only [OF c(6) [unfolded putCryptoScheme_def]]]
      PutSyncedTo_grows(2) [OF c(7)] putStartBlock_grows [OF c(8)] putBirthday_grows [OF c(9)]
    by simp_all
  have t: "grows n2 ns'" "grows n3 ns'" "grows n4 ns'" "grows n5 ns'" "grows n6 ns'" "grows n0 ns'"
    using pp(1) g by (meson grows_trans)+
  have m: "has_main ns' k" if "grows n ns'" "has_main n k" "k \<in> required_main" for n k
    using that by (simp add: grows_def)
  have s: "has_sync ns' k" if "grows n ns'" "has_sync n k" "k \<in> required_sync" for n k
    using that by (simp add: grows_def)
  have "\<forall>k \<in> required_main. has_main ns' k" "\<forall>k \<in> required_sync. has_sync ns' k"
    using m [OF t(6) h(1)] m [OF t(1) h(2)] m [OF t(2) h(3)] m [OF t(3) h(4)] m [OF t(4) h(5)]
      s [OF t(5) h(6)] s [OF g(7) h(7)] h(8)
    unfolding required_main_def required_sync_def by simp_all
  then show ?thesis
    using createManagerNS_fits [OF c(1)] t(6) unfolding typed_def grows_def by blast
qed

lemma addr_reachable_typed: "addr_reachable N G ns \<Longrightarrow> typed ns"
  by (induction rule: addr_reachable.induct) (auto intro: Create_typed typed_grows addr_step_grows)

section \<open>Reads\<close>

definition reads_well :: "mgr_ns \<Rightarrow> bool" where
  "reads_well ns \<longleftrightarrow>
     (\<exists>v. fetchManagerVersion ns = Inr v) \<and> (\<exists>p. fetchMasterKeyParams ns = Inr p) \<and>
     (\<exists>k. fetchCryptoKeys ns = Inr k) \<and> (\<exists>b. fetchWatchingOnly ns = Inr b) \<and>
     (\<exists>s. fetchCryptoScheme ns = Inr s) \<and> (\<exists>bs. fetchSyncedTo ns = Inr bs) \<and>
     (\<exists>bs. FetchStartBlock ns = Inr bs) \<and> (\<exists>t. fetchBirthday ns = Inr t) \<and>
     (\<exists>b. fetchBirthdayBlockVerification ns = Inr b) \<and>
     (\<forall>e. FetchBirthdayBlock ns = Inl e \<longrightarrow> e = ManagerError ErrBirthdayBlockNotSet ''birthday block not set'') \<and>
     (\<forall>h e. fetchBlockHash ns h = Inl e \<longrightarrow> e = ManagerError ErrBlockNotFound ''failed to fetch block hash'') \<and>
     (\<forall>addr. \<exists>k r. fetchAddressKeyEncByAddrKey ns addr = Inr (k, r))"

lemma typed_reads:
  assumes "typed ns"
  shows "reads_well ns"
proof -
  have ex: "managerExists ns" using assms by (simp add: typed_def)
  note get = main_get_at [OF ex]
  obtain v w c p cp where m: "main_at ns mgrVersionName = Some v" "length v = 4"
    "main_at ns watchingOnlyName = Some w" "length w = 1" "main_at ns cryptoSchemeName = Some c" "length c = 1"
    "main_at ns masterPubKeyName = Some p" "main_at ns cryptoPubKeyName = Some cp"
  proof -
    have "main_at ns k = Some v \<Longrightarrow> main_fits k v" for k v using assms by (simp add: typed_def fitting_def)
    note fits = this [of mgrVersionName] this [of watchingOnlyName] this [of cryptoSchemeName]
    have "has_main ns mgrVersionName" "has_main ns watchingOnlyName" "has_main ns cryptoSchemeName"
      "has_main ns masterPubKeyName" "has_main ns cryptoPubKeyName"
      using assms by (simp_all add: typed_def required_main_def)
    then show ?thesis using that fits unfolding has_main_def main_fits_simps by blast
  qed
  obtain s b d where y: "sync_get syncedToName ns = Inr (Some s)" "length s = 40"
    "sync_get startBlockName ns = Inr (Some b)" "length b = 36"
    "sync_get birthdayName ns = Inr (Some d)" "length d = 8"
  proof -
    have "sync_get k ns = Inr (Some v) \<Longrightarrow> sync_fits k v" for k v using assms by (simp add: typed_def fitting_def)
    note fits = this [of syncedToName] this [of startBlockName] this [of birthdayName]
    have "has_sync ns syncedToName" "has_sync ns startBlockName" "has_sync ns birthdayName"
      using assms by (simp_all add: typed_def required_sync_def)
    then show ?thesis using that fits unfolding has_sync_def sync_fits_simps by blast
  qed
  obtain sm where sm: "mn_sync ns = Some sm" using assms by (auto simp: typed_def)
  then have sg: "sync_get k ns = Inr (kv_get sm k)" for k by (simp add: sync_get_def sync_bucket_def)
  have fit: "kv_get sm k = Some v \<Longrightarrow> sync_fits k v" for k v
    using assms by (simp add: typed_def fitting_def sg)
  have wl: "w = [hd w]" "c = [hd c]" using m(4,6) by (cases w; cases c; simp)+
  have ad: "addr_get q k ns = Inr (kv_get (the (mn_addr ns q)) k)" for q k
    using assms ex by (auto simp: addr_get_def addr_bucket_def main_bucket_def typed_def managerExists_def
        split: option.splits)
  show ?thesis
    unfolding reads_well_def
  proof (intro conjI allI impI)
    show "\<exists>b. fetchWatchingOnly ns = Inr b" "\<exists>s. fetchCryptoScheme ns = Inr s"
      using m wl by (auto simp: fetchWatchingOnly_def fetchCryptoScheme_def fetch_flag_def get rbind_def
          split: list.splits option.splits)
    show "e = ManagerError ErrBlockNotFound ''failed to fetch block hash''" if "fetchBlockHash ns h = Inl e" for h e
      using that fit [of "height_key h"]
      by (auto simp: fetchBlockHash_def sg sync_fits_simps split: option.splits if_splits)
    show "e = ManagerError ErrBirthdayBlockNotSet ''birthday block not set''" if "FetchBirthdayBlock ns = Inl e" for e
      using that fit [of birthdayBlockName]
      by (auto simp: FetchBirthdayBlock_def sg sync_fits_simps split: option.splits if_splits)
    show "\<exists>b. fetchBirthdayBlockVerification ns = Inr b"
      using fit [of birthdayBlockVerifiedName]
      by (auto simp: fetchBirthdayBlockVerification_def sg sync_fits_simps split: option.splits)
    show "\<exists>k r. fetchAddressKeyEncByAddrKey ns addr = Inr (k, r)" for addr
      by (simp add: fetchAddressKeyEncByAddrKey_def fetch_keys_def ad)
  qed (use m y in \<open>auto simp: fetchManagerVersion_def fetchMasterKeyParams_def fetchCryptoKeys_def get
      fetchSyncedTo_def FetchStartBlock_def fetchBirthday_def\<close>)
qed

end
