(* ===== verification/WalletRun.thy ===== *)
theory WalletRun
  imports ChainLive MgrTyped Fixtures
begin

text \<open>
  A wallet to try the properties on: primitives and key generation that compute, a database made
  with them, and a chain server.
\<close>

section \<open>The parameters\<close>

definition ex_scrypt :: "bytes \<Rightarrow> key \<Rightarrow> u64 \<Rightarrow> u64 \<Rightarrow> u64 \<Rightarrow> key result" where
  "ex_scrypt pass salt n r p = Inr (be_word pass + salt)"

definition ex_seal :: "bytes \<Rightarrow> nonce \<Rightarrow> key \<Rightarrow> bytes" where
  "ex_seal m n k = be_bytes 16 k @ m"

definition ex_unseal :: "bytes \<Rightarrow> nonce \<Rightarrow> key \<Rightarrow> bytes option" where
  "ex_unseal c n k = (if take 16 c = be_bytes 16 k then Some (drop 16 c) else None)"

definition ex_sum256 :: "key \<Rightarrow> key" where "ex_sum256 k = k + 1"

definition exN :: nacl where
  "exN = \<lparr>scrypt_Key = ex_scrypt, Sum256 = ex_sum256, Sum512 = be_word, box_Seal = ex_seal, box_Open = ex_unseal\<rparr>"

lemma exN_sound: "sound_box exN"
  by (simp add: sound_box_def exN_def ex_seal_def ex_unseal_def)

definition ex_seeds :: "bytes \<Rightarrow> bytes list result" where
  "ex_seeds s = Inr [s @ [1], s @ [2], s @ [3], s @ [4], s @ [5]]"

definition ex_keygen ::
  "u8 \<Rightarrow> u8 \<Rightarrow> bytes \<Rightarrow> bytes \<Rightarrow> bytes \<Rightarrow> bytes \<Rightarrow> (bytes \<times> bytes \<times> bytes \<times> bytes \<times> bytes) result" where
  "ex_keygen scheme level a b c d = Inr ([7], a, b, c, d)"

definition ex_shake :: "nat \<Rightarrow> bytes \<Rightarrow> bytes" where "ex_shake n b = take n b"
definition ex_kmac :: "bytes \<Rightarrow> bytes \<Rightarrow> bytes" where "ex_kmac k b = b"
definition ex_id :: "bytes \<Rightarrow> bytes" where "ex_id b = b"

definition exG :: keygen where
  "exG = \<lparr>kg_PQRingCTX = 1, kg_RINGCT = 0, kg_PSEUDONYM = 1, kg_PSEUDONYMCT = 2, kg_PRFKeyBytesLen = 64,
     kg_KeyGen = ex_keygen, kg_PublicRand = Inr, kg_CoinAddress = Inr, kg_DoubleHashB = ex_id,
     kg_Shake256 = ex_shake, kg_Kmac = ex_kmac, kg_MasterSeedToAccountRootSeeds = ex_seeds,
     kg_Sha3_512 = ex_id\<rparr>"

definition exC :: chain_params where
  "exC = \<lparr>cp_PQRingCTID = 1, cp_GenesisHash = 500, cp_GenesisTime = GoTime 1000 0\<rparr>"

definition exRK :: "nat \<Rightarrow> key result" where "exRK i = Inr (of_nat i + 1)"
definition exRN :: "nat \<Rightarrow> nonce result" where "exRN i = Inr (of_nat i)"

definition ex_pub :: bytes where "ex_pub = [10]"
definition ex_priv :: bytes where "ex_priv = [20]"
definition ex_new :: bytes where "ex_new = [30]"
definition ex_seed :: bytes where "ex_seed = [40, 41]"

definition ex_db :: "wallet_db result" where
  "ex_db = Wallet_Create exN exG exC exRK exRN (Inl out_of_range) (GoTime 5 0) 1 ex_pub ex_priv
     (Some ex_seed) False [] (GoTime 172800 0) False"

definition ex_check :: "mgr_ns \<Rightarrow> bool" where
  "ex_check ans \<longleftrightarrow> fetchBlockHash ans 1 = no_hash"

lemma ex_db_ok: "case ex_db of Inl e \<Rightarrow> False | Inr (ans, tx) \<Rightarrow> ex_check ans"
  by code_simp

definition ex_root :: root_seeds where
  "ex_root = \<lparr>rs_coinSpend = [40, 41, 1], rs_snKey = [40, 41, 2], rs_coinValue = [40, 41, 4],
     rs_detectorRootKey = [40, 41, 3], rs_coinValueAut = [40, 41, 5]\<rparr>"

lemma ex_root_seeds: "generateAccountRootSeedsForPQRingCTX exG ex_seed False [] = Inr ex_root"
  by code_simp

section \<open>The wallet, created and opened\<close>

lemma ex_created:
  obtains ans tx where "ex_db = Inr (ans, tx)" "fetchBlockHash ans 1 = no_hash"
    "Mgr_Create exN exG exC exRK exRN (GoTime 5 0) 1 (Some ex_seed) False [] ex_pub ex_priv None (GoTime 172800 0)
      empty_addr = Inr ans" "createStore (GoTime 5 0) empty_tx = Inr tx"
proof -
  obtain ans tx where d: "ex_db = Inr (ans, tx)" "ex_check ans"
    using ex_db_ok by (auto split: sum.splits)
  show thesis
    using that [OF d(1)] d Wallet_Create_ok [OF d(1) [unfolded ex_db_def]] by (auto simp: ex_check_def)
qed

lemma ex_wallet:
  obtains ans tx m K where "ex_db = Inr (ans, tx)" "disk exN ex_pub ex_priv K ex_root ans"
    "Wallet_Open exN (Inr 77) ex_pub (ans, tx) = Inr \<lparr>wl_mgr = m, wl_addr = ans, wl_tx = tx\<rparr>"
    "Mgr_Open exN (Inr 77) ans ex_pub = Inr m" "vault exN ex_priv K m ans" "mg_locked m"
    "agrees ans (follow_genesis exC word_of_int)" "sint (bs_Height (SyncedTo m)) = 0"
    "fetchBlockHash ans 1 = no_hash"
proof -
  obtain ans tx where c: "ex_db = Inr (ans, tx)" "fetchBlockHash ans 1 = no_hash"
    "Mgr_Create exN exG exC exRK exRN (GoTime 5 0) 1 (Some ex_seed) False [] ex_pub ex_priv None (GoTime 172800 0)
      empty_addr = Inr ans" "createStore (GoTime 5 0) empty_tx = Inr tx"
    by (rule ex_created)
  obtain K where K: "disk exN ex_pub ex_priv K ex_root ans"
    using Create_disk [OF c(3) exN_sound] ex_root_seeds by auto
  have "openStore tx = Inr ()" using createStore_sound [OF c(4)] by (simp add: sound_store_def)
  from Open_wallet [OF K this, of 77] obtain m where m:
    "Wallet_Open exN (Inr 77) ex_pub (ans, tx) = Inr \<lparr>wl_mgr = m, wl_addr = ans, wl_tx = tx\<rparr>"
    "Mgr_Open exN (Inr 77) ans ex_pub = Inr m" "vault exN ex_priv K m ans" "mg_locked m" by auto
  have g: "agrees ans (follow_genesis exC word_of_int)" by (rule Create_agrees [OF c(3)])
  have "sint (bs_Height (SyncedTo m)) = 0"
    using Open_agrees [OF m(2) g] by (simp add: follow_genesis_def)
  then show thesis using that [OF c(1) K m g] c(2) by simp
qed

section \<open>A chain server\<close>

definition ex_hash_at :: "int \<Rightarrow> hash result" where
  "ex_hash_at h = (if h < 0 \<or> 2 < h then Inl (GoError ''block number out of range'') else Inr (500 + word_of_int h))"

definition ex_header :: "hash \<Rightarrow> gotime result" where
  "ex_header x = Inr (GoTime (ucast (1000 + 10000 * (x - 500))) 0)"

text \<open>The server has no block to give, only headers.\<close>

definition exS :: chain where
  "exS = \<lparr>ch_best = Inr 2, ch_hash = ex_hash_at, ch_header = ex_header,
     ch_block = ex_const (Inl (GoError ''no block'')), ch_ready = Inr (), ch_notify = Inr ()\<rparr>"

text \<open>A wallet that scans blocks from height 100 on, and one that scans all.\<close>

definition exW100 :: wallet_env where
  "exW100 = \<lparr>we_abec = exA, we_blk = exB, we_crypto = exK, we_nacl = exN, we_keygen = exG, we_RingCT = 0,
     we_HeightMLPAUT = 0, we_SyncFrom = 100\<rparr>"

definition exW0 :: wallet_env where "exW0 = exW100\<lparr>we_SyncFrom := 0\<rparr>"

lemma ex_headers: "headers_only exW100 exS 0 2"
  by (simp add: headers_only_def exS_def ex_hash_at_def ex_header_def exW100_def)

definition ex_stamp :: BlockStamp where
  "ex_stamp = \<lparr>bs_Height = 0, bs_Hash = 500, bs_Timestamp = GoTime 1000 0\<rparr>"

lemma ex_synced:
  obtains ans tx m w' where "ex_db = Inr (ans, tx)" "agrees ans (follow_genesis exC word_of_int)"
    "sint (bs_Height (SyncedTo m)) = 0"
    "syncWithChain exW100 now exS (Some ex_stamp) \<lparr>wl_mgr = m, wl_addr = ans, wl_tx = tx\<rparr> = Some (w', Inr ())"
    "sint (bs_Height (SyncedTo (wl_mgr w'))) = 2"
proof -
  obtain ans tx m K where w: "ex_db = Inr (ans, tx)" "agrees ans (follow_genesis exC word_of_int)"
    "sint (bs_Height (SyncedTo m)) = 0"
    by (rule ex_wallet)
  let ?w = "\<lparr>wl_mgr = m, wl_addr = ans, wl_tx = tx\<rparr>"
  have "\<exists>w'. syncWithChain exW100 now exS (Some ex_stamp) ?w = Some (w', Inr ()) \<and>
      sint (bs_Height (SyncedTo (wl_mgr w'))) = max (fo_tip (follow_genesis exC word_of_int)) (sint (2 :: i32))"
    by (rule syncWithChain_reaches)
      (use w(2,3) ex_headers in \<open>simp_all add: exS_def follow_genesis_def exC_def ex_hash_at_def ex_header_def\<close>)
  then show thesis using that [OF w] by (auto simp: follow_genesis_def)
qed

end
