(* ===== verification/AddrKeys.thy ===== *)
theory AddrKeys
  imports VaultOps
begin

text \<open>
  The keys of addresses: those generated are found by their address and decrypt to what was
  generated; they are not found by their public randomness.
\<close>

lemma addr_get_put:
  "addr_put msg b k v ns = Inr ns' \<Longrightarrow>
   addr_get b' k' ns' = (if b' = b \<and> k' = k then Inr (Some v) else addr_get b' k' ns)"
  by (auto simp: addr_put_def addr_get_def addr_bucket_def main_bucket_def rbind_Inr_iff kv_get_put
      split: if_splits option.splits)

lemma addr_put_keeps: "addr_put msg b k v ns = Inr ns' \<Longrightarrow> mn_addr ns c \<noteq> None \<Longrightarrow> mn_addr ns' c \<noteq> None"
  by (auto simp: addr_put_def rbind_Inr_iff split: if_splits)

definition full_keys :: "addr_keys \<Rightarrow> bool" where
  "full_keys keys \<longleftrightarrow> ak_address keys \<noteq> None \<and> ak_spend keys \<noteq> None \<and> ak_serial keys \<noteq> None \<and>
     ak_value keys \<noteq> None \<and> ak_detector keys \<noteq> None"

lemma putAddressKeysEnc_finds:
  assumes "putAddressKeysEnc addrKey keys r ns = Inr ns'" and "full_keys keys"
    and "mn_addr ns detectorBucketName \<noteq> None"
  shows "fetchAddressKeyEncByAddrKey ns' addrKey = Inr (keys, Some r)"
    and "k \<noteq> addrKey \<Longrightarrow> addr_get idxAddrBucketName k ns' = addr_get idxAddrBucketName k ns"
proof -
  obtain a sp sn v d where k: "keys = \<lparr>ak_address = Some a, ak_spend = Some sp, ak_serial = Some sn,
      ak_value = Some v, ak_detector = Some d\<rparr>"
    using assms(2) by (cases keys) (auto simp: full_keys_def)
  obtain m1 m2 m3 m4 m5 m6 m7 n1 n2 n3 n4 n5 n6 where n:
    "addr_put m1 addrIdxBucketName r addrKey ns = Inr n1"
    "addr_put m2 idxAddrBucketName addrKey r n1 = Inr n2" "addr_put m3 addrBucketName addrKey a n2 = Inr n3"
    "addr_put m4 askspBucketName addrKey sp n3 = Inr n4" "addr_put m5 asksnBucketName addrKey sn n4 = Inr n5"
    "addr_put m6 vskBucketName addrKey v n5 = Inr n6"
    "(if mn_addr n6 detectorBucketName = None then Inr n6 else addr_put m7 detectorBucketName addrKey d n6) = Inr ns'"
    using assms(1) unfolding putAddressKeysEnc_def rbind_Inr_iff k addr_put_some_def
    by (simp only: option.case addr_keys.simps) blast
  have "mn_addr n6 detectorBucketName \<noteq> None"
    using assms(3) addr_put_keeps n(1-6) by metis
  then have "addr_put m7 detectorBucketName addrKey d n6 = Inr ns'" using n(7) by (simp only: if_False)
  note g = addr_get_put [OF this] addr_get_put [OF n(6)] addr_get_put [OF n(5)] addr_get_put [OF n(4)]
    addr_get_put [OF n(3)] addr_get_put [OF n(2)] addr_get_put [OF n(1)]
  show "fetchAddressKeyEncByAddrKey ns' addrKey = Inr (keys, Some r)"
    by (simp add: fetchAddressKeyEncByAddrKey_def fetch_keys_def g k)
  show "k \<noteq> addrKey \<Longrightarrow> addr_get idxAddrBucketName k ns' = addr_get idxAddrBucketName k ns"
    by (simp add: g)
qed

text \<open>The bucket that is asked for the public randomness is keyed by address key.\<close>

lemma not_found_by_rand:
  assumes "putAddressKeysEnc addrKey keys r ns = Inr ns'" and "full_keys keys"
    and "mn_addr ns detectorBucketName \<noteq> None" and "r \<noteq> addrKey" and "addr_get idxAddrBucketName r ns = Inr None"
    and "fetchAddressKeyEncByPublicRand ns' r = Inr (found, k)"
  shows "k = None"
  using assms(4-6) putAddressKeysEnc_finds(2) [OF assms(1-3), of r]
  by (simp add: fetchAddressKeyEncByPublicRand_def rbind_Inr_iff)

section \<open>Generated keys\<close>

lemma Mgr_Decrypt_Encrypt:
  assumes "sound_box N" and "Mgr_Encrypt N rnd t b m = Inr c"
  shows "Mgr_Decrypt N t c m = Inr b"
proof -
  obtain o' where o: "selectCryptoKey t m = Inr o'" using assms(2)
    by (auto simp: Mgr_Encrypt_def with_key_def rbind_Inr_iff)
  then obtain k where k: "selectCryptoKey t m = Inr (Some k)" "key_Encrypt N rnd k b = Inr c"
    using assms(2) by (cases o') (auto simp: Mgr_Encrypt_def with_key_def split: sum.splits)
  then show ?thesis
    using key_Decrypt_Encrypt [OF assms(1) k(2)] by (simp add: Mgr_Decrypt_def with_key_def)
qed

definition as_stored :: "addr_keys \<Rightarrow> addr_keys" where
  "as_stored keys = keys\<lparr>ak_serial := nil_if_empty (ak_serial keys), ak_detector := nil_if_empty (ak_detector keys)\<rparr>"

lemma GenerateAddressKeys_found:
  assumes "GenerateAddressKeys N G RN level m ns = Inr ((address, keys, r), ns')" and "sound_box N"
    and "mn_addr ns detectorBucketName \<noteq> None"
  shows "\<exists>coinAddr enc. kg_CoinAddress G address = Inr coinAddr \<and>
    FetchAddressKeyEnc G ns' coinAddr = Inr (enc, Some r) \<and> DecryptAddressKey N enc m = Inr (as_stored keys)"
proof -
  obtain seeds where g: "generateAddressSKForPQRingCTX G (mg_cryptoScheme m) level seeds = Inr (address, keys, r)"
    "encryptAndPutAddressKeys N G RN address keys r m ns = Inr ns'" "\<not> mg_locked m"
    using assms(1) by (auto simp: GenerateAddressKeys_def rbind_Inr_iff split: if_splits sum.splits)
  obtain sp sn v d where keys: "keys = \<lparr>ak_address = Some address, ak_spend = Some sp, ak_serial = Some sn,
      ak_value = Some v, ak_detector = Some d\<rparr>"
    using g(1) by (auto simp: generateAddressSKForPQRingCTX_def rbind_Inr_iff split: if_splits)
  obtain ca esp esn ead ev ed where e: "kg_CoinAddress G address = Inr ca"
    "Mgr_Encrypt N (RN 0) CKTPrivate sp m = Inr esp" "Mgr_Encrypt N (RN 1) CKTPublic sn m = Inr esn"
    "Mgr_Encrypt N (RN 2) CKTPublic address m = Inr ead" "Mgr_Encrypt N (RN 3) CKTPublic v m = Inr ev"
    "Mgr_Encrypt N (RN 4) CKTPublic d m = Inr ed"
    "putAddressKeysEnc (kg_DoubleHashB G ca) \<lparr>ak_address = Some ead, ak_spend = Some esp, ak_serial = Some esn,
       ak_value = Some ev, ak_detector = Some ed\<rparr> r ns = Inr ns'"
    using g(2) by (auto simp: encryptAndPutAddressKeys_def rbind_Inr_iff keys of_nil_def)
  note dec = e(2-6) [THEN Mgr_Decrypt_Encrypt [OF assms(2)]]
  have "FetchAddressKeyEnc G ns' ca = Inr (\<lparr>ak_address = Some ead, ak_spend = Some esp, ak_serial = Some esn,
      ak_value = Some ev, ak_detector = Some ed\<rparr>, Some r)"
    unfolding FetchAddressKeyEnc_def
    by (rule putAddressKeysEnc_finds(1) [OF e(7) _ assms(3)]) (simp add: full_keys_def)
  then show ?thesis
    using e(1) g(3) by (simp add: DecryptAddressKey_def decrypt_some_def dec as_stored_def keys)
qed

end
