(* ===== verification/WalletKeys.thy ===== *)
theory WalletKeys
  imports WalletRun AddrKeys
begin

text \<open>
  Operations on the wallet of \<open>WalletRun\<close> that need its keys: they succeed there.
\<close>

section \<open>Writes succeed\<close>

lemma main_put_some_succeeds:
  "managerExists ns \<Longrightarrow> \<exists>ns'. main_put_some k v ns = Inr ns' \<and> managerExists ns'"
  by (cases v) (auto simp: main_put_some_def main_set_def main_bucket_def managerExists_def split: option.splits)

lemma putCryptoKeys_succeeds:
  assumes "managerExists ns"
  shows "\<exists>ns'. putCryptoKeys a b c d ns = Inr ns' \<and> managerExists ns'"
proof -
  obtain n1 where 1: "main_put_some cryptoPubKeyName a ns = Inr n1" "managerExists n1"
    using main_put_some_succeeds [OF assms] by blast
  obtain n2 where 2: "main_put_some cryptoPrivKeyName b n1 = Inr n2" "managerExists n2"
    using main_put_some_succeeds [OF 1(2)] by blast
  obtain n3 where 3: "main_put_some cryptoScriptKeyName c n2 = Inr n3" "managerExists n3"
    using main_put_some_succeeds [OF 2(2)] by blast
  show ?thesis using main_put_some_succeeds [OF 3(2)] 1(1) 2(1) 3(1) by (simp add: putCryptoKeys_def)
qed

lemma putMasterKeyParams_succeeds:
  assumes "managerExists ns"
  shows "\<exists>ns'. putMasterKeyParams a b ns = Inr ns'"
proof -
  obtain n1 where 1: "main_put_some masterPrivKeyName b ns = Inr n1" "managerExists n1"
    using main_put_some_succeeds [OF assms] by blast
  show ?thesis
    using main_put_some_succeeds [OF 1(2), of masterPubKeyName a] 1(1) by (auto simp: putMasterKeyParams_def)
qed

definition open_buckets :: "mgr_ns \<Rightarrow> bool" where
  "open_buckets ns \<longleftrightarrow> managerExists ns \<and> (\<forall>b. mn_addr ns b \<noteq> None)"

lemma addr_put_succeeds:
  "open_buckets ns \<Longrightarrow> k \<noteq> [] \<Longrightarrow> \<exists>ns'. addr_put msg b k v ns = Inr ns' \<and> open_buckets ns'"
  by (auto simp: open_buckets_def addr_put_def addr_bucket_def main_bucket_def managerExists_def
      split: option.splits)

lemma addr_put_some_succeeds:
  "open_buckets ns \<Longrightarrow> k \<noteq> [] \<Longrightarrow> \<exists>ns'. addr_put_some msg b k v ns = Inr ns' \<and> open_buckets ns'"
  using addr_put_succeeds by (cases v) (auto simp: addr_put_some_def)

lemma putAddressKeysEnc_succeeds:
  assumes "open_buckets ns" and "addrKey \<noteq> []" and "r \<noteq> []"
  shows "\<exists>ns'. putAddressKeysEnc addrKey keys r ns = Inr ns'"
proof -
  obtain n1 where 1: "addr_put ''failed to store address index'' addrIdxBucketName r addrKey ns = Inr n1"
    "open_buckets n1" using addr_put_succeeds assms by blast
  obtain n2 where 2: "addr_put ''failed to store index address'' idxAddrBucketName addrKey r n1 = Inr n2"
    "open_buckets n2" using addr_put_succeeds assms(2) 1(2) by blast
  note some = addr_put_some_succeeds [OF _ assms(2)]
  obtain n3 where 3: "addr_put_some ''failed to store encrypted master public key'' addrBucketName addrKey
      (ak_address keys) n2 = Inr n3" "open_buckets n3" using some [OF 2(2)] by blast
  obtain n4 where 4: "addr_put_some ''failed to store encrypted master private signing key'' askspBucketName
      addrKey (ak_spend keys) n3 = Inr n4" "open_buckets n4" using some [OF 3(2)] by blast
  obtain n5 where 5: "addr_put_some ''failed to store encrypted master public key'' asksnBucketName addrKey
      (ak_serial keys) n4 = Inr n5" "open_buckets n5" using some [OF 4(2)] by blast
  obtain n6 where 6: "addr_put_some ''failed to store encrypted master private signing key'' vskBucketName
      addrKey (ak_value keys) n5 = Inr n6" "open_buckets n6" using some [OF 5(2)] by blast
  obtain n7 where 7: "addr_put_some ''failed to store encrypted master public key'' detectorBucketName addrKey
      (ak_detector keys) n6 = Inr n7" using some [OF 6(2)] by blast
  show ?thesis
    unfolding putAddressKeysEnc_def using 1(1) 2(1) 3(1) 4(1) 5(1) 6(1) 7 by (cases "mn_addr n6 detectorBucketName") simp_all
qed

lemma addr_get_succeeds: "open_buckets ns \<Longrightarrow> \<exists>v. addr_get b k ns = Inr v"
  by (auto simp: open_buckets_def addr_get_def addr_bucket_def main_bucket_def managerExists_def
      split: option.splits)

lemma fetch_keys_succeeds:
  assumes "open_buckets ns"
  shows "\<exists>keys. fetch_keys k ns = Inr keys"
proof -
  note get = addr_get_succeeds [OF assms, of _ k]
  obtain v1 v2 v3 v4 v5 where "addr_get addrBucketName k ns = Inr v1" "addr_get askspBucketName k ns = Inr v2"
    "addr_get asksnBucketName k ns = Inr v3" "addr_get vskBucketName k ns = Inr v4"
    "addr_get detectorBucketName k ns = Inr v5"
    using get [of addrBucketName] get [of askspBucketName] get [of asksnBucketName] get [of vskBucketName]
      get [of detectorBucketName] by blast
  then show ?thesis by (simp add: fetch_keys_def)
qed

lemma fetch_by_rand_succeeds:
  assumes "open_buckets ns"
  shows "\<exists>keys k. fetchAddressKeyEncByPublicRand ns r = Inr (keys, k)"
proof -
  obtain k where k: "addr_get idxAddrBucketName r ns = Inr k" using addr_get_succeeds [OF assms] by blast
  show ?thesis
    using fetch_keys_succeeds [OF assms, of "case k of None \<Rightarrow> [] | Some k \<Rightarrow> k"] k
    by (auto simp: fetchAddressKeyEncByPublicRand_def)
qed

section \<open>The passphrase changed\<close>

definition ex_so :: ScryptOptions where "ex_so = \<lparr>so_N = 16, so_R = 8, so_P = 1\<rparr>"

lemma ex_new_secret: "\<exists>nk k. new_secret exN (exRK i) pass so msg = Inr nk \<and> sk_Key nk = Some k"
  by (simp add: new_secret_def or_error_def NewSecretKey_def deriveKey_def exN_def ex_scrypt_def exRK_def)

lemma ex_reencrypt:
  assumes "sk_Key old = Some k" and "seals exN k x c" and "sk_Key new = Some k'"
  shows "\<exists>c'. reencrypt exN (exRN i) old new c msg1 msg2 = Inr c'"
  using assms by (simp add: reencrypt_def or_error_def sk_Decrypt_def sk_Encrypt_def seals_def key_Encrypt_def exRN_def)

lemma ex_change:
  assumes "vault exN pass K m ans" and "managerExists ans"
  shows "\<exists>m' ans'. ChangePassphrase exN exRK exRN pass new True so m ans = Inr (m', ans')"
proof -
  obtain sk k where sk: "mg_masterKeyPriv m = Some sk" "sk_Key sk \<noteq> None" "opens exN pass (sk_Parameters sk) k"
    "seals exN k (vk_priv K) (mg_privEncrypted m)" "seals exN k (vk_seed K) (mg_seedEncrypted m)"
    "seals exN k (vk_script K) (mg_scriptEncrypted m)" "\<not> mg_watchingOnly m"
    using assms(1) by (auto simp: vault_def sealed_private_def)
  let ?old = "\<lparr>sk_Key = Some k, sk_Parameters = sk_Parameters sk\<rparr>"
  obtain nk k' where nk: "new_secret exN (exRK 0) new so ''failed to create new master private key'' = Inr nk"
    "sk_Key nk = Some k'"
    using ex_new_secret by blast
  have c: "\<exists>c'. reencrypt exN (exRN i) ?old nk c msg1 msg2 = Inr c'" if "seals exN k x c" for i x c msg1 msg2
    using ex_reencrypt [OF _ that nk(2), of ?old] by simp
  obtain c1 c2 c3 where cs:
    "reencrypt exN (exRN 0) ?old nk (mg_privEncrypted m) ''failed to decrypt crypto private key''
       ''failed to encrypt crypto private key'' = Inr c1"
    "reencrypt exN (exRN 1) ?old nk (mg_seedEncrypted m) ''failed to decrypt crypto seed key''
       ''failed to encrypt crypto seed key'' = Inr c2"
    "reencrypt exN (exRN 2) ?old nk (mg_scriptEncrypted m) ''failed to decrypt crypto script key''
       ''failed to encrypt crypto script key'' = Inr c3"
    using c [OF sk(4)] c [OF sk(5)] c [OF sk(6)] by blast
  obtain n1 where n1: "putCryptoKeys None (Some c1) (Some c3) (Some c2) ans = Inr n1" "managerExists n1"
    using putCryptoKeys_succeeds [OF assms(2)] by blast
  obtain n2 where n2: "putMasterKeyParams None (Some (SecretKey_Marshal nk)) n1 = Inr n2"
    using putMasterKeyParams_succeeds [OF n1(2)] by blast
  show ?thesis
    using sk nk cs n1(1) n2
    by (simp add: ChangePassphrase_def check_passphrase_ok change_private_def or_error_def exRK_def
        zero_master_def SecretKey_Zero_def)
qed

section \<open>An address generated\<close>

lemma ex_generate:
  assumes "vault exN pass K m ans" and "disk_seeds exN K seeds ans" and "\<not> mg_locked m" and "open_buckets ans"
  shows "\<exists>address keys r ans'. GenerateAddressKeys exN (exG\<lparr>kg_PQRingCTX := mg_cryptoScheme m\<rparr>) exRN 1 m ans =
    Inr ((address, keys, r), ans')"
proof -
  let ?G = "exG\<lparr>kg_PQRingCTX := mg_cryptoScheme m\<rparr>"
  have f: "Mgr_FetchProtectedRootSeeds exN ans m = Inr seeds"
    using FetchProtectedRootSeeds_vault [OF assms(1,2)] assms(3,4) by (simp add: open_buckets_def)
  have key: "mg_priv m = Some (vk_priv K)" "\<not> mg_watchingOnly m" using assms(1,3) by (auto simp: vault_def)
  have enc: "\<exists>c. Mgr_Encrypt exN (exRN i) t b m = Inr c" if "t \<in> {CKTPrivate, CKTPublic}" for i t b
    using that key assms(3) by (auto simp: Mgr_Encrypt_def with_key_def selectCryptoKey_def key_Encrypt_def exRN_def)
  obtain keys where g: "generateAddressSKForPQRingCTX ?G (mg_cryptoScheme m) 1 seeds = Inr ([7], keys, [7])"
    by (simp add: generateAddressSKForPQRingCTX_def exG_def ex_keygen_def)
  obtain e0 e1 e2 e3 e4 where e: "Mgr_Encrypt exN (exRN 0) CKTPrivate (of_nil (ak_spend keys)) m = Inr e0"
    "Mgr_Encrypt exN (exRN 1) CKTPublic (of_nil (ak_serial keys)) m = Inr e1"
    "Mgr_Encrypt exN (exRN 2) CKTPublic [7] m = Inr e2"
    "Mgr_Encrypt exN (exRN 3) CKTPublic (of_nil (ak_value keys)) m = Inr e3"
    "Mgr_Encrypt exN (exRN 4) CKTPublic (of_nil (ak_detector keys)) m = Inr e4"
    using enc [of CKTPrivate] enc [of CKTPublic] by (metis insertI1 insertI2)
  have "\<exists>ans'. encryptAndPutAddressKeys exN ?G exRN [7] keys [7] m ans = Inr ans'"
    using e putAddressKeysEnc_succeeds [OF assms(4)]
    by (simp add: encryptAndPutAddressKeys_def exG_def ex_id_def)
  then show ?thesis using f g assms(3) by (auto simp: GenerateAddressKeys_def exG_def)
qed

section \<open>A service of two migrations\<close>

definition ex_service :: "u32 service" where
  "ex_service = \<lparr>sv_CurrentVersion = Inr, sv_SetVersion = (\<lambda>v s. if s = 11 then Inr v else Inl out_of_range),
     sv_Versions = [(2, Some (\<lambda>s. Inr (s + 10))), (1, Some (\<lambda>s. Inr (s + 1)))]\<rparr>"

lemma ex_service_runs: "upgrade ex_service 0 = Inr 2" "GetLatestVersion (sv_Versions ex_service) = 2"
  by code_simp+

lemma ex_service_fields:
  "sv_CurrentVersion ex_service 0 = Inr 0"
  "sv_SetVersion ex_service v s = Inr s' \<Longrightarrow> sv_CurrentVersion ex_service s' = Inr v"
  by (auto simp: ex_service_def split: if_splits)

end
