(* ===== verification/Spec2Isabelle.thy ===== *)
theory Spec2Isabelle
  imports Machine Payments Exact WalletKeys
begin

text \<open>
  The wallet daemon \<open>abewalletmlp\<close> of the Abelian chain: its transaction store, its address manager,
  and the wallet that follows the chain with them.

  \<^bold>\<open>The program.\<close> A wallet is a \<open>walletdb\<close> database of two namespaces. The transaction store
  (\<open>wtxmgr\<close>) holds the wallet's outputs and what became of them. Coins are spent from rings: an input
  names a ring of outputs and shows a serial number, so the wallet learns only from the serial
  numbers of a ring which of its own members are spent. Rings are formed from the outputs of a group
  of three successive blocks. An output of the wallet is immature (coinbase outputs until their
  maturity, transfer outputs until their ring group closes), then spendable, then spent but unmined,
  then spent in a block. Some outputs also carry a coin of a token (AUT): a root coin or a coin of
  some value. \<open>Store.InsertBlock\<close> files what a block does to all this, \<open>Store.InsertTx\<close> what an
  unmined transaction of the wallet does, \<open>Store.Rollback\<close> undoes blocks. All keep running balances
  beside the buckets. The address manager (\<open>waddrmgr\<close>) holds the keys, encrypted under keys that two
  passphrases protect (\<open>snacl\<close>), and the hashes of the recent blocks the wallet is synced to. The
  wallet (\<open>wallet\<close>) asks a chain server for blocks, finds where its record and the chain part,
  rolls back, catches up and files each block in the store; and it selects the coins of a payment.

  \<^bold>\<open>The theories\<close>, in the order of the code they model:

  \<^item> \<open>Prelude\<close>: bytes, words, errors as values, the codec locale, \<open>time.Time\<close>.
  \<^item> \<open>Walletdb\<close>: a bucket of \<open>walletdb/bdb/db.go\<close> as a list of pairs sorted by key (\<open>kv_get\<close>,
    \<open>kv_put\<close>, \<open>kv_delete\<close>), and the locale \<open>bucket_store\<close> of what the store relies on.
  \<^item> \<open>Wire\<close>: the messages of the chain the store reads (outpoints, rings, inputs, outputs,
    transactions), and the record \<open>abec\<close> of the functions of the packages that are not under
    \<open>src/\<close>: they are parameters of everything that uses them.
  \<^item> \<open>Txo\<close>, \<open>CoinCodec\<close>, \<open>Ring\<close>, \<open>BlockIndex\<close>: the values of \<open>wtxmgr/tx.go\<close> and
    \<open>wtxmgr/db.go\<close> with their serialisations (outputs in their three states, token coins,
    rings and the serial numbers seen for them, the per-block indexes).
  \<^item> \<open>Namespace\<close>, \<open>StoreDB\<close>: the namespace (root keys, token maps, nested buckets, and the
    notifications sent), its balances (\<open>wtxmgr/db.go\<close>, \<open>wtxmgr/db_ctaut.go\<close>), and its creation
    and opening (\<open>createStore\<close>, \<open>openStore\<close>, \<open>dropTransactionHistory\<close>).
  \<^item> \<open>Tables\<close>, \<open>Records\<close>, \<open>TxTables\<close>: one put, fetch, exists and delete per bucket, each put
    with the read-back check the code has; the locales \<open>txo_table\<close> and \<open>txo_move\<close>.
  \<^item> \<open>Queries\<close>, \<open>TxLists\<close>: \<open>UnspentOutputs\<close> and its siblings, balances, output locks, labels;
    the lists of transactions by state (\<open>wtxmgr/unconfirmed.go\<close>, \<open>wtxmgr/query.go\<close>).
  \<^item> \<open>Ledger\<close>, \<open>InsertTx\<close>, \<open>Unmined\<close>: the sums over buckets the balances should equal, the
    whole of \<open>Store.InsertTx\<close>, then \<open>DeleteRawUnmined\<close>, \<open>ConfirmSpentTXO\<close> and the relevance
    index.
  \<^item> \<open>Receive\<close>, \<open>BlockSteps\<close>, \<open>InsertBlock\<close>: which outputs are the wallet's (records \<open>crypto\<close>
    and \<open>manager\<close> of parameters), and \<open>Store.InsertBlock\<close> step by step, with
    \<open>Store.InsertGenesisBlock\<close>.
  \<^item> \<open>Rollback\<close>: the whole of \<open>Store.Rollback\<close>, phase by phase.
  \<^item> \<open>Books\<close>, \<open>RollbackBooks\<close>, \<open>Frames\<close>, \<open>Machine\<close>: the accounts through blocks and through
    their undoing, what each operation leaves alone, and the store as a state machine.
  \<^item> \<open>Exact\<close>: exactly what the genesis block adds, what \<open>DeleteRawUnmined\<close> moves back, and where
    coinbase outputs go that become immature again.
  \<^item> \<open>CoinSelect\<close>, \<open>Payments\<close>: \<open>wallet/createtx.go\<close>: eligible outputs, coin selection, fee, change,
    the plan of inputs and outputs of a payment; and what holds of it.
  \<^item> \<open>Snacl\<close>, \<open>MgrDB\<close>, \<open>Manager\<close>, \<open>ManagerOps\<close>: \<open>snacl/snacl.go\<close>, the namespace of the address
    manager (\<open>waddrmgr/db.go\<close>), the manager in memory (\<open>waddrmgr/manager.go\<close>): locking, root seeds,
    address keys; then creating, opening, changing a passphrase, converting to watching-only, and the
    sync state (\<open>waddrmgr/sync.go\<close>).
  \<^item> \<open>Vault\<close>, \<open>VaultOps\<close>, \<open>AddrKeys\<close>: the key hierarchy as an abstraction of memory (\<open>vault\<close>) and
    database (\<open>disk\<close>), kept by every operation; what a locked manager holds (\<open>guarded\<close>).
  \<^item> \<open>SyncHeights\<close>: the record of block hashes and the chain it stands for (\<open>agrees\<close>).
  \<^item> \<open>MgrTyped\<close>: the form of every value of the manager's namespace.
  \<^item> \<open>ChainSync\<close>: \<open>wallet/chainntfns.go\<close>, \<open>wallet/rescan.go\<close> and the synchronisation of
    \<open>wallet/wallet.go\<close>; \<open>ChainSearch\<close>, \<open>ChainFollow\<close>, \<open>ChainKeeps\<close>, \<open>ChainLive\<close>: its searches end and
    find, the record follows the server, the invariants of store and manager are kept, and a
    synchronisation succeeds when the server answers.
  \<^item> \<open>Migrate\<close>, \<open>WalletOpen\<close>: \<open>walletdb/migration/manager.go\<close> with the services of the two
    namespaces (locale \<open>versioned\<close>), \<open>Create\<close> and \<open>Open\<close> of \<open>wallet/wallet.go\<close>.
  \<^item> \<open>Fixtures\<close>, \<open>RollbackRun\<close>, \<open>WalletRun\<close>, \<open>WalletKeys\<close>: small runs on concrete instances of the
    parameters, evaluated by the kernel; the witnesses below apply the theorems to them. Fixture
    names begin with \<open>ex\<close>.

  \<^bold>\<open>What is shown.\<close> The books stay balanced through every block (\<open>InsertBlock_books\<close>), through its
  undoing (\<open>rollback_books\<close>), through an unmined transaction and the genesis block; so in every
  state of a wallet that connects and disconnects blocks, synchronises and fails at any point
  (\<open>wallet_machine\<close>). The spendable and unconfirmed balances are the sums of their buckets, kept by
  \<open>InsertTx\<close> and by blocks that mature nothing. \<open>InsertTx\<close> moves exactly the wallet's inputs and makes
  conflicting transactions invalid. \<open>AddGotSerialNumber\<close> marks exactly the members the history of
  a ring determines, in any order of arrival. Every serialisation is read back as it was written.
  A payment pays what it spends and at least the fee given (\<open>payment_balanced\<close>), except when the outputs
  run out (\<open>payment_exhausts\<close>). The seeds of a wallet come back with its passphrase and only with
  the right keys (\<open>wallet_created_unlocks\<close>, \<open>passphrase_changed\<close>, \<open>locked_holds_nothing\<close>). A
  synchronisation leaves the record of hashes equal to the chain of the server from the fork on
  (\<open>sync_follows_server\<close>) and returns whenever it can (\<open>birthday_located\<close>, \<open>headers_reach_best\<close>).
  Error paths are stated where the code does something its comments do not say.

  \<^bold>\<open>Parameters.\<close> Code that is not under \<open>src/\<close> is an argument: \<open>abec\<close>, \<open>abecblk\<close> (messages,
  hashes), \<open>crypto\<close>, \<open>keygen\<close> (keys and addresses), \<open>payer\<close>, \<open>txparams\<close> (sizes and fees), \<open>nacl\<close>
  (scrypt, SHA-2, the secret box, of which \<open>sound_box\<close> is the one hypothesis used: opening undoes
  sealing, and a box is 16 bytes longer), \<open>chain\<close> (the answers of the chain server),
  \<open>wallet_env\<close> (all of them with the parameters of the network). Reads of random numbers and
  clocks are arguments too.

  \<^bold>\<open>Modelling decisions.\<close> The database is modelled at byte level; a missing bucket is a nil
  pointer and using it panics (\<open>GoPanic\<close>); a put with an empty key is an error. \<open>ForEach\<close> is a
  fold over a snapshot in key order. An operation of the store or the manager's namespace that fails
  drops its changes, as \<open>walletdb.Update\<close> rolls back; the manager in memory is not rolled back:
  \<open>Mgr_Unlock\<close> and the acts of \<open>ChainSync\<close> return the state together with the error. Beginning and
  committing a database transaction succeed. Errors are values of \<open>go_error\<close>; texts of errors are
  kept, their interpolated values are not. The token maps, JSON in the database, are stored decoded.
  Go maps are lists of entries: a map that is an argument comes in any order; the maps a block builds
  on the way (of rings, of outputs) are iterated in the order their keys were first entered, one of
  the orders Go may take. \<open>sort.Sort\<close> keeps the list order among equals. Nil and empty maps are told
  apart only for \<open>OriginSerialNumberes\<close>, where the code compares them. Machine
  integers keep their width. The time and the answers of the server are the same throughout one
  operation; times are compared in seconds and nanoseconds. The capacity of a slice is its length.
  The size a message announces for its serialisation is the number of bytes it writes. Log lines
  are left out; notifications of the store are recorded in \<open>ns_notes\<close>. The six maps of outputs of a
  closing ring group are one list of six maps.

  \<^bold>\<open>Bounds.\<close> Recursion of the store is on lists, or ends by the length of what is left to read. The
  loops of the wallet that need not end are \<open>partial_function (option)\<close>, and are shown to return:
  the search for the birthday block always, the search for the fork point and the migration's search
  when the genesis block is on record, the catch-up when the best height is below
  \<open>2 ^ 31 - 400\<close>, where adding a batch to a height cannot wrap. No fuel is used.

  \<^bold>\<open>Not modelled.\<close> The older \<open>wtxmgr/db_aut.go\<close>, which \<open>InsertBlock\<close> no longer uses; the building
  of token transactions (\<open>wallet/createauttx.go\<close>), the requests, goroutines and notification
  fan-out of \<open>wallet/wallet.go\<close>; the RPC servers and their generated code, NAT traversal, the
  command line tools and the word lists. The parts that are pure input and output (RPC, prompts,
  configuration, \<open>bbolt\<close> itself) stay out.
\<close>

text \<open>C1: InsertBlock keeps the books of the wallet: whatever the block holds (coinbase outputs, spent ring members, tokens, re-registrations, maturing outputs), after it the total balance is again the sum of the spendable, immature coinbase, immature transfer and unconfirmed balances, and likewise for every token and for its root coins.\<close>

theorem InsertBlock_books:
  assumes "InsertBlock A B K M now block extraBlock maturedBlockHashs ns = Inr ns'"
    and "books_ok ns"
  shows "books_ok ns'"
  using assms by (rule InsertBlock_keeps_books)

theorem InsertBlock_books_witness:
  "\<exists>ns ns'. ex3 = Inr ns \<and> books_ok ns \<and> InsertBlock exA exB exK exM ex_time (ex_record 2) [] [] ns' = ex3"
proof -
  obtain ns2 ns3 where s: "ex_insert 2 ns2 = Inr ns3" "ex3 = Inr ns3" "books_ok ns2"
    using ex_books by blast
  show ?thesis using InsertBlock_books [OF s(1,3)] s by auto
qed

text \<open>C2: In every state a wallet can get to after it is created and opened (blocks connected and disconnected, connections to a server with their synchronisation, operations of the manager and of the store, restarts), also where an operation failed on the way, the transaction store is in good order (books balanced, every bucket there, the version known), and a locked manager holds no key.\<close>

theorem wallet_machine:
  assumes "wallet_reachable W w"
  shows "sound_store (wl_tx w) \<and> guarded (wl_mgr w)"
  using wallet_reachable_keeps [OF assms] reachable_guarded by blast

theorem wallet_machine_witness:
  "\<exists>ans tx w. ex_db = Inr (ans, tx) \<and> Wallet_Open exN (Inr 77) ex_pub (ans, tx) = Inr w \<and> books_ok (wl_tx w)"
proof -
  obtain ans tx m where w: "ex_db = Inr (ans, tx)"
    "Wallet_Open exN (Inr 77) ex_pub (ans, tx) = Inr \<lparr>wl_mgr = m, wl_addr = ans, wl_tx = tx\<rparr>"
    by (rule ex_wallet)
  have "wallet_reachable exW0 \<lparr>wl_mgr = m, wl_addr = ans, wl_tx = tx\<rparr>"
    by (rule wallet_opened [of exW0]) (use w in \<open>auto simp: exW0_def exW100_def ex_db_def\<close>)
  from wallet_machine [OF this] have "books_ok tx" by (simp add: sound_store_def)
  then show ?thesis
    by (intro exI [of _ ans] exI [of _ tx] exI [of _ "\<lparr>wl_mgr = m, wl_addr = ans, wl_tx = tx\<rparr>"]) (simp add: w)
qed



text \<open>C4: A wallet that was created from a master seed opens with its public passphrase, locked: then it gives the root seeds except the one for spending. Unlocked with the private passphrase it gives the root seeds of the account, exactly those derived from the master seed.\<close>

theorem wallet_created_unlocks:
  assumes "Wallet_Create N G C RK RN rnd now scheme pubPass privPass (Some seed) fromCLI version birthday watchingOnly
      = Inr (ans, tx)" and "sound_box N"
  shows "\<exists>seeds m m'. generateAccountRootSeedsForPQRingCTX G seed fromCLI version = Inr seeds \<and>
    Wallet_Open N (Inr salt) pubPass (ans, tx) = Inr \<lparr>wl_mgr = m, wl_addr = ans, wl_tx = tx\<rparr> \<and> mg_locked m \<and>
    Mgr_FetchProtectedRootSeeds N ans m = Inr (seeds\<lparr>rs_coinSpend := []\<rparr>) \<and>
    Mgr_Unlock N privPass m = Inr (m', None) \<and> \<not> mg_locked m' \<and> Mgr_FetchProtectedRootSeeds N ans m' = Inr seeds"
proof -
  have c: "Mgr_Create N G C RK RN now scheme (Some seed) fromCLI version pubPass privPass None birthday empty_addr = Inr ans"
    "createStore now empty_tx = Inr tx"
    using Wallet_Create_ok [OF assms(1)] by auto
  obtain K seeds where K: "generateAccountRootSeedsForPQRingCTX G seed fromCLI version = Inr seeds"
    "disk N pubPass privPass K seeds ans"
    using Create_disk [OF c(1) assms(2)] by blast
  have "openStore tx = Inr ()" using createStore_sound [OF c(2)] by (simp add: sound_store_def)
  then obtain m where m: "Wallet_Open N (Inr salt) pubPass (ans, tx) = Inr \<lparr>wl_mgr = m, wl_addr = ans, wl_tx = tx\<rparr>"
    "vault N privPass K m ans" "mg_locked m"
    using Open_wallet [OF K(2)] by blast
  obtain m' where m': "Mgr_Unlock N privPass m = Inr (m', None)" "vault N privPass K m' ans" "\<not> mg_locked m'"
    using Unlock_vault [OF m(2)] by blast
  have "disk_seeds N K seeds ans" "managerExists ans" using K(2) by (simp_all add: disk_def)
  note fetch = FetchProtectedRootSeeds_vault [OF _ this]
  show ?thesis using K(1) m m' fetch [OF m(2)] fetch [OF m'(2)] by auto
qed

theorem wallet_created_unlocks_witness:
  "\<exists>db m m'. ex_db = Inr db \<and> Wallet_Open exN (Inr 77) ex_pub db = Inr \<lparr>wl_mgr = m, wl_addr = fst db, wl_tx = snd db\<rparr> \<and>
     Mgr_Unlock exN ex_priv m = Inr (m', None) \<and> Mgr_FetchProtectedRootSeeds exN (fst db) m' = Inr ex_root"
proof -
  obtain ans tx where d: "ex_db = Inr (ans, tx)" by (rule ex_created)
  show ?thesis
    using wallet_created_unlocks [OF d [unfolded ex_db_def] exN_sound, of 77] ex_root_seeds d by auto
qed



text \<open>C6: A locked manager, however it got there from being opened, holds no secret: the private, seed and script keys, the derived master key and the hashed passphrase are gone or zero; decrypting with the private or the seed key is refused, and of the root seeds the one for spending is left out.\<close>

theorem locked_holds_nothing:
  assumes "mgr_reachable N m" and "mg_locked m"
  shows "wiped m \<and> Mgr_Decrypt N CKTPrivate c m = Inl (ManagerError ErrLocked ''address manager is locked'') \<and>
    Mgr_Decrypt N CKTSeed c m = Inl (ManagerError ErrLocked ''address manager is locked'') \<and>
    (\<forall>seeds. Mgr_FetchProtectedRootSeeds N ns m = Inr seeds \<longrightarrow> rs_coinSpend seeds = [])"
  using reachable_guarded [OF assms(1)] assms(2)
  by (auto simp: guarded_def Mgr_Decrypt_def with_key_def selectCryptoKey_def Mgr_FetchProtectedRootSeeds_def
      rbind_Inr_iff)

theorem locked_holds_nothing_witness:
  "\<exists>ans tx m. ex_db = Inr (ans, tx) \<and> Mgr_Open exN (Inr 77) ans ex_pub = Inr m \<and> wiped m"
proof -
  obtain ans tx m where w: "ex_db = Inr (ans, tx)" "Mgr_Open exN (Inr 77) ans ex_pub = Inr m" "mg_locked m"
    by (rule ex_wallet)
  show ?thesis using locked_holds_nothing [OF opened [OF w(2)] w(3)] w(1,2) by blast
qed

text \<open>C7: The keys GenerateAddressKeys returns are found on record under the address, with its public randomness, and decrypt to what was generated (an empty serial-number or detector key is nil when it is read).\<close>

theorem address_keys_roundtrip:
  assumes "GenerateAddressKeys N G RN level m ns = Inr ((address, keys, r), ns')" and "sound_box N"
    and "mn_addr ns detectorBucketName \<noteq> None"
  shows "\<exists>coinAddr enc. kg_CoinAddress G address = Inr coinAddr \<and>
    FetchAddressKeyEnc G ns' coinAddr = Inr (enc, Some r) \<and> DecryptAddressKey N enc m = Inr (as_stored keys)"
  using assms by (rule GenerateAddressKeys_found)

theorem address_keys_roundtrip_witness:
  "\<exists>G m ans address keys r ans' coinAddr enc.
     GenerateAddressKeys exN G exRN 1 m ans = Inr ((address, keys, r), ans') \<and>
     FetchAddressKeyEnc G ans' coinAddr = Inr (enc, Some r) \<and> DecryptAddressKey exN enc m = Inr (as_stored keys)"
proof -
  obtain ans tx m K where w: "ex_db = Inr (ans, tx)" "disk exN ex_pub ex_priv K ex_root ans" "vault exN ex_priv K m ans"
    by (rule ex_wallet)
  obtain m' where m': "vault exN ex_priv K m' ans" "\<not> mg_locked m'" using Unlock_vault [OF w(3)] by blast
  obtain ans0 tx0 where c: "ex_db = Inr (ans0, tx0)"
    "Mgr_Create exN exG exC exRK exRN (GoTime 5 0) 1 (Some ex_seed) False [] ex_pub ex_priv None (GoTime 172800 0)
      empty_addr = Inr ans0"
    by (rule ex_created)
  have "ans0 = ans" using trans [OF c(1) [symmetric] w(1)] by simp
  then have b: "open_buckets ans" using Create_typed [OF c(2)] by (simp add: open_buckets_def typed_def)
  have "disk_seeds exN K ex_root ans" using w(2) by (auto simp: disk_def)
  from ex_generate [OF m'(1) this m'(2) b] obtain address keys r ans' where g:
    "GenerateAddressKeys exN (exG\<lparr>kg_PQRingCTX := mg_cryptoScheme m'\<rparr>) exRN 1 m' ans = Inr ((address, keys, r), ans')"
    by blast
  have "mn_addr ans detectorBucketName \<noteq> None" using b by (simp add: open_buckets_def)
  from address_keys_roundtrip [OF g exN_sound this] g show ?thesis by blast
qed

text \<open>C8: The values in the namespace of the address manager always have the form their readers expect: in any namespace that Create made and operations of a manager changed, in any order, every value the manager needs to load is there and well formed, no read panics, and a block hash or birthday block that is not there is reported as not found, never as malformed.\<close>

theorem namespace_reads_well:
  assumes "addr_reachable N G ns"
  shows "reads_well ns"
  using addr_reachable_typed [OF assms] by (rule typed_reads)

theorem namespace_reads_well_witness: "\<exists>ans tx. ex_db = Inr (ans, tx) \<and> reads_well ans"
proof -
  obtain ans tx where d: "ex_db = Inr (ans, tx)"
    "Mgr_Create exN exG exC exRK exRN (GoTime 5 0) 1 (Some ex_seed) False [] ex_pub ex_priv None (GoTime 172800 0)
      empty_addr = Inr ans"
    by (rule ex_created)
  show ?thesis using namespace_reads_well [OF addr_created [OF d(2)]] d(1) by blast
qed

text \<open>C9: The binary search for the birthday block ends, whatever the server answers (also a negative best height); on a chain from height 0 to the best one it returns a block that is within two hours of the birthday, or at an end of the chain, or more than two hours before the birthday with the next block, unless that is the best one, more than two hours after it.\<close>

theorem birthday_located:
  "\<exists>r. locateBirthdayBlock ch birthday = Some r \<and>
     (\<forall>bs best. r = Inr bs \<and> ch_best ch = Inr best \<and> 0 \<le> sint best \<longrightarrow> birthday_found ch birthday best bs)"
  using locateBirthdayBlock_returns [of ch birthday] locateBirthdayBlock_finds by blast

theorem birthday_located_witness:
  "\<exists>bs. locateBirthdayBlock exS (GoTime 11500 0) = Some (Inr bs) \<and> bs_Height bs = 1 \<and>
     birthday_found exS (GoTime 11500 0) 2 bs"
proof -
  obtain r where r: "locateBirthdayBlock exS (GoTime 11500 0) = Some r"
    "\<forall>bs best. r = Inr bs \<and> ch_best exS = Inr best \<and> 0 \<le> sint best \<longrightarrow> birthday_found exS (GoTime 11500 0) best bs"
    using birthday_located [of exS "GoTime 11500 0"] by blast
  have s: "ch_best exS = Inr 2" "midpoint 0 2 = 1"
    "block_at exS 1 = Inr \<lparr>bs_Height = 1, bs_Hash = 501, bs_Timestamp = GoTime 11000 0\<rparr>"
    "time_Sub (GoTime 11000 0) (GoTime 11500 0) = - 500000000000"
    by code_simp+
  have e: "locateBirthdayBlock exS (GoTime 11500 0) =
      Some (Inr \<lparr>bs_Height = 1, bs_Hash = 501, bs_Timestamp = GoTime 11000 0\<rparr>)"
    by (simp add: locateBirthdayBlock_def s(1) birthday_search.simps [of _ _ _ 0 2] s(2-4) birthdayBlockDelta_def)
  then have "r = Inr \<lparr>bs_Height = 1, bs_Hash = 501, bs_Timestamp = GoTime 11000 0\<rparr>" using r(1) by simp
  then show ?thesis using r e by (auto simp: exS_def)
qed

text \<open>C10: An upgrade that succeeds leaves the latest version on record and doing it again changes nothing; unless the version was the latest already, it ran exactly the migrations of the versions above the current one, in increasing order, each once, and then set the version.\<close>

theorem upgrade_applies:
  assumes "upgrade mgr s = Inr s'" and "sv_CurrentVersion mgr s = Inr cur"
    and "\<And>v s s'. sv_SetVersion mgr v s = Inr s' \<Longrightarrow> sv_CurrentVersion mgr s' = Inr v"
  shows "sv_CurrentVersion mgr s' = Inr (GetLatestVersion (sv_Versions mgr)) \<and> upgrade mgr s' = Inr s' \<and>
    cur \<le> GetLatestVersion (sv_Versions mgr) \<and>
    (cur = GetLatestVersion (sv_Versions mgr) \<and> s' = s \<or>
     (\<exists>vs. sorted (map fst vs) \<and> mset vs = {#v \<in># mset (sv_Versions mgr). cur < fst v#} \<and>
       rbind (rfold migrate vs s) (sv_SetVersion mgr (GetLatestVersion (sv_Versions mgr))) = Inr s'))"
proof -
  have v: "versioned mgr" by unfold_locales (rule assms(3))
  have "cur \<le> GetLatestVersion (sv_Versions mgr)"
    using assms(1,2) by (auto simp: upgrade_def Let_def split: if_splits)
  moreover have "cur = GetLatestVersion (sv_Versions mgr) \<and> s' = s \<or>
      rbind (rfold migrate (VersionsToApply cur (sv_Versions mgr)) s)
        (sv_SetVersion mgr (GetLatestVersion (sv_Versions mgr))) = Inr s'"
    using assms(1,2) by (auto simp: upgrade_def Let_def split: if_splits)
  ultimately show ?thesis
    using versioned.upgraded [OF v assms(1)] versioned.upgrade_again [OF v assms(1)] VersionsToApply_spec by blast
qed

theorem upgrade_applies_witness:
  "upgrade ex_service 0 = Inr 2 \<and> sv_CurrentVersion ex_service 2 = Inr 2 \<and> upgrade ex_service 2 = Inr 2"
  using upgrade_applies [OF ex_service_runs(1) ex_service_fields] ex_service_runs by simp

text \<open>C11: A wallet whose tip is a block of the server and whose first height to scan lies above the best block reaches the best block: the synchronisation returns without an error and the manager is at the best height, whenever the server answers with the hashes and headers of the blocks in between.\<close>

theorem headers_reach_best:
  assumes "agrees (wl_addr w) f" and "sint (bs_Height (SyncedTo (wl_mgr w))) = fo_tip f" and "fo_tip f < 2 ^ 31 - 1"
    and "ch_ready ch = Inr ()" and "ch_notify ch = Inr ()" and "ch_best ch = Inr best" and "sint best < 2 ^ 31 - 400"
    and "ch_hash ch (fo_tip f) = Inr (fo_chain f (fo_tip f))" and "ch_header ch (fo_chain f (fo_tip f)) = Inr t"
    and "headers_only W ch (fo_tip f) (sint best)"
  shows "\<exists>w'. syncWithChain W now ch (Some b) w = Some (w', Inr ()) \<and>
    sint (bs_Height (SyncedTo (wl_mgr w'))) = max (fo_tip f) (sint best)"
  using assms by (rule syncWithChain_reaches)

theorem headers_reach_best_witness:
  "\<exists>ans tx m w'. ex_db = Inr (ans, tx) \<and>
     syncWithChain exW100 ex_time exS (Some ex_stamp) \<lparr>wl_mgr = m, wl_addr = ans, wl_tx = tx\<rparr> = Some (w', Inr ()) \<and>
     sint (bs_Height (SyncedTo (wl_mgr w'))) = 2"
proof -
  obtain ans tx m K where w: "ex_db = Inr (ans, tx)" "agrees ans (follow_genesis exC word_of_int)"
    "sint (bs_Height (SyncedTo m)) = 0"
    by (rule ex_wallet)
  let ?w = "\<lparr>wl_mgr = m, wl_addr = ans, wl_tx = tx\<rparr>"
  have "\<exists>w'. syncWithChain exW100 ex_time exS (Some ex_stamp) ?w = Some (w', Inr ()) \<and>
      sint (bs_Height (SyncedTo (wl_mgr w'))) = max (fo_tip (follow_genesis exC word_of_int)) (sint (2 :: i32))"
    by (rule headers_reach_best)
      (use w(2,3) ex_headers in \<open>simp_all add: exS_def follow_genesis_def exC_def ex_hash_at_def ex_header_def\<close>)
  then show ?thesis using w(1) by (auto simp: follow_genesis_def)
qed



text \<open>C13: Unlock decrypts the private and the seed key but not the script key: in every unlocked manager that can be reached the script key is still nil or zero, so whatever Encrypt makes with the script key type can be read with the key of zeros, which needs no passphrase.\<close>

theorem script_key_zero:
  assumes "mgr_reachable N m" and "sound_box N" and "Mgr_Encrypt N rnd CKTScript b m = Inr c"
  shows "\<not> mg_locked m \<and> key_Decrypt N 0 c = Inr b"
proof -
  have "script_unset m" using reachable_guarded [OF assms(1)] by blast
  then have "key_Encrypt N rnd 0 b = Inr c \<and> \<not> mg_locked m"
    using assms(3) by (auto simp: script_unset_def Mgr_Encrypt_def with_key_def selectCryptoKey_def
        split: if_splits sum.splits)
  then show ?thesis using key_Decrypt_Encrypt [OF assms(2)] by blast
qed

theorem script_key_zero_witness:
  "\<exists>m c. Mgr_Encrypt exN (Inr 9) CKTScript [1, 2, 3] m = Inr c \<and> key_Decrypt exN 0 c = Inr [1, 2, 3]"
proof -
  obtain ans tx m K where w: "Mgr_Open exN (Inr 77) ans ex_pub = Inr m" "vault exN ex_priv K m ans"
    by (rule ex_wallet)
  obtain m' where m': "Mgr_Unlock exN ex_priv m = Inr (m', None)" "vault exN ex_priv K m' ans" "\<not> mg_locked m'"
    using Unlock_vault [OF w(2)] by blast
  have r: "mgr_reachable exN m'" by (rule stepped [OF opened [OF w(1)] step_unlock [OF m'(1)]])
  obtain c where c: "Mgr_Encrypt exN (Inr 9) CKTScript [1, 2, 3] m' = Inr c"
    using m'(2,3) by (auto simp: vault_def Mgr_Encrypt_def with_key_def selectCryptoKey_def key_Encrypt_def)
  show ?thesis using script_key_zero [OF r exN_sound c] c by blast
qed

text \<open>C14: Whatever the wallet does to a store that createStore made (blocks connected and disconnected, the genesis block, unmined transactions entered and forgotten, outputs locked and unlocked, locks expired, labels and request records put, in any order and with any arguments that do not fail), the books balance, every bucket is there with well-formed keys, and the store opens as the version the program understands.\<close>

theorem reachable_stores_sound:
  assumes "reachable A B K M ns"
  shows "books_ok ns \<and> openStore ns = Inr () \<and> buckets_ok ns \<and>
    (\<forall>b \<in> store_buckets. ns_bucket ns b \<noteq> None)"
  by (rule reachable_sound [OF assms, unfolded sound_store_def])

theorem reachable_stores_sound_witness:
  "\<exists>ns. ex5 = Inr ns \<and> reachable exA exB exK exM ns \<and> books_ok ns \<and> openStore ns = Inr ()"
proof -
  obtain ns where s: "ex5 = Inr ns" "reachable exA exB exK exM ns" using ex5_reachable by blast
  show ?thesis using reachable_stores_sound [OF s(2)] s by blast
qed

text \<open>C15: Undoing blocks keeps the books: whatever rollback does to the outputs of the blocks above a height (reopened ring groups, dropped outputs, restored members and root coins, coinbase outputs that become immature again), the total balance it saves is the sum of the four parts it saves, for the coin itself and for every token.\<close>

theorem rollback_books:
  assumes "rollback A K now BH height ns = Inr ns'" and "books_ok ns"
  shows "books_ok ns'"
  using assms by (rule rollback_keeps_books)

theorem rollback_books_witness:
  "\<exists>ns ns'. ex3 = Inr ns \<and> rollback exA exK ex_time ex_bh 1 ns = Inr ns' \<and> books_ok ns' \<and>
     ex_balances ns' = [Inr 30, Inr 0, Inr 10, Inr 20, Inr 0]"
proof -
  obtain ns ns' where s: "ex3 = Inr ns" "books_ok ns"
    "rollback exA exK ex_time ex_bh 1 ns = Inr ns'"
    "ex_balances ns' = [Inr 30, Inr 0, Inr 10, Inr 20, Inr 0]"
    using ex_rollback by blast
  show ?thesis using rollback_books [OF s(3,2)] s by blast
qed

text \<open>C16: InsertTx keeps the ledger: no outpoint is filed both as spendable and as spent but unmined, and the spendable and unconfirmed balances are the sums of the amounts filed in the two buckets.\<close>

theorem InsertTx_ledger_invariant:
  assumes "InsertTx A now height rec hasBlock ns = Inr ns'" and "ledger_ok ns"
  shows "ledger_ok ns'"
  using assms by (rule InsertTx_ledger)

theorem InsertTx_ledger_witness: "\<exists>ns. ex4 = Inr ns \<and> ledger_ok ns"
proof -
  obtain ns3 ns4 where s: "InsertTx exA ex_time 2 ex_spend_rec False ns3 = Inr ns4"
    "ex4 = Inr ns4" "ledger_ok ns3"
    using ex_spend_state by blast
  show ?thesis using InsertTx_ledger_invariant [OF s(1,3)] s(2) by blast
qed

text \<open>C17: InsertTx on a transaction not yet on record moves exactly the wallet's outputs among its inputs: they were spendable, each at most once, they leave the spendable bucket and are filed as spent but unmined by this transaction at this time; every other output stays where it was.\<close>

theorem InsertTx_moves_inputs:
  assumes "InsertTx A now height rec hasBlock ns = Inr ns'"
    and "existsRawUnconfirmedTx ns (be_bytes 32 (rec_Hash rec)) = Inr None"
  shows "inputs_moved A now (rec_Hash rec)
    (List.map_filter (owned_input A ns) (msg_TxIns (rec_MsgTx rec))) ns ns'"
  using assms by (rule InsertTx_moves)

theorem InsertTx_moves_inputs_witness:
  "\<exists>ns3 ns4. ex4 = Inr ns4 \<and> inputs_moved exA ex_time 31 [OutPointAbe 30 0] ns3 ns4"
proof -
  obtain ns3 ns4 where s: "InsertTx exA ex_time 2 ex_spend_rec False ns3 = Inr ns4"
    "ex4 = Inr ns4" "existsRawUnconfirmedTx ns3 (be_bytes 32 (rec_Hash ex_spend_rec)) = Inr None"
    "List.map_filter (owned_input exA ns3) (msg_TxIns (rec_MsgTx ex_spend_rec)) = [OutPointAbe 30 0]"
    using ex_spend_state by blast
  have "rec_Hash ex_spend_rec = 31" by (simp add: ex_spend_rec_def)
  then show ?thesis using InsertTx_moves_inputs [OF s(1,3)] s(2,4) by auto
qed

text \<open>C18: InsertTx keeps the books: what it takes from a spendable balance (coins, a token, its root coins) it adds to the unconfirmed one, so the totals remain the sums of their parts.\<close>

theorem InsertTx_keeps_books:
  assumes "InsertTx A now height rec hasBlock ns = Inr ns'" and "books_ok ns"
  shows "books_ok ns'"
  using assms by (rule InsertTx_books)

theorem InsertTx_keeps_books_witness: "\<exists>ns. ex4 = Inr ns \<and> books_ok ns"
proof -
  obtain ns3 ns4 where s: "InsertTx exA ex_time 2 ex_spend_rec False ns3 = Inr ns4"
    "ex4 = Inr ns4" "ledger_ok ns3" "books_ok ns3"
    using ex_spend_state by blast
  show ?thesis using InsertTx_keeps_books [OF s(1,4)] s(2) by blast
qed

text \<open>C19: A block that closes no ring group and matures no coinbase output keeps the ledger: although it spends ring members, confirms transactions and files its own outputs as immature, the spendable and unconfirmed balances stay the sums of their buckets.\<close>

theorem InsertBlock_quiet:
  assumes "InsertBlock A B K M now block extraBlock maturedBlockHashs ns = Inr ns'"
    and "ledger_ok ns" and "quiet_block K (blk_Height block)"
  shows "ledger_ok ns'"
  using assms by (rule InsertBlock_quiet_ledger)

theorem InsertBlock_quiet_witness: "\<exists>ns. ex5 = Inr ns \<and> ledger_ok ns"
proof -
  obtain ns4 ns5 where s: "ex_insert 3 ns4 = Inr ns5" "ex5 = Inr ns5" "ledger_ok ns4"
    using ex_spend_state by blast
  have "quiet_block exK (blk_Height (ex_record 3))" by code_simp
  then show ?thesis using InsertBlock_quiet [OF s(1,3)] s(2) by blast
qed

text \<open>C20: Reopening a ring group (the first part of undoing the block that closed it) keeps the ledger: each output it takes back out of the spendable or the spent-but-unmined bucket leaves the balance of that bucket, so the spendable and unconfirmed balances stay the sums of their buckets.\<close>

theorem reopen_group_ledger:
  assumes "reopen_group A K now BH keysWithHeight i (a, ns) = Inr (a', ns')"
    and "filed (a, ns)"
  shows "filed (a', ns')"
  using reopen_group_audited [OF assms(1)] assms(2) by (simp add: audited_def)

theorem reopen_group_ledger_witness:
  "\<exists>ns a a' ns'. ex_group = Inr ns \<and>
     reopen_group exA exK ex_time ex_bh [] 2 (a, ns) = Inr (a', ns') \<and>
     filed (a', ns') \<and> a_immatureTR a' = 20"
proof -
  obtain ns a s' where s: "ex_group = Inr ns" "filed (a, ns)"
    "reopen_group exA exK ex_time ex_bh [] 2 (a, ns) = Inr s'" "a_immatureTR (fst s') = 20"
    using ex_group_run by blast
  obtain a' ns' where s': "s' = (a', ns')" by (cases s')
  have r: "reopen_group exA exK ex_time ex_bh [] 2 (a, ns) = Inr (a', ns')" "a_immatureTR a' = 20"
    using s(3,4) by (simp_all add: s')
  show ?thesis using reopen_group_ledger [OF r(1) s(2)] s(1) r by blast
qed

text \<open>C21: After InsertTx of a new transaction, every other transaction the wallet knew to spend one of the same outputs is no longer on record as unconfirmed: of conflicting transactions only the last one stays.\<close>

theorem InsertTx_one_spender:
  assumes "InsertTx A now height rec hasBlock ns = Inr ns'"
    and "existsRawUnconfirmedTx ns (be_bytes 32 (rec_Hash rec)) = Inr None"
    and "op \<in> set (List.map_filter (owned_input A ns) (msg_TxIns (rec_MsgTx rec)))"
    and "d \<in> set (chunks32 (relevant_list ns (op_key op)))" and "d \<noteq> be_bytes 32 (rec_Hash rec)"
  shows "unconfirmed_tx ns' d = None"
  using assms by (rule InsertTx_sole_spender)

theorem InsertTx_one_spender_witness:
  "\<exists>ns ns'. ex_small = Inr ns \<and> InsertTx exA ex_time 2 ex_spend_rec False ns = Inr ns'
     \<and> unconfirmed_tx ns' (be_bytes 32 (77 :: hash)) = None"
proof -
  obtain ns ns' where s: "ex_small = Inr ns" "InsertTx exA ex_time 2 ex_spend_rec False ns = Inr ns'"
    "existsRawUnconfirmedTx ns (be_bytes 32 (rec_Hash ex_spend_rec)) = Inr None"
    "OutPointAbe 30 0 \<in> set (List.map_filter (owned_input exA ns) (msg_TxIns (rec_MsgTx ex_spend_rec)))"
    "be_bytes 32 (77 :: hash) \<in> set (chunks32 (relevant_list ns (op_key (OutPointAbe 30 0))))"
    "be_bytes 32 (77 :: hash) \<noteq> be_bytes 32 (rec_Hash ex_spend_rec)"
    using ex_small_state by (auto simp: ex_spend_rec_def)
  show ?thesis using InsertTx_one_spender [OF s(2-6)] s(1,2) by blast
qed

text \<open>C22: Every output a payment spends is one the store lists as unspent, has the confirmations asked for (and the coinbase maturity when it is a coinbase output), carries no token, and has the privacy level asked for; whatever the fee mode, and also when the outputs are named.\<close>

theorem payment_inputs_payable:
  assumes "txPqringCTToOutputsMLP A K P W rnd cur ns outs minconf feePerKb fee names level
      = Inr plan"
    and "\<forall>n r. rnd n = Inr r \<longrightarrow> r < n" and "i \<in> set (tp_inputs plan)"
  shows "payable K minconf cur ns (pi_txo i) \<and> level_matches A level (pi_txo i)"
  using payment_inputs [OF assms(1) _ assms(3)] assms(2) by blast

theorem payment_inputs_payable_witness:
  "\<exists>ns p. ex_shop = Inr ns \<and> ex_payment 5 0 3 None ns = Inr p \<and> tp_inputs p \<noteq> [] \<and>
     (\<forall>i\<in>set (tp_inputs p). payable exK 1 6 ns (pi_txo i))"
proof -
  obtain ns p where p: "ex_shop = Inr ns" "ex_payment 5 0 3 None ns = Inr p" "paid_in p = 3000"
    using ex_payments(1) by blast
  have "\<forall>i\<in>set (tp_inputs p). payable exK 1 6 ns (pi_txo i)"
    using payment_inputs_payable [OF p(2) [unfolded ex_payment_def]] ex_draw_below by blast
  moreover have "tp_inputs p \<noteq> []" using p(3) by (auto simp: paid_in_def)
  ultimately show ?thesis using p by blast
qed

text \<open>C23: A payment balances: the amounts of its inputs are its outputs (with the change, wherever it was put) and its fee, whenever the fee was given or the outputs were named or a fee was found for the rate. Every output asked for is among its outputs. With the fee given, the fee paid is at least that fee and exceeds it by less than what is worth a change output (for fees with which the largest amount of money does not wrap).\<close>

theorem payment_balanced:
  assumes "txPqringCTToOutputsMLP A K P W rnd cur ns outs minconf feePerKb fee names level
      = Inr plan"
    and "\<forall>n r. rnd n = Inr r \<longrightarrow> r < n"
    and "0 < sint fee \<or> fee = 0 \<and> 0 < sint feePerKb \<and> (names \<noteq> None \<or> tp_fee plan \<noteq> 0)"
  shows "paid_in plan = paid_out plan \<and> mset outs \<subseteq># mset (tp_outputs plan) \<and>
    (0 < sint fee \<and> sint (MaxNeutrino P) + sint fee < 2 ^ 63 \<longrightarrow>
       sint fee \<le> sint (tp_fee plan) \<and> sint (tp_fee plan) < sint fee + sint ChangeThreshold)"
  using payment_balance [OF assms(1) _ assms(3)] payment_outputs [OF assms(1)] payment_fee [OF assms(1)] assms(2)
  by blast

theorem payment_balanced_witness:
  "\<exists>ns p. ex_shop = Inr ns \<and> ex_payment 5 0 3 None ns = Inr p \<and> paid_out p = 3000 \<and> 3 \<le> sint (tp_fee p) \<and>
     ([1, 7], 5) \<in> set (tp_outputs p) \<and> length (tp_outputs p) = 2"
proof -
  obtain ns p where p: "ex_shop = Inr ns" "ex_payment 5 0 3 None ns = Inr p" "paid_in p = 3000"
    "tp_fee p = 3" "length (tp_outputs p) = 2"
    using ex_payments(1) by blast
  have "sint (MaxNeutrino exP) + 3 < 2 ^ 63" by (simp add: exP_def)
  then have "paid_in p = paid_out p \<and> mset [([1, 7], 5)] \<subseteq># mset (tp_outputs p) \<and> 3 \<le> sint (tp_fee p)"
    using payment_balanced [OF p(2) [unfolded ex_payment_def]] ex_draw_below by simp
  then show ?thesis using p by (auto dest: mset_subset_eqD)
qed

text \<open>C24: With the fee given, the outputs taken are the first ones of the list with the privacy level asked for, and no more than needed: every proper part of the run of outputs taken falls short of the target and the fee.\<close>

theorem coins_taken_needed:
  assumes "s = pick_fixed A level target fee ts no_selection"
  shows "(\<exists>n. sel_txos s = take n (filter (level_matches A level) ts)) \<and>
    sel_total s = sum_list (map txo_Amount (sel_txos s)) \<and>
    (\<forall>n. 0 < n \<and> n < length (sel_txos s) \<longrightarrow>
      sint (sum_list (map txo_Amount (take n (sel_txos s)))) < sint (target + fee))"
  using pick_fixed_prefix [of A level target fee ts no_selection]
    pick_fixed_summed [of no_selection A level target fee ts]
    pick_fixed_short [of _ A level target fee ts no_selection]
  unfolding assms summed_def by simp

theorem coins_taken_needed_witness:
  "\<exists>s. s = pick_fixed exA None 55 4 ex_coins no_selection \<and> sel_total s = 70 \<and>
     sint (sum_list (map txo_Amount (take 1 (sel_txos s)))) < 59"
proof -
  let ?s = "pick_fixed exA None 55 4 ex_coins no_selection"
  have l: "map txo_Amount (sel_txos ?s) = [50, 20]" by (rule ex_pick_ok)
  have "length (sel_txos ?s) = 2" using arg_cong [OF l, of length] by simp
  then show ?thesis using coins_taken_needed [OF refl, of exA None 55 4 ex_coins] l by auto
qed

text \<open>C25: InsertGenesisBlock adds what ReceiveTxo recognises as the wallet's among the outputs of the block's first transaction to the total and to the immature coinbase balance, by the same amount; the spendable, immature transfer and unconfirmed balances and the token counters stay, and the books and the ledger are kept.\<close>

theorem InsertGenesisBlock_credits:
  assumes "InsertGenesisBlock A B K M block ns = Inr ns'" and "books_ok ns" and "ledger_ok ns"
    and "outs = msg_TxOuts (rec_MsgTx (hd (blk_TxRecords block)))"
  shows "books_ok ns' \<and> ledger_ok ns' \<and>
    (\<exists>bal icb. fetchMinedBalance ns = Inr bal \<and> fetchImmatureCoinbaseBalance ns = Inr icb \<and>
      fetchMinedBalance ns' = Inr (bal + received A K M outs) \<and>
      fetchImmatureCoinbaseBalance ns' = Inr (icb + received A K M outs)) \<and>
    fetchSpendableBalance ns' = fetchSpendableBalance ns \<and>
    fetchImmatureTransferBalance ns' = fetchImmatureTransferBalance ns \<and>
    fetchUnconfirmedBalance ns' = fetchUnconfirmedBalance ns \<and> ns_ctaut ns' = ns_ctaut ns"
  using InsertGenesisBlock_keeps [OF assms(1)] InsertGenesisBlock_balances [OF assms(1,4)] assms(2,3) by blast

theorem InsertGenesisBlock_credits_witness:
  "\<exists>ns. ex1 = Inr ns \<and> books_ok ns \<and> ledger_ok ns \<and> fetchMinedBalance ns = Inr 5 \<and>
     fetchImmatureCoinbaseBalance ns = Inr 5 \<and> fetchSpendableBalance ns = Inr 0"
proof -
  obtain ns0 ns1 where s: "createStore ex_time ex_empty = Inr ns0"
    "InsertGenesisBlock exA exB exK exM (ex_record 0) ns0 = Inr ns1"
    using ex_states by metis
  have "ex1 = Inr ns1" using s by (simp add: ex1_def ex0_def)
  moreover have "fetchMinedBalance ns0 = Inr 0" "fetchImmatureCoinbaseBalance ns0 = Inr 0" "fetchSpendableBalance ns0 = Inr 0"
    using ex_created_balances s(1) by (simp_all add: ex0_def ex_balances_def)
  ultimately show ?thesis
    using InsertGenesisBlock_credits [OF s(2) createStore_books [OF s(1)] createStore_ledger_ok [OF s(1)] refl]
      ex_genesis_received by auto
qed

text \<open>C26: AddGotSerialNumber on a well-formed ring that has room for one more serial number it has not seen succeeds, records it, and leaves exactly those members marked spent that the history of the ring determines: the wallet's own members whose serial number was seen, or all of its members once as many serial numbers were seen as the ring has members; AllSpent says whether none of the wallet's members is left.\<close>

theorem AddGotSerialNumber_correct:
  assumes "ring_wf u" and "length (ur_GotSerialNumberes u) < length (ur_TxHashes u)"
    and "sn \<notin> set (ur_GotSerialNumberes u)"
  shows "\<exists>u'. AddGotSerialNumber sn u = Inr u' \<and> ring_wf u' \<and>
    ur_GotSerialNumberes u' = ur_GotSerialNumberes u @ [sn] \<and>
    (\<forall>j < length (ur_TxHashes u). ur_Spent u' ! j \<longleftrightarrow> member_spent u' j) \<and>
    (ur_AllSpent u' \<longleftrightarrow> list_all (\<lambda>(my, spent). my \<longrightarrow> spent) (zip (ur_IsMy u') (ur_Spent u')))"
proof -
  obtain u' where u': "AddGotSerialNumber sn u = Inr u'"
    using AddGotSerialNumber_total [OF assms(1,3)] by blast
  then show ?thesis
    using AddGotSerialNumber_wf [OF assms(1,2)] AddGotSerialNumber_fields(1) [OF u']
      AddGotSerialNumber_spent [OF assms(1,2) u'] AddGotSerialNumber_AllSpent [OF assms(1) u']
    by blast
qed

theorem AddGotSerialNumber_correct_witness:
  "\<exists>u'. AddGotSerialNumber ex_sn ex_uring = Inr u' \<and> ring_wf u' \<and> ur_GotSerialNumberes u' = [ex_sn]"
proof -
  have "ring_wf ex_uring" by code_simp
  moreover have "length (ur_GotSerialNumberes ex_uring) < length (ur_TxHashes ex_uring)"
    "ex_sn \<notin> set (ur_GotSerialNumberes ex_uring)" "ur_GotSerialNumberes ex_uring = []"
    by (simp_all add: ex_uring_def)
  ultimately show ?thesis using AddGotSerialNumber_correct [of ex_uring ex_sn] by auto
qed

text \<open>C27: The spent members of a ring do not depend on the order in which its serial numbers arrive: adding the same set of serial numbers in two orders gives the same Spent flags.\<close>

theorem AddGotSerialNumbers_any_order:
  assumes "ring_wf u"
    and "length (ur_GotSerialNumberes u) + length sns \<le> length (ur_TxHashes u)"
    and "distinct (ur_GotSerialNumberes u @ sns)" and "set sns' = set sns" and "distinct sns'"
  shows "\<exists>a b. AddGotSerialNumbers sns u = Inr a \<and> AddGotSerialNumbers sns' u = Inr b \<and>
    ur_Spent a = ur_Spent b"
proof -
  have l: "length sns' = length sns"
    using assms(3-5) by (metis distinct_append distinct_card)
  obtain a where a: "AddGotSerialNumbers sns u = Inr a"
    using AddGotSerialNumbers_total [OF assms(1-3)] by blast
  obtain b where b: "AddGotSerialNumbers sns' u = Inr b"
    using AddGotSerialNumbers_total [of u sns'] assms l by auto
  show ?thesis
    using AddGotSerialNumbers_order [OF assms(1,2) a b] assms(4,5) a b by auto
qed

theorem AddGotSerialNumbers_any_order_witness:
  "\<exists>a b. AddGotSerialNumbers [ex_sn, [0, 0, 0, 7]] ex_uring = Inr a \<and>
     AddGotSerialNumbers [[0, 0, 0, 7], ex_sn] ex_uring = Inr b \<and> ur_Spent a = ur_Spent b"
proof -
  have "ring_wf ex_uring" by code_simp
  moreover have "length (ur_GotSerialNumberes ex_uring) + length [ex_sn, [0, 0, 0, 7]]
      \<le> length (ur_TxHashes ex_uring)" by (simp add: ex_uring_def)
  moreover have "distinct (ur_GotSerialNumberes ex_uring @ [ex_sn, [0, 0, 0, 7]])" by code_simp
  moreover have "distinct [[0, 0, 0, 7], ex_sn]" by code_simp
  ultimately show ?thesis
    using AddGotSerialNumbers_any_order [of ex_uring "[ex_sn, [0, 0, 0, 7]]" "[[0, 0, 0, 7], ex_sn]"]
    by auto
qed

text \<open>C28: A ring of at most eight members within the size limits of the layout is read back from its serialisation as it was, but for the two transient flags and an empty map of serial numbers, which come back as unset.\<close>

theorem UTXORing_roundtrip:
  assumes "storable_utxoring A u"
  shows "\<exists>v. UTXORing_Serialize A u = Inr v \<and> UTXORing_Deserialize A v = Inr (stored_utxoring u)"
  using UTXORing_Deserialize_Serialize [OF assms] by blast

theorem UTXORing_roundtrip_witness:
  "\<exists>v. UTXORing_Serialize exA ex_uring = Inr v \<and> UTXORing_Deserialize exA v = Inr ex_uring"
proof -
  have "storable_utxoring exA ex_uring" "stored_utxoring ex_uring = ex_uring" by code_simp+
  then show ?thesis using UTXORing_roundtrip [of exA ex_uring] by simp
qed

text \<open>C29: The details of a ring with as many block hashes as a ring group has blocks, at least one member and one index and script per member are read back from their serialisation exactly.\<close>

theorem Ring_roundtrip:
  assumes "storable_ring A r"
  shows "\<exists>v. Ring_Serialize r = Inr v \<and> Ring_Deserialize A v = Inr r"
  using Ring_Deserialize_Serialize [OF assms] by blast

theorem Ring_roundtrip_witness:
  "\<exists>v r. rg_TxHashes r = [30] \<and> Ring_Serialize r = Inr v \<and> Ring_Deserialize exA v = Inr r"
proof -
  let ?r = "\<lparr>rg_Version = 0, rg_BlockHashes = [100, 101, 102], rg_TxHashes = [30], rg_Index = [0],
    rg_PackedFlag = 0, rg_TxoScripts = [[1, 2]], rg_BlockHeight = 5\<rparr>"
  have "storable_ring exA ?r" by (simp add: storable_ring_def exA_def ex_const_def)
  then obtain v where "Ring_Serialize ?r = Inr v" "Ring_Deserialize exA v = Inr ?r"
    using Ring_roundtrip by blast
  then show ?thesis by (intro exI [of _ v] exI [of _ ?r]) simp
qed

text \<open>C30: createStore on an empty namespace succeeds; the store it makes is accepted by openStore, has zero balances, satisfies the books and the ledger, and a second createStore on it is refused.\<close>

theorem createStore_opens:
  assumes "namespace_empty ns"
  shows "\<exists>ns'. createStore now ns = Inr ns' \<and> openStore ns' = Inr () \<and> books_ok ns' \<and> ledger_ok ns' \<and>
    fetchMinedBalance ns' = Inr 0 \<and>
    createStore now2 ns' = Inl (StoreError ErrAlreadyExists ''namespace is not empty'')"
proof -
  obtain ns' where s: "createStore now ns = Inr ns'" "fresh_store ns'"
    using createStore_fresh [OF assms] by blast
  have "createStore now2 ns' = Inl (StoreError ErrAlreadyExists ''namespace is not empty'')"
    using fresh_store_not_empty [OF s(2)] by (simp add: createStore_def)
  moreover have "fetchMinedBalance ns' = Inr 0"
    using s(2) by (simp add: fresh_store_def balance_defs)
  ultimately show ?thesis
    using s fresh_store_open createStore_books [OF s(1)] createStore_ledger_ok [OF s(1)] by blast
qed

theorem createStore_opens_witness: "\<exists>ns. ex0 = Inr ns \<and> openStore ns = Inr ()"
proof -
  have "namespace_empty ex_empty" by code_simp
  then show ?thesis using createStore_opens [of ex_empty ex_time ex_time] by (auto simp: ex0_def)
qed

text \<open>C31: In a store whose ledger is in order the amounts of the outputs UnspentOutputs lists add up to the stored spendable balance, and those SpentButUnminedOutputs lists to the unconfirmed balance.\<close>

theorem UnspentOutputs_balance:
  assumes "ledger_ok ns" and "UnspentOutputs ns = Inr ts" and "SpentButUnminedOutputs ns = Inr us"
  shows "fetchSpendableBalance ns = Inr (\<Sum>t\<leftarrow>ts. txo_Amount t) \<and>
    fetchUnconfirmedBalance ns = Inr (\<Sum>t\<leftarrow>us. txo_Amount (utx_txo t))"
  using assms(1) UnspentOutputs_sum [OF assms(2)] SpentButUnminedOutputs_sum [OF assms(3)]
  by (simp add: ledger_ok_def balance_defs)

theorem UnspentOutputs_balance_witness:
  "\<exists>ns ts. ex_small = Inr ns \<and> UnspentOutputs ns = Inr ts \<and> fetchSpendableBalance ns = Inr (\<Sum>t\<leftarrow>ts. txo_Amount t)"
proof -
  obtain ns where s: "ex_small = Inr ns" "ledger_ok ns" using ex_small_state by blast
  have "case ex_small of Inl e \<Rightarrow> False
      | Inr ns \<Rightarrow> \<not> isl (UnspentOutputs ns) \<and> \<not> isl (SpentButUnminedOutputs ns)" by code_simp
  then obtain ts us where t: "UnspentOutputs ns = Inr ts" "SpentButUnminedOutputs ns = Inr us"
    unfolding s(1) by (auto simp: isl_def) (metis sum.exhaust)
  show ?thesis using UnspentOutputs_balance [OF s(2) t] s(1) t(1) by blast
qed

text \<open>C32: When a block spends a member of a ring and the wallet holds it as spendable, the output leaves the spendable bucket and is filed as spent in that block by that transaction, every other spendable output stays, and its amount leaves both the total and the spendable balance.\<close>

theorem spend_member_confirms:
  assumes "spend_member A block txhash u t (a, ns) = Inr (a', ns')"
    and "t < length (ur_IsMy u)" "t < length (ur_Spent u)" "ur_IsMy u ! t" "ur_Spent u ! t"
    and "op = OutPointAbe (ur_TxHashes u ! t) (ur_OutputIndexes u ! t)"
    and "fetchSpendableTXO ns (TxHash op) (OutIndex op) = Inr (Some txo)"
  shows "fetchSpendableTXO ns' (TxHash op') (OutIndex op')
      = (if op' = op then Inr None else fetchSpendableTXO ns (TxHash op') (OutIndex op'))
    \<and> (\<exists>c. fetchConfirmedTXO ns' (TxHash op) (OutIndex op) = Inr (Some c) \<and>
        utx_SpentByHash (ctx_unconfirmed c) = txhash \<and> ctx_ConfirmedByBlockHash c = blk_Hash block)
    \<and> a_balance a' = a_balance a - txo_Amount txo \<and> a_spendable a' = a_spendable a - txo_Amount txo"
  using assms by (rule spend_member_files)

theorem spend_member_confirms_witness:
  "\<exists>ns a ns'. ex_one = Inr ns \<and>
     spend_member exA (ex_record 1) 31 ex_spent_uring 0 (ex_acct, ns) = Inr (a, ns') \<and>
     a_balance a = 0 \<and> fetchSpendableTXO ns' 30 0 = Inr None"
proof -
  obtain ns a ns' txo where s: "ex_one = Inr ns"
    "spend_member exA (ex_record 1) 31 ex_spent_uring 0 (ex_acct, ns) = Inr (a, ns')"
    "fetchSpendableTXO ns 30 0 = Inr (Some txo)" "txo_Amount txo = 20"
    using ex_spend_member by blast
  have u: "0 < length (ur_IsMy ex_spent_uring)" "0 < length (ur_Spent ex_spent_uring)"
    "ur_IsMy ex_spent_uring ! 0" "ur_Spent ex_spent_uring ! 0"
    "OutPointAbe 30 0 = OutPointAbe (ur_TxHashes ex_spent_uring ! 0) (ur_OutputIndexes ex_spent_uring ! 0)"
    by (simp_all add: ex_spent_uring_def ex_uring_def)
  have "a_balance ex_acct = 20" by (simp add: ex_acct_def)
  then show ?thesis
    using spend_member_confirms [OF s(2) u, of txo "OutPointAbe 30 0"] s by auto
qed

text \<open>C33: Undoing the spending of a member in a block undoes it: for a spendable output without a token that spend_member files as spent in a block, restore_output puts the accounts back to what they were, takes the output out of the confirmed bucket and makes it spendable again with the same contents, and every other spendable output is as before.\<close>

theorem spend_restore_roundtrip:
  assumes "spend_member A block txhash u t (a, ns) = Inr (a1, ns1)"
    and "t < length (ur_IsMy u)" "t < length (ur_Spent u)" "ur_IsMy u ! t" "ur_Spent u ! t"
    and "op = OutPointAbe (ur_TxHashes u ! t) (ur_OutputIndexes u ! t)"
    and "fetchSpendableTXO ns (TxHash op) (OutIndex op) = Inr (Some txo)" and "\<not> IsCTAUTCoin txo"
    and "fetchConfirmedTXO ns1 (TxHash op) (OutIndex op) = Inr c"
    and "restore_output A now i b op c (a1, ns1) = Inr (a2, ns2)"
  shows "a2 = a \<and> fetchConfirmedTXO ns2 (TxHash op) (OutIndex op) = Inr None \<and>
    (\<forall>op'. fetchSpendableTXO ns2 (TxHash op') (OutIndex op') =
      (if op' = op then Inr (Some (memo_hash A txo))
       else fetchSpendableTXO ns (TxHash op') (OutIndex op')))"
  using assms by (rule spend_then_restore)

theorem spend_restore_roundtrip_witness:
  "\<exists>ns a1 ns1 c ns2. ex_one = Inr ns \<and>
    spend_member exA (ex_record 1) 31 ex_spent_uring 0 (ex_acct, ns) = Inr (a1, ns1) \<and>
    restore_output exA ex_time 1 False (OutPointAbe 30 0) c (a1, ns1) = Inr (ex_acct, ns2) \<and>
    fetchConfirmedTXO ns2 30 0 = Inr None"
proof -
  obtain ns a1 ns1 c a2 ns2 txo where s: "ex_one = Inr ns"
    "spend_member exA (ex_record 1) 31 ex_spent_uring 0 (ex_acct, ns) = Inr (a1, ns1)"
    "fetchSpendableTXO ns 30 0 = Inr (Some txo)" "\<not> IsCTAUTCoin txo"
    "fetchConfirmedTXO ns1 30 0 = Inr c"
    "restore_output exA ex_time 1 False (OutPointAbe 30 0) c (a1, ns1) = Inr (a2, ns2)"
    using ex_restore by blast
  have u: "0 < length (ur_IsMy ex_spent_uring)" "0 < length (ur_Spent ex_spent_uring)"
    "ur_IsMy ex_spent_uring ! 0" "ur_Spent ex_spent_uring ! 0"
    "OutPointAbe 30 0 = OutPointAbe (ur_TxHashes ex_spent_uring ! 0) (ur_OutputIndexes ex_spent_uring ! 0)"
    by (simp_all add: ex_spent_uring_def ex_uring_def)
  have r: "a2 = ex_acct" "fetchConfirmedTXO ns2 30 0 = Inr None"
    using spend_restore_roundtrip [OF s(2) u _ s(4) _ s(6)] s(3,5) by simp_all
  show ?thesis using s(1,2,6) r by blast
qed

text \<open>C34: For a height that is not negative and a positive number of blocks per ring group (the signed 32-bit values the code computes with), a block closes its group exactly when its height is one less than a multiple of that number.\<close>

theorem closes_group_iff:
  assumes "0 \<le> sint height" and "0 < sint (GetBlockNumPerRingGroup K height)"
  shows "closes_group K height =
    Inr ((sint height + 1) mod sint (GetBlockNumPerRingGroup K height) = 0)"
  using assms by (rule closes_group_mod)

theorem closes_group_iff_witness: "closes_group exK 5 = Inr True"
proof -
  have "(0 :: int) \<le> sint (5 :: i32)" "0 < sint (GetBlockNumPerRingGroup exK 5)" by code_simp+
  moreover have "(sint (5 :: i32) + 1) mod sint (GetBlockNumPerRingGroup exK 5) = 0" by code_simp
  ultimately show ?thesis using closes_group_iff [of 5 exK] by simp
qed

text \<open>C35: InsertTx of a new transaction whose first input spends from a ring the wallet has no record of does not return an error: the nil ring is dereferenced and the program panics.\<close>

theorem InsertTx_unknown_ring:
  assumes "existsRawUnconfirmedTx ns (be_bytes 32 (rec_Hash rec)) = Inr None"
    and "msg_TxIns (rec_MsgTx rec) = txin # txins"
    and "fetchUTXORing A ns (be_bytes 32 (OutPointRing_Hash A (in_PreviousOutPointRing txin))) = Inr None"
  shows "InsertTx A now height rec False ns = Inl (GoPanic ''nil pointer dereference'')"
  using assms by (simp add: InsertTx_def insert_input_def)

theorem InsertTx_unknown_ring_witness:
  "\<exists>ns. ex0 = Inr ns \<and> InsertTx exA ex_time 2 ex_spend_rec False ns = Inl (GoPanic ''nil pointer dereference'')"
proof -
  obtain ns where s: "ex0 = Inr ns"
    "existsRawUnconfirmedTx ns (be_bytes 32 (rec_Hash ex_spend_rec)) = Inr None"
    "fetchUTXORing exA ns (be_bytes 32 (OutPointRing_Hash exA
       (in_PreviousOutPointRing (hd (msg_TxIns ex_spend))))) = Inr None"
    using ex0_empty by blast
  have i: "msg_TxIns (rec_MsgTx ex_spend_rec) = [hd (msg_TxIns ex_spend)]"
    by (simp add: ex_spend_rec_def ex_spend_def)
  show ?thesis using InsertTx_unknown_ring [OF s(2) i s(3)] s(1) by blast
qed

text \<open>C36: When the eligible outputs run out before they cover the outputs asked for and the fee for the rate, but exceed the outputs asked for, a payment by fee rate does not fail: it is made, with fee 0 and with the outputs asked for and no change, so that its inputs exceed its outputs and fee, and the rest is given to no one.\<close>

theorem payment_exhausts:
  assumes "check_outputs A P outs = Inr tg" and "findEligibleTxosAbe K minconf cur ns = Inr ts" and "ts \<noteq> []"
    and "0 < sint feePerKb"
    and "pick_rate A level (tg_value tg) (compute_fee P tg feePerKb)
      (sort_byAmount (filter (\<lambda>t. \<not> IsCTAUTCoin t) ts)) no_selection = Inr (s, None)"
    and "sint (tg_value tg) < sint (sel_total s)"
    and "rings_of A ns (sel_txos s) = Inr rings"
    and "plan_inputs rings (sort_key input_class (sel_txos s)) = Inr ins"
    and "SchemeIsPQRingCTX W" and "\<not> IsLocked W" and "RootSeeds W = Inr seeds"
  shows "\<exists>plan. txPqringCTToOutputsMLP A K P W rnd cur ns outs minconf feePerKb 0 None level = Inr plan \<and>
    tp_fee plan = 0 \<and> mset (tp_outputs plan) = mset outs \<and> sint (paid_out plan) < sint (paid_in plan)"
  using assms by (rule payment_exhausted)

theorem payment_exhausts_witness:
  "\<exists>ns p. ex_shop = Inr ns \<and> txPqringCTToOutputsMLP exA exK exP exW ex_draw 6 ns [([1, 7], 3018)] 1 1 0 None None = Inr p \<and>
     tp_fee p = 0 \<and> tp_outputs p = [([1, 7], 3018)] \<and> sint (paid_out p) < sint (paid_in p)"
proof -
  obtain ns tg ts s rings ins where e: "ex_shop = Inr ns" "check_outputs exA exP [([1, 7], 3018)] = Inr tg"
    "findEligibleTxosAbe exK 1 6 ns = Inr ts" "ts \<noteq> []"
    "pick_rate exA None (tg_value tg) (compute_fee exP tg 1)
       (sort_byAmount (filter (\<lambda>t. \<not> IsCTAUTCoin t) ts)) no_selection = Inr (s, None)"
    "sint (tg_value tg) < sint (sel_total s)" "rings_of exA ns (sel_txos s) = Inr rings"
    "plan_inputs rings (sort_key input_class (sel_txos s)) = Inr ins"
    by (rule ex_exhausted)
  have w: "SchemeIsPQRingCTX exW" "\<not> IsLocked exW" "RootSeeds exW = Inr ()" by (simp_all add: exW_def)
  show ?thesis using payment_exhausts [OF e(2-4) _ e(5-8) w, of ex_draw] e(1) by auto
qed

text \<open>C37: Nothing keeps a payment from spending an output twice when the outputs are named: whenever two names both choose the same output (prefixes of its hash, or one name given twice), a payment that is made with them has that output as its first and as its second input, and counts its amount twice.\<close>

theorem payment_spends_twice:
  assumes "txPqringCTToOutputsMLP A K P W rnd cur ns outs minconf feePerKb fee (Some [n1, n2]) level = Inr plan"
    and "\<forall>n r. rnd n = Inr r \<longrightarrow> r < n" and "0 < sint fee \<or> fee = 0 \<and> 0 < sint feePerKb"
    and "findEligibleTxosAbe K minconf cur ns = Inr ts"
    and "\<forall>name \<in> {n1, n2}.
      List.find (\<lambda>t. take (length name) (Hash_String P (SpendableTXO_Hash A t)) = name)
        (sort_byAmount (filter (\<lambda>t. \<not> IsCTAUTCoin t) ts)) = Some t"
  shows "map pi_txo (tp_inputs plan) = [t, t] \<and> paid_in plan = 2 * txo_Amount t"
  using payment_named_twice [OF assms(1) _ assms(3-5)] assms(2) by blast

theorem payment_spends_twice_witness:
  "\<exists>ns p t. ex_shop = Inr ns \<and> ex_payment 5000 0 3 (Some [''a'', ''ab'']) ns = Inr p \<and>
     map pi_txo (tp_inputs p) = [t, t] \<and> txo_Amount t = 3000"
proof -
  obtain ns p where p: "ex_shop = Inr ns" "ex_payment 5000 0 3 (Some [''a'', ''ab'']) ns = Inr p"
    using ex_payments(3) by blast
  obtain ts t where t: "findEligibleTxosAbe exK 1 6 ns = Inr ts" "txo_Amount t = 3000"
    "\<forall>name \<in> {''a'', ''ab''}. List.find (named_by exA exP name) (sort_byAmount (filter (\<lambda>t. \<not> IsCTAUTCoin t) ts)) = Some t"
    by (rule ex_named [OF p(1)])
  have "map pi_txo (tp_inputs p) = [t, t]"
    using payment_spends_twice [OF p(2) [unfolded ex_payment_def] _ _ t(1,3)] ex_draw_below by simp
  then show ?thesis using p t(2) by (intro exI [of _ ns] exI [of _ p] exI [of _ t]) simp
qed

text \<open>C38: DeleteRawUnmined gives back the outputs its inputs name by the rings on record: each that is filed as spent but unmined is afterwards filed as spendable and no longer as unmined, no other outpoint changes, and what the two buckets hold together is the same. But no balance and no token counter moves, so each given-back amount is missing from the spendable balance and left in the unconfirmed one.\<close>

theorem DeleteRawUnmined_gives_back:
  assumes "DeleteRawUnmined A tx ns = Inr ns'" and "R = set (List.map_filter (returned_input A ns) (msg_TxIns tx))"
  shows "(\<forall>op \<in> R. fetchUnconfirmedTXO ns' (TxHash op) (OutIndex op) = Inr None) \<and>
    (\<forall>op \<in> R. \<forall>t. fetchUnconfirmedTXO ns (TxHash op) (OutIndex op) = Inr (Some t) \<longrightarrow>
       fetchSpendableTXO ns' (TxHash op) (OutIndex op) = Inr (Some (memo_hash A (utx_txo t)))) \<and>
    (\<forall>op. op \<notin> R \<longrightarrow> fetchUnconfirmedTXO ns' (TxHash op) (OutIndex op) = fetchUnconfirmedTXO ns (TxHash op) (OutIndex op) \<and>
       fetchSpendableTXO ns' (TxHash op) (OutIndex op) = fetchSpendableTXO ns (TxHash op) (OutIndex op)) \<and>
    (\<forall>k. fetch_amount k ns' = fetch_amount k ns) \<and> (\<forall>c. fetch_ctaut c ns' = fetch_ctaut c ns) \<and>
    (ledger_ok ns \<longrightarrow> bucket_amount bucketMaturedOutput ns' + bucket_amount bucketSpentButUnmined ns' =
       bucket_amount bucketMaturedOutput ns + bucket_amount bucketSpentButUnmined ns)"
  using DeleteRawUnmined_back [OF assms(1)] DeleteRawUnmined_balances [OF assms(1)]
  unfolding given_back_def both_amounts_def assms(2) by auto

theorem DeleteRawUnmined_gives_back_witness:
  "\<exists>ns ns'. ex_small_spent = Inr ns \<and> DeleteRawUnmined exA ex_spend ns = Inr ns' \<and> ledger_ok ns \<and>
     fetchUnconfirmedTXO ns' 30 0 = Inr None \<and> fetchSpendableBalance ns' = Inr 0 \<and>
     bucket_amount bucketMaturedOutput ns' = 20 \<and> bucket_amount bucketSpentButUnmined ns' = 0"
proof -
  obtain ns ns' where s: "ex_small_spent = Inr ns" "DeleteRawUnmined exA ex_spend ns = Inr ns'" "ledger_ok ns"
    "fetchSpendableBalance ns = Inr 0" "bucket_amount bucketMaturedOutput ns' = 20"
    "bucket_amount bucketMaturedOutput ns + bucket_amount bucketSpentButUnmined ns = 20"
    "List.map_filter (returned_input exA ns) (msg_TxIns ex_spend) = [OutPointAbe 30 0]"
    by (rule ex_give_back)
  have r: "{OutPointAbe 30 0} = set (List.map_filter (returned_input exA ns) (msg_TxIns ex_spend))"
    by (simp add: s(7))
  note b = DeleteRawUnmined_gives_back [OF s(2) r]
  have "fetchUnconfirmedTXO ns' 30 0 = Inr None" using b by simp
  moreover have "fetchSpendableBalance ns' = Inr 0" using b s(4) by (simp add: balance_defs)
  moreover have "bucket_amount bucketSpentButUnmined ns' = 0" using b s(3,5,6) by simp
  ultimately show ?thesis using s by blast
qed

text \<open>C39: When the maturity of a coinbase output that is already spent in a block is undone, the output is filed as immature coinbase while its amount is added to the unconfirmed balance: after the step the unconfirmed balance exceeds the sum of its bucket by exactly that amount, and the immature coinbase balance has not moved.\<close>

theorem unmature_gap:
  assumes "unmature_output A now i op (cb, a, ns) = Inr (cb', a', ns')" and "filed (a, ns)"
    and "fetchSpendableTXO ns (TxHash op) (OutIndex op) = Inr None"
    and "fetchUnconfirmedTXO ns (TxHash op) (OutIndex op) = Inr None"
    and "fetchConfirmedTXO ns (TxHash op) (OutIndex op) = Inr (Some c)"
    and "t = utx_txo (ctx_unconfirmed c)" and "IsCoinbase t"
  shows "a_unconfirmed a' = bucket_amount bucketSpentButUnmined ns' + txo_Amount t
    \<and> a_immatureCB a' = a_immatureCB a \<and> map_of cb' op = Some (rebuilt t)"
  using unmature_confirmed_gap [OF assms] by blast

theorem unmature_gap_witness:
  "\<exists>ns a cb' a' ns'. ex_conf = Inr ns \<and> filed (a, ns) \<and>
     unmature_output exA ex_time 6 (OutPointAbe 30 0) ([], a, ns) = Inr (cb', a', ns') \<and>
     a_unconfirmed a' = bucket_amount bucketSpentButUnmined ns' + 20"
proof -
  obtain ns a cb' a' ns' c where s: "ex_conf = Inr ns" "filed (a, ns)"
    "fetchSpendableTXO ns 30 0 = Inr None" "fetchUnconfirmedTXO ns 30 0 = Inr None"
    "fetchConfirmedTXO ns 30 0 = Inr (Some c)" "IsCoinbase (utx_txo (ctx_unconfirmed c))"
    "txo_Amount (utx_txo (ctx_unconfirmed c)) = 20"
    "unmature_output exA ex_time 6 (OutPointAbe 30 0) ([], a, ns) = Inr (cb', a', ns')"
    using ex_conf_run by blast
  have r: "a_unconfirmed a' = bucket_amount bucketSpentButUnmined ns' + 20"
    using unmature_gap [OF s(8,2) _ _ _ refl s(6)] s(3-5,7) by simp
  show ?thesis using s(1,2,8) r by blast
qed

text \<open>C40: The coinbase outputs of an older block that become immature again when a block is undone are filed under the height and hash of the block being undone: afterwards the entry there holds, for exactly the outputs on the older block's list that are on record as coinbase outputs (spendable, unconfirmed or confirmed), what was on record of them in the stored form. No other entry of the immature coinbase bucket changes, in particular not that of the block the outputs belong to.\<close>

theorem unmature_wrong_block:
  assumes "unmature_block A now i blockHash maturity ii (a, ns) = Inr (a', ns')"
    and "fetchBlockOutputWithHeight ns (i - maturity - of_nat ii) = Inr (Some (k, ops))"
    and "ops \<noteq> []" and "distinct ops"
  shows "(\<exists>r. fetchImmatureCoinbaseOutput ns' i blockHash = Inr r \<and>
      (\<forall>op. Option.bind r (\<lambda>m. map_of m op) =
        (if op \<in> set ops then map_option immature_stored (coinbase_filed ns op) else None))) \<and>
    (\<forall>height h. (height, h) \<noteq> (i, blockHash) \<longrightarrow>
      fetchImmatureCoinbaseOutput ns' height h = fetchImmatureCoinbaseOutput ns height h)"
  using unmature_block_files [OF assms] unmature_block_key [OF assms(1)] by blast

theorem unmature_wrong_block_witness:
  "\<exists>ns a a' ns' m t. ex_conf = Inr ns \<and> unmature_block exA ex_time 6 106 5 0 (a, ns) = Inr (a', ns') \<and>
     fetchImmatureCoinbaseOutput ns' 6 106 = Inr (Some m) \<and> map_of m (OutPointAbe 30 0) = Some t \<and>
     txo_Amount t = 20 \<and> fetchImmatureCoinbaseOutput ns' 1 101 = Inr None"
proof -
  obtain ns a a' ns' t k where s: "ex_conf = Inr ns"
    "unmature_block exA ex_time 6 106 5 0 (a, ns) = Inr (a', ns')" "fetchImmatureCoinbaseOutput ns 1 101 = Inr None"
    "fetchBlockOutputWithHeight ns (6 - 5 - of_nat 0) = Inr (Some (k, [OutPointAbe 30 0]))"
    "coinbase_filed ns (OutPointAbe 30 0) = Some t" "txo_Amount t = 20"
    by (rule ex_unmatured)
  have u: "(\<exists>r. fetchImmatureCoinbaseOutput ns' 6 106 = Inr r \<and>
      (\<forall>op. Option.bind r (\<lambda>m. map_of m op) =
        (if op \<in> set [OutPointAbe 30 0] then map_option immature_stored (coinbase_filed ns op) else None))) \<and>
    (\<forall>height h. (height, h) \<noteq> (6, 106) \<longrightarrow>
      fetchImmatureCoinbaseOutput ns' height h = fetchImmatureCoinbaseOutput ns height h)"
    by (rule unmature_wrong_block [OF s(2,4)]) simp_all
  then obtain r where r: "fetchImmatureCoinbaseOutput ns' 6 106 = Inr r"
    "Option.bind r (\<lambda>m. map_of m (OutPointAbe 30 0)) = Some (immature_stored t)"
    using s(5) by auto
  moreover have "fetchImmatureCoinbaseOutput ns' 1 101 = Inr None" using u s(3) by simp
  ultimately obtain m where "fetchImmatureCoinbaseOutput ns' 6 106 = Inr (Some m)"
    "map_of m (OutPointAbe 30 0) = Some (immature_stored t)"
    by (cases r) auto
  moreover have "txo_Amount (immature_stored t) = 20" using s(6) by simp
  moreover note s(1,2) \<open>fetchImmatureCoinbaseOutput ns' 1 101 = Inr None\<close>
  ultimately show ?thesis by blast
qed

section \<open>Further facts\<close>

text \<open>fetchAddressKeyEncByPublicRand asks the bucket from address keys to public randomness instead of the one from public randomness to address keys: the keys filed for an address are found by the address key and not by the public randomness they were filed with.\<close>

theorem public_rand_not_found:
  assumes "putAddressKeysEnc addrKey keys r ns = Inr ns'" and "full_keys keys"
    and "mn_addr ns detectorBucketName \<noteq> None" and "r \<noteq> addrKey" and "addr_get idxAddrBucketName r ns = Inr None"
    and "fetchAddressKeyEncByPublicRand ns' r = Inr (got, k)"
  shows "k = None \<and> fetchAddressKeyEncByAddrKey ns' addrKey = Inr (keys, Some r)"
  using not_found_by_rand [OF assms] putAddressKeysEnc_finds(1) [OF assms(1-3)] by blast

theorem public_rand_not_found_witness:
  "\<exists>ns' got keys. fetchAddressKeyEncByPublicRand ns' [2] = Inr (got, None) \<and>
     fetchAddressKeyEncByAddrKey ns' [1] = Inr (keys, Some [2]) \<and> full_keys keys"
proof -
  let ?ns = "\<lparr>mn_main = Some empty_map, mn_addr = empty_buckets, mn_sync = None\<rparr>"
  let ?keys = "\<lparr>ak_address = Some [1], ak_spend = Some [2], ak_serial = Some [3], ak_value = Some [4],
    ak_detector = Some [5]\<rparr>"
  have b: "open_buckets ?ns" by (simp add: open_buckets_def managerExists_def)
  obtain ns' where p: "putAddressKeysEnc [1] ?keys [2] ?ns = Inr ns'"
    using putAddressKeysEnc_succeeds [OF b] by blast
  have full: "full_keys ?keys" by (simp add: full_keys_def)
  have g: "addr_get idxAddrBucketName [2] ?ns = Inr None"
    by (simp add: addr_get_def addr_bucket_def main_bucket_def kv_get_def)
  have "grows ?ns ns'" by (rule putAddressKeysEnc_grows [OF p])
  then have o: "open_buckets ns'" using b unfolding open_buckets_def grows_def by blast
  then obtain got k where f: "fetchAddressKeyEncByPublicRand ns' [2] = Inr (got, k)"
    using fetch_by_rand_succeeds by blast
  show ?thesis using public_rand_not_found [OF p full _ _ g f] f full by auto
qed

text \<open>A token coin whose three byte strings fit their length fields is read back from its serialisation, with its type reduced to the one bit that is stored of it; read back under another outpoint it is refused.\<close>

theorem CTAUTCoin_roundtrip:
  assumes "storable_CTAUTCoin c"
  shows "CTAUTCoin_Deserialize op (Some (CTAUTCoin_Serialized c))
    = (if op = ct_TxOutput c then Inr (stored_CTAUTCoin c)
       else Inl (GoError ''unmatched aut coin with outpoint''))"
  using CTAUTCoin_Deserialize_Serialized [OF assms] CTAUTCoin_Deserialize_other by auto

theorem CTAUTCoin_roundtrip_witness:
  "CTAUTCoin_Deserialize (OutPointAbe 30 1) (Some (CTAUTCoin_Serialized
     (NewCTAUTCoin (OutPointAbe 30 1) 7 5 True 1 [1, 2] 9 [3] [4])))
   = Inr (NewCTAUTCoin (OutPointAbe 30 1) 7 5 True 1 [1, 2] 9 [3] [4])"
proof -
  let ?c = "NewCTAUTCoin (OutPointAbe 30 1) 7 5 True 1 [1, 2] 9 [3] [4]"
  have "storable_CTAUTCoin ?c" by (simp add: storable_CTAUTCoin_def NewCTAUTCoin_def)
  then show ?thesis
    using CTAUTCoin_roundtrip [of ?c "OutPointAbe 30 1"]
    by (simp add: NewCTAUTCoin_def stored_CTAUTCoin_def)
qed

text \<open>The three nested forms of an output (spendable, spent but unmined, spent in a block) are each read back from their serialisation, whatever their fields: the public randomness padded or cut to 64 bytes, the times cut to whole seconds and the cached hash filled in.\<close>

theorem ConfirmedTXO_roundtrip:
  "SpendableTXO_Deserialize (txo_TxOutput t) (Some (SpendableTXO_Serialize A t)) = Inr (stored_txo A t)
   \<and> UnconfirmedTXO_Deserialize (txo_TxOutput (utx_txo u)) (Some (UnconfirmedTXO_Serialize A u))
     = Inr (stored_unconfirmed A u)
   \<and> ConfirmedTXO_Deserialize (txo_TxOutput (utx_txo (ctx_unconfirmed c)))
       (Some (ConfirmedTXO_Serialize A c)) = Inr (stored_confirmed A c)"
  by (simp add: codec_simps)

text \<open>What putBlockInputs writes for the rings a block touched (each ring as it was before, and the serial numbers the block showed for it) is read back entry by entry.\<close>

theorem blockInput_roundtrip:
  assumes "storable_block_input A b"
  shows "\<exists>v. valueBlockInput A b = Inr v \<and> readBlockInput A v
    = Inr (map (\<lambda>(k, u). (stored_utxoring u, lookup_nil (serialNumbers b) k)) (utxoRings b))"
  using readBlockInput_value [OF assms] by blast

theorem blockInput_roundtrip_witness:
  "\<exists>v. valueBlockInput exA \<lparr>utxoRings = [(1030, ex_uring)], serialNumbers = [(1030, [ex_sn])]\<rparr> = Inr v
     \<and> readBlockInput exA v = Inr [(ex_uring, [ex_sn])]"
proof -
  let ?b = "\<lparr>utxoRings = [(1030, ex_uring)], serialNumbers = [(1030, [ex_sn])]\<rparr>"
  have u: "storable_utxoring exA ex_uring" "stored_utxoring ex_uring = ex_uring" by code_simp+
  have "case UTXORing_Serialize exA ex_uring of Inl _ \<Rightarrow> False | Inr s \<Rightarrow> length s < 500"
    by code_simp
  then have "storable_block_input exA ?b"
    using u(1) by (auto simp: storable_block_input_def lookup_nil_def ex_sn_def split: sum.splits)
  with u(2) show ?thesis using blockInput_roundtrip [of exA ?b] by (simp add: lookup_nil_def)
qed

text \<open>The database key of an outpoint determines it, and the byte order in which the database keeps the keys is the order of the outpoints (transaction hash, then index).\<close>

theorem outpoint_key_order:
  "readCanonicalOutPointAbe (canonicalOutPointAbe h i) = Inr (OutPointAbe h i)
   \<and> (canonicalOutPointAbe h i < canonicalOutPointAbe h' i'
      \<longleftrightarrow> OutPointAbe h i < OutPointAbe h' i')"
  using op_key_less_iff [of "OutPointAbe h i" "OutPointAbe h' i'"] by (simp add: codec_simps)

text \<open>Inserting the same transaction again, at any time and height, changes nothing.\<close>

theorem InsertTx_repeat:
  assumes "InsertTx A now height rec hasBlock ns = Inr ns'"
  shows "InsertTx A now2 height2 rec hasBlock ns' = Inr ns'"
  using assms by (rule InsertTx_idempotent)

theorem InsertTx_repeat_witness:
  "\<exists>ns. ex4 = Inr ns \<and> InsertTx exA (GoTime 200 0) 9 ex_spend_rec False ns = Inr ns"
proof -
  obtain ns3 ns4 where s: "InsertTx exA ex_time 2 ex_spend_rec False ns3 = Inr ns4" "ex4 = Inr ns4"
    using ex_spend_state by blast
  show ?thesis using InsertTx_repeat [OF s(1)] s(2) by blast
qed

text \<open>An output locked until a time is reported as locked, with its lock id, exactly at the instants before that time (in whole seconds), and no other output's lock changes.\<close>

theorem lockOutput_lease:
  assumes "lockOutput lockID op expiry ns = Inr ns'"
  shows "isLockedOutput ns' op' now =
    (if op' = op
     then Inr (if time_Before now (time_Unix (unix expiry))
               then Some (lockID, time_Unix (unix expiry)) else None)
     else isLockedOutput ns op' now)"
  using assms by (rule isLockedOutput_lock)

theorem lockOutput_lease_witness:
  "\<exists>ns ns'. ex0 = Inr ns \<and> lockOutput 5 (OutPointAbe 30 0) (GoTime 200 7) ns = Inr ns' \<and>
     isLockedOutput ns' (OutPointAbe 30 0) ex_time = Inr (Some (5, GoTime 200 0))"
proof -
  obtain ns ns' where s: "ex0 = Inr ns" "lockOutput 5 (OutPointAbe 30 0) (GoTime 200 7) ns = Inr ns'"
    using ex0_lock by blast
  have "time_Before ex_time (time_Unix 200)" by code_simp
  then show ?thesis
    using lockOutput_lease [OF s(2), of "OutPointAbe 30 0" ex_time] s by (auto simp: time_Unix_def)
qed

end
